(* ===== verification/Prelude.thy ===== *)
theory Prelude
  imports Main "HOL-Library.Finite_Map" "HOL-Library.Word"
begin

text \<open>
  What every component of the development shares: Go values that HOL has no type for (errors,
  nullable maps, 64-bit durations, the order in which \<open>range\<close> visits a map), and the control
  flow of a Go function body that mutates a state: early return, \<open>if err != nil\<close>, \<open>defer\<close>,
  panic. The predicate \<open>wp\<close> at the bottom is the program logic the component proofs run in; its
  rules are the collection \<open>wp_simps\<close>.
\<close>

named_theorems wp_simps "weakest preconditions of the control-flow combinators and of the calls"
named_theorems exits_rules "outcomes through the control-flow combinators"
named_theorems keeps_rules "invariants through the control-flow combinators and the calls"

section \<open>Go values\<close>

text \<open>A byte of Go is a \<open>char\<close> of HOL, so a Go string and a byte slice are both char lists.\<close>

type_synonym bytes = string

text \<open>
  Values of third-party types whose inside the program never looks at (keys, parsed
  certificates, parsed versions, conditions) are named by a token.
\<close>

type_synonym opaque = string

text \<open>A Go map is nil or a finite map. Reading a nil map gives no entry.\<close>

type_synonym ('k, 'v) gomap = "('k, 'v) fmap option"

definition gomap_get :: "('k, 'v) gomap \<Rightarrow> 'k \<Rightarrow> 'v option" where
  "gomap_get m k = (case m of None \<Rightarrow> None | Some f \<Rightarrow> fmlookup f k)"

lemma gomap_get_simps [simp]:
  "gomap_get None k = None"
  "gomap_get (Some f) k = fmlookup f k"
  by (simp_all add: gomap_get_def)

text \<open>
  Go visits the keys of a map in an unspecified order, each once. A list of keys is a possible
  order of a \<open>range\<close> loop exactly when:
\<close>

definition range_order :: "('k, 'v) fmap \<Rightarrow> 'k list \<Rightarrow> bool" where
  "range_order m ks \<longleftrightarrow> distinct ks \<and> set ks = fmdom' m"

lemma range_orderI: "distinct ks \<Longrightarrow> set ks = fmdom' m \<Longrightarrow> range_order m ks"
  by (simp add: range_order_def)

lemma range_order_distinct: "range_order m ks \<Longrightarrow> distinct ks"
  by (simp add: range_order_def)

lemma range_order_set: "range_order m ks \<Longrightarrow> set ks = fmdom' m"
  by (simp add: range_order_def)

lemma range_order_mem: "range_order m ks \<Longrightarrow> k \<in> set ks \<longleftrightarrow> fmlookup m k \<noteq> None"
  by (simp add: range_order_def fmlookup_dom'_iff)

lemma range_order_exists: "\<exists>ks. range_order m ks"
proof -
  have "finite (fmdom' m)" by simp
  then obtain ks where "set ks = fmdom' m" and "distinct ks"
    using finite_distinct_list by metis
  then show ?thesis by (auto intro: range_orderI)
qed

text \<open>
  Errors: what a third-party call returned, and the errors the program builds itself with
  \<open>errors.New\<close>, \<open>errors.Wrap\<close> (or \<open>Wrapf\<close>) and \<open>fmt.Errorf\<close> with \<open>%w\<close>.
\<close>

datatype go_error =
    Foreign string
  | ErrorsNew string
  | ErrorsWrap go_error string
  | Errorf string go_error

text \<open>The two-valued result of a call: \<open>Inl\<close> is a non-nil error.\<close>

definition errOf :: "go_error + 'a \<Rightarrow> go_error option" where
  "errOf r = (case r of Inl e \<Rightarrow> Some e | Inr _ \<Rightarrow> None)"

lemma errOf_simps [simp]:
  "errOf (Inl e) = Some e"
  "errOf (Inr x) = None"
  by (simp_all add: errOf_def)

text \<open>A call succeeded, or failed with an error that counts as success.\<close>

definition tolerated :: "(go_error \<Rightarrow> bool) \<Rightarrow> go_error option \<Rightarrow> bool" where
  "tolerated ok err = (case err of None \<Rightarrow> True | Some e \<Rightarrow> ok e)"

lemma tolerated_simps [simp]:
  "tolerated ok None" "tolerated ok (Some e) = ok e"
  by (simp_all add: tolerated_def)

text \<open>\<open>time.Duration\<close> is an \<open>int64\<close> count of nanoseconds.\<close>

type_synonym Duration = "64 word"

definition time_Second :: Duration where "time_Second = 1000000000"
definition time_Minute :: Duration where "time_Minute = 60 * time_Second"
definition time_Hour :: Duration where "time_Hour = 60 * time_Minute"

lemmas duration_defs = time_Second_def time_Minute_def time_Hour_def

text \<open>\<open>ctrl.Result\<close> of controller-runtime; the zero value is \<open>ctrl.Result{}\<close>.\<close>

record ctrl_result =
  Requeue :: bool
  RequeueAfter :: Duration

definition emptyResult :: ctrl_result where
  "emptyResult = \<lparr>Requeue = False, RequeueAfter = 0\<rparr>"

section \<open>Function bodies\<close>

text \<open>
  A body of type \<open>'s body\<close> runs in a state \<open>'s\<close> and either returns the pair
  \<open>(ctrl.Result, error)\<close> or panics. A call is a step that yields an error or a value.
\<close>

datatype outcome =
    Returned ctrl_result "go_error option"
  | Panicked string

type_synonym 's body = "'s \<Rightarrow> outcome \<times> 's"
type_synonym ('s, 'a) call = "'s \<Rightarrow> (go_error + 'a) \<times> 's"

definition ret :: "ctrl_result \<Rightarrow> go_error option \<Rightarrow> 's body" where
  "ret r e s = (Returned r e, s)"

definition panic :: "string \<Rightarrow> 's body" where
  "panic msg s = (Panicked msg, s)"

text \<open>\<open>x, err := m(); if err != nil { h(err) }; k(x)\<close>\<close>

definition attemptWith :: "('s, 'a) call \<Rightarrow> (go_error \<Rightarrow> 's body) \<Rightarrow> ('a \<Rightarrow> 's body) \<Rightarrow> 's body" where
  "attemptWith m h k s =
     (case m s of
        (Inl e, s') \<Rightarrow> h e s'
      | (Inr x, s') \<Rightarrow> k x s')"

text \<open>\<open>x, err := m(); if err != nil { return ctrl.Result{}, err }; k(x)\<close>\<close>

definition attempt :: "('s, 'a) call \<Rightarrow> ('a \<Rightarrow> 's body) \<Rightarrow> 's body" where
  "attempt m k = attemptWith m (\<lambda>e. ret emptyResult (Some e)) k"

text \<open>A call whose error is tolerated when \<open>ok\<close> holds of it, such as \<open>apierrors.IsNotFound\<close>.\<close>

definition attemptUnless :: "(go_error \<Rightarrow> bool) \<Rightarrow> ('s, unit) call \<Rightarrow> 's body \<Rightarrow> 's body" where
  "attemptUnless ok m k =
     attemptWith m (\<lambda>e. if ok e then k else ret emptyResult (Some e)) (\<lambda>_. k)"

text \<open>\<open>if b { return res, err }; k\<close>\<close>

definition returnIf :: "bool \<Rightarrow> ctrl_result \<Rightarrow> go_error option \<Rightarrow> 's body \<Rightarrow> 's body" where
  "returnIf b r e k = (if b then ret r e else k)"

text \<open>An assignment to the state, then the rest of the body.\<close>

definition assign :: "('s \<Rightarrow> 's) \<Rightarrow> 's body \<Rightarrow> 's body" where
  "assign f k s = k (f s)"

text \<open>A step that cannot fail (reading the clock), then the rest of the body.\<close>

definition perform :: "('s \<Rightarrow> 'a \<times> 's) \<Rightarrow> ('a \<Rightarrow> 's body) \<Rightarrow> 's body" where
  "perform m k s = (case m s of (x, s') \<Rightarrow> k x s')"

text \<open>
  \<open>defer d; k\<close>: the deferred function runs when the rest of the body is left, by a return or by
  a panic, and sees the state the body ended in. Nested uses run last-in first-out.
\<close>

definition go_defer :: "('s \<Rightarrow> 's) \<Rightarrow> 's body \<Rightarrow> 's body" where
  "go_defer d k s = (case k s of (out, s') \<Rightarrow> (out, d s'))"

text \<open>A value whose computation panics when it is absent.\<close>

definition orPanic :: "string \<Rightarrow> 'a option \<Rightarrow> ('a \<Rightarrow> 's body) \<Rightarrow> 's body" where
  "orPanic msg v k = (case v of None \<Rightarrow> panic msg | Some x \<Rightarrow> k x)"

text \<open>A pure fallible computation as a call.\<close>

definition pureCall :: "go_error + 'a \<Rightarrow> ('s, 'a) call" where
  "pureCall r s = (r, s)"

section \<open>Weakest preconditions\<close>

definition wp :: "'s body \<Rightarrow> (outcome \<Rightarrow> 's \<Rightarrow> bool) \<Rightarrow> 's \<Rightarrow> bool" where
  "wp b Q s = (case b s of (out, s') \<Rightarrow> Q out s')"

definition wpc :: "('s \<Rightarrow> 'a \<times> 's) \<Rightarrow> ('a \<Rightarrow> 's \<Rightarrow> bool) \<Rightarrow> 's \<Rightarrow> bool" where
  "wpc m Q s = (case m s of (r, s') \<Rightarrow> Q r s')"

lemma wpI: "(\<And>out s'. b s = (out, s') \<Longrightarrow> Q out s') \<Longrightarrow> wp b Q s"
  by (simp add: wp_def split: prod.split)

lemma wpD: "wp b Q s \<Longrightarrow> b s = (out, s') \<Longrightarrow> Q out s'"
  by (simp add: wp_def)

lemma wp_mono: "wp b P s \<Longrightarrow> (\<And>out s'. P out s' \<Longrightarrow> Q out s') \<Longrightarrow> wp b Q s"
  by (simp add: wp_def split: prod.splits)

lemma wp_conj: "wp b P s \<Longrightarrow> wp b Q s \<Longrightarrow> wp b (\<lambda>out s'. P out s' \<and> Q out s') s"
  by (simp add: wp_def split: prod.splits)

lemma wpcI: "(\<And>r s'. m s = (r, s') \<Longrightarrow> Q r s') \<Longrightarrow> wpc m Q s"
  by (simp add: wpc_def split: prod.split)

lemma wpc_mono: "wpc m P s \<Longrightarrow> (\<And>r s'. P r s' \<Longrightarrow> Q r s') \<Longrightarrow> wpc m Q s"
  by (simp add: wpc_def split: prod.splits)

lemma wp_ret [wp_simps]: "wp (ret r e) Q s = Q (Returned r e) s"
  by (simp add: wp_def ret_def)

lemma wp_panic [wp_simps]: "wp (panic msg) Q s = Q (Panicked msg) s"
  by (simp add: wp_def panic_def)

lemma wp_attemptWith [wp_simps]:
  "wp (attemptWith m h k) Q s =
     wpc m (\<lambda>r s'. (\<forall>e. r = Inl e \<longrightarrow> wp (h e) Q s') \<and> (\<forall>x. r = Inr x \<longrightarrow> wp (k x) Q s')) s"
  by (auto simp: wp_def wpc_def attemptWith_def split: prod.splits sum.splits)

lemma wp_attempt [wp_simps]:
  "wp (attempt m k) Q s =
     wpc m (\<lambda>r s'. (\<forall>e. r = Inl e \<longrightarrow> Q (Returned emptyResult (Some e)) s') \<and>
                   (\<forall>x. r = Inr x \<longrightarrow> wp (k x) Q s')) s"
  by (simp add: attempt_def wp_attemptWith wp_ret)

lemma wp_attemptUnless [wp_simps]:
  "wp (attemptUnless ok m k) Q s =
     wpc m (\<lambda>r s'. (\<forall>e. r = Inl e \<longrightarrow> \<not> ok e \<longrightarrow> Q (Returned emptyResult (Some e)) s') \<and>
                   (tolerated ok (errOf r) \<longrightarrow> wp k Q s')) s"
  by (auto simp: attemptUnless_def wp_def wpc_def attemptWith_def ret_def
      split: prod.splits sum.splits)

lemma wp_returnIf [wp_simps]:
  "wp (returnIf b r e k) Q s \<longleftrightarrow>
     (b \<longrightarrow> Q (Returned r e) s) \<and> (\<not> b \<longrightarrow> wp k Q s)"
  by (simp add: returnIf_def wp_ret)

lemma wp_assign [wp_simps]: "wp (assign f k) Q s = wp k Q (f s)"
  by (simp add: wp_def assign_def)

lemma wp_perform [wp_simps]: "wp (perform m k) Q s = wpc m (\<lambda>x s'. wp (k x) Q s') s"
  by (simp add: wp_def wpc_def perform_def split: prod.splits)

lemma wp_go_defer [wp_simps]: "wp (go_defer d k) Q s = wp k (\<lambda>out s'. Q out (d s')) s"
  by (simp add: wp_def go_defer_def split: prod.splits)

lemma wp_orPanic [wp_simps]:
  "wp (orPanic msg v k) Q s =
     ((v = None \<longrightarrow> Q (Panicked msg) s) \<and> (\<forall>x. v = Some x \<longrightarrow> wp (k x) Q s))"
  by (simp add: orPanic_def wp_panic split: option.split)

lemma wp_if [wp_simps]: "wp (if b then k else k') Q s \<longleftrightarrow>
     (b \<longrightarrow> wp k Q s) \<and> (\<not> b \<longrightarrow> wp k' Q s)"
  by simp

lemma wp_option [wp_simps]:
  "wp (case v of None \<Rightarrow> k | Some x \<Rightarrow> k' x) Q s =
     ((v = None \<longrightarrow> wp k Q s) \<and> (\<forall>x. v = Some x \<longrightarrow> wp (k' x) Q s))"
  by (simp split: option.split)

lemma wp_let [wp_simps]: "wp (let x = v in k x) Q s = wp (k v) Q s"
  by simp

lemma wpc_pureCall [wp_simps]: "wpc (pureCall r) Q s = Q r s"
  by (simp add: wpc_def pureCall_def)

section \<open>Invariants\<close>

text \<open>
  A property of the state that every step of a body keeps holds whenever the body is left. The
  rules follow the structure of the body and never look at the results of its calls.
\<close>

definition keeps :: "('s \<Rightarrow> bool) \<Rightarrow> 's body \<Rightarrow> bool" where
  "keeps I b \<longleftrightarrow> (\<forall>s. I s \<longrightarrow> I (snd (b s)))"

definition keepsc :: "('s \<Rightarrow> bool) \<Rightarrow> ('s \<Rightarrow> 'a \<times> 's) \<Rightarrow> bool" where
  "keepsc I m \<longleftrightarrow> (\<forall>s. I s \<longrightarrow> I (snd (m s)))"

lemma keepsD: "keeps I b \<Longrightarrow> I s \<Longrightarrow> I (snd (b s))"
  by (simp add: keeps_def)

lemma keepsc_step: "keepsc I m \<Longrightarrow> I s \<Longrightarrow> m s = (x, s') \<Longrightarrow> I s'"
  by (metis keepsc_def snd_conv)

lemma keeps_ret [keeps_rules]: "keeps I (ret r e)"
  by (simp add: keeps_def ret_def)

lemma keeps_panic [keeps_rules]: "keeps I (panic msg)"
  by (simp add: keeps_def panic_def)

lemma keeps_attemptWith [keeps_rules]:
  "keepsc I m \<Longrightarrow> (\<And>e. keeps I (h e)) \<Longrightarrow> (\<And>x. keeps I (k x)) \<Longrightarrow> keeps I (attemptWith m h k)"
  unfolding keeps_def attemptWith_def
  by (auto split: prod.split sum.split dest: keepsc_step)

lemma keeps_attempt [keeps_rules]:
  "keepsc I m \<Longrightarrow> (\<And>x. keeps I (k x)) \<Longrightarrow> keeps I (attempt m k)"
  unfolding attempt_def by (intro keeps_rules)

lemma keeps_attemptUnless [keeps_rules]:
  "keepsc I m \<Longrightarrow> keeps I k \<Longrightarrow> keeps I (attemptUnless ok m k)"
  unfolding attemptUnless_def by (rule keeps_attemptWith) (simp_all add: keeps_ret)

lemma keeps_returnIf [keeps_rules]: "(\<not> b \<Longrightarrow> keeps I k) \<Longrightarrow> keeps I (returnIf b r e k)"
  by (simp add: returnIf_def keeps_ret)

lemma keeps_assign [keeps_rules]:
  "(\<And>s. I s \<Longrightarrow> I (f s)) \<Longrightarrow> keeps I k \<Longrightarrow> keeps I (assign f k)"
  by (simp add: keeps_def assign_def)

lemma keeps_perform [keeps_rules]:
  "keepsc I m \<Longrightarrow> (\<And>x. keeps I (k x)) \<Longrightarrow> keeps I (perform m k)"
  unfolding keeps_def perform_def by (auto split: prod.split dest: keepsc_step)

lemma keeps_go_defer [keeps_rules]:
  "(\<And>s. I s \<Longrightarrow> I (d s)) \<Longrightarrow> keeps I k \<Longrightarrow> keeps I (go_defer d k)"
  unfolding keeps_def go_defer_def by (metis case_prod_beta snd_conv)

lemma keeps_orPanic [keeps_rules]: "(\<And>x. v = Some x \<Longrightarrow> keeps I (k x)) \<Longrightarrow> keeps I (orPanic msg v k)"
  by (simp add: orPanic_def keeps_panic split: option.split)

lemma keeps_if [keeps_rules]:
  "(b \<Longrightarrow> keeps I k) \<Longrightarrow> (\<not> b \<Longrightarrow> keeps I k') \<Longrightarrow> keeps I (if b then k else k')"
  by simp

lemma keeps_option [keeps_rules]:
  "(v = None \<Longrightarrow> keeps I k) \<Longrightarrow> (\<And>x. v = Some x \<Longrightarrow> keeps I (k' x)) \<Longrightarrow>
   keeps I (case v of None \<Rightarrow> k | Some x \<Rightarrow> k' x)"
  by (simp split: option.split)

lemma keeps_prod [keeps_rules]:
  "(\<And>a b. x = (a, b) \<Longrightarrow> keeps I (k a b)) \<Longrightarrow> keeps I (case x of (a, b) \<Rightarrow> k a b)"
  by (simp split: prod.split)

lemma keeps_let [keeps_rules]: "keeps I (k v) \<Longrightarrow> keeps I (let x = v in k x)"
  by simp

lemma keepsc_pureCall [keeps_rules]: "keepsc I (pureCall r)"
  by (simp add: keepsc_def pureCall_def)

section \<open>Outcomes\<close>

text \<open>Every way out of a body satisfies a property; the states do not matter.\<close>

definition exits :: "(outcome \<Rightarrow> bool) \<Rightarrow> 's body \<Rightarrow> bool" where
  "exits E b \<longleftrightarrow> (\<forall>s. E (fst (b s)))"

lemma exitsD: "exits E b \<Longrightarrow> E (fst (b s))"
  by (simp add: exits_def)

lemma exits_ret [exits_rules]: "E (Returned r e) \<Longrightarrow> exits E (ret r e)"
  by (simp add: exits_def ret_def)

lemma exits_panic [exits_rules]: "E (Panicked msg) \<Longrightarrow> exits E (panic msg)"
  by (simp add: exits_def panic_def)

lemma exits_attemptWith [exits_rules]:
  "(\<And>e. exits E (h e)) \<Longrightarrow> (\<And>x. exits E (k x)) \<Longrightarrow> exits E (attemptWith m h k)"
  unfolding exits_def attemptWith_def by (simp split: prod.split sum.split)

lemma exits_attempt [exits_rules]:
  "(\<And>e. E (Returned emptyResult (Some e))) \<Longrightarrow> (\<And>x. exits E (k x)) \<Longrightarrow> exits E (attempt m k)"
  unfolding attempt_def by (intro exits_rules)

lemma exits_attemptUnless [exits_rules]:
  "(\<And>e. E (Returned emptyResult (Some e))) \<Longrightarrow> exits E k \<Longrightarrow> exits E (attemptUnless ok m k)"
  unfolding attemptUnless_def by (rule exits_attemptWith) (simp_all add: exits_ret)

lemma exits_returnIf [exits_rules]:
  "(b \<Longrightarrow> E (Returned r e)) \<Longrightarrow> (\<not> b \<Longrightarrow> exits E k) \<Longrightarrow> exits E (returnIf b r e k)"
  by (simp add: returnIf_def exits_ret)

lemma exits_assign [exits_rules]: "exits E k \<Longrightarrow> exits E (assign f k)"
  by (simp add: exits_def assign_def)

lemma exits_perform [exits_rules]: "(\<And>x. exits E (k x)) \<Longrightarrow> exits E (perform m k)"
  unfolding exits_def perform_def by (simp split: prod.split)

lemma exits_go_defer [exits_rules]: "exits E k \<Longrightarrow> exits E (go_defer d k)"
  unfolding exits_def go_defer_def by (metis case_prod_beta fst_conv)

lemma exits_orPanic [exits_rules]:
  "(v = None \<Longrightarrow> E (Panicked msg)) \<Longrightarrow> (\<And>x. v = Some x \<Longrightarrow> exits E (k x)) \<Longrightarrow>
   exits E (orPanic msg v k)"
  by (simp add: orPanic_def exits_panic split: option.split)

lemma exits_if [exits_rules]:
  "(b \<Longrightarrow> exits E k) \<Longrightarrow> (\<not> b \<Longrightarrow> exits E k') \<Longrightarrow> exits E (if b then k else k')"
  by simp

lemma exits_option [exits_rules]:
  "(v = None \<Longrightarrow> exits E k) \<Longrightarrow> (\<And>x. v = Some x \<Longrightarrow> exits E (k' x)) \<Longrightarrow>
   exits E (case v of None \<Rightarrow> k | Some x \<Rightarrow> k' x)"
  by (simp split: option.split)

lemma exits_prod [exits_rules]:
  "(\<And>a b. x = (a, b) \<Longrightarrow> exits E (k a b)) \<Longrightarrow> exits E (case x of (a, b) \<Rightarrow> k a b)"
  by (simp split: prod.split)

lemma exits_let [exits_rules]: "exits E (k v) \<Longrightarrow> exits E (let x = v in k x)"
  by simp

text \<open>What a body does on a concrete input, for evaluation.\<close>

lemmas body_defs =
  ret_def panic_def attemptWith_def attempt_def attemptUnless_def returnIf_def assign_def
  perform_def go_defer_def orPanic_def pureCall_def

end
