(* ===== verification/Kube_Types.thy ===== *)
theory Kube_Types
  imports Prelude
begin

text \<open>
  The objects of Kubernetes, Cluster API, client-go and crypto/x509 the controllers read and
  write, with the fields the source names and no others. They are data: what the third-party
  code does with them is a parameter of the model (theory \<open>Kube_Api\<close>).
\<close>

section \<open>Names, metadata, references\<close>

text \<open>A client, that is a connection to one API server; two handles are two connections.\<close>

datatype kclient = KClient opaque

text \<open>A \<open>resource.Quantity\<close>, as a whole Go value (what \<open>reflect.DeepEqual\<close> compares).\<close>

datatype quantity = Quantity opaque

record NamespacedName =
  nn_Namespace :: string
  nn_Name :: string

record ObjectReference =
  ref_Namespace :: string
  ref_Name :: string

record ObjectMeta =
  Name :: string
  Namespace :: string
  Labels :: "(string, string) gomap"
  OwnerReferences :: "opaque list"
  DeletionTimestamp :: "int option"
  Finalizers :: "string list"

section \<open>Cluster API\<close>

record Machine =
  machine_ObjectMeta :: ObjectMeta
  DataSecretName :: "string option"
  Version :: "string option"
  machine_ProviderID :: "string option"

record Cluster =
  cluster_Name :: string
  cluster_Namespace :: string
  InfrastructureReady :: bool

section \<open>Core objects\<close>

record Secret =
  secret_Name :: string
  secret_Namespace :: string
  Data :: "(string, bytes) gomap"

record VolumeMount =
  MountPath :: string
  vm_Name :: string

record Container =
  container_Name :: string
  Image :: string
  Args :: "string list"
  Command :: "string list"
  Privileged :: "bool option"
  VolumeMounts :: "VolumeMount list"
  Requests :: "(string, quantity) gomap"

record Toleration =
  Key :: string
  Effect :: string

datatype VolumeSource =
    SecretVolume string
  | HostPathVolume string "string option"

record Volume =
  volume_Name :: string
  Source :: VolumeSource

record Pod =
  pod_Name :: string
  pod_Labels :: "(string, string) gomap"
  pod_Namespace :: string
  Containers :: "Container list"
  Tolerations :: "Toleration list"
  Volumes :: "Volume list"

section \<open>client-go: rest.Config and the kubeconfig file\<close>

record RestConfig =
  Host :: string
  CAFile :: string
  CAData :: bytes
  Insecure :: bool
  Timeout :: Duration

record KubeCluster =
  Server :: string
  InsecureSkipTLSVerify :: bool
  CertificateAuthority :: string
  CertificateAuthorityData :: bytes

record AuthInfo =
  ClientCertificate :: string
  ClientKey :: string

record KubeContext =
  ctx_Cluster :: string
  ctx_AuthInfo :: string
  ctx_Namespace :: string

record KubeConfig =
  Clusters :: "(string, KubeCluster) gomap"
  AuthInfos :: "(string, AuthInfo) gomap"
  Contexts :: "(string, KubeContext) gomap"
  CurrentContext :: string

section \<open>crypto/x509\<close>

text \<open>Points of time are nanoseconds from the zero time; \<open>Time.Add\<close> adds a duration.\<close>

definition time_Add :: "int \<Rightarrow> Duration \<Rightarrow> int" where
  "time_Add t d = t + sint d"

text \<open>The bits of \<open>x509.KeyUsage\<close> and the value of \<open>x509.ExtKeyUsage\<close> the program uses.\<close>

definition KeyUsageDigitalSignature :: int where "KeyUsageDigitalSignature = 1"
definition KeyUsageKeyEncipherment :: int where "KeyUsageKeyEncipherment = 4"
definition ExtKeyUsageClientAuth :: int where "ExtKeyUsageClientAuth = 2"

record Certificate =
  SerialNumber :: int
  CommonName :: string
  Organization :: "string list"
  NotBefore :: int
  NotAfter :: int
  KeyUsage :: int
  ExtKeyUsage :: "int list"

end
