(* ===== verification/Api_Types.thy ===== *)
theory Api_Types
  imports Kube_Types
begin

text \<open>
  The custom resources of \<open>api/v1alpha4\<close>: \<open>KubemarkMachine\<close> and \<open>KubemarkMachineTemplate\<close>, the
  structs they are made of, the constants of the package, and the accessors of the conditions
  (the interface \<open>conditions.Setter\<close> of Cluster API, here the locale \<open>condition_object\<close>).
  \<open>TypeMeta\<close>, which the program never touches, is left out.
\<close>

section \<open>kubemarkmachine\_types.go\<close>

type_synonym KubemarkExtendedResourceName = string

type_synonym KubemarkExtendedResourceList = "(KubemarkExtendedResourceName, quantity) gomap"

definition MachineFinalizer :: string where
  "MachineFinalizer = ''kubemarkmachine.infrastructure.cluster.x-k8s.io''"

definition KubemarkExtendedResourceCPU :: KubemarkExtendedResourceName where
  "KubemarkExtendedResourceCPU = ''cpu''"

definition KubemarkExtendedResourceMemory :: KubemarkExtendedResourceName where
  "KubemarkExtendedResourceMemory = ''memory''"

record Mount =
  mount_Name :: string
  ContainerPath :: string
  HostPath :: string
  mount_Type :: "string option"

record KubemarkProcessOptions =
  ExtendedResources :: KubemarkExtendedResourceList

record KubemarkMachineSpec =
  ProviderID :: "string option"
  ExtraMounts :: "Mount list"
  KubemarkOptions :: KubemarkProcessOptions
  KubemarkHollowPodClusterSecretRef :: "ObjectReference option"

type_synonym ConditionList = "opaque list"

record KubemarkMachineStatus =
  Ready :: bool
  Conditions :: ConditionList

record KubemarkMachine =
  km_ObjectMeta :: ObjectMeta
  km_Spec :: KubemarkMachineSpec
  km_Status :: KubemarkMachineStatus

definition GetConditions :: "KubemarkMachine \<Rightarrow> ConditionList" where
  "GetConditions c = Conditions (km_Status c)"

definition SetConditions :: "KubemarkMachine \<Rightarrow> ConditionList \<Rightarrow> KubemarkMachine" where
  "SetConditions c conditions = c\<lparr>km_Status := (km_Status c)\<lparr>Conditions := conditions\<rparr>\<rparr>"

section \<open>kubemarkmachinetemplate\_types.go\<close>

record KubemarkMachineTemplateResource =
  tr_Spec :: KubemarkMachineSpec

record KubemarkMachineTemplateSpec =
  Template :: KubemarkMachineTemplateResource

record KubemarkMachineTemplateStatus =
  Capacity :: "(string, quantity) gomap"

record KubemarkMachineTemplate =
  kmt_ObjectMeta :: ObjectMeta
  kmt_Spec :: KubemarkMachineTemplateSpec
  kmt_Status :: KubemarkMachineTemplateStatus

section \<open>Condition accessors\<close>

text \<open>
  What Cluster API's condition helpers expect of an object: reading back what was set, the last
  write winning, writing back what was read changing nothing, and the parts of the object that
  are not its conditions staying as they are.
\<close>

locale condition_object =
  fixes get :: "'o \<Rightarrow> 'c list"
    and put :: "'o \<Rightarrow> 'c list \<Rightarrow> 'o"
    and rest :: "'o \<Rightarrow> 'r"
  assumes get_put: "get (put x cs) = cs"
    and put_put: "put (put x cs) ds = put x ds"
    and put_get: "put x (get x) = x"
    and rest_put: "rest (put x cs) = rest x"
begin

text \<open>Editing the conditions one after the other, as a chain of \<open>conditions.Set\<close> calls does.\<close>

lemma edit_fold: "fold (\<lambda>f x. put x (f (get x))) fs x = put x (fold (\<lambda>f cs. f cs) fs (get x))"
  by (induction fs arbitrary: x) (simp_all add: put_get get_put put_put)

lemma edit_rest: "rest (fold (\<lambda>f x. put x (f (get x))) fs x) = rest x"
  by (simp add: edit_fold rest_put)

lemma edit_get: "get (fold (\<lambda>f x. put x (f (get x))) fs x) = fold (\<lambda>f cs. f cs) fs (get x)"
  by (simp add: edit_fold get_put)

end

interpretation km_conditions: condition_object GetConditions SetConditions
  "\<lambda>c. (km_ObjectMeta c, km_Spec c, Ready (km_Status c))"
  by unfold_locales (simp_all add: GetConditions_def SetConditions_def)

end
