(* ===== verification/Kube_Api.thy ===== *)
theory Kube_Api
  imports Api_Types
begin

text \<open>
  The third-party code the controllers call, as parameters. A value of \<open>'w lib\<close> holds one
  function per call the source makes into controller-runtime, Cluster API, client-go,
  apimachinery, Masterminds/semver and crypto; \<open>'w\<close> is the state of everything outside the
  process (API servers, caches, clock, random source), which an effectful call may read and
  change in any way. No law is assumed of these functions here; a lemma that relies on
  documented behaviour names it as a hypothesis.

  Every API call is also written to a log (\<open>trace\<close>), which the code does not read: the ordering
  properties are statements about it.
\<close>

section \<open>The library\<close>

record 'w lib =
  \<comment> \<open>apimachinery: errors, time, quantities\<close>
  IsNotFound :: "go_error \<Rightarrow> bool"
  IsAlreadyExists :: "go_error \<Rightarrow> bool"
  IsZero :: "int option \<Rightarrow> bool"
  MustParse :: "string \<Rightarrow> quantity option"
  QuantityString :: "quantity \<Rightarrow> string"
  \<comment> \<open>controller-runtime: client.Client and controllerutil\<close>
  Get_KubemarkMachine :: "kclient \<Rightarrow> NamespacedName \<Rightarrow> 'w \<Rightarrow> (go_error + KubemarkMachine) \<times> 'w"
  Get_KubemarkMachineTemplate ::
    "kclient \<Rightarrow> NamespacedName \<Rightarrow> 'w \<Rightarrow> (go_error + KubemarkMachineTemplate) \<times> 'w"
  Get_Secret :: "kclient \<Rightarrow> NamespacedName \<Rightarrow> 'w \<Rightarrow> (go_error + Secret) \<times> 'w"
  Create_Secret :: "kclient \<Rightarrow> Secret \<Rightarrow> 'w \<Rightarrow> (go_error + unit) \<times> 'w"
  Create_Pod :: "kclient \<Rightarrow> Pod \<Rightarrow> 'w \<Rightarrow> (go_error + unit) \<times> 'w"
  Delete_Secret :: "kclient \<Rightarrow> NamespacedName \<Rightarrow> 'w \<Rightarrow> (go_error + unit) \<times> 'w"
  Delete_Pod :: "kclient \<Rightarrow> NamespacedName \<Rightarrow> 'w \<Rightarrow> (go_error + unit) \<times> 'w"
  AddFinalizer :: "string list \<Rightarrow> string \<Rightarrow> string list"
  RemoveFinalizer :: "string list \<Rightarrow> string \<Rightarrow> string list"
  \<comment> \<open>Cluster API: util, util/patch, util/secret, util/certs, controllers/remote\<close>
  Lib_GetOwnerMachine :: "kclient \<Rightarrow> ObjectMeta \<Rightarrow> 'w \<Rightarrow> (go_error + Machine option) \<times> 'w"
  Lib_GetClusterFromMetadata :: "kclient \<Rightarrow> ObjectMeta \<Rightarrow> 'w \<Rightarrow> (go_error + Cluster) \<times> 'w"
  NewHelper_KubemarkMachine :: "kclient \<Rightarrow> KubemarkMachine \<Rightarrow> go_error + unit"
  NewHelper_Machine :: "kclient \<Rightarrow> Machine \<Rightarrow> go_error + unit"
  NewHelper_KubemarkMachineTemplate :: "kclient \<Rightarrow> KubemarkMachineTemplate \<Rightarrow> go_error + unit"
  Patch_KubemarkMachine ::
    "kclient \<Rightarrow> KubemarkMachine \<Rightarrow> KubemarkMachine \<Rightarrow> 'w \<Rightarrow> (go_error + unit) \<times> 'w"
  Patch_Machine :: "kclient \<Rightarrow> Machine \<Rightarrow> Machine \<Rightarrow> 'w \<Rightarrow> (go_error + unit) \<times> 'w"
  Patch_KubemarkMachineTemplate ::
    "kclient \<Rightarrow> KubemarkMachineTemplate \<Rightarrow> KubemarkMachineTemplate \<Rightarrow> 'w \<Rightarrow> (go_error + unit) \<times> 'w"
  SecretNameOf :: "string \<Rightarrow> string \<Rightarrow> string"
  ClusterCA :: string
  TLSCrtDataName :: string
  TLSKeyDataName :: string
  DecodeCertPEM :: "bytes \<Rightarrow> go_error + opaque"
  DecodePrivateKeyPEM :: "bytes \<Rightarrow> go_error + opaque"
  RESTConfig :: "string \<Rightarrow> kclient \<Rightarrow> NamespacedName \<Rightarrow> 'w \<Rightarrow> (go_error + RestConfig) \<times> 'w"
  \<comment> \<open>client-go and the constructor of clients\<close>
  RESTConfigFromKubeConfig :: "bytes \<Rightarrow> go_error + RestConfig"
  Client_New :: "RestConfig \<Rightarrow> kclient \<Rightarrow> 'w \<Rightarrow> (go_error + kclient) \<times> 'w"
  Encode_KubeConfig :: "KubeConfig \<Rightarrow> go_error + bytes"
  ECPrivateKeyBlockType :: string
  CertificateBlockType :: string
  \<comment> \<open>crypto and time\<close>
  GenerateKey :: "'w \<Rightarrow> (go_error + opaque) \<times> 'w"
  PublicKey :: "opaque \<Rightarrow> opaque"
  MarshalECPrivateKey :: "opaque \<Rightarrow> go_error + bytes"
  Pem_EncodeToMemory :: "string \<Rightarrow> bytes \<Rightarrow> bytes"
  Pem_Encode :: "string \<Rightarrow> bytes \<Rightarrow> go_error + bytes"
  CreateCertificate ::
    "Certificate \<Rightarrow> opaque \<Rightarrow> opaque \<Rightarrow> opaque \<Rightarrow> 'w \<Rightarrow> (go_error + bytes) \<times> 'w"
  Now :: "'w \<Rightarrow> int \<times> 'w"
  \<comment> \<open>Masterminds/semver\<close>
  NewConstraint :: "string \<Rightarrow> go_error + opaque"
  NewVersion :: "string \<Rightarrow> go_error + opaque"
  Check :: "opaque \<Rightarrow> opaque \<Rightarrow> bool"
  \<comment> \<open>the order the Go runtime picks for the two range loops over maps\<close>
  rangeOptions :: "(string, quantity) fmap \<Rightarrow> string list"
  rangeResources :: "(string, quantity) fmap \<Rightarrow> string list"

text \<open>
  The Go specification of \<open>range\<close> over a map, as a law of the two order parameters.
\<close>

definition range_laws :: "'w lib \<Rightarrow> bool" where
  "range_laws L \<longleftrightarrow>
     (\<forall>m. range_order m (rangeOptions L m)) \<and> (\<forall>m. range_order m (rangeResources L m))"

lemma range_laws_orders:
  "range_laws L \<Longrightarrow> range_order m (rangeOptions L m)"
  "range_laws L \<Longrightarrow> range_order m (rangeResources L m)"
  by (simp_all add: range_laws_def)

text \<open>
  The documentation of \<open>controllerutil\<close>: \<open>AddFinalizer\<close> adds the finalizer if it is not present,
  \<open>RemoveFinalizer\<close> removes every occurrence of it; the other finalizers stay.
\<close>

definition finalizer_laws :: "'w lib \<Rightarrow> bool" where
  "finalizer_laws L \<longleftrightarrow>
     (\<forall>fs f. set (AddFinalizer L fs f) = insert f (set fs)) \<and>
     (\<forall>fs f. set (RemoveFinalizer L fs f) = set fs - {f})"

lemma finalizer_laws_sets:
  "finalizer_laws L \<Longrightarrow> set (AddFinalizer L fs f) = insert f (set fs)"
  "finalizer_laws L \<Longrightarrow> set (RemoveFinalizer L fs f) = set fs - {f}"
  by (simp_all add: finalizer_laws_def)

section \<open>The log of API calls\<close>

text \<open>One constructor per kind of call, with its arguments and the error it returned.\<close>

datatype event =
    GotKubemarkMachine kclient NamespacedName "go_error option"
  | GotKubemarkMachineTemplate kclient NamespacedName "go_error option"
  | GotSecret kclient NamespacedName "go_error option"
  | GotOwnerMachine kclient ObjectMeta "go_error option"
  | GotCluster kclient ObjectMeta "go_error option"
  | GotRESTConfig kclient NamespacedName "go_error option"
  | BuiltClient RestConfig "go_error option"
  | CreatedSecret kclient Secret "go_error option"
  | CreatedPod kclient Pod "go_error option"
  | DeletedSecret kclient NamespacedName "go_error option"
  | DeletedPod kclient NamespacedName "go_error option"
  | PatchedKubemarkMachine kclient KubemarkMachine KubemarkMachine "go_error option"
  | PatchedMachine kclient Machine Machine "go_error option"
  | PatchedKubemarkMachineTemplate kclient KubemarkMachineTemplate KubemarkMachineTemplate
      "go_error option"

text \<open>The calls that leave every API object as it is.\<close>

fun isRead :: "event \<Rightarrow> bool" where
  "isRead (GotKubemarkMachine _ _ _) = True"
| "isRead (GotKubemarkMachineTemplate _ _ _) = True"
| "isRead (GotSecret _ _ _) = True"
| "isRead (GotOwnerMachine _ _ _) = True"
| "isRead (GotCluster _ _ _) = True"
| "isRead (GotRESTConfig _ _ _) = True"
| "isRead (BuiltClient _ _) = True"
| "isRead _ = False"

fun isCreate :: "event \<Rightarrow> bool" where
  "isCreate (CreatedSecret _ _ _) = True"
| "isCreate (CreatedPod _ _ _) = True"
| "isCreate _ = False"

fun isDelete :: "event \<Rightarrow> bool" where
  "isDelete (DeletedSecret _ _ _) = True"
| "isDelete (DeletedPod _ _ _) = True"
| "isDelete _ = False"

lemma isRead_not_write: "isRead e \<Longrightarrow> \<not> isCreate e \<and> \<not> isDelete e"
  by (cases e) simp_all

record 'w io =
  world :: 'w
  trace :: "event list"

definition invoke :: "('w \<Rightarrow> 'a \<times> 'w) \<Rightarrow> ('a \<Rightarrow> event) \<Rightarrow> 'w io \<Rightarrow> 'a \<times> 'w io" where
  "invoke f ev s =
     (case f (world s) of (x, w') \<Rightarrow> (x, \<lparr>world = w', trace = trace s @ [ev x]\<rparr>))"

text \<open>An effect that is no API call: the clock and the random source.\<close>

definition effect :: "('w \<Rightarrow> 'a \<times> 'w) \<Rightarrow> 'w io \<Rightarrow> 'a \<times> 'w io" where
  "effect f s = (case f (world s) of (x, w') \<Rightarrow> (x, s\<lparr>world := w'\<rparr>))"

lemma wpc_invoke [wp_simps]:
  "wpc (invoke f ev) Q s \<longleftrightarrow>
     (\<forall>r w'. f (world s) = (r, w') \<longrightarrow> Q r \<lparr>world = w', trace = trace s @ [ev r]\<rparr>)"
  by (simp add: wpc_def invoke_def split: prod.split)

lemma wpc_effect [wp_simps]:
  "wpc (effect f) Q s \<longleftrightarrow> (\<forall>r w'. f (world s) = (r, w') \<longrightarrow> Q r (s\<lparr>world := w'\<rparr>))"
  by (simp add: wpc_def effect_def split: prod.split)

section \<open>The calls of the source\<close>

definition getKubemarkMachine :: "'w lib \<Rightarrow> kclient \<Rightarrow> NamespacedName \<Rightarrow> ('w io, KubemarkMachine) call"
  where "getKubemarkMachine L c k =
    invoke (Get_KubemarkMachine L c k) (\<lambda>r. GotKubemarkMachine c k (errOf r))"

definition getKubemarkMachineTemplate ::
  "'w lib \<Rightarrow> kclient \<Rightarrow> NamespacedName \<Rightarrow> ('w io, KubemarkMachineTemplate) call"
  where "getKubemarkMachineTemplate L c k =
    invoke (Get_KubemarkMachineTemplate L c k) (\<lambda>r. GotKubemarkMachineTemplate c k (errOf r))"

definition getSecret :: "'w lib \<Rightarrow> kclient \<Rightarrow> NamespacedName \<Rightarrow> ('w io, Secret) call"
  where "getSecret L c k = invoke (Get_Secret L c k) (\<lambda>r. GotSecret c k (errOf r))"

definition getOwnerMachine :: "'w lib \<Rightarrow> kclient \<Rightarrow> ObjectMeta \<Rightarrow> ('w io, Machine option) call"
  where "getOwnerMachine L c m =
    invoke (Lib_GetOwnerMachine L c m) (\<lambda>r. GotOwnerMachine c m (errOf r))"

definition getClusterFromMetadata :: "'w lib \<Rightarrow> kclient \<Rightarrow> ObjectMeta \<Rightarrow> ('w io, Cluster) call"
  where "getClusterFromMetadata L c m =
    invoke (Lib_GetClusterFromMetadata L c m) (\<lambda>r. GotCluster c m (errOf r))"

definition remoteRESTConfig ::
  "'w lib \<Rightarrow> string \<Rightarrow> kclient \<Rightarrow> NamespacedName \<Rightarrow> ('w io, RestConfig) call"
  where "remoteRESTConfig L user c k =
    invoke (RESTConfig L user c k) (\<lambda>r. GotRESTConfig c k (errOf r))"

definition newClient :: "'w lib \<Rightarrow> RestConfig \<Rightarrow> kclient \<Rightarrow> ('w io, kclient) call"
  where "newClient L cfg c = invoke (Client_New L cfg c) (\<lambda>r. BuiltClient cfg (errOf r))"

definition createSecret :: "'w lib \<Rightarrow> kclient \<Rightarrow> Secret \<Rightarrow> ('w io, unit) call"
  where "createSecret L c x = invoke (Create_Secret L c x) (\<lambda>r. CreatedSecret c x (errOf r))"

definition createPod :: "'w lib \<Rightarrow> kclient \<Rightarrow> Pod \<Rightarrow> ('w io, unit) call"
  where "createPod L c p = invoke (Create_Pod L c p) (\<lambda>r. CreatedPod c p (errOf r))"

definition deleteSecret :: "'w lib \<Rightarrow> kclient \<Rightarrow> NamespacedName \<Rightarrow> ('w io, unit) call"
  where "deleteSecret L c k = invoke (Delete_Secret L c k) (\<lambda>r. DeletedSecret c k (errOf r))"

definition deletePod :: "'w lib \<Rightarrow> kclient \<Rightarrow> NamespacedName \<Rightarrow> ('w io, unit) call"
  where "deletePod L c k = invoke (Delete_Pod L c k) (\<lambda>r. DeletedPod c k (errOf r))"

text \<open>
  \<open>patch.NewHelper\<close> takes a copy of the object as it is; \<open>Patch\<close> sends the difference between
  that copy and the object it is given. A helper is therefore its client and its copy.
\<close>

definition patchKubemarkMachine ::
  "'w lib \<Rightarrow> kclient \<Rightarrow> KubemarkMachine \<Rightarrow> KubemarkMachine \<Rightarrow> ('w io, unit) call"
  where "patchKubemarkMachine L c before after =
    invoke (Patch_KubemarkMachine L c before after)
      (\<lambda>r. PatchedKubemarkMachine c before after (errOf r))"

definition patchMachine :: "'w lib \<Rightarrow> kclient \<Rightarrow> Machine \<Rightarrow> Machine \<Rightarrow> ('w io, unit) call"
  where "patchMachine L c before after =
    invoke (Patch_Machine L c before after) (\<lambda>r. PatchedMachine c before after (errOf r))"

definition patchKubemarkMachineTemplate ::
  "'w lib \<Rightarrow> kclient \<Rightarrow> KubemarkMachineTemplate \<Rightarrow> KubemarkMachineTemplate \<Rightarrow> ('w io, unit) call"
  where "patchKubemarkMachineTemplate L c before after =
    invoke (Patch_KubemarkMachineTemplate L c before after)
      (\<lambda>r. PatchedKubemarkMachineTemplate c before after (errOf r))"

lemmas call_defs [wp_simps] =
  getKubemarkMachine_def getKubemarkMachineTemplate_def getSecret_def getOwnerMachine_def
  getClusterFromMetadata_def remoteRESTConfig_def newClient_def createSecret_def createPod_def
  deleteSecret_def deletePod_def patchKubemarkMachine_def patchMachine_def
  patchKubemarkMachineTemplate_def

section \<open>The calls of a body\<close>

definition callsOf :: "'w io body \<Rightarrow> 'w io \<Rightarrow> event list" where
  "callsOf b s = drop (length (trace s)) (trace (snd (b s)))"

text \<open>The log is that of before with events of one kind added.\<close>

definition logs :: "(event \<Rightarrow> bool) \<Rightarrow> event list \<Rightarrow> 'w io \<Rightarrow> bool" where
  "logs P t0 s \<longleftrightarrow> (\<exists>evs. trace s = t0 @ evs \<and> list_all P evs)"

lemma logs_refl [simp, intro]: "logs P (trace s) s"
  by (simp add: logs_def)

lemma logs_step: "logs P t0 s \<Longrightarrow> P e \<Longrightarrow> logs P t0 \<lparr>world = w, trace = trace s @ [e]\<rparr>"
  by (auto simp: logs_def)

lemma keepsc_invoke [keeps_rules]: "(\<And>r. P (ev r)) \<Longrightarrow> keepsc (logs P t0) (invoke f ev)"
  by (auto simp: keepsc_def invoke_def logs_def split: prod.split)

lemma keepsc_effect [keeps_rules]: "keepsc (logs P t0) (effect f)"
  by (auto simp: keepsc_def effect_def logs_def split: prod.split)

lemma logs_callsOf:
  assumes "keeps (logs P (trace s)) b"
  shows "trace (snd (b s)) = trace s @ callsOf b s" and "list_all P (callsOf b s)"
  using keepsD [OF assms, of s] by (auto simp: logs_def callsOf_def)

section \<open>Contracts of steps that only read\<close>

text \<open>
  A step that keeps the log and appends only events of one kind. The controllers' steps satisfy
  it for different kinds; a chain of such steps does too.
\<close>

definition appends :: "(event \<Rightarrow> bool) \<Rightarrow> 'w io \<Rightarrow> 'w io \<Rightarrow> bool" where
  "appends P s s' \<longleftrightarrow> (\<exists>evs. trace s' = trace s @ evs \<and> list_all P evs)"

lemma appends_refl [simp, intro]: "appends P s s"
  by (simp add: appends_def)

lemma appends_trans [trans]: "appends P s t \<Longrightarrow> appends P t u \<Longrightarrow> appends P s u"
  by (auto simp: appends_def)

lemma appends_mono: "appends P s t \<Longrightarrow> (\<And>e. P e \<Longrightarrow> Q e) \<Longrightarrow> appends Q s t"
  by (auto simp: appends_def list_all_iff)

lemma appends_append: "trace s' = trace s @ evs \<Longrightarrow> appends P s s' \<longleftrightarrow> list_all P evs"
  by (auto simp: appends_def)

lemma appendsE:
  assumes "appends P s s'"
  obtains evs where "trace s' = trace s @ evs" and "list_all P evs"
  using assms by (auto simp: appends_def)

end
