(* ===== verification/Go_Strings.thy ===== *)
theory Go_Strings
  imports Prelude
begin

text \<open>
  The functions of Go's package \<open>strings\<close> the program and its tests call: \<open>Join\<close>, \<open>Split\<close> (by
  a separator of one byte, the only kind used), \<open>HasPrefix\<close> and \<open>TrimSpace\<close> (over UTF-8 bytes,
  with every code point \<open>unicode.IsSpace\<close> accepts). The locale \<open>delimited\<close> states what a
  joiner and a splitter promise each other; it is interpreted on these functions for every
  separator.
\<close>

section \<open>Join and Split\<close>

fun stringsJoin :: "string list \<Rightarrow> string \<Rightarrow> string" where
  "stringsJoin [] sep = []"
| "stringsJoin [x] sep = x"
| "stringsJoin (x # y # xs) sep = x @ sep @ stringsJoin (y # xs) sep"

fun stringsSplit :: "string \<Rightarrow> char \<Rightarrow> string list" where
  "stringsSplit [] c = [[]]"
| "stringsSplit (x # s) c =
     (if x = c then [] # stringsSplit s c
      else (case stringsSplit s c of [] \<Rightarrow> [[x]] | p # ps \<Rightarrow> (x # p) # ps))"

lemma stringsSplit_nonempty [simp]: "stringsSplit s c \<noteq> []"
  by (induction s c rule: stringsSplit.induct) (auto split: list.split)

lemma stringsJoin_Cons: "xs \<noteq> [] \<Longrightarrow> stringsJoin (x # xs) sep = x @ sep @ stringsJoin xs sep"
  by (cases xs) simp_all

lemma stringsSplit_sep_free [simp]: "c \<notin> set s \<Longrightarrow> stringsSplit s c = [s]"
  by (induction s) auto

lemma stringsSplit_append:
  "c \<notin> set p \<Longrightarrow> stringsSplit (p @ c # s) c = p # stringsSplit s c"
  by (induction p) auto

lemma stringsSplit_Join:
  "ps \<noteq> [] \<Longrightarrow> \<forall>p \<in> set ps. c \<notin> set p \<Longrightarrow> stringsSplit (stringsJoin ps [c]) c = ps"
proof (induction ps)
  case Nil
  then show ?case by simp
next
  case (Cons p ps)
  then show ?case
    by (cases "ps = []") (auto simp: stringsJoin_Cons stringsSplit_append)
qed

lemma stringsJoin_Split: "stringsJoin (stringsSplit s c) [c] = s"
proof (induction s)
  case Nil
  show ?case by simp
next
  case (Cons x s)
  obtain p ps where eq: "stringsSplit s c = p # ps"
    by (metis list.exhaust stringsSplit_nonempty)
  show ?case
    using Cons.IH by (cases ps) (auto simp: eq)
qed

lemma stringsSplit_parts: "p \<in> set (stringsSplit s c) \<Longrightarrow> c \<notin> set p"
proof (induction s arbitrary: p)
  case Nil
  then show ?case by simp
next
  case (Cons x s)
  obtain q qs where eq: "stringsSplit s c = q # qs"
    by (metis list.exhaust stringsSplit_nonempty)
  then show ?case
    using Cons.prems Cons.IH by (auto split: if_splits)
qed

lemma length_stringsSplit: "length (stringsSplit s c) = Suc (count_list s c)"
proof (induction s)
  case Nil
  show ?case by simp
next
  case (Cons x s)
  obtain q qs where eq: "stringsSplit s c = q # qs"
    by (metis list.exhaust stringsSplit_nonempty)
  then show ?case using Cons.IH by simp
qed

text \<open>
  The contract between a joiner and a splitter of records whose parts do not hold the
  delimiter: what is joined is recovered, and every text is the join of its parts.
\<close>

locale delimited =
  fixes join :: "string list \<Rightarrow> string"
    and split :: "string \<Rightarrow> string list"
    and clean :: "string \<Rightarrow> bool"
  assumes split_join: "ps \<noteq> [] \<Longrightarrow> list_all clean ps \<Longrightarrow> split (join ps) = ps"
    and join_split: "join (split s) = s"
    and clean_split: "list_all clean (split s)"
    and split_some: "split s \<noteq> []"
begin

lemma join_inject:
  "ps \<noteq> [] \<Longrightarrow> qs \<noteq> [] \<Longrightarrow> list_all clean ps \<Longrightarrow> list_all clean qs \<Longrightarrow>
   join ps = join qs \<longleftrightarrow> ps = qs"
  by (metis split_join)

lemma split_inject: "split s = split t \<longleftrightarrow> s = t"
  by (metis join_split)

lemma split_clean: "clean s \<Longrightarrow> join [s] = s \<Longrightarrow> split s = [s]"
  using split_join [of "[s]"] by simp

end

lemma delimited_strings:
  "delimited (\<lambda>ps. stringsJoin ps [c]) (\<lambda>s. stringsSplit s c) (\<lambda>p. c \<notin> set p)"
  by unfold_locales
    (auto simp: list_all_iff stringsSplit_Join stringsJoin_Split dest: stringsSplit_parts)

interpretation comma: delimited
  "\<lambda>ps. stringsJoin ps '',''" "\<lambda>s. stringsSplit s CHR '',''" "\<lambda>p. CHR '','' \<notin> set p"
  by (rule delimited_strings)

interpretation equals: delimited
  "\<lambda>ps. stringsJoin ps ''=''" "\<lambda>s. stringsSplit s CHR ''=''" "\<lambda>p. CHR ''='' \<notin> set p"
  by (rule delimited_strings)

section \<open>HasPrefix\<close>

definition stringsHasPrefix :: "string \<Rightarrow> string \<Rightarrow> bool" where
  "stringsHasPrefix s p \<longleftrightarrow> take (length p) s = p"

lemma stringsHasPrefix_append [simp]: "stringsHasPrefix (p @ s) p"
  by (simp add: stringsHasPrefix_def)

lemma stringsHasPrefix_drop: "stringsHasPrefix s p \<Longrightarrow> s = p @ drop (length p) s"
  by (metis append_take_drop_id stringsHasPrefix_def)

section \<open>TrimSpace\<close>

text \<open>
  The UTF-8 encodings of the code points with Unicode's property White\_Space, which is what
  \<open>unicode.IsSpace\<close> accepts: tab to carriage return, space, U+0085, U+00A0, U+1680, U+2000 to
  U+200A, U+2028, U+2029, U+202F, U+205F and U+3000. UTF-8 is self-synchronising, so removing
  such an encoding from either end of a byte string is removing that code point.
\<close>

definition spaceEncodings :: "string list" where
  "spaceEncodings =
     [[CHR 0x09], [CHR 0x0A], [CHR 0x0B], [CHR 0x0C], [CHR 0x0D], [CHR 0x20],
      [CHR 0xC2, CHR 0x85], [CHR 0xC2, CHR 0xA0], [CHR 0xE1, CHR 0x9A, CHR 0x80],
      [CHR 0xE2, CHR 0x80, CHR 0x80], [CHR 0xE2, CHR 0x80, CHR 0x81],
      [CHR 0xE2, CHR 0x80, CHR 0x82], [CHR 0xE2, CHR 0x80, CHR 0x83],
      [CHR 0xE2, CHR 0x80, CHR 0x84], [CHR 0xE2, CHR 0x80, CHR 0x85],
      [CHR 0xE2, CHR 0x80, CHR 0x86], [CHR 0xE2, CHR 0x80, CHR 0x87],
      [CHR 0xE2, CHR 0x80, CHR 0x88], [CHR 0xE2, CHR 0x80, CHR 0x89],
      [CHR 0xE2, CHR 0x80, CHR 0x8A], [CHR 0xE2, CHR 0x80, CHR 0xA8],
      [CHR 0xE2, CHR 0x80, CHR 0xA9], [CHR 0xE2, CHR 0x80, CHR 0xAF],
      [CHR 0xE2, CHR 0x81, CHR 0x9F], [CHR 0xE3, CHR 0x80, CHR 0x80]]"

text \<open>The first of the given words that a text starts with.\<close>

definition leading :: "string list \<Rightarrow> string \<Rightarrow> string option" where
  "leading ws s = List.find (\<lambda>w. w \<noteq> [] \<and> stringsHasPrefix s w) ws"

lemma leading_Some:
  "leading ws s = Some w \<Longrightarrow> w \<in> set ws \<and> w \<noteq> [] \<and> s = w @ drop (length w) s"
  by (auto simp: leading_def find_Some_iff stringsHasPrefix_def)
    (metis append_take_drop_id)

lemma leading_None: "leading ws s = None \<longleftrightarrow> (\<forall>w \<in> set ws. w \<noteq> [] \<longrightarrow> \<not> stringsHasPrefix s w)"
  by (auto simp: leading_def find_None_iff)

lemma leading_shorter: "leading ws s = Some w \<Longrightarrow> length (drop (length w) s) < length s"
  using leading_Some [of ws s w] by (cases s) auto

function trimWith :: "string list \<Rightarrow> string \<Rightarrow> string" where
  "trimWith ws s =
     (case leading ws s of None \<Rightarrow> s | Some w \<Rightarrow> trimWith ws (drop (length w) s))"
  by pat_completeness auto
termination
  by (relation "measure (\<lambda>(ws, s). length s)") (auto dest: leading_shorter)

declare trimWith.simps [simp del]

definition stringsTrimSpace :: "string \<Rightarrow> string" where
  "stringsTrimSpace s =
     rev (trimWith (map rev spaceEncodings) (rev (trimWith spaceEncodings s)))"

lemma trimWith_none: "leading ws (trimWith ws s) = None"
proof (induction ws s rule: trimWith.induct)
  case (1 ws s)
  then show ?case
    by (cases "leading ws s") (simp_all add: trimWith.simps [of ws s])
qed

lemma trimWith_id: "leading ws s = None \<Longrightarrow> trimWith ws s = s"
  by (simp add: trimWith.simps)

text \<open>Exactly words are removed.\<close>

lemma trimWith_words: "\<exists>ps. s = concat ps @ trimWith ws s \<and> set ps \<subseteq> set ws"
proof (induction ws s rule: trimWith.induct)
  case (1 ws s)
  show ?case
  proof (cases "leading ws s")
    case None
    then show ?thesis by (intro exI [of _ "[]"]) (simp add: trimWith_id)
  next
    case (Some w)
    then obtain ps where ps: "drop (length w) s = concat ps @ trimWith ws (drop (length w) s)"
      "set ps \<subseteq> set ws"
      using 1 by blast
    then have "s = concat (w # ps) @ trimWith ws (drop (length w) s)"
      using leading_Some [OF Some] by auto
    then have "s = concat (w # ps) @ trimWith ws s"
      using Some by (simp add: trimWith.simps [of ws s])
    then show ?thesis using leading_Some [OF Some] ps(2) by (intro exI [of _ "w # ps"]) simp
  qed
qed

lemma trimWith_suffix: "\<exists>p. s = p @ trimWith ws s"
  using trimWith_words by blast

text \<open>A text starts, or ends, with white space.\<close>

definition leadingSpace :: "string \<Rightarrow> bool" where
  "leadingSpace s \<longleftrightarrow> leading spaceEncodings s \<noteq> None"

definition trailingSpace :: "string \<Rightarrow> bool" where
  "trailingSpace s \<longleftrightarrow> leading (map rev spaceEncodings) (rev s) \<noteq> None"

lemma leading_prefix: "leading ws s = None \<Longrightarrow> s = t @ u \<Longrightarrow> leading ws t = None"
  by (auto simp: leading_None stringsHasPrefix_def)

lemma stringsTrimSpace_ends:
  "\<not> leadingSpace (stringsTrimSpace s)" "\<not> trailingSpace (stringsTrimSpace s)"
proof -
  define t where "t = trimWith spaceEncodings s"
  define u where "u = trimWith (map rev spaceEncodings) (rev t)"
  have eq: "stringsTrimSpace s = rev u"
    by (simp add: stringsTrimSpace_def t_def u_def)
  obtain p where "rev t = p @ u"
    using trimWith_suffix u_def by blast
  then have "t = rev u @ rev p"
    by (metis rev_append rev_rev_ident)
  moreover have "leading spaceEncodings t = None"
    by (simp add: t_def trimWith_none)
  ultimately show "\<not> leadingSpace (stringsTrimSpace s)"
    by (auto simp: leadingSpace_def eq dest: leading_prefix)
  show "\<not> trailingSpace (stringsTrimSpace s)"
    by (simp add: trailingSpace_def eq u_def trimWith_none)
qed

lemma stringsTrimSpace_id:
  "\<not> leadingSpace s \<Longrightarrow> \<not> trailingSpace s \<Longrightarrow> stringsTrimSpace s = s"
  by (simp add: stringsTrimSpace_def leadingSpace_def trailingSpace_def trimWith_id)

text \<open>What is cut off at either end is white space.\<close>

lemma stringsTrimSpace_parts:
  "\<exists>ps qs. s = concat ps @ stringsTrimSpace s @ concat qs \<and>
     set ps \<subseteq> set spaceEncodings \<and> set qs \<subseteq> set spaceEncodings"
proof -
  let ?t = "trimWith spaceEncodings s"
  obtain ps where ps: "s = concat ps @ ?t" "set ps \<subseteq> set spaceEncodings"
    using trimWith_words by blast
  obtain rs where rs: "rev ?t = concat rs @ trimWith (map rev spaceEncodings) (rev ?t)"
    "set rs \<subseteq> set (map rev spaceEncodings)"
    using trimWith_words by blast
  have "?t = rev (trimWith (map rev spaceEncodings) (rev ?t)) @ rev (concat rs)"
    using rs(1) by (metis rev_append rev_rev_ident)
  then have "?t = stringsTrimSpace s @ concat (map rev (rev rs))"
    by (simp only: stringsTrimSpace_def rev_concat)
  moreover have "set (map rev (rev rs)) \<subseteq> set spaceEncodings"
    using rs(2) by auto
  ultimately show ?thesis
    using ps by metis
qed

end
