(* ===== verification/Extended_Resources.thy ===== *)
theory Extended_Resources
  imports Kube_Api Go_Strings
begin

text \<open>
  The extended resources of a hollow node: \<open>getKubemarkExtendedResources\<close> (\<open>controllers/util.go\<close>)
  fills in the defaults, \<open>getKubemarkExtendedResourcesFlag\<close> (\<open>kubemarkmachine_controller.go\<close>)
  prints the command line flag, and \<open>mapFromExtendedResourceFlags\<close>, the parser of the
  repository's tests, reads it back. Both loops over a Go map take the order the runtime picks
  from the parameters \<open>rangeOptions\<close> and \<open>rangeResources\<close>.
\<close>

section \<open>Copying a map entry by entry\<close>

text \<open>\<open>for k, v := range src { dst[k] = v }\<close>\<close>

fun copyEntries :: "'k list \<Rightarrow> ('k, 'v) fmap \<Rightarrow> ('k, 'v) fmap \<Rightarrow> ('k, 'v) fmap" where
  "copyEntries [] src dst = dst"
| "copyEntries (k # ks) src dst =
     copyEntries ks src (case fmlookup src k of None \<Rightarrow> dst | Some v \<Rightarrow> fmupd k v dst)"

lemma fmlookup_copyEntries:
  "fmlookup (copyEntries ks src dst) k =
     (if k \<in> set ks \<and> fmlookup src k \<noteq> None then fmlookup src k else fmlookup dst k)"
  by (induction ks src dst rule: copyEntries.induct) (auto split: option.splits)

text \<open>Whatever the order, the loop adds the source to the destination.\<close>

lemma copyEntries_range: "range_order src ks \<Longrightarrow> copyEntries ks src dst = dst ++\<^sub>f src"
  by (rule fmap_ext) (auto simp: fmlookup_copyEntries range_order_mem fmlookup_dom_iff)

section \<open>getKubemarkExtendedResources\<close>

definition DefaultCPUResource :: string where "DefaultCPUResource = ''1''"
definition DefaultMemResource :: string where "DefaultMemResource = ''4G''"

text \<open>\<open>None\<close> is the panic of \<open>resource.MustParse\<close>.\<close>

definition getKubemarkExtendedResources ::
  "'w lib \<Rightarrow> KubemarkProcessOptions \<Rightarrow> KubemarkExtendedResourceList option" where
  "getKubemarkExtendedResources L options =
     (case (MustParse L DefaultCPUResource, MustParse L DefaultMemResource) of
        (Some cpu, Some mem) \<Rightarrow>
          let resourcemap = fmupd KubemarkExtendedResourceMemory mem
                              (fmupd KubemarkExtendedResourceCPU cpu fmempty)
          in Some (Some (case ExtendedResources options of
                           None \<Rightarrow> resourcemap
                         | Some opts \<Rightarrow> copyEntries (rangeOptions L opts) opts resourcemap))
      | _ \<Rightarrow> None)"

text \<open>The defaults are valid quantities: \<open>MustParse\<close> returns.\<close>

definition defaultsParse :: "'w lib \<Rightarrow> bool" where
  "defaultsParse L \<longleftrightarrow>
     MustParse L DefaultCPUResource \<noteq> None \<and> MustParse L DefaultMemResource \<noteq> None"

text \<open>
  The specification: the entries of the options, and the defaults for what they leave out.
\<close>

definition resourcesSpec :: "'w lib \<Rightarrow> KubemarkProcessOptions \<Rightarrow> string \<Rightarrow> quantity option" where
  "resourcesSpec L options k =
     (case gomap_get (ExtendedResources options) k of
        Some v \<Rightarrow> Some v
      | None \<Rightarrow>
          if k = KubemarkExtendedResourceCPU then MustParse L DefaultCPUResource
          else if k = KubemarkExtendedResourceMemory then MustParse L DefaultMemResource
          else None)"

lemma resource_names_distinct [simp]:
  "KubemarkExtendedResourceCPU \<noteq> KubemarkExtendedResourceMemory"
  "KubemarkExtendedResourceMemory \<noteq> KubemarkExtendedResourceCPU"
  by (simp_all add: KubemarkExtendedResourceCPU_def KubemarkExtendedResourceMemory_def)

lemma resources_lookup:
  assumes "range_laws L" and "getKubemarkExtendedResources L options = Some res"
  shows "res \<noteq> None" and "gomap_get res k = resourcesSpec L options k"
  using assms
  by (auto simp: getKubemarkExtendedResources_def resourcesSpec_def Let_def
      copyEntries_range range_laws_orders fmlookup_dom_iff
      split: option.splits)

lemma resources_returns:
  "getKubemarkExtendedResources L options \<noteq> None \<longleftrightarrow> defaultsParse L"
  by (auto simp: getKubemarkExtendedResources_def defaultsParse_def Let_def split: option.splits)

lemma resources_nonempty:
  assumes "range_laws L" and "getKubemarkExtendedResources L options = Some (Some m)"
  shows "m \<noteq> fmempty"
proof
  assume "m = fmempty"
  then have "resourcesSpec L options KubemarkExtendedResourceCPU = None"
    using resources_lookup(2) [OF assms, of KubemarkExtendedResourceCPU] by simp
  moreover have "defaultsParse L"
    using assms(2) resources_returns [of L options] by simp
  ultimately show False
    by (auto simp: resourcesSpec_def defaultsParse_def split: option.splits)
qed

section \<open>getKubemarkExtendedResourcesFlag\<close>

definition flagPrefix :: string where
  "flagPrefix = ''--extended-resources=''"

text \<open>\<open>for k, v := range m { resources = append(resources, fmt.Sprintf("%s=%s", k, v.String())) }\<close>\<close>

fun resourcePairs :: "'w lib \<Rightarrow> string list \<Rightarrow> (string, quantity) fmap \<Rightarrow> string list" where
  "resourcePairs L [] m = []"
| "resourcePairs L (k # ks) m =
     (case fmlookup m k of
        None \<Rightarrow> resourcePairs L ks m
      | Some v \<Rightarrow> (k @ ''='' @ QuantityString L v) # resourcePairs L ks m)"

definition getKubemarkExtendedResourcesFlag ::
  "'w lib \<Rightarrow> KubemarkExtendedResourceList \<Rightarrow> string" where
  "getKubemarkExtendedResourcesFlag L extendedResources =
     (case extendedResources of
        None \<Rightarrow> []
      | Some m \<Rightarrow>
          let resources = resourcePairs L (rangeResources L m) m
          in ''--extended-resources='' @ stringsJoin resources '','')"

section \<open>mapFromExtendedResourceFlags\<close>

fun parsePairs :: "string \<Rightarrow> string list \<Rightarrow> (string, string) fmap \<Rightarrow> go_error + (string, string) fmap"
where
  "parsePairs flags [] acc = Inr acc"
| "parsePairs flags (r # rs) acc =
     (let rsplit = stringsSplit r CHR ''='' in
      if length rsplit \<noteq> 2
      then Inl (ErrorsNew (''unable to split resource pair `'' @ r @ ''` in `'' @ flags @ ''`''))
      else parsePairs flags rs (fmupd (rsplit ! 0) (rsplit ! 1) acc))"

definition mapFromExtendedResourceFlags :: "string \<Rightarrow> go_error + (string, string) gomap" where
  "mapFromExtendedResourceFlags flags =
     (if flags = [] then Inr None
      else if \<not> stringsHasPrefix flags flagPrefix
      then Inl (ErrorsNew (''extended resources flag does not contain proper prefix `'' @
                           flagPrefix @ ''`, `'' @ flags @ ''`''))
      else map_sum id Some
             (parsePairs flags (stringsSplit (drop (length flagPrefix) flags) CHR '','') fmempty))"

section \<open>Printing and parsing\<close>

text \<open>A text the flag can carry: neither delimiter occurs in it.\<close>

definition flagClean :: "string \<Rightarrow> bool" where
  "flagClean s \<longleftrightarrow> CHR '','' \<notin> set s \<and> CHR ''='' \<notin> set s"

definition flagSafe :: "'w lib \<Rightarrow> (string, quantity) fmap \<Rightarrow> bool" where
  "flagSafe L m \<longleftrightarrow> fmpred (\<lambda>k v. flagClean k \<and> flagClean (QuantityString L v)) m"

lemma resourcePairs_range:
  "set ks \<subseteq> fmdom' m \<Longrightarrow>
   resourcePairs L ks m = map (\<lambda>k. k @ ''='' @ QuantityString L (the (fmlookup m k))) ks"
  by (induction ks) (auto simp: fmlookup_dom'_iff split: option.split)

lemma pair_splits:
  "flagClean k \<Longrightarrow> flagClean v \<Longrightarrow> stringsSplit (k @ ''='' @ v) CHR ''='' = [k, v]"
  using equals.split_join [of "[k, v]"] by (simp add: flagClean_def)

lemma parsePairs_pairs:
  "\<forall>k \<in> set ks. flagClean k \<and> flagClean (g k) \<Longrightarrow>
   parsePairs flags (map (\<lambda>k. k @ ''='' @ g k) ks) acc =
     Inr (foldl (\<lambda>m k. fmupd k (g k) m) acc ks)"
  by (induction ks arbitrary: acc) (simp_all add: pair_splits [simplified] Let_def)

lemma fmlookup_foldl_upd:
  "fmlookup (foldl (\<lambda>m k. fmupd k (g k) m) acc ks) x =
     (if x \<in> set ks then Some (g x) else fmlookup acc x)"
  by (induction ks arbitrary: acc) auto

lemma flag_roundtrip_nonempty:
  assumes "range_laws L" and "flagSafe L m" and "m \<noteq> fmempty"
  shows "mapFromExtendedResourceFlags (getKubemarkExtendedResourcesFlag L (Some m)) =
           Inr (Some (fmmap (QuantityString L) m))"
proof -
  define ks where "ks = rangeResources L m"
  define g where "g k = QuantityString L (the (fmlookup m k))" for k
  have ord: "range_order m ks"
    using assms(1) by (simp add: ks_def range_laws_def)
  then have dom: "set ks = fmdom' m" by (rule range_order_set)
  have clean: "\<forall>k \<in> set ks. flagClean k \<and> flagClean (g k)"
    using assms(2) by (auto simp: flagSafe_def g_def dom fmlookup_dom'_iff fmpred_iff)
  have "ks \<noteq> []"
    using assms(3) ord by (metis (no_types, lifting) dom fmap_ext fmempty_lookup fmlookup_dom'_iff
        list.set(1) empty_iff option.exhaust)
  have pairs: "resourcePairs L ks m = map (\<lambda>k. k @ ''='' @ g k) ks"
    using resourcePairs_range [of ks m L] by (simp add: dom g_def)
  have split: "stringsSplit (stringsJoin (map (\<lambda>k. k @ ''='' @ g k) ks) '','') CHR '','' =
      map (\<lambda>k. k @ ''='' @ g k) ks"
    using clean \<open>ks \<noteq> []\<close>
    by (intro comma.split_join) (auto simp: list_all_iff flagClean_def)
  have parsed: "foldl (\<lambda>m k. fmupd k (g k) m) fmempty ks = fmmap (QuantityString L) m"
    by (rule fmap_ext)
      (auto simp: fmlookup_foldl_upd dom g_def fmlookup_dom'_iff split: option.splits)
  have "getKubemarkExtendedResourcesFlag L (Some m) =
      flagPrefix @ stringsJoin (map (\<lambda>k. k @ ''='' @ g k) ks) '',''"
    by (simp add: getKubemarkExtendedResourcesFlag_def flagPrefix_def Let_def pairs
        flip: ks_def)
  moreover have "flagPrefix \<noteq> []" by (simp add: flagPrefix_def)
  ultimately show ?thesis
    using split parsePairs_pairs [OF clean, of _ fmempty] parsed
    by (simp add: mapFromExtendedResourceFlags_def)
qed

lemma parsePairs_ok_iff:
  "(\<exists>m. parsePairs flags rs acc = Inr m) \<longleftrightarrow> (\<forall>r \<in> set rs. count_list r CHR ''='' = 1)"
  by (induction rs arbitrary: acc) (auto simp: length_stringsSplit Let_def)

end
