(* ===== verification/Kubemark_Cluster.thy ===== *)
theory Kubemark_Cluster
  imports Kube_Api Go_Strings
begin

text \<open>
  \<open>controllers/kubemarkcluster.go\<close>: where the hollow pods run. The Go interface
  \<open>KubemarkCluster\<close> has one method; a value of it is here that method, and its contract is the
  locale \<open>kubemark_cluster\<close>. The struct \<open>kubemarkCluster\<close> implements it: without a secret
  reference it gives the management cluster's own client, with one it builds a client from the
  kubeconfig stored in that secret.
\<close>

section \<open>The interface\<close>

text \<open>The three results of the Go method: a client or nil, a namespace, an error or nil.\<close>

type_synonym cluster_result = "kclient option \<times> string \<times> go_error option"

type_synonym 'w KubemarkCluster =
  "ObjectReference option \<Rightarrow> string \<Rightarrow> 'w io \<Rightarrow> cluster_result \<times> 'w io"

locale kubemark_cluster =
  fixes generate :: "'w KubemarkCluster"
  assumes generate_reads: "generate ref ns s = (res, s') \<Longrightarrow> appends isRead s s'"
    and generate_error: "generate ref ns s = ((c, n, Some err), s') \<Longrightarrow> c = None \<and> n = []"
    and generate_client: "generate ref ns s = ((c, n, None), s') \<Longrightarrow> c \<noteq> None"
begin

text \<open>What a caller may conclude from any call of the method.\<close>

lemma generate_wpcI:
  assumes "\<And>err evs s'. trace s' = trace s @ evs \<Longrightarrow> list_all isRead evs \<Longrightarrow>
             Q (None, [], Some err) s'"
    and "\<And>c n evs s'. trace s' = trace s @ evs \<Longrightarrow> list_all isRead evs \<Longrightarrow>
             Q (Some c, n, None) s'"
  shows "wpc (generate ref ns) Q s"
proof (rule wpcI)
  fix r s' assume eq: "generate ref ns s = (r, s')"
  obtain c n e where r: "r = (c, n, e)" by (cases r)
  obtain evs where evs: "trace s' = trace s @ evs" "list_all isRead evs"
    using generate_reads [OF eq] by (rule appendsE)
  show "Q r s'"
  proof (cases e)
    case None
    with r have "generate ref ns s = ((c, n, None), s')" using eq by simp
    then have "c \<noteq> None" by (rule generate_client)
    then show ?thesis using assms(2) [OF evs] r None by auto
  next
    case (Some err)
    with r have "generate ref ns s = ((c, n, Some err), s')" using eq by simp
    then have "c = None \<and> n = []" by (rule generate_error)
    then show ?thesis using assms(1) [OF evs] r Some by simp
  qed
qed

lemma generate_nil_client: "generate ref ns s = ((None, n, e), s') \<Longrightarrow> e \<noteq> None"
  using generate_client by (cases e) blast+

end

section \<open>The implementation\<close>

record kubemarkCluster =
  kc_Client :: kclient

definition GenerateKubemarkClusterClient :: "'w lib \<Rightarrow> kubemarkCluster \<Rightarrow> 'w KubemarkCluster" where
  "GenerateKubemarkClusterClient L w kubemarkClusterSecretRef ownerNamespace s =
     (case kubemarkClusterSecretRef of
        None \<Rightarrow> ((Some (kc_Client w), ownerNamespace, None), s)
      | Some ref \<Rightarrow>
        (case getSecret L (kc_Client w)
                \<lparr>nn_Namespace = ref_Namespace ref, nn_Name = ref_Name ref\<rparr> s of
           (Inl err, s1) \<Rightarrow>
             ((None, [], Some (ErrorsWrap err
                (''failed to fetch kubemark cluster kubeconfig secret '' @
                 ref_Namespace ref @ ''/'' @ ref_Name ref))), s1)
         | (Inr kubeconfigSecret, s1) \<Rightarrow>
           (case gomap_get (Data kubeconfigSecret) ''kubeconfig'' of
              None \<Rightarrow>
                ((None, [], Some (ErrorsNew
                  (''failed to retrieve kubemark cluster kubeconfig from secret: '' @
                   [CHR 0x27] @ ''kubeconfig'' @ [CHR 0x27] @ '' key is missing''))), s1)
            | Some kubeConfig \<Rightarrow>
              (let namespace =
                     (case gomap_get (Data kubeconfigSecret) ''namespace'' of
                        None \<Rightarrow> ''default''
                      | Some namespaceBytes \<Rightarrow> stringsTrimSpace namespaceBytes)
               in (case RESTConfigFromKubeConfig L kubeConfig of
                     Inl err \<Rightarrow>
                       ((None, [], Some (ErrorsWrap err ''failed to create REST config'')), s1)
                   | Inr restConfig \<Rightarrow>
                     (case newClient L restConfig (kc_Client w) s1 of
                        (Inl err, s2) \<Rightarrow>
                          ((None, [], Some (ErrorsWrap err
                             ''failed to create kubemark cluster client'')), s2)
                      | (Inr client, s2) \<Rightarrow> ((Some client, namespace, None), s2)))))))"

definition NewKubemarkCluster :: "'w lib \<Rightarrow> kclient \<Rightarrow> 'w KubemarkCluster" where
  "NewKubemarkCluster L client = GenerateKubemarkClusterClient L \<lparr>kc_Client = client\<rparr>"

section \<open>Its behaviour\<close>

lemma generate_without_ref:
  "GenerateKubemarkClusterClient L w None ns s = ((Some (kc_Client w), ns, None), s)"
  by (simp add: GenerateKubemarkClusterClient_def)

lemma generate_appends:
  "GenerateKubemarkClusterClient L w ref ns s = (res, s') \<Longrightarrow> appends isRead s s'"
  by (auto simp: GenerateKubemarkClusterClient_def Let_def getSecret_def newClient_def
      invoke_def appends_def split: option.splits prod.splits sum.splits)

lemma generate_result:
  assumes "GenerateKubemarkClusterClient L w ref ns s = ((c, n, e), s')"
  shows "e = None \<Longrightarrow> c \<noteq> None" and "e \<noteq> None \<Longrightarrow> c = None \<and> n = []"
  using assms
  by (auto simp: GenerateKubemarkClusterClient_def Let_def
      split: option.splits prod.splits sum.splits)

interpretation kc: kubemark_cluster "NewKubemarkCluster L client" for L :: "'w lib" and client
proof
  fix ref ns s res s'
  assume "NewKubemarkCluster L client ref ns s = (res, s')"
  then show "appends isRead s s'"
    unfolding NewKubemarkCluster_def by (rule generate_appends)
next
  fix ref ns s c n err s'
  assume "NewKubemarkCluster L client ref ns s = ((c, n, Some err), s')"
  then show "c = None \<and> n = []"
    unfolding NewKubemarkCluster_def using generate_result(2) by blast
next
  fix ref ns s c n s'
  assume "NewKubemarkCluster L client ref ns s = ((c, n, None), s')"
  then show "c \<noteq> None"
    unfolding NewKubemarkCluster_def using generate_result(1) by blast
qed

text \<open>
  With a reference, the client returned is the one built from the kubeconfig of that secret,
  and the namespace is the secret's, trimmed, or \<open>default\<close>.
\<close>

lemma generate_with_ref:
  assumes "GenerateKubemarkClusterClient L w (Some ref) ns s = ((Some c, n, e), s')"
  obtains sec w1 kubeConfig cfg where
    "Get_Secret L (kc_Client w) \<lparr>nn_Namespace = ref_Namespace ref, nn_Name = ref_Name ref\<rparr>
       (world s) = (Inr sec, w1)"
    and "gomap_get (Data sec) ''kubeconfig'' = Some kubeConfig"
    and "RESTConfigFromKubeConfig L kubeConfig = Inr cfg"
    and "Client_New L cfg (kc_Client w) w1 = (Inr c, world s')"
    and "n = (case gomap_get (Data sec) ''namespace'' of
                None \<Rightarrow> ''default'' | Some b \<Rightarrow> stringsTrimSpace b)"
    and "e = None"
  using assms
  by (auto simp: GenerateKubemarkClusterClient_def Let_def getSecret_def newClient_def
      invoke_def split: option.splits prod.splits sum.splits)

end
