(* ===== verification/Hollow_Pod.thy ===== *)
theory Hollow_Pod
  imports Kube_Api
begin

text \<open>
  The pod of a hollow node, as \<open>Reconcile\<close> of \<open>controllers/kubemarkmachine_controller.go\<close>
  builds it: the literal of lines 364 to 411 and the loop over the extra mounts that follows.
  The inner loop writes the slice of containers while it ranges over it; it is modelled with the
  index and the copy of the element the Go loop has, and shown to be a plain append.
\<close>

definition kubemarkName :: string where
  "kubemarkName = ''hollow-node''"

text \<open>\<open>None\<close> is the panic of \<open>resource.MustParse\<close> on one of the two requests.\<close>

definition basePod ::
  "'w lib \<Rightarrow> string \<Rightarrow> string \<Rightarrow> string \<Rightarrow> string \<Rightarrow> string list \<Rightarrow> string \<Rightarrow> Pod option" where
  "basePod L kubemarkImage name namespace version kubemarkArgs secretName =
     (case (MustParse L ''40m'', MustParse L ''10240Ki'') of
        (Some cpu, Some mem) \<Rightarrow> Some
          \<lparr>pod_Name = name,
           pod_Labels = Some (fmupd ''app'' kubemarkName fmempty),
           pod_Namespace = namespace,
           Containers =
             [\<lparr>container_Name = kubemarkName,
               Image = kubemarkImage @ '':'' @ version,
               Args = kubemarkArgs,
               Command = [''/kubemark''],
               Privileged = Some True,
               VolumeMounts = [\<lparr>MountPath = ''/kubeconfig'', vm_Name = ''kubeconfig''\<rparr>],
               Requests = Some (fmupd ''memory'' mem (fmupd ''cpu'' cpu fmempty))\<rparr>],
           Tolerations =
             [\<lparr>Key = ''node-role.kubernetes.io/master'', Effect = ''NoSchedule''\<rparr>],
           Volumes = [\<lparr>volume_Name = ''kubeconfig'', Source = SecretVolume secretName\<rparr>]\<rparr>
      | _ \<Rightarrow> None)"

text \<open>
  \<open>for i, c := range pod.Spec.Containers { pod.Spec.Containers[i].VolumeMounts = append(c.VolumeMounts, m) }\<close>:
  \<open>range\<close> evaluates the slice once, the indices are those of its length, and \<open>c\<close> is a copy of
  the element at \<open>i\<close> taken when the iteration starts.
\<close>

fun mountContainers :: "nat list \<Rightarrow> VolumeMount \<Rightarrow> Container list \<Rightarrow> Container list" where
  "mountContainers [] m cs = cs"
| "mountContainers (i # is) m cs =
     (let c = cs ! i
      in mountContainers is m (cs[i := (cs ! i)\<lparr>VolumeMounts := VolumeMounts c @ [m]\<rparr>]))"

definition addExtraMount :: "Mount \<Rightarrow> Pod \<Rightarrow> Pod" where
  "addExtraMount v pod =
     (let pod1 = pod\<lparr>Containers :=
            mountContainers [0..<length (Containers pod)]
              \<lparr>MountPath = ContainerPath v, vm_Name = mount_Name v\<rparr> (Containers pod)\<rparr>
      in pod1\<lparr>Volumes := Volumes pod1 @
            [\<lparr>volume_Name = mount_Name v, Source = HostPathVolume (HostPath v) (mount_Type v)\<rparr>]\<rparr>)"

fun addExtraMounts :: "Mount list \<Rightarrow> Pod \<Rightarrow> Pod" where
  "addExtraMounts [] pod = pod"
| "addExtraMounts (v # vs) pod = addExtraMounts vs (addExtraMount v pod)"

definition hollowPod ::
  "'w lib \<Rightarrow> string \<Rightarrow> KubemarkMachine \<Rightarrow> string \<Rightarrow> string \<Rightarrow> string list \<Rightarrow> string \<Rightarrow> Pod option" where
  "hollowPod L kubemarkImage km namespace version kubemarkArgs secretName =
     map_option (addExtraMounts (ExtraMounts (km_Spec km)))
       (basePod L kubemarkImage (Name (km_ObjectMeta km)) namespace version kubemarkArgs secretName)"

section \<open>The loops\<close>

definition mountOf :: "Mount \<Rightarrow> VolumeMount" where
  "mountOf v = \<lparr>MountPath = ContainerPath v, vm_Name = mount_Name v\<rparr>"

definition volumeOf :: "Mount \<Rightarrow> Volume" where
  "volumeOf v = \<lparr>volume_Name = mount_Name v, Source = HostPathVolume (HostPath v) (mount_Type v)\<rparr>"

definition mounted :: "VolumeMount list \<Rightarrow> Container \<Rightarrow> Container" where
  "mounted ms c = c\<lparr>VolumeMounts := VolumeMounts c @ ms\<rparr>"

lemma mounted_Nil [simp]: "mounted [] = id"
  by (simp add: mounted_def fun_eq_iff)

lemma mounted_append: "mounted ns (mounted ms c) = mounted (ms @ ns) c"
  by (simp add: mounted_def)

lemma mounted_selectors [simp]:
  "VolumeMounts (mounted ms c) = VolumeMounts c @ ms"
  "container_Name (mounted ms c) = container_Name c"
  "Image (mounted ms c) = Image c"
  "Args (mounted ms c) = Args c"
  by (simp_all add: mounted_def)

text \<open>The inner loop, started in the middle: the containers before the index are done.\<close>

lemma mountContainers_from:
  "i \<le> length cs \<Longrightarrow>
   mountContainers [i..<length cs] m cs = take i cs @ map (mounted [m]) (drop i cs)"
proof (induction "length cs - i" arbitrary: i cs)
  case 0
  then show ?case by simp
next
  case (Suc n)
  define cs1 where "cs1 = cs[i := mounted [m] (cs ! i)]"
  have i: "i < length cs" using Suc by simp
  have len: "length cs1 = length cs" by (simp add: cs1_def)
  have "mountContainers [i..<length cs] m cs = mountContainers [Suc i..<length cs] m cs1"
    using i by (simp add: upt_conv_Cons cs1_def mounted_def Let_def)
  also have "\<dots> = take (Suc i) cs1 @ map (mounted [m]) (drop (Suc i) cs1)"
    using Suc.hyps(1) [of cs1 "Suc i"] Suc.hyps(2) i len by simp
  also have "\<dots> = take i cs @ map (mounted [m]) (drop i cs)"
    using i by (simp add: cs1_def take_Suc_conv_app_nth Cons_nth_drop_Suc [symmetric])
  finally show ?case .
qed

lemma mountContainers_all:
  "mountContainers [0..<length cs] m cs = map (mounted [m]) cs"
  using mountContainers_from [of 0 cs m] by simp

lemma addExtraMount_eq:
  "addExtraMount v pod =
     pod\<lparr>Containers := map (mounted [mountOf v]) (Containers pod),
         Volumes := Volumes pod @ [volumeOf v]\<rparr>"
  by (simp add: addExtraMount_def mountContainers_all mountOf_def volumeOf_def Let_def)

lemma addExtraMounts_parts:
  "Containers (addExtraMounts vs pod) = map (mounted (map mountOf vs)) (Containers pod)"
  "Volumes (addExtraMounts vs pod) = Volumes pod @ map volumeOf vs"
  "pod_Name (addExtraMounts vs pod) = pod_Name pod"
  "pod_Namespace (addExtraMounts vs pod) = pod_Namespace pod"
  "pod_Labels (addExtraMounts vs pod) = pod_Labels pod"
  "Tolerations (addExtraMounts vs pod) = Tolerations pod"
  by (induction vs arbitrary: pod)
    (simp_all add: addExtraMount_eq comp_def mounted_append)

lemma addExtraMounts_eq:
  "addExtraMounts vs pod = pod
     \<lparr>Containers := map (mounted (map mountOf vs)) (Containers pod),
      Volumes := Volumes pod @ map volumeOf vs\<rparr>"
  by (rule Pod.equality) (simp_all add: addExtraMounts_parts)

section \<open>What the pod is\<close>

lemma basePod_parts:
  assumes "basePod L img name ns ver args sec = Some p"
  shows "pod_Name p = name" and "pod_Namespace p = ns"
    and "Volumes p = [\<lparr>volume_Name = ''kubeconfig'', Source = SecretVolume sec\<rparr>]"
    and "\<exists>c. Containers p = [c] \<and> Image c = img @ '':'' @ ver \<and> Args c = args \<and>
             VolumeMounts c = [\<lparr>MountPath = ''/kubeconfig'', vm_Name = ''kubeconfig''\<rparr>]"
  using assms by (auto simp: basePod_def split: option.splits)

lemma hollowPod_parts:
  assumes "hollowPod L img km ns ver args sec = Some p"
  shows "pod_Name p = Name (km_ObjectMeta km)" and "pod_Namespace p = ns"
    and "Volumes p = \<lparr>volume_Name = ''kubeconfig'', Source = SecretVolume sec\<rparr>
           # map volumeOf (ExtraMounts (km_Spec km))"
    and "\<exists>c. Containers p = [c] \<and> Image c = img @ '':'' @ ver \<and> Args c = args \<and>
             VolumeMounts c = \<lparr>MountPath = ''/kubeconfig'', vm_Name = ''kubeconfig''\<rparr>
               # map mountOf (ExtraMounts (km_Spec km))"
proof -
  obtain p0 where p0: "basePod L img (Name (km_ObjectMeta km)) ns ver args sec = Some p0"
    and p: "p = addExtraMounts (ExtraMounts (km_Spec km)) p0"
    using assms by (auto simp: hollowPod_def)
  show "pod_Name p = Name (km_ObjectMeta km)" and "pod_Namespace p = ns"
    and "Volumes p = \<lparr>volume_Name = ''kubeconfig'', Source = SecretVolume sec\<rparr>
           # map volumeOf (ExtraMounts (km_Spec km))"
    using basePod_parts [OF p0] by (simp_all add: p addExtraMounts_parts)
  show "\<exists>c. Containers p = [c] \<and> Image c = img @ '':'' @ ver \<and> Args c = args \<and>
      VolumeMounts c = \<lparr>MountPath = ''/kubeconfig'', vm_Name = ''kubeconfig''\<rparr>
        # map mountOf (ExtraMounts (km_Spec km))"
    using basePod_parts(4) [OF p0] by (auto simp: p addExtraMounts_parts)
qed

end
