(* ===== verification/Kubelet_Credentials.thy ===== *)
theory Kubelet_Credentials
  imports Kube_Api
begin

text \<open>
  The files a hollow kubelet starts with, built by \<open>Reconcile\<close>, \<open>generateCertificateKubeconfig\<close>
  and \<open>getRemoteCluster\<close> of \<open>controllers/kubemarkmachine_controller.go\<close>: the client certificate
  template, the PEM file with the certificate and its key, and the kubeconfig that points at it.
\<close>

definition MachineControllerName :: string where
  "MachineControllerName = ''kubemarkmachine-controller''"

section \<open>The kubelet certificate\<close>

definition kubeletCertificate :: "string \<Rightarrow> int \<Rightarrow> Certificate" where
  "kubeletCertificate name now =
     \<lparr>SerialNumber = 0,
      CommonName = ''system:node:'' @ name,
      Organization = [''system:nodes''],
      NotBefore = time_Add now (time_Minute * -5),
      NotAfter = time_Add now (time_Hour * 24 * 365 * 10),
      KeyUsage = or KeyUsageDigitalSignature KeyUsageKeyEncipherment,
      ExtKeyUsage = [ExtKeyUsageClientAuth]\<rparr>"

lemma certificate_durations:
  "sint (time_Minute * -5) = -300000000000"
  "sint (time_Hour * 24 * 365 * 10) = 315360000000000000"
  by (simp_all add: duration_defs)

lemma kubeletCertificate_inject:
  "CommonName (kubeletCertificate a t) = CommonName (kubeletCertificate b u) \<longleftrightarrow> a = b"
  by (simp add: kubeletCertificate_def)

section \<open>The kubeconfig\<close>

text \<open>The value that is encoded; the encoder of client-go is a parameter.\<close>

definition kubeconfigData :: "RestConfig \<Rightarrow> string \<Rightarrow> KubeConfig" where
  "kubeconfigData bootstrapClientConfig pemPath =
     (let caFile = CAFile bootstrapClientConfig;
          caData = (if caFile = [] then CAData bootstrapClientConfig else [])
      in \<lparr>Clusters = Some (fmupd ''default-cluster''
             \<lparr>Server = Host bootstrapClientConfig,
              InsecureSkipTLSVerify = Insecure bootstrapClientConfig,
              CertificateAuthority = caFile,
              CertificateAuthorityData = caData\<rparr> fmempty),
          AuthInfos = Some (fmupd ''default-auth''
             \<lparr>ClientCertificate = pemPath, ClientKey = pemPath\<rparr> fmempty),
          Contexts = Some (fmupd ''default-context''
             \<lparr>ctx_Cluster = ''default-cluster'', ctx_AuthInfo = ''default-auth'',
              ctx_Namespace = ''default''\<rparr> fmempty),
          CurrentContext = ''default-context''\<rparr>)"

definition generateCertificateKubeconfig :: "'w lib \<Rightarrow> RestConfig \<Rightarrow> string \<Rightarrow> go_error + bytes" where
  "generateCertificateKubeconfig L bootstrapClientConfig pemPath =
     Encode_KubeConfig L (kubeconfigData bootstrapClientConfig pemPath)"

text \<open>
  What a client makes of a kubeconfig: the cluster and the user its current context names, if
  all three are there.
\<close>

definition resolve :: "KubeConfig \<Rightarrow> (KubeCluster \<times> AuthInfo) option" where
  "resolve kc =
     (case gomap_get (Contexts kc) (CurrentContext kc) of
        None \<Rightarrow> None
      | Some ctx \<Rightarrow>
        (case (gomap_get (Clusters kc) (ctx_Cluster ctx), gomap_get (AuthInfos kc) (ctx_AuthInfo ctx)) of
           (Some cl, Some au) \<Rightarrow> Some (cl, au)
         | _ \<Rightarrow> None))"

section \<open>The remote cluster's REST config\<close>

definition getRemoteCluster :: "'w lib \<Rightarrow> kclient \<Rightarrow> Cluster \<Rightarrow> ('w io, RestConfig) call" where
  "getRemoteCluster L mgmtClient cluster s =
     (case remoteRESTConfig L MachineControllerName mgmtClient
             \<lparr>nn_Namespace = cluster_Namespace cluster, nn_Name = cluster_Name cluster\<rparr> s of
        (Inl err, s1) \<Rightarrow> (Inl err, s1)
      | (Inr restConfig, s1) \<Rightarrow> (Inr (restConfig\<lparr>Timeout := 30 * time_Second\<rparr>), s1))"

lemma wpc_getRemoteCluster [wp_simps]:
  "wpc (getRemoteCluster L c cl) Q s =
     wpc (remoteRESTConfig L MachineControllerName c
            \<lparr>nn_Namespace = cluster_Namespace cl, nn_Name = cluster_Name cl\<rparr>)
       (\<lambda>r s1. Q (map_sum id (\<lambda>cfg. cfg\<lparr>Timeout := 30 * time_Second\<rparr>) r) s1) s"
  by (simp add: wpc_def getRemoteCluster_def split: prod.split sum.split)

end
