(* ===== verification/Machine_Controller.thy ===== *)
theory Machine_Controller
  imports Extended_Resources Kubemark_Cluster Hollow_Pod Kubelet_Credentials
begin

text \<open>
  \<open>KubemarkMachineReconciler.Reconcile\<close> of \<open>controllers/kubemarkmachine_controller.go\<close>, in the
  order of the source: fetching and the finalizer (\<open>Reconcile\<close>), the kubemark cluster and the
  two early exits (\<open>reconcileOwned\<close>), deletion (\<open>reconcileDelete\<close>), and provisioning
  (\<open>reconcileNormal\<close> with \<open>issueCredentials\<close>, \<open>selectArgs\<close> and \<open>launch\<close>). The two objects the Go
  code mutates through pointers, and that the deferred patches read when the function is left,
  are fields of the state \<open>frame\<close>. Logging is not modelled.
\<close>

section \<open>The reconciler and the state of one call\<close>

record 'w KubemarkMachineReconciler =
  kmr_Client :: kclient
  KubemarkCluster :: "'w KubemarkCluster"
  KubemarkImage :: string
  kmr_WatchFilterValue :: string

record 'w frame =
  api :: "'w io"
  kubemarkMachine :: KubemarkMachine
  machine :: Machine

text \<open>A call to the outside, from a body that has a frame.\<close>

definition onApi :: "('w io \<Rightarrow> 'a \<times> 'w io) \<Rightarrow> 'w frame \<Rightarrow> 'a \<times> 'w frame" where
  "onApi m f = (case m (api f) of (x, s) \<Rightarrow> (x, f\<lparr>api := s\<rparr>))"

text \<open>Reading a variable of the frame.\<close>

definition reading :: "('s \<Rightarrow> 'a) \<Rightarrow> ('a \<Rightarrow> 's body) \<Rightarrow> 's body" where
  "reading get k s = k (get s) s"

text \<open>The rest of a body, run with the two objects in scope.\<close>

definition inFrame :: "KubemarkMachine \<Rightarrow> Machine \<Rightarrow> 'w frame body \<Rightarrow> 'w io body" where
  "inFrame km m b s =
     (case b \<lparr>api = s, kubemarkMachine = km, machine = m\<rparr> of (out, f) \<Rightarrow> (out, api f))"

lemmas frame_defs = onApi_def reading_def inFrame_def

section \<open>Updates of the KubemarkMachine\<close>

definition setFinalizers :: "string list \<Rightarrow> KubemarkMachine \<Rightarrow> KubemarkMachine" where
  "setFinalizers fs km = km\<lparr>km_ObjectMeta := (km_ObjectMeta km)\<lparr>Finalizers := fs\<rparr>\<rparr>"

definition addMachineFinalizer :: "'w lib \<Rightarrow> KubemarkMachine \<Rightarrow> KubemarkMachine" where
  "addMachineFinalizer L km =
     setFinalizers (AddFinalizer L (Finalizers (km_ObjectMeta km)) MachineFinalizer) km"

definition removeMachineFinalizer :: "'w lib \<Rightarrow> KubemarkMachine \<Rightarrow> KubemarkMachine" where
  "removeMachineFinalizer L km =
     setFinalizers (RemoveFinalizer L (Finalizers (km_ObjectMeta km)) MachineFinalizer) km"

definition providerIDOf :: "string \<Rightarrow> string" where
  "providerIDOf name = ''kubemark://'' @ name"

definition markReady :: "KubemarkMachine \<Rightarrow> KubemarkMachine" where
  "markReady km =
     km\<lparr>km_Spec := (km_Spec km)\<lparr>ProviderID := Some (providerIDOf (Name (km_ObjectMeta km)))\<rparr>,
        km_Status := (km_Status km)\<lparr>Ready := True\<rparr>\<rparr>"

section \<open>Deletion\<close>

definition podKey :: "KubemarkMachine \<Rightarrow> string \<Rightarrow> NamespacedName" where
  "podKey km namespace = \<lparr>nn_Namespace = namespace, nn_Name = Name (km_ObjectMeta km)\<rparr>"

definition reconcileDelete :: "'w lib \<Rightarrow> kclient \<Rightarrow> string \<Rightarrow> 'w frame body" where
  "reconcileDelete L kubemarkClusterClient kubemarkClusterNamespace =
     reading kubemarkMachine (\<lambda>km.
     attemptUnless (IsNotFound L)
       (onApi (deletePod L kubemarkClusterClient (podKey km kubemarkClusterNamespace))) (
     attemptUnless (IsNotFound L)
       (onApi (deleteSecret L kubemarkClusterClient (podKey km kubemarkClusterNamespace))) (
     assign (\<lambda>f. f\<lparr>kubemarkMachine := removeMachineFinalizer L (kubemarkMachine f)\<rparr>) (
     ret emptyResult None))))"

section \<open>Provisioning\<close>

text \<open>Indexing the \<open>Data\<close> of a secret: a missing key, or a nil map, gives no bytes.\<close>

definition dataOf :: "Secret \<Rightarrow> string \<Rightarrow> bytes" where
  "dataOf s k = (case gomap_get (Data s) k of None \<Rightarrow> [] | Some b \<Rightarrow> b)"

text \<open>
  From the cluster's CA to the secret with the kubelet's files. \<open>bytes.Buffer.Write\<close> never
  returns an error, so the check after it has no branch here.
\<close>

definition issueCredentials ::
  "'w lib \<Rightarrow> kclient \<Rightarrow> Cluster \<Rightarrow> RestConfig \<Rightarrow> kclient \<Rightarrow> string \<Rightarrow> (Secret \<Rightarrow> 'w frame body) \<Rightarrow>
   'w frame body" where
  "issueCredentials L mgmtClient cluster restConfig kubemarkClusterClient kubemarkClusterNamespace k =
     reading kubemarkMachine (\<lambda>km.
     attempt (onApi (getSecret L mgmtClient
       \<lparr>nn_Namespace = cluster_Namespace cluster,
        nn_Name = SecretNameOf L (cluster_Name cluster) (ClusterCA L)\<rparr>)) (\<lambda>caSecret.
     attempt (onApi (effect (GenerateKey L))) (\<lambda>privateKey.
     attempt (pureCall (MarshalECPrivateKey L privateKey)) (\<lambda>der.
     let keyPEM = Pem_EncodeToMemory L (ECPrivateKeyBlockType L) der in
     attempt (pureCall (DecodeCertPEM L (dataOf caSecret (TLSCrtDataName L)))) (\<lambda>caCert.
     attempt (pureCall (DecodePrivateKeyPEM L (dataOf caSecret (TLSKeyDataName L)))) (\<lambda>caKey.
     perform (onApi (effect (Now L))) (\<lambda>now.
     attempt (onApi (effect (CreateCertificate L
       (kubeletCertificate (Name (km_ObjectMeta km)) now) caCert (PublicKey L privateKey) caKey)))
       (\<lambda>certBytes.
     attempt (pureCall (generateCertificateKubeconfig L restConfig ''/kubeconfig/cert.pem''))
       (\<lambda>kubeconfig.
     attempt (pureCall (Pem_Encode L (CertificateBlockType L) certBytes)) (\<lambda>certPEM.
     let stackedCert = certPEM @ keyPEM;
         newSecret =
           \<lparr>secret_Name = Name (km_ObjectMeta km),
            secret_Namespace = kubemarkClusterNamespace,
            Data = Some (fmupd ''cert.pem'' stackedCert (fmupd ''kubeconfig'' kubeconfig fmempty))\<rparr>
     in attemptUnless (IsAlreadyExists L) (onApi (createSecret L kubemarkClusterClient newSecret))
          (k newSecret)))))))))))"

text \<open>The version check and the arguments of the kubemark process.\<close>

definition selectArgs ::
  "'w lib \<Rightarrow> (string \<Rightarrow> string list \<Rightarrow> 'w frame body) \<Rightarrow> 'w frame body" where
  "selectArgs L k =
     reading kubemarkMachine (\<lambda>km. reading machine (\<lambda>m.
     case Version m of
       None \<Rightarrow> ret emptyResult (Some (ErrorsNew ''Machine has no spec.version''))
     | Some version \<Rightarrow>
       let kubemarkArgs = [''--v=3'', ''--morph=kubelet'', ''--name='' @ Name (km_ObjectMeta km)];
           options = KubemarkOptions (km_Spec km) in
       attempt (pureCall (NewConstraint L ''>= 1.22.0'')) (\<lambda>c.
       attempt (pureCall (NewVersion L version)) (\<lambda>v.
       if Check L c v
       then orPanic ''resource.MustParse'' (getKubemarkExtendedResources L options)
              (\<lambda>extendedResources.
                 k version (kubemarkArgs @ [getKubemarkExtendedResourcesFlag L extendedResources]))
       else returnIf (ExtendedResources options \<noteq> None) emptyResult
              (Some (ErrorsNew
                 ''Kubernetes version is too low to support extended resources, must be >=1.22.0''))
              (k version kubemarkArgs)))))"

text \<open>Creating the pod, and the two objects afterwards.\<close>

definition launch ::
  "'w lib \<Rightarrow> string \<Rightarrow> kclient \<Rightarrow> string \<Rightarrow> Secret \<Rightarrow> string \<Rightarrow> string list \<Rightarrow> 'w frame body" where
  "launch L img kubemarkClusterClient kubemarkClusterNamespace newSecret version kubemarkArgs =
     reading kubemarkMachine (\<lambda>km.
     orPanic ''resource.MustParse''
       (hollowPod L img km kubemarkClusterNamespace version kubemarkArgs (secret_Name newSecret))
       (\<lambda>pod.
     attemptUnless (IsAlreadyExists L) (onApi (createPod L kubemarkClusterClient pod)) (
     assign (\<lambda>f. f\<lparr>machine := (machine f)\<lparr>machine_ProviderID :=
                       Some (providerIDOf (Name (km_ObjectMeta km)))\<rparr>,
                    kubemarkMachine := markReady (kubemarkMachine f)\<rparr>) (
     ret emptyResult None))))"

text \<open>The deferred patches: their errors are logged and dropped.\<close>

definition deferredPatchMachine :: "'w lib \<Rightarrow> kclient \<Rightarrow> Machine \<Rightarrow> 'w frame \<Rightarrow> 'w frame" where
  "deferredPatchMachine L c before f = snd (onApi (patchMachine L c before (machine f)) f)"

definition deferredPatchKubemarkMachine ::
  "'w lib \<Rightarrow> kclient \<Rightarrow> KubemarkMachine \<Rightarrow> 'w frame \<Rightarrow> 'w frame" where
  "deferredPatchKubemarkMachine L c before f =
     snd (onApi (patchKubemarkMachine L c before (kubemarkMachine f)) f)"

definition reconcileNormal ::
  "'w lib \<Rightarrow> 'w KubemarkMachineReconciler \<Rightarrow> Cluster \<Rightarrow> kclient \<Rightarrow> string \<Rightarrow> 'w frame body" where
  "reconcileNormal L r cluster kubemarkClusterClient kubemarkClusterNamespace =
     reading machine (\<lambda>m.
     attemptWith (pureCall (NewHelper_Machine L (kmr_Client r) m))
       (\<lambda>err. ret emptyResult (Some (Errorf ''failed to init patch helper: '' err))) (\<lambda>_.
     go_defer (deferredPatchMachine L (kmr_Client r) m) (
     attempt (onApi (getRemoteCluster L (kmr_Client r) cluster)) (\<lambda>restConfig.
     returnIf (\<not> InfrastructureReady cluster) emptyResult None (
     returnIf (DataSecretName m = None) emptyResult None (
     issueCredentials L (kmr_Client r) cluster restConfig
       kubemarkClusterClient kubemarkClusterNamespace (\<lambda>newSecret.
     selectArgs L (\<lambda>version kubemarkArgs.
     launch L (KubemarkImage r) kubemarkClusterClient kubemarkClusterNamespace
       newSecret version kubemarkArgs))))))))"

section \<open>Reconcile\<close>

definition requeueAfter10s :: ctrl_result where
  "requeueAfter10s = \<lparr>Requeue = False, RequeueAfter = 10 * time_Second\<rparr>"

text \<open>What follows the call of the interface method, whose three results are the argument.\<close>

definition reconcileOnCluster ::
  "'w lib \<Rightarrow> 'w KubemarkMachineReconciler \<Rightarrow> KubemarkMachine \<Rightarrow> Cluster \<Rightarrow> cluster_result \<Rightarrow>
   'w frame body" where
  "reconcileOnCluster L r km cluster results =
     (case results of (kubemarkClusterClient, kubemarkClusterNamespace, err) \<Rightarrow>
     (case err of
       Some e \<Rightarrow> ret requeueAfter10s (Some e)
     | None \<Rightarrow>
       (case kubemarkClusterClient of
          None \<Rightarrow> ret requeueAfter10s None
        | Some client \<Rightarrow>
            if \<not> IsZero L (DeletionTimestamp (km_ObjectMeta km))
            then reconcileDelete L client kubemarkClusterNamespace
            else returnIf (Ready (km_Status km)) emptyResult None
                   (reconcileNormal L r cluster client kubemarkClusterNamespace))))"

text \<open>Everything after the helper of the \<open>KubemarkMachine\<close> was made, which is \<open>before\<close>.\<close>

definition reconcileOwned ::
  "'w lib \<Rightarrow> 'w KubemarkMachineReconciler \<Rightarrow> KubemarkMachine \<Rightarrow> Cluster \<Rightarrow> 'w frame body" where
  "reconcileOwned L r before cluster =
     assign (\<lambda>f. f\<lparr>kubemarkMachine := addMachineFinalizer L (kubemarkMachine f)\<rparr>) (
     reading kubemarkMachine (\<lambda>km.
     attempt (onApi (patchKubemarkMachine L (kmr_Client r) before km)) (\<lambda>_.
     go_defer (deferredPatchKubemarkMachine L (kmr_Client r) before) (
     perform (onApi (KubemarkCluster r (KubemarkHollowPodClusterSecretRef (km_Spec km))
                (Namespace (km_ObjectMeta km))))
       (reconcileOnCluster L r km cluster)))))"

definition Reconcile ::
  "'w lib \<Rightarrow> 'w KubemarkMachineReconciler \<Rightarrow> NamespacedName \<Rightarrow> 'w io body" where
  "Reconcile L r req =
     attemptWith (getKubemarkMachine L (kmr_Client r) req)
       (\<lambda>err. ret emptyResult (if IsNotFound L err then None else Some err))
       (\<lambda>km.
     attempt (getOwnerMachine L (kmr_Client r) (km_ObjectMeta km)) (\<lambda>owner.
     case owner of
       None \<Rightarrow> ret emptyResult None
     | Some m \<Rightarrow>
       attempt (getClusterFromMetadata L (kmr_Client r) (machine_ObjectMeta m)) (\<lambda>cluster.
       attemptWith (pureCall (NewHelper_KubemarkMachine L (kmr_Client r) km))
         (\<lambda>err. ret emptyResult (Some (Errorf ''failed to init patch helper: '' err)))
         (\<lambda>_. inFrame km m (reconcileOwned L r km cluster)))))"

lemmas reconcile_defs =
  Reconcile_def reconcileOwned_def reconcileOnCluster_def reconcileNormal_def reconcileDelete_def issueCredentials_def
  selectArgs_def launch_def deferredPatchMachine_def deferredPatchKubemarkMachine_def

text \<open>The reconciler as \<open>main.go\<close> builds it from the manager's client and the flags.\<close>

definition newKubemarkMachineReconciler ::
  "'w lib \<Rightarrow> kclient \<Rightarrow> string \<Rightarrow> string \<Rightarrow> 'w KubemarkMachineReconciler" where
  "newKubemarkMachineReconciler L client kubemarkImage watchFilterValue =
     \<lparr>kmr_Client = client,
      KubemarkCluster = NewKubemarkCluster L client,
      KubemarkImage = kubemarkImage,
      kmr_WatchFilterValue = watchFilterValue\<rparr>"

section \<open>Rules for the frame\<close>

lemma wpc_onApi [wp_simps]: "wpc (onApi m) Q f = wpc m (\<lambda>r s. Q r (f\<lparr>api := s\<rparr>)) (api f)"
  by (simp add: wpc_def onApi_def split: prod.split)

lemma wp_reading [wp_simps]: "wp (reading get k) Q s = wp (k (get s)) Q s"
  by (simp add: wp_def reading_def)

lemma wp_inFrame [wp_simps]:
  "wp (inFrame km m b) Q s =
     wp b (\<lambda>out f. Q out (api f)) \<lparr>api = s, kubemarkMachine = km, machine = m\<rparr>"
  by (simp add: wp_def inFrame_def split: prod.split)

lemma keeps_reading [keeps_rules]: "(\<And>x. keeps I (k x)) \<Longrightarrow> keeps I (reading get k)"
  by (simp add: keeps_def reading_def)

text \<open>The same with what the invariant says of the variable that is read.\<close>

lemma keeps_reading_inv: "(\<And>s. I s \<Longrightarrow> keeps I (k (get s))) \<Longrightarrow> keeps I (reading get k)"
  by (simp add: keeps_def reading_def)

lemma exits_reading [exits_rules]: "(\<And>x. exits E (k x)) \<Longrightarrow> exits E (reading get k)"
  by (simp add: exits_def reading_def)

lemma exits_inFrame [exits_rules]: "exits E b \<Longrightarrow> exits E (inFrame km m b)"
  unfolding exits_def inFrame_def by (metis case_prod_beta fst_conv)

lemma keepsc_onApi [keeps_rules]: "keepsc I m \<Longrightarrow> keepsc (\<lambda>f. I (api f)) (onApi m)"
  by (auto simp: keepsc_def onApi_def split: prod.split)

lemma inFrame_snd:
  "snd (inFrame km m b s) = api (snd (b \<lparr>api = s, kubemarkMachine = km, machine = m\<rparr>))"
  by (simp add: inFrame_def split: prod.split)

lemma keeps_inFrame [keeps_rules]: "keeps (\<lambda>f. I (api f)) b \<Longrightarrow> keeps I (inFrame km m b)"
  by (simp add: keeps_def inFrame_snd)

lemma newKubemarkMachineReconciler_simps [simp]:
  "kmr_Client (newKubemarkMachineReconciler L c img wfv) = c"
  "KubemarkCluster (newKubemarkMachineReconciler L c img wfv) = NewKubemarkCluster L c"
  "KubemarkImage (newKubemarkMachineReconciler L c img wfv) = img"
  by (simp_all add: newKubemarkMachineReconciler_def)

lemma setFinalizers_selectors [simp]:
  "Finalizers (km_ObjectMeta (setFinalizers fs km)) = fs"
  "Name (km_ObjectMeta (setFinalizers fs km)) = Name (km_ObjectMeta km)"
  "Namespace (km_ObjectMeta (setFinalizers fs km)) = Namespace (km_ObjectMeta km)"
  "DeletionTimestamp (km_ObjectMeta (setFinalizers fs km)) = DeletionTimestamp (km_ObjectMeta km)"
  "km_Spec (setFinalizers fs km) = km_Spec km"
  "km_Status (setFinalizers fs km) = km_Status km"
  by (simp_all add: setFinalizers_def)

lemma markReady_selectors [simp]:
  "km_ObjectMeta (markReady km) = km_ObjectMeta km"
  "Ready (km_Status (markReady km))"
  "ProviderID (km_Spec (markReady km)) = Some (providerIDOf (Name (km_ObjectMeta km)))"
  "KubemarkOptions (km_Spec (markReady km)) = KubemarkOptions (km_Spec km)"
  "ExtraMounts (km_Spec (markReady km)) = ExtraMounts (km_Spec km)"
  "KubemarkHollowPodClusterSecretRef (km_Spec (markReady km)) =
     KubemarkHollowPodClusterSecretRef (km_Spec km)"
  "Conditions (km_Status (markReady km)) = Conditions (km_Status km)"
  by (simp_all add: markReady_def)

lemma finalizer_selectors [simp]:
  "Name (km_ObjectMeta (addMachineFinalizer L km)) = Name (km_ObjectMeta km)"
  "Namespace (km_ObjectMeta (addMachineFinalizer L km)) = Namespace (km_ObjectMeta km)"
  "DeletionTimestamp (km_ObjectMeta (addMachineFinalizer L km)) = DeletionTimestamp (km_ObjectMeta km)"
  "km_Spec (addMachineFinalizer L km) = km_Spec km"
  "km_Status (addMachineFinalizer L km) = km_Status km"
  "Name (km_ObjectMeta (removeMachineFinalizer L km)) = Name (km_ObjectMeta km)"
  "km_Spec (removeMachineFinalizer L km) = km_Spec km"
  "km_Status (removeMachineFinalizer L km) = km_Status km"
  by (simp_all add: addMachineFinalizer_def removeMachineFinalizer_def)

lemma providerIDOf_inject [simp]: "providerIDOf a = providerIDOf b \<longleftrightarrow> a = b"
  by (simp add: providerIDOf_def)

end
