(* ===== verification/Machine_Protocol.thy ===== *)
theory Machine_Protocol
  imports Machine_Controller
begin

text \<open>
  What the machine controller promises the API servers, as an abstract specification, and the
  proof that \<open>Reconcile\<close> implements it. The specification does not know the code's control flow:
  it says of each call which earlier calls of the same reconciliation must have been answered,
  and how.
\<close>

section \<open>The specification\<close>

definition hasFinalizer :: "KubemarkMachine \<Rightarrow> bool" where
  "hasFinalizer km \<longleftrightarrow> MachineFinalizer \<in> set (Finalizers (km_ObjectMeta km))"

text \<open>The finalizer of the machine of this name was stored.\<close>

fun storesFinalizer :: "string \<Rightarrow> event \<Rightarrow> bool" where
  "storesFinalizer name (PatchedKubemarkMachine c b a None) \<longleftrightarrow>
     Name (km_ObjectMeta a) = name \<and> hasFinalizer a"
| "storesFinalizer name e \<longleftrightarrow> False"

fun makesSecret :: "'w lib \<Rightarrow> kclient \<Rightarrow> string \<Rightarrow> string \<Rightarrow> event \<Rightarrow> bool" where
  "makesSecret L c ns name (CreatedSecret c' x err) \<longleftrightarrow>
     c' = c \<and> secret_Namespace x = ns \<and> secret_Name x = name \<and> tolerated (IsAlreadyExists L) err"
| "makesSecret L c ns name e \<longleftrightarrow> False"

text \<open>A pod whose name has the property was created, and the secret it mounts before it.\<close>

fun provisions :: "'w lib \<Rightarrow> (string \<Rightarrow> bool) \<Rightarrow> event list \<Rightarrow> event \<Rightarrow> bool" where
  "provisions L P pre (CreatedPod c p err) \<longleftrightarrow>
     P (pod_Name p) \<and> tolerated (IsAlreadyExists L) err \<and>
     list_ex (makesSecret L c (pod_Namespace p) (pod_Name p)) pre"
| "provisions L P pre e \<longleftrightarrow> False"

fun dropsPod :: "'w lib \<Rightarrow> kclient \<Rightarrow> NamespacedName \<Rightarrow> event \<Rightarrow> bool" where
  "dropsPod L c k (DeletedPod c' k' err) \<longleftrightarrow> c' = c \<and> k' = k \<and> tolerated (IsNotFound L) err"
| "dropsPod L c k e \<longleftrightarrow> False"

text \<open>The secret of this name was deleted, and its pod before it.\<close>

fun releases :: "'w lib \<Rightarrow> string \<Rightarrow> event list \<Rightarrow> event \<Rightarrow> bool" where
  "releases L name pre (DeletedSecret c k err) \<longleftrightarrow>
     nn_Name k = name \<and> tolerated (IsNotFound L) err \<and> list_ex (dropsPod L c k) pre"
| "releases L name pre e \<longleftrightarrow> False"

text \<open>
  Which call may follow the calls \<open>pre\<close>. Objects are created only once the finalizer is stored,
  and never in a reconciliation that deletes; the pod needs its secret; the secret is deleted
  after the pod; a patch may leave out the finalizer only when both are gone, may set \<open>Ready\<close>
  only when both are there, and may set the provider ID of the owner only to that of such a pod.
\<close>

fun mayFollow :: "'w lib \<Rightarrow> event list \<Rightarrow> event \<Rightarrow> bool" where
  "mayFollow L pre (CreatedSecret c x err) \<longleftrightarrow>
     list_ex (storesFinalizer (secret_Name x)) pre \<and> \<not> list_ex isDelete pre"
| "mayFollow L pre (CreatedPod c p err) \<longleftrightarrow>
     list_ex (storesFinalizer (pod_Name p)) pre \<and> \<not> list_ex isDelete pre \<and>
     list_ex (makesSecret L c (pod_Namespace p) (pod_Name p)) pre"
| "mayFollow L pre (DeletedPod c k err) \<longleftrightarrow> \<not> list_ex isCreate pre"
| "mayFollow L pre (DeletedSecret c k err) \<longleftrightarrow>
     \<not> list_ex isCreate pre \<and> list_ex (dropsPod L c k) pre"
| "mayFollow L pre (PatchedKubemarkMachine c b a err) \<longleftrightarrow>
     (hasFinalizer a \<or> list_ex (releases L (Name (km_ObjectMeta a)) pre) pre) \<and>
     (Ready (km_Status a) \<longrightarrow> Ready (km_Status b) \<or>
        list_ex (provisions L (\<lambda>n. n = Name (km_ObjectMeta a)) pre) pre)"
| "mayFollow L pre (PatchedMachine c b a err) \<longleftrightarrow>
     machine_ProviderID a = machine_ProviderID b \<or>
     list_ex (provisions L (\<lambda>n. machine_ProviderID a = Some (providerIDOf n)) pre) pre"
| "mayFollow L pre (PatchedKubemarkMachineTemplate c b a err) \<longleftrightarrow> False"
| "mayFollow L pre e \<longleftrightarrow> True"

fun conforms :: "'w lib \<Rightarrow> event list \<Rightarrow> event list \<Rightarrow> bool" where
  "conforms L pre [] \<longleftrightarrow> True"
| "conforms L pre (e # es) \<longleftrightarrow> mayFollow L pre e \<and> conforms L (pre @ [e]) es"

section \<open>Facts about conforming logs\<close>

lemma conforms_append [simp]:
  "conforms L pre (xs @ ys) \<longleftrightarrow> conforms L pre xs \<and> conforms L (pre @ xs) ys"
  by (induction xs arbitrary: pre) auto

lemma mayFollow_read: "isRead e \<Longrightarrow> mayFollow L pre e"
  by (cases e) simp_all

lemma conforms_reads: "list_all isRead es \<Longrightarrow> conforms L pre es"
  by (induction es arbitrary: pre) (auto simp: mayFollow_read)

text \<open>What an event of a conforming log tells of the events before it.\<close>

lemma conforms_split: "conforms L pre (xs @ e # ys) \<Longrightarrow> mayFollow L (pre @ xs) e"
  by simp

lemma reads_quiet:
  "list_all isRead es \<Longrightarrow> \<not> list_ex isCreate es \<and> \<not> list_ex isDelete es"
  by (induction es) (auto dest: isRead_not_write)

section \<open>The phases of Reconcile\<close>

text \<open>
  The state of the log inside a reconciliation that started with the log \<open>t0\<close>, and the patches
  that may be sent from it. The second argument of \<open>patchable\<close> is the copy the patch helper took.
\<close>

definition patchable :: "'w lib \<Rightarrow> KubemarkMachine \<Rightarrow> KubemarkMachine \<Rightarrow> event list \<Rightarrow> bool" where
  "patchable L before km pre \<longleftrightarrow> mayFollow L pre (PatchedKubemarkMachine (KClient []) before km None)"

definition ownerPatchable :: "'w lib \<Rightarrow> Machine \<Rightarrow> Machine \<Rightarrow> event list \<Rightarrow> bool" where
  "ownerPatchable L before m pre \<longleftrightarrow> mayFollow L pre (PatchedMachine (KClient []) before m None)"

lemma patchable_event: "patchable L b km pre \<Longrightarrow> mayFollow L pre (PatchedKubemarkMachine c b km e)"
  by (simp add: patchable_def)

lemma ownerPatchable_event: "ownerPatchable L b m pre \<Longrightarrow> mayFollow L pre (PatchedMachine c b m e)"
  by (simp add: ownerPatchable_def)

text \<open>Permissions are never withdrawn by later calls.\<close>

lemma provisions_more: "provisions L P pre e \<Longrightarrow> provisions L P (pre @ evs) e"
  by (cases e) simp_all

lemma releases_more: "releases L n pre e \<Longrightarrow> releases L n (pre @ evs) e"
  by (cases e) simp_all

lemma list_ex_more: "list_ex P xs \<Longrightarrow> (\<And>x. P x \<Longrightarrow> Q x) \<Longrightarrow> list_ex Q (xs @ ys)"
  by (auto simp: list_ex_iff)

lemma patchable_more: "patchable L before km pre \<Longrightarrow> patchable L before km (pre @ evs)"
  by (auto simp: patchable_def intro: list_ex_more provisions_more releases_more
      simp del: list_ex_append)

definition following ::
  "'w lib \<Rightarrow> event list \<Rightarrow> (event list \<Rightarrow> bool) \<Rightarrow> event list \<Rightarrow> bool" where
  "following L t0 P tr \<longleftrightarrow> (\<exists>pre. tr = t0 @ pre \<and> conforms L [] pre \<and> P pre)"

lemma following_append [simp]:
  "following L t0 P (t0 @ pre) \<longleftrightarrow> conforms L [] pre \<and> P pre"
  by (auto simp: following_def)

lemma followingI: "tr = t0 @ pre \<Longrightarrow> conforms L [] pre \<Longrightarrow> P pre \<Longrightarrow> following L t0 P tr"
  by (auto simp: following_def)

lemma following_mono: "following L t0 P tr \<Longrightarrow> (\<And>pre. P pre \<Longrightarrow> Q pre) \<Longrightarrow> following L t0 Q tr"
  by (auto simp: following_def)

lemma deferred_km [simp]:
  "trace (api (deferredPatchKubemarkMachine L c b f)) = trace (api f) @
     [PatchedKubemarkMachine c b (kubemarkMachine f)
        (errOf (fst (Patch_KubemarkMachine L c b (kubemarkMachine f) (world (api f)))))]"
  "kubemarkMachine (deferredPatchKubemarkMachine L c b f) = kubemarkMachine f"
  "machine (deferredPatchKubemarkMachine L c b f) = machine f"
  by (simp_all add: deferredPatchKubemarkMachine_def onApi_def patchKubemarkMachine_def invoke_def
      split: prod.split)

lemma deferred_machine [simp]:
  "trace (api (deferredPatchMachine L c b f)) = trace (api f) @
     [PatchedMachine c b (machine f) (errOf (fst (Patch_Machine L c b (machine f) (world (api f)))))]"
  "kubemarkMachine (deferredPatchMachine L c b f) = kubemarkMachine f"
  "machine (deferredPatchMachine L c b f) = machine f"
  by (simp_all add: deferredPatchMachine_def onApi_def patchMachine_def invoke_def
      split: prod.split)

lemma reconcileDelete_conforms:
  assumes "trace (api f) = t0 @ pre" and "conforms L [] pre"
    and "\<not> list_ex isCreate pre" and "hasFinalizer (kubemarkMachine f)"
    and "Ready (km_Status (kubemarkMachine f)) \<longrightarrow> Ready (km_Status before)"
  shows "wp (reconcileDelete L c ns)
    (\<lambda>out f'. following L t0 (patchable L before (kubemarkMachine f')) (trace (api f'))) f"
  using assms
  by (auto simp: reconcileDelete_def wp_simps patchable_def podKey_def)

text \<open>
  Between the first patch and the creation of the pod the two objects stay as they are; the
  phases of provisioning only add to the log.
\<close>

definition waiting ::
  "'w lib \<Rightarrow> event list \<Rightarrow> KubemarkMachine \<Rightarrow> Machine \<Rightarrow> 'w frame \<Rightarrow> event list \<Rightarrow> bool" where
  "waiting L t0 km m f pre \<longleftrightarrow>
     kubemarkMachine f = km \<and> machine f = m \<and>
     trace (api f) = t0 @ pre \<and> conforms L [] pre \<and>
     list_ex (storesFinalizer (Name (km_ObjectMeta km))) pre \<and> \<not> list_ex isDelete pre \<and>
     hasFinalizer km \<and> \<not> Ready (km_Status km)"

definition ending ::
  "'w lib \<Rightarrow> event list \<Rightarrow> KubemarkMachine \<Rightarrow> Machine \<Rightarrow> 'w frame \<Rightarrow> bool" where
  "ending L t0 before m0 f \<longleftrightarrow>
     following L t0
       (\<lambda>pre. patchable L before (kubemarkMachine f) pre \<and> ownerPatchable L m0 (machine f) pre)
       (trace (api f))"

lemma waiting_ending: "waiting L t0 km m f pre \<Longrightarrow> ending L t0 before m f"
  by (simp add: waiting_def ending_def patchable_def ownerPatchable_def)

text \<open>Calls added to the log keep the state when the specification allows them.\<close>

lemma waiting_more:
  assumes "waiting L t0 km m f pre" and "conforms L pre evs" and "\<not> list_ex isDelete evs"
  shows "waiting L t0 km m (f\<lparr>api := \<lparr>world = w, trace = trace (api f) @ evs\<rparr>\<rparr>) (pre @ evs)"
  using assms by (simp add: waiting_def)

lemma waiting_more_ending:
  assumes "waiting L t0 km m f pre" and "conforms L pre evs" and "\<not> list_ex isDelete evs"
  shows "ending L t0 before m (f\<lparr>api := \<lparr>world = w, trace = trace (api f) @ evs\<rparr>\<rparr>)"
  using waiting_more [OF assms] by (rule waiting_ending)

lemma launch_conforms:
  assumes "waiting L t0 km m f pre"
    and "list_ex (makesSecret L c ns (Name (km_ObjectMeta km))) pre"
  shows "wp (launch L img c ns x ver args) (\<lambda>_. ending L t0 before m) f"
  using assms
  by (auto simp: launch_def wp_simps waiting_def ending_def patchable_def ownerPatchable_def
      hasFinalizer_def hollowPod_parts(1,2))

lemma selectArgs_conforms:
  assumes "waiting L t0 km m f pre"
    and "\<And>ver args. wp (k ver args) (\<lambda>_. ending L t0 before m) f"
  shows "wp (selectArgs L k) (\<lambda>_. ending L t0 before m) f"
  using assms waiting_ending [OF assms(1), of before]
  by (auto simp: selectArgs_def wp_simps)

lemma issueCredentials_conforms:
  assumes w: "waiting L t0 km m f pre"
    and k: "\<And>x f' pre'. waiting L t0 km m f' pre' \<Longrightarrow>
           list_ex (makesSecret L c ns (Name (km_ObjectMeta km))) pre' \<Longrightarrow>
           wp (k x) (\<lambda>_. ending L t0 before m) f'"
  shows "wp (issueCredentials L mc cl cfg c ns k) (\<lambda>_. ending L t0 before m) f"
proof -
  have km: "kubemarkMachine f = km"
    and held: "list_ex (storesFinalizer (Name (km_ObjectMeta km))) pre" "\<not> list_ex isDelete pre"
    using w by (simp_all add: waiting_def)
  show ?thesis
    by (auto simp: issueCredentials_def wp_simps km held
        intro!: waiting_more_ending [OF w] k [OF waiting_more [OF w]])
qed

lemma reconcileNormal_conforms:
  assumes "waiting L t0 km m f pre"
  shows "wp (reconcileNormal L r cl c ns)
    (\<lambda>_ f'. following L t0 (patchable L before (kubemarkMachine f')) (trace (api f'))) f"
proof -
  have m: "machine f = m" using assms by (simp add: waiting_def)
  have launch: "wp (issueCredentials L (kmr_Client r) cl cfg c ns
      (\<lambda>x. selectArgs L (launch L (KubemarkImage r) c ns x))) (\<lambda>_. ending L t0 before m) f'"
    if "waiting L t0 km m f' pre'" for cfg f' pre'
    using that by (blast intro: issueCredentials_conforms selectArgs_conforms launch_conforms)
  have final: "following L t0 (patchable L before (kubemarkMachine f'))
      (trace (api (deferredPatchMachine L (kmr_Client r) m f')))"
    if "ending L t0 before m f'" for f'
  proof -
    from that obtain pre where pre: "trace (api f') = t0 @ pre" "conforms L [] pre"
      "patchable L before (kubemarkMachine f') pre" "ownerPatchable L m (machine f') pre"
      by (auto simp: ending_def following_def)
    show ?thesis
      by (simp add: pre patchable_more ownerPatchable_event del: mayFollow.simps)
  qed
  have steps: "wp (attempt (onApi (getRemoteCluster L (kmr_Client r) cl)) (\<lambda>restConfig.
      returnIf (\<not> InfrastructureReady cl) emptyResult None (
      returnIf (DataSecretName m = None) emptyResult None (
      issueCredentials L (kmr_Client r) cl restConfig c ns
        (\<lambda>x. selectArgs L (launch L (KubemarkImage r) c ns x))))))
      (\<lambda>_. ending L t0 before m) f"
    by (auto simp: wp_simps
        intro!: waiting_more_ending [OF assms] launch [OF waiting_more [OF assms]])
  have "following L t0 (patchable L before (kubemarkMachine f)) (trace (api f))"
    using waiting_ending [OF assms, of before] by (auto simp: ending_def following_def)
  then show ?thesis
    unfolding reconcileNormal_def
    by (auto simp: wp_reading wp_attemptWith wpc_pureCall wp_ret wp_go_defer m
        simp del: deferred_machine(1) intro!: final wp_mono [OF steps])
qed

text \<open>
  The method \<open>GenerateKubemarkClusterClient\<close> of whatever implements the interface only adds reads.
\<close>

context kubemark_cluster
begin

lemma reconcileOwned_conforms:
  assumes laws: "finalizer_laws L" and r: "KubemarkCluster r = generate"
    and f: "kubemarkMachine f = before" and t: "trace (api f) = t0 @ pre"
    and pre: "list_all isRead pre"
  shows "wp (reconcileOwned L r before cl) (\<lambda>_ f'. following L t0 (\<lambda>_. True) (trace (api f'))) f"
proof -
  define km where "km = addMachineFinalizer L before"
  have fin: "hasFinalizer km"
    using laws by (simp add: km_def addMachineFinalizer_def hasFinalizer_def finalizer_laws_sets)
  have final: "following L t0 (\<lambda>_. True) (trace (api (deferredPatchKubemarkMachine L c before f')))"
    if "following L t0 (patchable L before (kubemarkMachine f')) (trace (api f'))" for f' c
    using that by (auto simp: following_def patchable_event simp del: mayFollow.simps)
  have steps: "wp (perform (onApi (generate (KubemarkHollowPodClusterSecretRef (km_Spec km))
        (Namespace (km_ObjectMeta km))))
      (reconcileOnCluster L r km cl))
      (\<lambda>_ f'. following L t0 (patchable L before (kubemarkMachine f')) (trace (api f'))) f'"
    if f': "kubemarkMachine f' = km" "trace (api f') = t0 @ pre'" "conforms L [] pre'"
      "list_ex (storesFinalizer (Name (km_ObjectMeta km))) pre'"
      "\<not> list_ex isCreate pre'" "\<not> list_ex isDelete pre'" for f' pre'
  proof -
    have status: "km_Status km = km_Status before" by (simp add: km_def)
    have later: "conforms L [] (pre' @ evs)" "\<not> list_ex isCreate (pre' @ evs)"
      "\<not> list_ex isDelete (pre' @ evs)" if "list_all isRead evs" for evs
      using that f' by (auto simp: conforms_reads dest: reads_quiet)
    have quiet: "patchable L before km (pre' @ evs)" if "list_all isRead evs" for evs
      using fin status by (simp add: patchable_def)
    have deletion: "wp (reconcileDelete L c n)
        (\<lambda>_ f'. following L t0 (patchable L before (kubemarkMachine f')) (trace (api f')))
        (f'\<lparr>api := s\<rparr>)"
      if "trace s = t0 @ pre' @ evs" "list_all isRead evs" for c n s evs
      by (rule reconcileDelete_conforms [of _ t0 "pre' @ evs"])
        (use that later fin status f'(1) in simp_all)
    have normal: "wp (reconcileNormal L r cl c n)
        (\<lambda>_ f'. following L t0 (patchable L before (kubemarkMachine f')) (trace (api f')))
        (f'\<lparr>api := s\<rparr>)"
      if "trace s = t0 @ pre' @ evs" "list_all isRead evs" "\<not> Ready (km_Status km)" for c n s evs
      by (rule reconcileNormal_conforms [of L t0 km "machine f'" _ "pre' @ evs"])
        (use that later fin f' in \<open>simp add: waiting_def\<close>)
    show ?thesis
      by (auto simp: wp_simps reconcileOnCluster_def f' later quiet deletion normal simp del: conforms_append
          intro!: generate_wpcI)
  qed
  have km_f: "addMachineFinalizer L (kubemarkMachine f) = km"
    by (simp add: km_def f)
  have status: "km_Status km = km_Status before"
    by (simp add: km_def)
  have start: "conforms L [] pre" "\<not> list_ex isCreate pre" "\<not> list_ex isDelete pre"
    using pre by (simp_all add: conforms_reads reads_quiet)
  show ?thesis
    unfolding reconcileOwned_def
    by (auto simp: wp_assign wp_reading wp_attempt wp_go_defer wpc_onApi wpc_invoke
        patchKubemarkMachine_def r km_f t fin start status
        simp del: deferred_km(1)
        intro!: final wp_mono [OF steps])
qed

lemma Reconcile_following:
  assumes "finalizer_laws L" and "KubemarkCluster r = generate"
  shows "wp (Reconcile L r req) (\<lambda>_ s'. following L (trace s) (\<lambda>_. True) (trace s')) s"
  unfolding Reconcile_def
  by (auto simp: wp_simps intro!: reconcileOwned_conforms [OF assms])

end

text \<open>The reconciler of \<open>main.go\<close> uses the implementation in the repository.\<close>

lemma Reconcile_log:
  fixes L :: "'w lib" and c :: kclient and img wfv :: string and req :: NamespacedName
  assumes "finalizer_laws L"
  defines "b \<equiv> Reconcile L (newKubemarkMachineReconciler L c img wfv) req"
  shows "trace (snd (b s)) = trace s @ callsOf b s" and "conforms L [] (callsOf b s)"
proof -
  have "wp b (\<lambda>_ s'. following L (trace s) (\<lambda>_. True) (trace s')) s"
    unfolding b_def by (rule kc.Reconcile_following [OF assms(1)]) simp
  then show "trace (snd (b s)) = trace s @ callsOf b s" "conforms L [] (callsOf b s)"
    by (auto simp: wp_def following_def callsOf_def split: prod.splits)
qed

end
