(* ===== verification/Machine_Properties.thy ===== *)
theory Machine_Properties
  imports Machine_Protocol
begin

text \<open>
  Lemmas about one reconciliation of a \<open>KubemarkMachine\<close>: what the log must hold before a call
  (read off the specification of \<open>Machine_Protocol\<close>), which kinds of calls each phase makes, and
  what the function returns on each branch.
\<close>

section \<open>Reading a conforming log\<close>

fun_cases storesFinalizerE: "storesFinalizer name e"
fun_cases makesSecretE: "makesSecret L c ns name e"
fun_cases provisionsE: "provisions L P pre e"
fun_cases dropsPodE: "dropsPod L c k e"
fun_cases releasesE: "releases L name pre e"

lemma list_ex_split:
  assumes "list_ex P xs"
  obtains as e bs where "xs = as @ e # bs" and "P e"
  using assms by (metis list_ex_iff split_list)

lemma conforms_released:
  assumes log: "conforms L [] (xs @ PatchedKubemarkMachine c b a err # ys)"
    and "\<not> hasFinalizer a"
  shows "\<exists>as bs cs kc key e1 e2.
    xs = as @ DeletedPod kc key e1 # bs @ DeletedSecret kc key e2 # cs \<and>
    nn_Name key = Name (km_ObjectMeta a) \<and>
    tolerated (IsNotFound L) e1 \<and> tolerated (IsNotFound L) e2"
proof -
  have "list_ex (releases L (Name (km_ObjectMeta a)) xs) xs"
    using assms by simp
  then obtain as e cs where xs: "xs = as @ e # cs"
    and e: "releases L (Name (km_ObjectMeta a)) xs e"
    by (rule list_ex_split)
  from e obtain kc key e2 where d: "e = DeletedSecret kc key e2"
    "nn_Name key = Name (km_ObjectMeta a)" "tolerated (IsNotFound L) e2"
    by (auto elim!: releasesE)
  have "mayFollow L as e"
    using log by (simp add: xs)
  then have "list_ex (dropsPod L kc key) as"
    by (simp add: d)
  then obtain as1 p as2 where as: "as = as1 @ p # as2" and p: "dropsPod L kc key p"
    by (rule list_ex_split)
  from p obtain e1 where e1: "p = DeletedPod kc key e1" "tolerated (IsNotFound L) e1"
    by (auto elim!: dropsPodE)
  have "xs = as1 @ DeletedPod kc key e1 # as2 @ DeletedSecret kc key e2 # cs"
    by (simp add: xs as d(1) e1(1))
  with d e1 show ?thesis by blast
qed

lemma conforms_pod:
  assumes log: "conforms L [] (xs @ CreatedPod c p err # ys)"
  shows "\<exists>as bs cs pc b a x e.
    xs = as @ PatchedKubemarkMachine pc b a None # bs @ CreatedSecret c x e # cs \<and>
    Name (km_ObjectMeta a) = pod_Name p \<and> hasFinalizer a \<and>
    secret_Name x = pod_Name p \<and> secret_Namespace x = pod_Namespace p \<and>
    tolerated (IsAlreadyExists L) e"
proof -
  have "list_ex (makesSecret L c (pod_Namespace p) (pod_Name p)) xs"
    using log by simp
  then obtain as e cs where xs: "xs = as @ e # cs"
    and e: "makesSecret L c (pod_Namespace p) (pod_Name p) e"
    by (rule list_ex_split)
  from e obtain x e1 where x: "e = CreatedSecret c x e1" "secret_Name x = pod_Name p"
    "secret_Namespace x = pod_Namespace p" "tolerated (IsAlreadyExists L) e1"
    by (auto elim!: makesSecretE)
  have "mayFollow L as e"
    using log by (simp add: xs)
  then have "list_ex (storesFinalizer (pod_Name p)) as"
    by (simp add: x)
  then obtain as1 q as2 where as: "as = as1 @ q # as2" and q: "storesFinalizer (pod_Name p) q"
    by (rule list_ex_split)
  from q obtain pc b a where q': "q = PatchedKubemarkMachine pc b a None"
    "Name (km_ObjectMeta a) = pod_Name p" "hasFinalizer a"
    by (auto elim!: storesFinalizerE)
  have "xs = as1 @ PatchedKubemarkMachine pc b a None # as2 @ CreatedSecret c x e1 # cs"
    by (simp add: xs as x(1) q'(1))
  with x q' show ?thesis by blast
qed

lemma conforms_ready:
  assumes log: "conforms L [] (xs @ PatchedKubemarkMachine c b a err # ys)"
    and "Ready (km_Status a)" and "\<not> Ready (km_Status b)"
  shows "\<exists>as bs cs kc x p e1 e2.
    xs = as @ CreatedSecret kc x e1 # bs @ CreatedPod kc p e2 # cs \<and>
    pod_Name p = Name (km_ObjectMeta a) \<and> secret_Name x = pod_Name p \<and>
    secret_Namespace x = pod_Namespace p \<and>
    tolerated (IsAlreadyExists L) e1 \<and> tolerated (IsAlreadyExists L) e2"
proof -
  have "list_ex (provisions L (\<lambda>n. n = Name (km_ObjectMeta a)) xs) xs"
    using assms by simp
  then obtain as e cs where xs: "xs = as @ e # cs"
    and e: "provisions L (\<lambda>n. n = Name (km_ObjectMeta a)) xs e"
    by (rule list_ex_split)
  from e obtain kc p e2 where p: "e = CreatedPod kc p e2"
    "pod_Name p = Name (km_ObjectMeta a)" "tolerated (IsAlreadyExists L) e2"
    by (auto elim!: provisionsE)
  have "conforms L [] (as @ CreatedPod kc p e2 # cs)"
    using log by (simp add: xs p)
  from conforms_pod [OF this] obtain as1 as2 as3 x e1 where
    as: "as = as1 @ CreatedSecret kc x e1 # as2" and x: "secret_Name x = pod_Name p"
      "secret_Namespace x = pod_Namespace p" "tolerated (IsAlreadyExists L) e1"
    by (metis append.assoc append_Cons)
  have "xs = as1 @ CreatedSecret kc x e1 # as2 @ CreatedPod kc p e2 # cs"
    by (simp add: xs as p(1))
  with p x show ?thesis by blast
qed

lemma conforms_owner:
  assumes log: "conforms L [] (xs @ PatchedMachine c b a err # ys)"
    and "machine_ProviderID a \<noteq> machine_ProviderID b"
  shows "\<exists>as bs cs kc x p e1 e2.
    xs = as @ CreatedSecret kc x e1 # bs @ CreatedPod kc p e2 # cs \<and>
    machine_ProviderID a = Some (providerIDOf (pod_Name p)) \<and> secret_Name x = pod_Name p \<and>
    secret_Namespace x = pod_Namespace p \<and>
    tolerated (IsAlreadyExists L) e1 \<and> tolerated (IsAlreadyExists L) e2"
proof -
  have "list_ex (provisions L (\<lambda>n. machine_ProviderID a = Some (providerIDOf n)) xs) xs"
    using assms by simp
  then obtain as e cs where xs: "xs = as @ e # cs"
    and e: "provisions L (\<lambda>n. machine_ProviderID a = Some (providerIDOf n)) xs e"
    by (rule list_ex_split)
  from e obtain kc p e2 where p: "e = CreatedPod kc p e2" "tolerated (IsAlreadyExists L) e2"
    "machine_ProviderID a = Some (providerIDOf (pod_Name p))"
    by (auto elim!: provisionsE)
  have "conforms L [] (as @ CreatedPod kc p e2 # cs)"
    using log by (simp add: xs p)
  from conforms_pod [OF this] obtain as1 as2 x e1 where
    as: "as = as1 @ CreatedSecret kc x e1 # as2" and x: "secret_Name x = pod_Name p"
      "secret_Namespace x = pod_Namespace p" "tolerated (IsAlreadyExists L) e1"
    by (metis append.assoc append_Cons)
  have "xs = as1 @ CreatedSecret kc x e1 # as2 @ CreatedPod kc p e2 # cs"
    by (simp add: xs as p(1))
  with p x show ?thesis by blast
qed

lemma conforms_no_mix:
  assumes "conforms L [] xs"
  shows "\<not> (list_ex isCreate xs \<and> list_ex isDelete xs)"
  using assms
proof (induction xs rule: rev_induct)
  case Nil
  then show ?case by simp
next
  case (snoc e xs)
  then show ?case by (cases e) auto
qed

section \<open>Which calls a phase makes\<close>

definition quiet :: "event \<Rightarrow> bool" where
  "quiet e \<longleftrightarrow> \<not> isCreate e \<and> \<not> isDelete e"

lemma quiet_simps [simp]:
  "isRead e \<Longrightarrow> quiet e"
  "quiet (PatchedKubemarkMachine c b a err)"
  "quiet (PatchedMachine c b' a' err)"
  by (auto simp: quiet_def dest: isRead_not_write)

lemma deferred_logs [keeps_rules]:
  "(\<And>b a e. P (PatchedMachine c b a e)) \<Longrightarrow>
     logs P t0 (api f) \<Longrightarrow> logs P t0 (api (deferredPatchMachine L c before f))"
  "(\<And>b a e. P (PatchedKubemarkMachine c b a e)) \<Longrightarrow>
     logs P t0 (api f) \<Longrightarrow> logs P t0 (api (deferredPatchKubemarkMachine L c before' f))"
  by (auto simp: logs_def)

lemma keepsc_getRemoteCluster [keeps_rules]:
  assumes "\<And>k r. P (GotRESTConfig c k r)"
  shows "keepsc (logs P t0) (getRemoteCluster L c cl)"
proof -
  have "keepsc (logs P t0) (remoteRESTConfig L user c k)" for user k
    unfolding remoteRESTConfig_def by (rule keepsc_invoke) (rule assms)
  then show ?thesis
    by (auto simp: keepsc_def getRemoteCluster_def split: prod.split sum.split)
      (metis snd_conv)+
qed

lemma keepsc_generate [keeps_rules]:
  assumes "\<And>e. isRead e \<Longrightarrow> P e"
  shows "keepsc (logs P t0) (NewKubemarkCluster L c ref ns)"
  unfolding keepsc_def
proof (intro allI impI)
  fix s :: "'a io"
  assume s: "logs P t0 s"
  have "appends isRead s (snd (NewKubemarkCluster L c ref ns s))"
    by (rule kc.generate_reads [OF surjective_pairing])
  then show "logs P t0 (snd (NewKubemarkCluster L c ref ns s))"
    using s assms by (auto simp: appends_def logs_def list_all_iff)
qed

lemma reconcileDelete_logs:
  "(\<And>k e. P (DeletedPod c k e)) \<Longrightarrow> (\<And>k e. P (DeletedSecret c k e)) \<Longrightarrow>
   keeps (\<lambda>f. logs P t0 (api f)) (reconcileDelete L c ns)"
  unfolding reconcileDelete_def by (auto simp: call_defs intro!: keeps_rules)

lemma issueCredentials_logs:
  "(\<And>e. isRead e \<Longrightarrow> P e) \<Longrightarrow> (\<And>x e. P (CreatedSecret c x e)) \<Longrightarrow>
   (\<And>x. keeps (\<lambda>f. logs P t0 (api f)) (k x)) \<Longrightarrow>
   keeps (\<lambda>f. logs P t0 (api f)) (issueCredentials L mc cl cfg c ns k)"
  unfolding issueCredentials_def by (auto simp: call_defs intro!: keeps_rules)

lemma selectArgs_logs:
  "(\<And>ver args. keeps (\<lambda>f. logs P t0 (api f)) (k ver args)) \<Longrightarrow>
   keeps (\<lambda>f. logs P t0 (api f)) (selectArgs L k)"
  unfolding selectArgs_def by (auto intro!: keeps_rules)

lemma launch_logs:
  "(\<And>p e. P (CreatedPod c p e)) \<Longrightarrow>
   keeps (\<lambda>f. logs P t0 (api f)) (launch L img c ns x ver args)"
  unfolding launch_def by (auto simp: call_defs intro!: keeps_rules)

lemma reconcileNormal_logs:
  assumes "\<And>e. isRead e \<Longrightarrow> P e" and "\<And>c b a e. P (PatchedMachine c b a e)"
    and "\<And>x e. InfrastructureReady cl \<Longrightarrow> P (CreatedSecret c x e)"
    and "\<And>p e. InfrastructureReady cl \<Longrightarrow> P (CreatedPod c p e)"
  shows "keeps (\<lambda>f. logs P t0 (api f)) (reconcileNormal L r cl c ns)"
  unfolding reconcileNormal_def
  by (auto simp: assms intro!: keeps_rules issueCredentials_logs selectArgs_logs launch_logs)

section \<open>What a reconciliation reads first\<close>

text \<open>
  The three objects \<open>Reconcile\<close> fetches before it does anything else, when all three are there and
  the patch helper can be made, with the state of the world afterwards.
\<close>

definition fetches :: "'w lib \<Rightarrow> kclient \<Rightarrow> NamespacedName \<Rightarrow> 'w \<Rightarrow>
    (KubemarkMachine \<times> Machine \<times> Cluster \<times> 'w) option" where
  "fetches L c req w =
     (case Get_KubemarkMachine L c req w of
        (Inr km, w1) \<Rightarrow>
          (case Lib_GetOwnerMachine L c (km_ObjectMeta km) w1 of
             (Inr (Some m), w2) \<Rightarrow>
               (case Lib_GetClusterFromMetadata L c (machine_ObjectMeta m) w2 of
                  (Inr cl, w3) \<Rightarrow>
                    (case NewHelper_KubemarkMachine L c km of
                       Inr _ \<Rightarrow> Some (km, m, cl, w3)
                     | Inl _ \<Rightarrow> None)
                | _ \<Rightarrow> None)
           | _ \<Rightarrow> None)
      | _ \<Rightarrow> None)"

definition fetchLog :: "kclient \<Rightarrow> NamespacedName \<Rightarrow> KubemarkMachine \<Rightarrow> Machine \<Rightarrow> event list" where
  "fetchLog c req km m =
     [GotKubemarkMachine c req None, GotOwnerMachine c (km_ObjectMeta km) None,
      GotCluster c (machine_ObjectMeta m) None]"

lemma fetchLog_reads [simp]: "list_all isRead (fetchLog c req km m)"
  by (simp add: fetchLog_def)

lemma Reconcile_fetched:
  assumes "fetches L (kmr_Client r) req (world s) = Some (km, m, cl, w)"
  shows "Reconcile L r req s =
    inFrame km m (reconcileOwned L r km cl)
      \<lparr>world = w, trace = trace s @ fetchLog (kmr_Client r) req km m\<rparr>"
  using assms
  by (auto simp: fetches_def Reconcile_def body_defs call_defs invoke_def fetchLog_def
      split: prod.splits sum.splits option.splits)

text \<open>Without them nothing is written.\<close>

lemma Reconcile_unfetched:
  assumes "fetches L (kmr_Client r) req (world s) = None"
  shows "list_all isRead (callsOf (Reconcile L r req) s)"
    and "trace (snd (Reconcile L r req s)) = trace s @ callsOf (Reconcile L r req) s"
  using assms
  by (auto simp: fetches_def Reconcile_def body_defs call_defs invoke_def callsOf_def
      split: prod.splits sum.splits option.splits)

section \<open>When a reconciliation writes\<close>

text \<open>
  The calls that write the kubemark cluster, gated by the objects that were read: creations need
  a machine that is neither being deleted nor ready, a cluster whose infrastructure is ready and
  an owner with bootstrap data; deletions need a machine that is being deleted.
\<close>

definition gated :: "'w lib \<Rightarrow> KubemarkMachine \<Rightarrow> Machine \<Rightarrow> Cluster \<Rightarrow> event \<Rightarrow> bool" where
  "gated L km m cl e \<longleftrightarrow>
     (isCreate e \<longrightarrow> IsZero L (DeletionTimestamp (km_ObjectMeta km)) \<and> \<not> Ready (km_Status km) \<and>
                    InfrastructureReady cl \<and> DataSecretName m \<noteq> None) \<and>
     (isDelete e \<longrightarrow> \<not> IsZero L (DeletionTimestamp (km_ObjectMeta km)))"

lemma gated_quiet [simp]: "quiet e \<Longrightarrow> gated L km m cl e"
  by (simp add: quiet_def gated_def)

lemma reconcileNormal_gated:
  assumes "\<And>e. quiet e \<Longrightarrow> P e"
    and "\<And>e. InfrastructureReady cl \<Longrightarrow> DataSecretName m \<noteq> None \<Longrightarrow> \<not> isDelete e \<Longrightarrow> P e"
  shows "logs P t0 (api f) \<Longrightarrow> machine f = m \<Longrightarrow>
    logs P t0 (api (snd (reconcileNormal L r cl c ns f)))"
proof (cases "InfrastructureReady cl \<and> DataSecretName m \<noteq> None")
  case True
  assume "logs P t0 (api f)"
  moreover have "keeps (\<lambda>f. logs P t0 (api f)) (reconcileNormal L r cl c ns)"
    by (rule reconcileNormal_logs) (simp_all add: assms True)
  ultimately show ?thesis by (simp add: keeps_def)
next
  case False
  assume start: "logs P t0 (api f)" and m: "machine f = m"
  have body: "keeps (\<lambda>f. logs P t0 (api f)) (attempt (onApi (getRemoteCluster L (kmr_Client r) cl))
      (\<lambda>restConfig.
        returnIf (\<not> InfrastructureReady cl) emptyResult None (
        returnIf (DataSecretName m = None) emptyResult None (k restConfig))))" for k
    using False by (auto simp: assms intro!: keeps_rules)
  show ?thesis
    unfolding reconcileNormal_def reading_def attemptWith_def pureCall_def m go_defer_def
    by (auto simp: ret_def assms start case_prod_beta split: sum.split
        intro!: deferred_logs keepsD [OF body] simp del: deferred_machine)
qed

lemma reconcileOnCluster_gated:
  assumes "kubemarkMachine f = km'" and "machine f = m"
    and "logs (gated L km m cl) t0 (api f)"
    and "km_Status km' = km_Status km"
    and "DeletionTimestamp (km_ObjectMeta km') = DeletionTimestamp (km_ObjectMeta km)"
  shows "logs (gated L km m cl) t0 (api (snd (reconcileOnCluster L r km' cl res f)))"
proof -
  obtain kc ns err where res: "res = (kc, ns, err)" by (cases res)
  show ?thesis
  proof (cases "IsZero L (DeletionTimestamp (km_ObjectMeta km))")
    case True
    have "logs (gated L km m cl) t0 (api (snd (reconcileNormal L r cl c ns f)))"
      if "\<not> Ready (km_Status km)" for c
      by (rule reconcileNormal_gated [where m = m]) (use assms that True in \<open>auto simp: gated_def quiet_def\<close>)
    then show ?thesis
      using assms True
      by (simp add: reconcileOnCluster_def res returnIf_def ret_def split: option.split)
  next
    case False
    have "keeps (\<lambda>f. logs (gated L km m cl) t0 (api f)) (reconcileDelete L c ns)" for c
      by (rule reconcileDelete_logs) (simp_all add: gated_def False)
    then show ?thesis
      using assms False
      by (auto simp: reconcileOnCluster_def res ret_def keeps_def split: option.split)
  qed
qed

lemma reconcileOwned_gated:
  assumes r: "KubemarkCluster r = NewKubemarkCluster L c"
    and f: "kubemarkMachine f = km" "machine f = m" "logs (gated L km m cl) t0 (api f)"
  shows "logs (gated L km m cl) t0 (api (snd (reconcileOwned L r km cl f)))"
proof -
  have cluster: "wpc (onApi (NewKubemarkCluster L c ref ns))
      (\<lambda>res. wp (reconcileOnCluster L r (addMachineFinalizer L km) cl res)
         (\<lambda>_ f'. logs (gated L km m cl) t0 (api f'))) f'"
    if "kubemarkMachine f' = addMachineFinalizer L km" "machine f' = m"
      "logs (gated L km m cl) t0 (api f')" for ref ns f'
  proof (rule wpcI)
    fix res f''
    assume run: "onApi (NewKubemarkCluster L c ref ns) f' = (res, f'')"
    have "keepsc (\<lambda>f. logs (gated L km m cl) t0 (api f)) (onApi (NewKubemarkCluster L c ref ns))"
      by (intro keeps_rules) simp
    then have "logs (gated L km m cl) t0 (api f'')"
      using that(3) run by (rule keepsc_step)
    moreover have "kubemarkMachine f'' = addMachineFinalizer L km" "machine f'' = m"
      using run that by (auto simp: onApi_def split: prod.splits)
    ultimately show "wp (reconcileOnCluster L r (addMachineFinalizer L km) cl res)
        (\<lambda>_ f'. logs (gated L km m cl) t0 (api f')) f''"
      unfolding wp_def case_prod_beta
      by (intro reconcileOnCluster_gated) simp_all
  qed
  have deferred: "wpc (onApi (NewKubemarkCluster L c ref ns))
      (\<lambda>res. wp (reconcileOnCluster L r (addMachineFinalizer L km) cl res)
         (\<lambda>_ f'. logs (gated L km m cl) t0 (api (deferredPatchKubemarkMachine L mc km f')))) f'"
    if "kubemarkMachine f' = addMachineFinalizer L km" "machine f' = m"
      "logs (gated L km m cl) t0 (api f')" for ref ns f' mc
    by (rule wpc_mono [OF cluster [OF that]]) (auto elim!: wp_mono intro: deferred_logs)
  have patch: "wpc (onApi (invoke g ev)) Q f' \<longleftrightarrow> (\<forall>x w'. g (world (api f')) = (x, w') \<longrightarrow>
      Q x (f'\<lparr>api := \<lparr>world = w', trace = trace (api f') @ [ev x]\<rparr>\<rparr>))" for g ev Q f'
    by (simp add: wpc_onApi wpc_invoke)
  have "wp (reconcileOwned L r km cl) (\<lambda>_ f'. logs (gated L km m cl) t0 (api f')) f"
    unfolding reconcileOwned_def
    by (auto simp: wp_assign wp_reading wp_attempt wp_go_defer wp_perform patch
        patchKubemarkMachine_def r f simp del: deferred_km
        intro!: logs_step deferred)
  then show ?thesis by (simp add: wp_def case_prod_beta)
qed

lemma Reconcile_gated:
  fixes L :: "'w lib" and img wfv :: string
  assumes "fetches L c req (world s) = Some (km, m, cl, w)"
  defines "b \<equiv> Reconcile L (newKubemarkMachineReconciler L c img wfv) req"
  shows "list_all (gated L km m cl) (callsOf b s)"
proof -
  have fetched: "b s = inFrame km m (reconcileOwned L (newKubemarkMachineReconciler L c img wfv) km cl)
      \<lparr>world = w, trace = trace s @ fetchLog c req km m\<rparr>"
    using assms(1) Reconcile_fetched [of L "newKubemarkMachineReconciler L c img wfv" req s]
    by (simp add: b_def)
  have "list_all (gated L km m cl) (fetchLog c req km m)"
    by (simp add: fetchLog_def)
  then have "logs (gated L km m cl) (trace s) (snd (b s))"
    unfolding fetched inFrame_snd
    by (intro reconcileOwned_gated) (auto simp: logs_def)
  then show ?thesis by (auto simp: logs_def callsOf_def)
qed

section \<open>Outcomes\<close>

text \<open>
  A delayed retry is asked for only together with an error: the interface's promise not to give
  a nil client without an error makes the branch that waits for a client unreachable.
\<close>

definition delayed :: "outcome \<Rightarrow> bool" where
  "delayed out \<longleftrightarrow> (\<exists>res. out = Returned res None \<and> RequeueAfter res \<noteq> 0)"

lemma delayed_simps [simp]:
  "\<not> delayed (Returned res (Some e))"
  "\<not> delayed (Returned emptyResult err)"
  "\<not> delayed (Panicked msg)"
  by (auto simp: delayed_def emptyResult_def)

lemma reconcileNormal_not_delayed: "exits (\<lambda>out. \<not> delayed out) (reconcileNormal L r cl c ns)"
  unfolding reconcileNormal_def issueCredentials_def selectArgs_def launch_def
  by (intro exits_rules) simp_all

lemma reconcileDelete_not_delayed: "exits (\<lambda>out. \<not> delayed out) (reconcileDelete L c ns)"
  unfolding reconcileDelete_def by (intro exits_rules) simp_all

lemma reconcileOnCluster_not_delayed:
  "fst res \<noteq> None \<or> snd (snd res) \<noteq> None \<Longrightarrow>
   exits (\<lambda>out. \<not> delayed out) (reconcileOnCluster L r km cl res)"
  unfolding reconcileOnCluster_def
  by (cases res)
    (auto intro!: exits_rules reconcileNormal_not_delayed reconcileDelete_not_delayed)

text \<open>With the contract of the interface, no reconciliation ends in that way.\<close>

context kubemark_cluster
begin

lemma perform_generate_exits:
  assumes "\<And>res. fst res \<noteq> None \<or> snd (snd res) \<noteq> None \<Longrightarrow> exits E (k res)"
  shows "exits E (perform (onApi (generate ref ns)) k)"
  unfolding exits_def perform_def onApi_def
proof (clarsimp split: prod.split)
  fix s :: "'w frame" and c n err s'
  assume "generate ref ns (api s) = ((c, n, err), s')"
  then have "c \<noteq> None \<or> err \<noteq> None"
    by (metis generate_nil_client)
  then show "E (fst (k (c, n, err) (s\<lparr>api := s'\<rparr>)))"
    using assms [of "(c, n, err)"] by (simp add: exits_def)
qed

lemma Reconcile_not_delayed_with:
  assumes "KubemarkCluster r = generate"
  shows "exits (\<lambda>out. \<not> delayed out) (Reconcile L r req)"
  unfolding Reconcile_def reconcileOwned_def assms
  by (intro exits_rules perform_generate_exits reconcileOnCluster_not_delayed) simp_all

end

lemma Reconcile_not_delayed:
  "exits (\<lambda>out. \<not> delayed out) (Reconcile L (newKubemarkMachineReconciler L c img wfv) req)"
  by (rule kc.Reconcile_not_delayed_with) simp

text \<open>The constants handed to \<open>resource.MustParse\<close> are quantities.\<close>

definition constantsParse :: "'w lib \<Rightarrow> bool" where
  "constantsParse L \<longleftrightarrow>
     defaultsParse L \<and> MustParse L ''40m'' \<noteq> None \<and> MustParse L ''10240Ki'' \<noteq> None"

definition returns :: "outcome \<Rightarrow> bool" where
  "returns out \<longleftrightarrow> (\<exists>res err. out = Returned res err)"

lemma returns_simps [simp]: "returns (Returned res err)" "\<not> returns (Panicked msg)"
  by (simp_all add: returns_def)

lemma hollowPod_returns: "constantsParse L \<Longrightarrow> hollowPod L img km ns ver args sec \<noteq> None"
  by (auto simp: constantsParse_def hollowPod_def basePod_def)

lemma reconcileNormal_returns:
  assumes "constantsParse L"
  shows "exits returns (reconcileNormal L r cl c ns)"
proof -
  have resources: "getKubemarkExtendedResources L options \<noteq> None" for options
    using assms resources_returns [of L options] by (simp add: constantsParse_def)
  then show ?thesis
    unfolding reconcileNormal_def issueCredentials_def selectArgs_def launch_def
    by (intro exits_rules) (simp_all add: resources hollowPod_returns [OF assms])
qed

lemma Reconcile_returns:
  assumes "constantsParse L"
  shows "exits returns (Reconcile L r req)"
  unfolding Reconcile_def reconcileOwned_def reconcileOnCluster_def reconcileDelete_def
  by (intro exits_rules reconcileNormal_returns assms) simp_all

section \<open>What is created\<close>

text \<open>
  The arguments of the kubemark process, as a function of the machine and the version:
  \<open>None\<close> where no pod may be started, because a version does not parse, because it is too old
  for the extended resources asked for, or because a default is no quantity.
\<close>

definition hollowArgs :: "'w lib \<Rightarrow> KubemarkMachine \<Rightarrow> string \<Rightarrow> string list option" where
  "hollowArgs L km version =
     (let basic = [''--v=3'', ''--morph=kubelet'', ''--name='' @ Name (km_ObjectMeta km)];
          options = KubemarkOptions (km_Spec km)
      in case (NewConstraint L ''>= 1.22.0'', NewVersion L version) of
           (Inr c, Inr v) \<Rightarrow>
             if Check L c v
             then map_option (\<lambda>res. basic @ [getKubemarkExtendedResourcesFlag L res])
                    (getKubemarkExtendedResources L options)
             else if ExtendedResources options = None then Some basic else None
         | _ \<Rightarrow> None)"

lemma hollowArgs_names_node:
  "hollowArgs L km ver = Some args \<Longrightarrow> ''--name='' @ Name (km_ObjectMeta km) \<in> set args"
  by (auto simp: hollowArgs_def Let_def split: sum.splits option.splits if_splits)

lemma hollowArgs_finalizer [simp]: "hollowArgs L (addMachineFinalizer L km) = hollowArgs L km"
  by (simp add: hollowArgs_def fun_eq_iff)

definition failed :: "outcome \<Rightarrow> bool" where
  "failed out \<longleftrightarrow> (\<forall>res. out \<noteq> Returned res None)"

lemma failed_simps [simp]:
  "failed (Returned res (Some e))" "failed (Panicked msg)" "\<not> failed (Returned res None)"
  by (auto simp: failed_def)

text \<open>For a supported version the last argument is the flag of the resources.\<close>

lemma hollowArgs_supported:
  assumes "hollowArgs L km ver = Some args" and "NewConstraint L ''>= 1.22.0'' = Inr con"
    and "NewVersion L ver = Inr v" and "Check L con v"
  obtains res where "getKubemarkExtendedResources L (KubemarkOptions (km_Spec km)) = Some res"
    and "last args = getKubemarkExtendedResourcesFlag L res"
  using assms by (auto simp: hollowArgs_def Let_def split: option.splits)

text \<open>\<open>selectArgs\<close> goes on with exactly these arguments, and otherwise fails without a call.\<close>

lemma selectArgs_eq:
  assumes "Version (machine f) = Some ver" and "hollowArgs L (kubemarkMachine f) ver = Some args"
  shows "selectArgs L k f = k ver args f"
  using assms
  by (auto simp: selectArgs_def hollowArgs_def body_defs frame_defs Let_def
      split: sum.splits option.splits if_splits)

lemma selectArgs_fails:
  assumes "\<nexists>ver args. Version (machine f) = Some ver \<and>
      hollowArgs L (kubemarkMachine f) ver = Some args"
  shows "\<exists>out. selectArgs L k f = (out, f) \<and> failed out"
proof (cases "Version (machine f)")
  case None
  then show ?thesis by (simp add: selectArgs_def body_defs frame_defs)
next
  case (Some ver)
  then have "hollowArgs L (kubemarkMachine f) ver = None"
    using assms by auto
  then show ?thesis
    using Some
    by (auto simp: selectArgs_def hollowArgs_def body_defs frame_defs Let_def
        split: sum.splits option.splits if_splits)
qed

text \<open>The pod and the secret of a machine.\<close>

definition podFor :: "'w lib \<Rightarrow> string \<Rightarrow> KubemarkMachine \<Rightarrow> Machine \<Rightarrow> Pod \<Rightarrow> bool" where
  "podFor L img km m p \<longleftrightarrow>
     pod_Name p = Name (km_ObjectMeta km) \<and>
     Volumes p = \<lparr>volume_Name = ''kubeconfig'', Source = SecretVolume (Name (km_ObjectMeta km))\<rparr>
       # map volumeOf (ExtraMounts (km_Spec km)) \<and>
     (case (Version m, Containers p) of
        (Some ver, [c]) \<Rightarrow>
          Image c = img @ '':'' @ ver \<and> hollowArgs L km ver = Some (Args c) \<and>
          VolumeMounts c = \<lparr>MountPath = ''/kubeconfig'', vm_Name = ''kubeconfig''\<rparr>
            # map mountOf (ExtraMounts (km_Spec km))
      | _ \<Rightarrow> False)"

text \<open>
  What the kubelet identifies itself with: the encoded certificate of the node, signed for the
  public half of a key by the authority whose certificate and key one secret holds, and after it
  that key. The other file is an encoded kubeconfig that points at the path of the first.
\<close>

definition identifies :: "'w lib \<Rightarrow> string \<Rightarrow> bytes \<Rightarrow> bool" where
  "identifies L node pem \<longleftrightarrow>
     (\<exists>key der now authority ca caKey w certBytes w' certPEM.
        MarshalECPrivateKey L key = Inr der \<and>
        DecodeCertPEM L (dataOf authority (TLSCrtDataName L)) = Inr ca \<and>
        DecodePrivateKeyPEM L (dataOf authority (TLSKeyDataName L)) = Inr caKey \<and>
        CreateCertificate L (kubeletCertificate node now) ca (PublicKey L key) caKey w = (Inr certBytes, w') \<and>
        Pem_Encode L (CertificateBlockType L) certBytes = Inr certPEM \<and>
        pem = certPEM @ Pem_EncodeToMemory L (ECPrivateKeyBlockType L) der)"

definition issuedFiles :: "'w lib \<Rightarrow> string \<Rightarrow> string \<Rightarrow> bytes \<Rightarrow> bytes \<Rightarrow> bool" where
  "issuedFiles L pemPath node kubeconfig pem \<longleftrightarrow>
     (\<exists>cfg. generateCertificateKubeconfig L cfg pemPath = Inr kubeconfig) \<and> identifies L node pem"

definition secretFor :: "'w lib \<Rightarrow> KubemarkMachine \<Rightarrow> Secret \<Rightarrow> bool" where
  "secretFor L km x \<longleftrightarrow>
     secret_Name x = Name (km_ObjectMeta km) \<and>
     (\<exists>kubeconfig pem. Data x = Some (fmupd ''cert.pem'' pem (fmupd ''kubeconfig'' kubeconfig fmempty)) \<and>
        issuedFiles L ''/kubeconfig/cert.pem'' (Name (km_ObjectMeta km)) kubeconfig pem)"

lemma issuedFilesI:
  assumes "MarshalECPrivateKey L key = Inr der"
    and "DecodeCertPEM L (dataOf authority (TLSCrtDataName L)) = Inr ca"
    and "DecodePrivateKeyPEM L (dataOf authority (TLSKeyDataName L)) = Inr caKey"
    and "CreateCertificate L (kubeletCertificate node now) ca (PublicKey L key) caKey w =
           (Inr certBytes, w')"
    and "generateCertificateKubeconfig L cfg pemPath = Inr kubeconfig"
    and "Pem_Encode L (CertificateBlockType L) certBytes = Inr certPEM"
  shows "issuedFiles L pemPath node kubeconfig
    (certPEM @ Pem_EncodeToMemory L (ECPrivateKeyBlockType L) der)"
  using assms unfolding issuedFiles_def identifies_def by blast

lemma secretForI:
  assumes "issuedFiles L ''/kubeconfig/cert.pem'' (Name (km_ObjectMeta km)) kubeconfig pem"
  shows "secretFor L km \<lparr>secret_Name = Name (km_ObjectMeta km), secret_Namespace = ns,
    Data = Some (fmupd ''cert.pem'' pem (fmupd ''kubeconfig'' kubeconfig fmempty))\<rparr>"
  using assms by (auto simp: secretFor_def)

fun createsFor :: "'w lib \<Rightarrow> string \<Rightarrow> KubemarkMachine \<Rightarrow> Machine \<Rightarrow> event \<Rightarrow> bool" where
  "createsFor L img km m (CreatedSecret c x err) = secretFor L km x"
| "createsFor L img km m (CreatedPod c p err) = podFor L img km m p"
| "createsFor L img km m e = True"

lemma createsFor_read [simp]: "isRead e \<Longrightarrow> createsFor L img km m e"
  by (cases e) simp_all

definition calm :: "(event \<Rightarrow> bool) \<Rightarrow> event list \<Rightarrow> KubemarkMachine \<Rightarrow> Machine \<Rightarrow> 'w frame \<Rightarrow> bool" where
  "calm P t0 km m f \<longleftrightarrow> kubemarkMachine f = km \<and> machine f = m \<and> logs P t0 (api f)"

lemma calm_more:
  assumes "calm P t0 km m f" and "list_all P evs"
  shows "calm P t0 km m (f\<lparr>api := \<lparr>world = w, trace = trace (api f) @ evs\<rparr>\<rparr>)"
  using assms by (auto simp: calm_def logs_def)

lemma calm_more_logs:
  assumes "calm P t0 km m f" and "list_all P evs"
  shows "logs P t0 \<lparr>world = w, trace = trace (api f) @ evs\<rparr>"
  using assms by (auto simp: calm_def logs_def)

lemma launch_creates:
  assumes "calm (createsFor L img km m) t0 km m f"
    and "Version m = Some ver" and "hollowArgs L km ver = Some args"
    and "secret_Name x = Name (km_ObjectMeta km)"
  shows "wp (launch L img c ns x ver args) (\<lambda>_ f'. logs (createsFor L img km m) t0 (api f')) f"
proof -
  have pod: "podFor L img km m p"
    if "hollowPod L img km ns ver args (Name (km_ObjectMeta km)) = Some p" for p
    using hollowPod_parts [OF that] assms(2,3) by (auto simp: podFor_def)
  have f: "kubemarkMachine f = km"
    using assms(1) by (simp add: calm_def)
  have log: "logs (createsFor L img km m) t0 \<lparr>world = w', trace = trace (api f) @ [CreatedPod c p e]\<rparr>"
    if "hollowPod L img km ns ver args (Name (km_ObjectMeta km)) = Some p" for p e w'
    by (rule logs_step) (use assms(1) pod [OF that] in \<open>simp_all add: calm_def\<close>)
  show ?thesis
    using assms(1) by (auto simp: launch_def wp_simps f assms(4) log calm_def)
qed

lemma selectArgs_creates:
  assumes "calm (createsFor L img km m) t0 km m f" and "secret_Name x = Name (km_ObjectMeta km)"
  shows "wp (selectArgs L (launch L img c ns x)) (\<lambda>_ f'. logs (createsFor L img km m) t0 (api f')) f"
proof (cases "\<exists>ver args. Version m = Some ver \<and> hollowArgs L km ver = Some args")
  case True
  then obtain ver args where v: "Version m = Some ver" "hollowArgs L km ver = Some args"
    by blast
  have "selectArgs L (launch L img c ns x) f = launch L img c ns x ver args f"
    by (rule selectArgs_eq) (use assms v in \<open>simp_all add: calm_def\<close>)
  then show ?thesis
    using launch_creates [OF assms(1) v assms(2)] by (simp add: wp_def)
next
  case False
  have "\<exists>out. selectArgs L (launch L img c ns x) f = (out, f) \<and> failed out"
    by (rule selectArgs_fails) (use assms False in \<open>simp add: calm_def\<close>)
  then show ?thesis
    using assms(1) by (auto simp: wp_def calm_def)
qed

lemma issueCredentials_creates:
  assumes w: "calm (createsFor L img km m) t0 km m f"
    and k: "\<And>x f'. calm (createsFor L img km m) t0 km m f' \<Longrightarrow>
           secret_Name x = Name (km_ObjectMeta km) \<Longrightarrow>
           wp (k x) (\<lambda>_ f'. logs (createsFor L img km m) t0 (api f')) f'"
  shows "wp (issueCredentials L mc cl cfg c ns k)
    (\<lambda>_ f'. logs (createsFor L img km m) t0 (api f')) f"
proof -
  have km: "kubemarkMachine f = km"
    using w by (simp add: calm_def)
  show ?thesis
    by (auto simp: issueCredentials_def wp_simps km
        intro!: calm_more_logs [OF w] k calm_more [OF w] secretForI elim: issuedFilesI)
qed

lemma calm_onApi:
  assumes "keepsc (logs P t0) g" and "calm P t0 km m f"
    and "\<And>x f'. calm P t0 km m f' \<Longrightarrow> Q x f'"
  shows "wpc (onApi g) Q f"
proof (rule wpcI)
  fix x f' assume run: "onApi g f = (x, f')"
  obtain s where s: "g (api f) = (x, s)" "f' = f\<lparr>api := s\<rparr>"
    using run by (auto simp: onApi_def split: prod.splits)
  have "logs P t0 s"
    by (rule keepsc_step [OF assms(1) _ s(1)]) (use assms(2) in \<open>simp add: calm_def\<close>)
  then show "Q x f'"
    by (intro assms(3)) (use assms(2) in \<open>simp add: calm_def s(2)\<close>)
qed

lemma reconcileNormal_creates:
  assumes f: "calm (createsFor L img km m) t0 km m f" and img: "KubemarkImage r = img"
  shows "wp (reconcileNormal L r cl c ns) (\<lambda>_ f'. logs (createsFor L img km m) t0 (api f')) f"
proof -
  let ?P = "createsFor L img km m" and ?cm = "kmr_Client r"
  have rest: "wp (issueCredentials L ?cm cl cfg c ns (\<lambda>x. selectArgs L (launch L img c ns x)))
      (\<lambda>_ f'. logs ?P t0 (api f')) f'" if "calm ?P t0 km m f'" for cfg f'
    by (intro issueCredentials_creates selectArgs_creates that)
  have deferred: "wp b (\<lambda>_ f'. logs ?P t0 (api (deferredPatchMachine L ?cm m' f'))) f'"
    if "wp b (\<lambda>_ f'. logs ?P t0 (api f')) f'" for b m' f'
    by (rule wp_mono [OF that]) (auto intro: deferred_logs)
  have "wp (attempt (onApi (getRemoteCluster L ?cm cl)) (\<lambda>restConfig.
      returnIf (\<not> InfrastructureReady cl) emptyResult None (
      returnIf (DataSecretName m = None) emptyResult None (
      issueCredentials L ?cm cl restConfig c ns (\<lambda>x. selectArgs L (launch L img c ns x))))))
      (\<lambda>_ f'. logs ?P t0 (api f')) f"
    unfolding wp_attempt
    by (rule calm_onApi [OF keepsc_getRemoteCluster f])
      (auto simp: wp_returnIf rest, auto simp: calm_def)
  note steps = this
  have vars: "machine f = m" "logs ?P t0 (api f)"
    using f by (simp_all add: calm_def)
  show ?thesis
    unfolding reconcileNormal_def
    by (auto simp: wp_reading wp_attemptWith wpc_pureCall wp_go_defer wp_ret img vars
        simp del: deferred_machine intro!: deferred steps)
qed

lemma reconcileOnCluster_creates:
  assumes f: "calm (createsFor L img km m) t0 km m f" and img: "KubemarkImage r = img"
  shows "wp (reconcileOnCluster L r km cl res) (\<lambda>_ f'. logs (createsFor L img km m) t0 (api f')) f"
proof -
  have log: "logs (createsFor L img km m) t0 (api f)"
    using f by (simp add: calm_def)
  have "keeps (\<lambda>f. logs (createsFor L img km m) t0 (api f)) (reconcileDelete L c ns)" for c ns
    by (rule reconcileDelete_logs) simp_all
  then have "wp (reconcileDelete L c ns) (\<lambda>_ f'. logs (createsFor L img km m) t0 (api f')) f" for c ns
    using log by (auto simp: wp_def keeps_def case_prod_beta)
  then show ?thesis
    unfolding reconcileOnCluster_def
    by (auto simp: wp_simps log reconcileNormal_creates [OF f img] split: prod.split)
qed

lemma reconcileOwned_creates:
  assumes r: "KubemarkCluster r = NewKubemarkCluster L c" "KubemarkImage r = img"
    and km: "km' = addMachineFinalizer L km"
    and f: "kubemarkMachine f = km" "machine f = m" "logs (createsFor L img km' m) t0 (api f)"
  shows "wp (reconcileOwned L r km cl) (\<lambda>_ f'. logs (createsFor L img km' m) t0 (api f')) f"
proof -
  let ?P = "createsFor L img km' m"
  have cluster: "wp (perform (onApi (NewKubemarkCluster L c ref ns)) (reconcileOnCluster L r km' cl))
      (\<lambda>_ f'. logs ?P t0 (api f')) f'" if "calm ?P t0 km' m f'" for ref ns f'
    unfolding wp_perform
    by (rule calm_onApi [OF keepsc_generate that]) (simp_all add: reconcileOnCluster_creates r(2))
  have deferred: "wp b (\<lambda>_ f'. logs ?P t0 (api (deferredPatchKubemarkMachine L mc km f'))) f'"
    if "wp b (\<lambda>_ f'. logs ?P t0 (api f')) f'" for b mc f'
    by (rule wp_mono [OF that]) (auto intro: deferred_logs)
  have patched: "keepsc (logs ?P t0) (patchKubemarkMachine L mc km km')" for mc
    by (auto simp: patchKubemarkMachine_def intro: keeps_rules)
  have "wp (attempt (onApi (patchKubemarkMachine L mc km km')) (\<lambda>_.
      go_defer (deferredPatchKubemarkMachine L mc km) (
      perform (onApi (NewKubemarkCluster L c ref ns)) (reconcileOnCluster L r km' cl))))
      (\<lambda>_ f'. logs ?P t0 (api f')) f'" if "calm ?P t0 km' m f'" for ref ns mc f'
    unfolding wp_attempt
    by (rule calm_onApi [OF patched that])
      (auto simp: wp_go_defer simp del: deferred_km intro!: deferred cluster, auto simp: calm_def)
  then show ?thesis
    unfolding reconcileOwned_def wp_assign wp_reading r(1) using f by (simp add: km calm_def)
qed

lemma Reconcile_creates:
  fixes L :: "'w lib" and img wfv :: string
  assumes "fetches L c req (world s) = Some (km, m, cl, w)"
  defines "b \<equiv> Reconcile L (newKubemarkMachineReconciler L c img wfv) req"
  shows "list_all (createsFor L img (addMachineFinalizer L km) m) (callsOf b s)"
proof -
  let ?P = "createsFor L img (addMachineFinalizer L km) m"
    and ?r = "newKubemarkMachineReconciler L c img wfv"
  let ?f = "\<lparr>api = \<lparr>world = w, trace = trace s @ fetchLog c req km m\<rparr>,
    kubemarkMachine = km, machine = m\<rparr>"
  have fetched: "snd (b s) = api (snd (reconcileOwned L ?r km cl ?f))"
    using assms(1) Reconcile_fetched [of L ?r req s] by (simp add: b_def inFrame_snd)
  have "list_all ?P (fetchLog c req km m)"
    by (simp add: fetchLog_def)
  then have "wp (reconcileOwned L ?r km cl) (\<lambda>_ f'. logs ?P (trace s) (api f')) ?f"
    by (intro reconcileOwned_creates) (auto simp: logs_def)
  then show ?thesis
    by (auto simp: wp_def case_prod_beta fetched logs_def callsOf_def)
qed

section \<open>A pod and a secret that belong together\<close>

text \<open>The kubelet of the pod finds in the secret what it needs to be the node it is started as.\<close>

definition findsCredentials :: "'w lib \<Rightarrow> Pod \<Rightarrow> Secret \<Rightarrow> bool" where
  "findsCredentials L p x \<longleftrightarrow> (\<exists>cont dir volume restConfig user node.
     Containers p = [cont] \<and>
     \<lparr>MountPath = dir, vm_Name = volume\<rparr> \<in> set (VolumeMounts cont) \<and>
     \<lparr>volume_Name = volume, Source = SecretVolume (secret_Name x)\<rparr> \<in> set (Volumes p) \<and>
     Encode_KubeConfig L (kubeconfigData restConfig (ClientCertificate user)) =
       Inr (dataOf x ''kubeconfig'') \<and>
     map_option snd (resolve (kubeconfigData restConfig (ClientCertificate user))) = Some user \<and>
     ClientCertificate user = dir @ ''/cert.pem'' \<and> ClientKey user = dir @ ''/cert.pem'' \<and>
     identifies L node (dataOf x ''cert.pem'') \<and> ''--name='' @ node \<in> set (Args cont))"

text \<open>They need not come from the same reconciliation, only carry the same name.\<close>

lemma credentials_fit:
  assumes "podFor L' img km' m p" and "secretFor L km x"
    and "Name (km_ObjectMeta km') = Name (km_ObjectMeta km)"
  shows "findsCredentials L p x"
proof -
  obtain ver cont where pod: "Containers p = [cont]" "hollowArgs L' km' ver = Some (Args cont)"
      "\<lparr>MountPath = ''/kubeconfig'', vm_Name = ''kubeconfig''\<rparr> \<in> set (VolumeMounts cont)"
      "\<lparr>volume_Name = ''kubeconfig'', Source = SecretVolume (Name (km_ObjectMeta km))\<rparr> \<in> set (Volumes p)"
    using assms(1,3) by (auto simp: podFor_def split: option.splits list.splits)
  obtain cfg pem kubeconfig where secret: "secret_Name x = Name (km_ObjectMeta km)"
      "dataOf x ''kubeconfig'' = kubeconfig" "dataOf x ''cert.pem'' = pem"
      "generateCertificateKubeconfig L cfg ''/kubeconfig/cert.pem'' = Inr kubeconfig"
      "identifies L (Name (km_ObjectMeta km)) pem"
    using assms(2) by (auto simp: secretFor_def issuedFiles_def dataOf_def)
  let ?user = "\<lparr>ClientCertificate = ''/kubeconfig/cert.pem'', ClientKey = ''/kubeconfig/cert.pem''\<rparr>"
  have "map_option snd (resolve (kubeconfigData cfg (ClientCertificate ?user))) = Some ?user"
    by (simp add: resolve_def kubeconfigData_def Let_def)
  then show ?thesis
    using pod secret hollowArgs_names_node [OF pod(2)] assms(3) unfolding findsCredentials_def
    by (intro exI [of _ cont] exI [of _ "''/kubeconfig''"] exI [of _ "''kubeconfig''"] exI [of _ cfg]
        exI [of _ ?user] exI [of _ "Name (km_ObjectMeta km)"])
      (simp add: generateCertificateKubeconfig_def)
qed

end
