(* ===== verification/Machine_Branches.thy ===== *)
theory Machine_Branches
  imports Machine_Properties
begin

text \<open>
  One reconciliation of a \<open>KubemarkMachine\<close>, branch by branch: what it returns and which calls it
  ends with, once the objects are fetched, the finalizer is stored and the kubemark cluster's
  client is there (\<open>connects\<close>).
\<close>

section \<open>Up to the kubemark cluster\<close>

text \<open>
  The machine, its owner, its cluster, the kubemark cluster's client and namespace, and the state
  after the calls that gave them; \<open>None\<close> when one of those calls failed or no owner is set.
\<close>

definition connects :: "'w lib \<Rightarrow> kclient \<Rightarrow> NamespacedName \<Rightarrow> 'w io \<Rightarrow>
    (KubemarkMachine \<times> Machine \<times> Cluster \<times> kclient \<times> string \<times> 'w io) option" where
  "connects L c req s =
     (case fetches L c req (world s) of
        None \<Rightarrow> None
      | Some (km, m, cl, w) \<Rightarrow>
          (case patchKubemarkMachine L c km (addMachineFinalizer L km)
                  \<lparr>world = w, trace = trace s @ fetchLog c req km m\<rparr> of
             (Inl e, s1) \<Rightarrow> None
           | (Inr u, s1) \<Rightarrow>
               (case NewKubemarkCluster L c (KubemarkHollowPodClusterSecretRef (km_Spec km))
                       (Namespace (km_ObjectMeta km)) s1 of
                  ((Some kc, ns, None), s2) \<Rightarrow> Some (km, m, cl, kc, ns, s2)
                | _ \<Rightarrow> None)))"

text \<open>The rest of the body, behind the deferred patch.\<close>

definition afterConnect :: "'w lib \<Rightarrow> 'w KubemarkMachineReconciler \<Rightarrow> KubemarkMachine \<Rightarrow> Cluster \<Rightarrow>
    kclient \<Rightarrow> string \<Rightarrow> 'w frame body" where
  "afterConnect L r km cl kc ns =
     go_defer (deferredPatchKubemarkMachine L (kmr_Client r) km)
       (if \<not> IsZero L (DeletionTimestamp (km_ObjectMeta km)) then reconcileDelete L kc ns
        else returnIf (Ready (km_Status km)) emptyResult None (reconcileNormal L r cl kc ns))"

lemma Reconcile_connected:
  assumes "connects L c req s = Some (km, m, cl, kc, ns, s2)"
  shows "Reconcile L (newKubemarkMachineReconciler L c img wfv) req s =
    inFrame (addMachineFinalizer L km) m
      (afterConnect L (newKubemarkMachineReconciler L c img wfv) km cl kc ns) s2"
proof -
  obtain w where fetched: "fetches L c req (world s) = Some (km, m, cl, w)"
    using assms by (auto simp: connects_def split: option.splits prod.splits sum.splits)
  show ?thesis
    using assms Reconcile_fetched [of L "newKubemarkMachineReconciler L c img wfv" req s] fetched
    by (auto simp: connects_def afterConnect_def reconcileOwned_def reconcileOnCluster_def
        body_defs frame_defs split: option.splits prod.splits sum.splits)
qed

lemma connects_log:
  assumes "connects L c req s = Some (km, m, cl, kc, ns, s2)"
  shows "\<exists>pre. trace s2 = trace s @ pre \<and> list_all quiet pre"
proof -
  obtain w u s1 res where "patchKubemarkMachine L c km (addMachineFinalizer L km)
      \<lparr>world = w, trace = trace s @ fetchLog c req km m\<rparr> = (Inr u, s1)"
    and gen: "NewKubemarkCluster L c (KubemarkHollowPodClusterSecretRef (km_Spec km))
      (Namespace (km_ObjectMeta km)) s1 = (res, s2)"
    using assms by (auto simp: connects_def split: option.splits prod.splits sum.splits)
  then have s1: "trace s1 = trace s @ fetchLog c req km m @
      [PatchedKubemarkMachine c km (addMachineFinalizer L km) None]"
    by (auto simp: patchKubemarkMachine_def invoke_def split: prod.splits)
  from kc.generate_reads [OF gen] obtain evs where "trace s2 = trace s1 @ evs" "list_all isRead evs"
    by (rule appendsE)
  then show ?thesis
    using s1 fetchLog_reads [of c req km m] by (auto simp: list_all_iff)
qed

text \<open>The log and the outcome of the whole call, from those of its second part.\<close>

lemma connected_calls:
  assumes "connects L c req s = Some (km, m, cl, kc, ns, s2)"
    and post: "wp (afterConnect L (newKubemarkMachineReconciler L c img wfv) km cl kc ns)
           (\<lambda>out f. \<exists>mid. trace (api f) = trace s2 @ mid \<and> R out mid)
           \<lparr>api = s2, kubemarkMachine = addMachineFinalizer L km, machine = m\<rparr>"
  defines "b \<equiv> Reconcile L (newKubemarkMachineReconciler L c img wfv) req"
  shows "\<exists>pre mid. callsOf b s = pre @ mid \<and> list_all quiet pre \<and> R (fst (b s)) mid"
proof -
  have eq: "b s = inFrame (addMachineFinalizer L km) m
      (afterConnect L (newKubemarkMachineReconciler L c img wfv) km cl kc ns) s2"
    unfolding b_def by (rule Reconcile_connected [OF assms(1)])
  obtain pre where pre: "trace s2 = trace s @ pre" "list_all quiet pre"
    using connects_log [OF assms(1)] by auto
  obtain mid where "trace (snd (b s)) = trace s2 @ mid" "R (fst (b s)) mid"
    using post by (auto simp: eq inFrame_def wp_def split: prod.splits)
  with pre show ?thesis
    by (intro exI [of _ pre] exI [of _ mid]) (simp add: callsOf_def)
qed

section \<open>Without a stored finalizer\<close>

lemma finalizer_not_stored:
  fixes L :: "'w lib" and img wfv :: string
  assumes "fetches L c req (world s) = Some (km, m, cl, w)"
    and "Patch_KubemarkMachine L c km (addMachineFinalizer L km) w = (Inl e, w')"
  defines "b \<equiv> Reconcile L (newKubemarkMachineReconciler L c img wfv) req"
  shows "fst (b s) = Returned emptyResult (Some e)"
    and "callsOf b s = fetchLog c req km m @
      [PatchedKubemarkMachine c km (addMachineFinalizer L km) (Some e)]"
  using Reconcile_fetched [of L "newKubemarkMachineReconciler L c img wfv" req s] assms
  by (simp_all add: b_def callsOf_def reconcileOwned_def body_defs frame_defs
      patchKubemarkMachine_def invoke_def)

text \<open>Without a client either: the two ways in which a reconciliation ends before it has one.\<close>

lemma unconnected_ends:
  fixes L :: "'w lib" and img wfv :: string
  assumes found: "fetches L c req (world s) = Some (km, m, cl, w)" and "connects L c req s = None"
  defines "b \<equiv> Reconcile L (newKubemarkMachineReconciler L c img wfv) req"
    and "km' \<equiv> addMachineFinalizer L km"
  shows "\<exists>pre mid. callsOf b s = pre @ mid \<and> list_all quiet pre \<and>
    ((\<exists>e. fst (b s) = Returned emptyResult (Some e) \<and> mid = [PatchedKubemarkMachine c km km' (Some e)]) \<or>
     (\<exists>e reads e'. fst (b s) = Returned requeueAfter10s (Some e) \<and> list_all isRead reads \<and>
        mid = PatchedKubemarkMachine c km km' None # reads @ [PatchedKubemarkMachine c km km' e']))"
proof -
  let ?r = "newKubemarkMachineReconciler L c img wfv" and ?pre = "fetchLog c req km m"
  let ?s = "\<lparr>world = w, trace = trace s @ ?pre\<rparr>"
  have quiet: "list_all quiet ?pre"
    using fetchLog_reads [of c req km m] by (simp add: list_all_iff)
  note run = Reconcile_fetched [of L ?r req s, simplified, OF found, folded b_def]
  obtain r1 s1 where patch: "patchKubemarkMachine L c km km' ?s = (r1, s1)" by fastforce
  then have s1: "trace s1 = trace s @ ?pre @ [PatchedKubemarkMachine c km km' (errOf r1)]"
    by (auto simp: patchKubemarkMachine_def invoke_def split: prod.splits)
  show ?thesis
  proof (cases r1)
    case (Inl e)
    then have "fst (b s) = Returned emptyResult (Some e)"
      and "callsOf b s = ?pre @ [PatchedKubemarkMachine c km km' (Some e)]"
      using patch s1 by (simp_all add: run callsOf_def reconcileOwned_def body_defs frame_defs km'_def)
    then show ?thesis using quiet by blast
  next
    case (Inr u)
    obtain kc ns err s2 where gen: "NewKubemarkCluster L c (KubemarkHollowPodClusterSecretRef (km_Spec km))
        (Namespace (km_ObjectMeta km)) s1 = ((kc, ns, err), s2)"
      by (metis prod_cases3 surj_pair)
    obtain e where e: "err = Some e"
    proof (cases err)
      case None
      then obtain client where "kc = Some client"
        using kc.generate_client [OF gen [unfolded None]] by blast
      then show ?thesis
        using None assms(2) found patch gen Inr by (simp add: connects_def km'_def)
    qed
    obtain reads where reads: "trace s2 = trace s1 @ reads" "list_all isRead reads"
      using kc.generate_reads [OF gen] by (rule appendsE)
    obtain r3 s3 where last: "patchKubemarkMachine L c km km' s2 = (r3, s3)" by fastforce
    then have s3: "trace s3 = trace s2 @ [PatchedKubemarkMachine c km km' (errOf r3)]"
      by (auto simp: patchKubemarkMachine_def invoke_def split: prod.splits)
    have "b s = (Returned requeueAfter10s (Some e), s3)"
      using patch gen e last Inr
      by (simp add: run reconcileOwned_def reconcileOnCluster_def body_defs frame_defs km'_def
          deferredPatchKubemarkMachine_def)
    then have "fst (b s) = Returned requeueAfter10s (Some e)"
      and "callsOf b s = ?pre @ PatchedKubemarkMachine c km km' None # reads @
        [PatchedKubemarkMachine c km km' (errOf r3)]"
      using s1 s3 reads(1) Inr by (simp_all add: callsOf_def)
    then show ?thesis using quiet reads(2) by blast
  qed
qed

section \<open>Deletion\<close>

text \<open>
  How a reconciliation of a machine that is being deleted ends: with the error of one of the two
  deletions and the finalizer still there, or without an error and the finalizer released.
\<close>

definition deletionKept :: "'w lib \<Rightarrow> kclient \<Rightarrow> NamespacedName \<Rightarrow> go_error \<Rightarrow> KubemarkMachine \<Rightarrow>
    KubemarkMachine \<Rightarrow> kclient \<Rightarrow> event list \<Rightarrow> bool" where
  "deletionKept L kc key e km km' c mid \<longleftrightarrow>
     (\<exists>e'. mid = [DeletedPod kc key (Some e), PatchedKubemarkMachine c km km' e']) \<or>
     (\<exists>e1 e'. tolerated (IsNotFound L) e1 \<and>
        mid = [DeletedPod kc key e1, DeletedSecret kc key (Some e),
               PatchedKubemarkMachine c km km' e'])"

definition deletionDone :: "'w lib \<Rightarrow> kclient \<Rightarrow> NamespacedName \<Rightarrow> KubemarkMachine \<Rightarrow>
    KubemarkMachine \<Rightarrow> kclient \<Rightarrow> event list \<Rightarrow> bool" where
  "deletionDone L kc key km km' c mid \<longleftrightarrow>
     (\<exists>e1 e2 e'. tolerated (IsNotFound L) e1 \<and> tolerated (IsNotFound L) e2 \<and>
        mid = [DeletedPod kc key e1, DeletedSecret kc key e2,
               PatchedKubemarkMachine c km (removeMachineFinalizer L km') e'])"

definition deletionEnds :: "'w lib \<Rightarrow> kclient \<Rightarrow> NamespacedName \<Rightarrow> KubemarkMachine \<Rightarrow>
    KubemarkMachine \<Rightarrow> kclient \<Rightarrow> outcome \<Rightarrow> event list \<Rightarrow> bool" where
  "deletionEnds L kc key km km' c out mid \<longleftrightarrow>
     (\<exists>e. \<not> IsNotFound L e \<and> out = Returned emptyResult (Some e) \<and>
        deletionKept L kc key e km km' c mid) \<or>
     out = Returned emptyResult None \<and> deletionDone L kc key km km' c mid"

lemma afterConnect_deleting:
  assumes "\<not> IsZero L (DeletionTimestamp (km_ObjectMeta km))"
    and "kubemarkMachine f = addMachineFinalizer L km"
  shows "wp (afterConnect L r km cl kc ns) (\<lambda>out f'.
    \<exists>mid. trace (api f') = trace (api f) @ mid \<and>
      deletionEnds L kc (podKey km ns) km (addMachineFinalizer L km) (kmr_Client r) out mid) f"
proof -
  have "podKey (addMachineFinalizer L km) ns = podKey km ns"
    by (simp add: podKey_def)
  then show ?thesis
    using assms unfolding afterConnect_def reconcileDelete_def
    by (auto simp: wp_simps deletionEnds_def deletionKept_def deletionDone_def)
qed

lemma deletion_ends:
  fixes L :: "'w lib" and img wfv :: string
  assumes "connects L c req s = Some (km, m, cl, kc, ns, s2)"
    and "\<not> IsZero L (DeletionTimestamp (km_ObjectMeta km))"
  defines "b \<equiv> Reconcile L (newKubemarkMachineReconciler L c img wfv) req"
  shows "\<exists>pre mid. callsOf b s = pre @ mid \<and> list_all quiet pre \<and>
    deletionEnds L kc (podKey km ns) km (addMachineFinalizer L km) c (fst (b s)) mid"
  unfolding b_def
  by (rule connected_calls [OF assms(1)])
    (use afterConnect_deleting [OF assms(2)] in \<open>force elim: wp_mono\<close>)

text \<open>
  The call was answered as asked for: without an error, or with the one that says that an object to
  create is there already, or that one to delete is gone.
\<close>

fun wentWell :: "'w lib \<Rightarrow> event \<Rightarrow> bool" where
  "wentWell L (CreatedSecret c x err) \<longleftrightarrow> tolerated (IsAlreadyExists L) err"
| "wentWell L (CreatedPod c p err) \<longleftrightarrow> tolerated (IsAlreadyExists L) err"
| "wentWell L (DeletedSecret c k err) \<longleftrightarrow> tolerated (IsNotFound L) err"
| "wentWell L (DeletedPod c k err) \<longleftrightarrow> tolerated (IsNotFound L) err"
| "wentWell L (PatchedKubemarkMachine c b a err) \<longleftrightarrow> err = None"
| "wentWell L (PatchedMachine c b' a' err) \<longleftrightarrow> err = None"
| "wentWell L (PatchedKubemarkMachineTemplate c t u err) \<longleftrightarrow> err = None"
| "wentWell L (GotKubemarkMachine c k err) \<longleftrightarrow> err = None"
| "wentWell L (GotKubemarkMachineTemplate c k err) \<longleftrightarrow> err = None"
| "wentWell L (GotSecret c k err) \<longleftrightarrow> err = None"
| "wentWell L (GotOwnerMachine c meta err) \<longleftrightarrow> err = None"
| "wentWell L (GotCluster c meta err) \<longleftrightarrow> err = None"
| "wentWell L (GotRESTConfig c k err) \<longleftrightarrow> err = None"
| "wentWell L (BuiltClient cfg err) \<longleftrightarrow> err = None"

text \<open>If all calls go well it ends in the second way, and the last patch is accepted.\<close>

lemma deletion_succeeds:
  fixes L :: "'w lib" and img wfv :: string
  assumes c: "connects L c req s = Some (km, m, cl, kc, ns, s2)"
    and del: "\<not> IsZero L (DeletionTimestamp (km_ObjectMeta km))"
  defines "b \<equiv> Reconcile L (newKubemarkMachineReconciler L c img wfv) req"
  assumes well: "list_all (wentWell L) (callsOf b s)"
  shows "fst (b s) = Returned emptyResult None"
    and "\<exists>pre e1 e2. callsOf b s = pre @ [DeletedPod kc (podKey km ns) e1, DeletedSecret kc (podKey km ns) e2,
      PatchedKubemarkMachine c km (removeMachineFinalizer L (addMachineFinalizer L km)) None]"
  using deletion_ends [OF c del, of img wfv, folded b_def] well
  by (auto simp: deletionEnds_def deletionKept_def deletionDone_def)

section \<open>A machine that is ready\<close>

lemma ready_skips:
  fixes L :: "'w lib" and img wfv :: string
  assumes c: "connects L c req s = Some (km, m, cl, kc, ns, s2)"
    and "IsZero L (DeletionTimestamp (km_ObjectMeta km))" and "Ready (km_Status km)"
  defines "b \<equiv> Reconcile L (newKubemarkMachineReconciler L c img wfv) req"
  shows "fst (b s) = Returned emptyResult None"
    and "\<exists>pre e. callsOf b s = pre @ [PatchedKubemarkMachine c km (addMachineFinalizer L km) e] \<and>
      list_all quiet pre"
proof -
  let ?r = "newKubemarkMachineReconciler L c img wfv"
  have "wp (afterConnect L ?r km cl kc ns) (\<lambda>out f'.
      \<exists>mid. trace (api f') = trace s2 @ mid \<and> (out = Returned emptyResult None \<and>
        (\<exists>e. mid = [PatchedKubemarkMachine c km (addMachineFinalizer L km) e])))
      \<lparr>api = s2, kubemarkMachine = addMachineFinalizer L km, machine = m\<rparr>"
    using assms(2,3) unfolding afterConnect_def by (auto simp: wp_simps)
  from connected_calls [OF c this]
  show "fst (b s) = Returned emptyResult None"
    and "\<exists>pre e. callsOf b s = pre @ [PatchedKubemarkMachine c km (addMachineFinalizer L km) e] \<and>
      list_all quiet pre"
    by (auto simp: b_def)
qed

section \<open>Provisioning\<close>

text \<open>What the objects must say for a pod to be started now.\<close>

definition provisionable :: "'w lib \<Rightarrow> KubemarkMachine \<Rightarrow> Machine \<Rightarrow> Cluster \<Rightarrow> bool" where
  "provisionable L km m cl \<longleftrightarrow>
     IsZero L (DeletionTimestamp (km_ObjectMeta km)) \<and> \<not> Ready (km_Status km) \<and>
     InfrastructureReady cl \<and> DataSecretName m \<noteq> None \<and>
     (\<exists>ver. Version m = Some ver \<and> hollowArgs L km ver \<noteq> None)"

text \<open>
  The calls that give the kubelet its credentials, one after the other from \<open>s\<close> to \<open>s'\<close>, each with the
  arguments that the answers before it make, and each without an error.
\<close>

definition issues :: "'w lib \<Rightarrow> kclient \<Rightarrow> Cluster \<Rightarrow> string \<Rightarrow> 'w io \<Rightarrow> bytes \<Rightarrow> bytes \<Rightarrow> 'w io \<Rightarrow> bool"
where
  "issues L c cl name s kubeconfig pem s' \<longleftrightarrow>
     (\<exists>cfg ca key der caCert caKey now cert certPEM s1 s2 s3 s4.
        getRemoteCluster L c cl s = (Inr cfg, s1) \<and>
        getSecret L c \<lparr>nn_Namespace = cluster_Namespace cl,
          nn_Name = SecretNameOf L (cluster_Name cl) (ClusterCA L)\<rparr> s1 = (Inr ca, s2) \<and>
        effect (GenerateKey L) s2 = (Inr key, s3) \<and> MarshalECPrivateKey L key = Inr der \<and>
        DecodeCertPEM L (dataOf ca (TLSCrtDataName L)) = Inr caCert \<and>
        DecodePrivateKeyPEM L (dataOf ca (TLSKeyDataName L)) = Inr caKey \<and>
        effect (Now L) s3 = (now, s4) \<and>
        effect (CreateCertificate L (kubeletCertificate name now) caCert (PublicKey L key) caKey) s4 =
          (Inr cert, s') \<and>
        generateCertificateKubeconfig L cfg ''/kubeconfig/cert.pem'' = Inr kubeconfig \<and>
        Pem_Encode L (CertificateBlockType L) cert = Inr certPEM \<and>
        pem = certPEM @ Pem_EncodeToMemory L (ECPrivateKeyBlockType L) der)"

text \<open>
  With them the secret \<open>x\<close> and then the pod \<open>p\<close> can be created, or are there already.
\<close>

definition provides :: "'w lib \<Rightarrow> string \<Rightarrow> kclient \<Rightarrow> kclient \<Rightarrow> string \<Rightarrow> KubemarkMachine \<Rightarrow> Machine \<Rightarrow>
    Cluster \<Rightarrow> 'w io \<Rightarrow> Secret \<Rightarrow> Pod \<Rightarrow> 'w io \<Rightarrow> bool" where
  "provides L img c kc ns km m cl s x p s' \<longleftrightarrow>
     errOf (NewHelper_Machine L c m) = None \<and>
     (\<exists>kubeconfig pem ver args s1 r1 s2 r2.
        issues L c cl (Name (km_ObjectMeta km)) s kubeconfig pem s1 \<and>
        x = \<lparr>secret_Name = Name (km_ObjectMeta km), secret_Namespace = ns,
          Data = Some (fmupd ''cert.pem'' pem (fmupd ''kubeconfig'' kubeconfig fmempty))\<rparr> \<and>
        createSecret L kc x s1 = (r1, s2) \<and> tolerated (IsAlreadyExists L) (errOf r1) \<and>
        Version m = Some ver \<and> hollowArgs L km ver = Some args \<and>
        hollowPod L img km ns ver args (secret_Name x) = Some p \<and>
        createPod L kc p s2 = (r2, s') \<and> tolerated (IsAlreadyExists L) (errOf r2))"

lemma provides_finalizer [simp]:
  "provides L img c kc ns (addMachineFinalizer L km) m cl s x p s' = provides L img c kc ns km m cl s x p s'"
  by (simp add: provides_def hollowPod_def)

text \<open>The owner with the provider ID of its pod.\<close>

definition identified :: "KubemarkMachine \<Rightarrow> Machine \<Rightarrow> Machine" where
  "identified km m = m\<lparr>machine_ProviderID := Some (providerIDOf (Name (km_ObjectMeta km)))\<rparr>"

lemma launch_provides:
  assumes "hollowPod L img km ns ver args (secret_Name x) = Some p"
    and "createPod L kc p s = (r, s')" and "tolerated (IsAlreadyExists L) (errOf r)"
  shows "launch L img kc ns x ver args \<lparr>api = s, kubemarkMachine = km, machine = m\<rparr> =
    (Returned emptyResult None, \<lparr>api = s', kubemarkMachine = markReady km, machine = identified km m\<rparr>)"
  using assms
  by (cases r) (simp_all add: launch_def body_defs frame_defs identified_def)

lemma issueCredentials_provides:
  assumes "issues L c cl (Name (km_ObjectMeta km)) s kubeconfig pem s1"
    and "x = \<lparr>secret_Name = Name (km_ObjectMeta km), secret_Namespace = ns,
          Data = Some (fmupd ''cert.pem'' pem (fmupd ''kubeconfig'' kubeconfig fmempty))\<rparr>"
    and "createSecret L kc x s1 = (r, s2)" and "tolerated (IsAlreadyExists L) (errOf r)"
  shows "attempt (onApi (getRemoteCluster L c cl)) (\<lambda>cfg. issueCredentials L c cl cfg kc ns body)
      \<lparr>api = s, kubemarkMachine = km, machine = m\<rparr> =
    body x \<lparr>api = s2, kubemarkMachine = km, machine = m\<rparr>"
  using assms unfolding issues_def
  by (cases r) (auto simp: issueCredentials_def body_defs frame_defs Let_def)

lemma reconcileNormal_provides:
  assumes ok: "provisionable L km m cl" and p: "provides L img c kc ns km m cl s x p s'"
    and r: "kmr_Client r = c" "KubemarkImage r = img"
  shows "reconcileNormal L r cl kc ns \<lparr>api = s, kubemarkMachine = km, machine = m\<rparr> =
    (Returned emptyResult None, deferredPatchMachine L c m
      \<lparr>api = s', kubemarkMachine = markReady km, machine = identified km m\<rparr>)"
proof -
  from p obtain kubeconfig pem ver args s1 r1 s2 r2 where helper: "errOf (NewHelper_Machine L c m) = None"
    and i: "issues L c cl (Name (km_ObjectMeta km)) s kubeconfig pem s1"
      "x = \<lparr>secret_Name = Name (km_ObjectMeta km), secret_Namespace = ns,
          Data = Some (fmupd ''cert.pem'' pem (fmupd ''kubeconfig'' kubeconfig fmempty))\<rparr>"
      "createSecret L kc x s1 = (r1, s2)" "tolerated (IsAlreadyExists L) (errOf r1)"
    and v: "Version m = Some ver" "hollowArgs L km ver = Some args"
    and l: "hollowPod L img km ns ver args (secret_Name x) = Some p"
      "createPod L kc p s2 = (r2, s')" "tolerated (IsAlreadyExists L) (errOf r2)"
    unfolding provides_def by blast
  have args: "selectArgs L (launch L img kc ns x) \<lparr>api = s2, kubemarkMachine = km, machine = m\<rparr> =
      launch L img kc ns x ver args \<lparr>api = s2, kubemarkMachine = km, machine = m\<rparr>"
    by (rule selectArgs_eq) (simp_all add: v)
  note run = issueCredentials_provides [OF i, of "\<lambda>x. selectArgs L (launch L img kc ns x)" m,
      unfolded args launch_provides [OF l]]
  obtain h where "NewHelper_Machine L c m = Inr h"
    using helper by (cases "NewHelper_Machine L c m") simp_all
  moreover obtain data where "DataSecretName m = Some data" "InfrastructureReady cl"
    using ok by (auto simp: provisionable_def)
  ultimately show ?thesis
    using run
    by (simp add: reconcileNormal_def r reading_def attemptWith_def pureCall_def go_defer_def
        returnIf_def)
qed

text \<open>One reconciliation that provisions, from the state in which the client is there.\<close>

lemma provisioning_run:
  fixes L :: "'w lib" and img wfv :: string
  assumes c: "connects L c req s = Some (km, m, cl, kc, ns, s2)" and ok: "provisionable L km m cl"
    and p: "provides L img c kc ns km m cl s2 x p s3"
  defines "km' \<equiv> markReady (addMachineFinalizer L km)"
  shows "Reconcile L (newKubemarkMachineReconciler L c img wfv) req s = (Returned emptyResult None,
    snd (patchKubemarkMachine L c km km' (snd (patchMachine L c m (identified km m) s3))))"
proof -
  let ?km = "addMachineFinalizer L km"
  have "provisionable L ?km m cl" "provides L img c kc ns ?km m cl s2 x p s3"
    using ok p by (simp_all add: provisionable_def)
  note run = reconcileNormal_provides [OF this, of "newKubemarkMachineReconciler L c img wfv"]
  show ?thesis
    unfolding Reconcile_connected [OF c, of img wfv] using ok
    by (simp add: inFrame_def afterConnect_def go_defer_def returnIf_def provisionable_def run km'_def
        deferredPatchMachine_def deferredPatchKubemarkMachine_def onApi_def identified_def
        split: prod.split)
qed

lemma issues_reads:
  "issues L c cl name s kubeconfig pem s' \<Longrightarrow> appends isRead s s'"
  by (auto simp: issues_def getRemoteCluster_def getSecret_def remoteRESTConfig_def invoke_def
      effect_def appends_def split: prod.splits sum.splits)

lemma provides_log:
  assumes "provides L img c kc ns km m cl s x p s'"
  shows "\<exists>mid e1 e2. trace s' = trace s @ mid @ [CreatedSecret kc x e1, CreatedPod kc p e2]"
proof -
  from assms obtain kubeconfig pem s1 r1 s2 r2 where
    i: "issues L c cl (Name (km_ObjectMeta km)) s kubeconfig pem s1"
    and "createSecret L kc x s1 = (r1, s2)" "createPod L kc p s2 = (r2, s')"
    unfolding provides_def by blast
  then have "trace s' = trace s1 @ [CreatedSecret kc x (errOf r1), CreatedPod kc p (errOf r2)]"
    by (auto simp: createSecret_def createPod_def invoke_def split: prod.splits)
  moreover obtain mid where "trace s1 = trace s @ mid"
    using issues_reads [OF i] by (rule appendsE)
  ultimately show ?thesis by simp
qed

lemma patch_trace:
  "trace (snd (patchMachine L c mb ma s)) =
     trace s @ [PatchedMachine c mb ma (errOf (fst (patchMachine L c mb ma s)))]"
  "trace (snd (patchKubemarkMachine L c b a s)) =
     trace s @ [PatchedKubemarkMachine c b a (errOf (fst (patchKubemarkMachine L c b a s)))]"
  by (simp_all add: patchMachine_def patchKubemarkMachine_def invoke_def split: prod.split)

lemma provisioning_succeeds:
  fixes L :: "'w lib" and img wfv :: string
  assumes c: "connects L c req s = Some (km, m, cl, kc, ns, s2)" and ok: "provisionable L km m cl"
    and p: "provides L img c kc ns km m cl s2 x p s3"
  defines "b \<equiv> Reconcile L (newKubemarkMachineReconciler L c img wfv) req"
    and "owner \<equiv> patchMachine L c m (identified km m) s3"
    and "km' \<equiv> markReady (addMachineFinalizer L km)"
  shows "fst (b s) = Returned emptyResult None"
    and "\<exists>pre e1 e2. callsOf b s = pre @ [CreatedSecret kc x e1, CreatedPod kc p e2,
      PatchedMachine c m (identified km m) (errOf (fst owner)),
      PatchedKubemarkMachine c km km' (errOf (fst (patchKubemarkMachine L c km km' (snd owner))))]"
proof -
  note run = provisioning_run [OF c ok p, of wfv, folded b_def owner_def km'_def]
  obtain mid e1 e2 where mid: "trace s3 = trace s2 @ mid @ [CreatedSecret kc x e1, CreatedPod kc p e2]"
    using provides_log [OF p] by blast
  obtain pre where pre: "trace s2 = trace s @ pre"
    using connects_log [OF c] by blast
  show "fst (b s) = Returned emptyResult None"
    by (simp add: run)
  have "trace (snd owner) = trace s3 @ [PatchedMachine c m (identified km m) (errOf (fst owner))]"
    unfolding owner_def by (rule patch_trace)
  then have "callsOf b s = (pre @ mid) @ [CreatedSecret kc x e1, CreatedPod kc p e2,
      PatchedMachine c m (identified km m) (errOf (fst owner)),
      PatchedKubemarkMachine c km km' (errOf (fst (patchKubemarkMachine L c km km' (snd owner))))]"
    using mid pre by (simp add: callsOf_def run patch_trace(2))
  then show "\<exists>pre e1 e2. callsOf b s = pre @ [CreatedSecret kc x e1, CreatedPod kc p e2,
      PatchedMachine c m (identified km m) (errOf (fst owner)),
      PatchedKubemarkMachine c km km' (errOf (fst (patchKubemarkMachine L c km km' (snd owner))))]"
    by blast
qed

end
