(* ===== verification/Template_Controller.thy ===== *)
theory Template_Controller
  imports Extended_Resources
begin

text \<open>
  \<open>controllers/kubemarkmachinetemplate_controller.go\<close>: the controller that publishes the
  capacity of a \<open>KubemarkMachineTemplate\<close> in its status, for autoscaling from zero.
\<close>

record KubemarkMachineTemplateReconciler =
  kmtr_Client :: kclient
  kmtr_WatchFilterValue :: string

definition templateOptions :: "KubemarkMachineTemplate \<Rightarrow> KubemarkProcessOptions" where
  "templateOptions t = KubemarkOptions (tr_Spec (Template (kmt_Spec t)))"

definition setCapacity :: "KubemarkMachineTemplate \<Rightarrow> (string, quantity) gomap \<Rightarrow>
    KubemarkMachineTemplate" where
  "setCapacity t cap = t\<lparr>kmt_Status := (kmt_Status t)\<lparr>Capacity := cap\<rparr>\<rparr>"

text \<open>
  The computation between fetching the template and patching it: \<open>None\<close> is the panic of
  \<open>MustParse\<close>, otherwise the template as it is now and the flag \<open>updateRequired\<close>. Equality of
  two values of type \<open>gomap\<close> is \<open>reflect.DeepEqual\<close>: nil and empty maps differ, and the entries
  are compared as whole quantities.
\<close>

definition updateCapacity :: "'w lib \<Rightarrow> KubemarkMachineTemplate \<Rightarrow>
    (KubemarkMachineTemplate \<times> bool) option" where
  "updateCapacity L machineTemplate =
     (case ExtendedResources (templateOptions machineTemplate) of
        None \<Rightarrow> Some (machineTemplate, False)
      | Some _ \<Rightarrow>
        (case getKubemarkExtendedResources L (templateOptions machineTemplate) of
           None \<Rightarrow> None
         | Some extendedResources \<Rightarrow>
             let capacity = Some (case extendedResources of
                              None \<Rightarrow> fmempty
                            | Some m \<Rightarrow> copyEntries (rangeResources L m) m fmempty)
             in if Capacity (kmt_Status machineTemplate) \<noteq> capacity
                then Some (setCapacity machineTemplate capacity, True)
                else Some (machineTemplate, False)))"

definition ReconcileTemplate ::
  "'w lib \<Rightarrow> KubemarkMachineTemplateReconciler \<Rightarrow> NamespacedName \<Rightarrow> 'w io body" where
  "ReconcileTemplate L r req =
     attemptWith (getKubemarkMachineTemplate L (kmtr_Client r) req)
       (\<lambda>err. ret emptyResult (if IsNotFound L err then None else Some err))
       (\<lambda>machineTemplate.
     attemptWith (pureCall (NewHelper_KubemarkMachineTemplate L (kmtr_Client r) machineTemplate))
       (\<lambda>err. ret emptyResult (Some (Errorf ''failed to init patch helper: '' err)))
       (\<lambda>_.
     orPanic ''resource.MustParse'' (updateCapacity L machineTemplate)
       (\<lambda>(after, updateRequired).
     if updateRequired
     then attemptUnless (IsNotFound L)
            (patchKubemarkMachineTemplate L (kmtr_Client r) machineTemplate after)
            (ret emptyResult None)
     else ret emptyResult None)))"

section \<open>The computed capacity\<close>

lemma updateCapacity_result:
  assumes "range_laws L" and "updateCapacity L t = Some (t', upd)"
  shows "upd \<longleftrightarrow> t' \<noteq> t"
    and "t' = setCapacity t (Capacity (kmt_Status t'))"
    and "ExtendedResources (templateOptions t) \<noteq> None \<Longrightarrow>
           Capacity (kmt_Status t') \<noteq> None \<and>
           gomap_get (Capacity (kmt_Status t')) k = resourcesSpec L (templateOptions t) k"
    and "ExtendedResources (templateOptions t) = None \<Longrightarrow> t' = t"
proof -
  have eq: "setCapacity t (Capacity (kmt_Status t)) = t"
    by (simp add: setCapacity_def)
  have ne: "cap \<noteq> Capacity (kmt_Status t) \<Longrightarrow> setCapacity t cap \<noteq> t" for cap
    by (metis KubemarkMachineTemplate.surjective KubemarkMachineTemplate.update_convs(3)
        KubemarkMachineTemplate.select_convs(3) KubemarkMachineTemplateStatus.select_convs(1)
        KubemarkMachineTemplateStatus.surjective KubemarkMachineTemplateStatus.update_convs(1)
        setCapacity_def)
  show "upd \<longleftrightarrow> t' \<noteq> t"
    using assms(2) ne
    by (fastforce simp: updateCapacity_def Let_def split: option.splits if_splits)
  show "t' = setCapacity t (Capacity (kmt_Status t'))"
    using assms(2) eq
    by (auto simp: updateCapacity_def Let_def setCapacity_def split: option.splits if_splits)
  show "ExtendedResources (templateOptions t) = None \<Longrightarrow> t' = t"
    using assms(2) by (simp add: updateCapacity_def)
  assume opts: "ExtendedResources (templateOptions t) \<noteq> None"
  then obtain res where res: "getKubemarkExtendedResources L (templateOptions t) = Some res"
    using assms(2) by (auto simp: updateCapacity_def split: option.splits)
  from resources_lookup [OF assms(1) res] obtain m where m: "res = Some m"
    by auto
  have "copyEntries (rangeResources L m) m fmempty = m"
    using assms(1) by (simp add: copyEntries_range range_laws_orders)
  then have "Capacity (kmt_Status t') = Some m"
    using assms(2) opts res m
    by (auto simp: updateCapacity_def Let_def setCapacity_def split: if_splits option.splits)
  then show "Capacity (kmt_Status t') \<noteq> None \<and>
      gomap_get (Capacity (kmt_Status t')) k = resourcesSpec L (templateOptions t) k"
    using resources_lookup(2) [OF assms(1) res, of k] m by simp
qed

text \<open>
  A template whose capacity was just published needs no update: the computation only looks at
  the options and at the capacity itself.
\<close>

lemma updateCapacity_idem:
  assumes "updateCapacity L t = Some (t', upd)"
  shows "updateCapacity L t' = Some (t', False)"
proof -
  have "templateOptions (setCapacity t cap) = templateOptions t" for cap
    by (simp add: templateOptions_def setCapacity_def)
  moreover have "Capacity (kmt_Status (setCapacity t cap)) = cap" for cap
    by (simp add: setCapacity_def)
  ultimately show ?thesis
    using assms by (auto simp: updateCapacity_def Let_def split: option.splits if_splits)
qed

lemma setCapacity_eq: "setCapacity t cap = t\<lparr>kmt_Status := \<lparr>Capacity = cap\<rparr>\<rparr>"
  by (cases "kmt_Status t") (simp add: setCapacity_def)

lemma updateCapacity_returns: "defaultsParse L \<Longrightarrow> updateCapacity L t \<noteq> None"
  using resources_returns [of L "templateOptions t"]
  by (auto simp: updateCapacity_def Let_def split: option.split)

lemma updateCapacity_published:
  assumes "range_laws L" and "updateCapacity L t = Some (t', upd)"
    and "ExtendedResources (templateOptions t) \<noteq> None"
  shows "getKubemarkExtendedResources L (templateOptions t) = Some (Capacity (kmt_Status t'))"
proof -
  obtain res where res: "getKubemarkExtendedResources L (templateOptions t) = Some res"
    using assms(2,3) by (auto simp: updateCapacity_def split: option.splits)
  obtain m where m: "res = Some m"
    using resources_lookup(1) [OF assms(1) res] by auto
  have "copyEntries (rangeResources L m) m fmempty = m"
    using assms(1) by (simp add: copyEntries_range range_laws_orders)
  then show ?thesis
    using assms(2,3) res m
    by (auto simp: updateCapacity_def Let_def setCapacity_def split: if_splits option.splits)
qed

lemma template_calls:
  assumes "range_laws L" and "e \<in> set (callsOf (ReconcileTemplate L r req) s)"
  shows "isRead e \<or> (\<exists>b a err. e = PatchedKubemarkMachineTemplate (kmtr_Client r) b a err \<and>
    a \<noteq> b \<and> a = b\<lparr>kmt_Status := \<lparr>Capacity = Capacity (kmt_Status a)\<rparr>\<rparr> \<and>
    ExtendedResources (templateOptions b) \<noteq> None)"
proof -
  have changed: "a \<noteq> b" "a = b\<lparr>kmt_Status := \<lparr>Capacity = Capacity (kmt_Status a)\<rparr>\<rparr>"
      "ExtendedResources (templateOptions b) \<noteq> None"
    if "updateCapacity L b = Some (a, True)" for a b
    using updateCapacity_result(1,2,4) [OF assms(1) that] by (auto simp flip: setCapacity_eq)
  have "isRead e \<or> (\<exists>b a err. e = PatchedKubemarkMachineTemplate (kmtr_Client r) b a err \<and>
      updateCapacity L b = Some (a, True))"
    using assms(2)
    by (auto simp: callsOf_def ReconcileTemplate_def body_defs call_defs invoke_def
        split: sum.splits option.splits prod.splits if_splits)
  then show ?thesis
  proof (elim disjE exE conjE)
    fix b a err
    assume e: "e = PatchedKubemarkMachineTemplate (kmtr_Client r) b a err"
      and upd: "updateCapacity L b = Some (a, True)"
    show ?thesis
      by (intro disjI2 exI [of _ b] exI [of _ a] exI [of _ err] conjI;
          rule e changed [OF upd])
  qed simp
qed

end
