(* ===== verification/Demo_Library.thy ===== *)
theory Demo_Library
  imports Machine_Protocol Template_Controller "HOL-Library.List_Lexorder" "HOL-Library.Char_ord"
begin

text \<open>
  One concrete value of the library parameters, for the witnesses: every call succeeds and
  answers with the objects of a \<open>demo\<close> record, the machine under its own name only, and maps are
  visited in alphabetical order. It shows that the laws named as hypotheses elsewhere can hold,
  and lets whole reconciliations be evaluated. It models no part of the program.
\<close>

record demo =
  d_machine :: KubemarkMachine
  d_owner :: "Machine option"
  d_cluster :: Cluster
  d_template :: KubemarkMachineTemplate
  d_secret :: Secret

definition alphabetical :: "(string, 'v) fmap \<Rightarrow> string list" where
  "alphabetical m = sorted_list_of_fset (fmdom m)"

lemma alphabetical_order: "range_order m (alphabetical m)"
  by (rule range_orderI) (simp_all add: alphabetical_def sorted_list_of_fset.rep_eq fmdom'_alt_def)

definition demoLib :: "demo \<Rightarrow> unit lib" where
  "demoLib d =
     \<lparr>IsNotFound = (\<lambda>e. e = Foreign ''NotFound''),
      IsAlreadyExists = (\<lambda>e. e = Foreign ''AlreadyExists''),
      IsZero = (\<lambda>t. t = None),
      MustParse = (\<lambda>s. Some (Quantity s)),
      QuantityString = (\<lambda>q. case q of Quantity s \<Rightarrow> s),
      Get_KubemarkMachine = (\<lambda>c k w.
        (if k = \<lparr>nn_Namespace = Namespace (km_ObjectMeta (d_machine d)),
                nn_Name = Name (km_ObjectMeta (d_machine d))\<rparr>
         then Inr (d_machine d) else Inl (Foreign ''NotFound''), w)),
      Get_KubemarkMachineTemplate = (\<lambda>c k w. (Inr (d_template d), w)),
      Get_Secret = (\<lambda>c k w. (Inr (d_secret d), w)),
      Create_Secret = (\<lambda>c x w. (Inr (), w)),
      Create_Pod = (\<lambda>c x w. (Inr (), w)),
      Delete_Secret = (\<lambda>c k w. (Inr (), w)),
      Delete_Pod = (\<lambda>c k w. (Inl (Foreign ''NotFound''), w)),
      AddFinalizer = (\<lambda>fs f. if f \<in> set fs then fs else fs @ [f]),
      RemoveFinalizer = (\<lambda>fs f. removeAll f fs),
      Lib_GetOwnerMachine = (\<lambda>c m w. (Inr (d_owner d), w)),
      Lib_GetClusterFromMetadata = (\<lambda>c m w. (Inr (d_cluster d), w)),
      NewHelper_KubemarkMachine = (\<lambda>c x. Inr ()),
      NewHelper_Machine = (\<lambda>c x. Inr ()),
      NewHelper_KubemarkMachineTemplate = (\<lambda>c x. Inr ()),
      Patch_KubemarkMachine = (\<lambda>c b a w. (Inr (), w)),
      Patch_Machine = (\<lambda>c b a w. (Inr (), w)),
      Patch_KubemarkMachineTemplate = (\<lambda>c b a w. (Inr (), w)),
      SecretNameOf = (\<lambda>cluster purpose. cluster @ ''-'' @ purpose),
      ClusterCA = ''ca'',
      TLSCrtDataName = ''tls.crt'',
      TLSKeyDataName = ''tls.key'',
      DecodeCertPEM = Inr,
      DecodePrivateKeyPEM = Inr,
      RESTConfig = (\<lambda>user c k w. (Inr \<lparr>Host = ''h'', CAFile = [], CAData = ''ca'',
        Insecure = False, Timeout = 0\<rparr>, w)),
      RESTConfigFromKubeConfig = (\<lambda>b. Inr \<lparr>Host = b, CAFile = [], CAData = [],
        Insecure = False, Timeout = 0\<rparr>),
      Client_New = (\<lambda>cfg c w. (Inr (KClient (Host cfg)), w)),
      Encode_KubeConfig = (\<lambda>kc. Inr (CurrentContext kc)),
      ECPrivateKeyBlockType = ''EC PRIVATE KEY'',
      CertificateBlockType = ''CERTIFICATE'',
      GenerateKey = (\<lambda>w. (Inr ''key'', w)),
      PublicKey = (\<lambda>k. k),
      MarshalECPrivateKey = Inr,
      Pem_EncodeToMemory = (\<lambda>t b. t @ b),
      Pem_Encode = (\<lambda>t b. Inr (t @ b)),
      CreateCertificate = (\<lambda>t p pub priv w. (Inr (CommonName t), w)),
      Now = (\<lambda>w. (0, w)),
      NewConstraint = Inr,
      NewVersion = Inr,
      Check = (\<lambda>c v. v = ''v1.22.0''),
      rangeOptions = alphabetical,
      rangeResources = alphabetical\<rparr>"

lemma demoLib_laws: "range_laws (demoLib d)" "finalizer_laws (demoLib d)" "defaultsParse (demoLib d)"
  by (auto simp: range_laws_def finalizer_laws_def defaultsParse_def demoLib_def alphabetical_order)

section \<open>Some objects\<close>

definition demoMeta :: "int option \<Rightarrow> ObjectMeta" where
  "demoMeta deleted = \<lparr>Name = ''node-0'', Namespace = ''fleet'', Labels = None,
     OwnerReferences = [], DeletionTimestamp = deleted, Finalizers = []\<rparr>"

definition demoSpec :: "(string, quantity) gomap \<Rightarrow> KubemarkMachineSpec" where
  "demoSpec res = \<lparr>ProviderID = None, ExtraMounts = [],
     KubemarkOptions = \<lparr>ExtendedResources = res\<rparr>, KubemarkHollowPodClusterSecretRef = None\<rparr>"

definition demoMachine :: "int option \<Rightarrow> bool \<Rightarrow> (string, quantity) gomap \<Rightarrow> KubemarkMachine" where
  "demoMachine deleted ready res = \<lparr>km_ObjectMeta = demoMeta deleted, km_Spec = demoSpec res,
     km_Status = \<lparr>Ready = ready, Conditions = []\<rparr>\<rparr>"

definition demoOwner :: "string option \<Rightarrow> Machine" where
  "demoOwner version = \<lparr>machine_ObjectMeta = demoMeta None, DataSecretName = Some ''boot'',
     Version = version, machine_ProviderID = None\<rparr>"

definition demoCluster :: "bool \<Rightarrow> Cluster" where
  "demoCluster ready = \<lparr>cluster_Name = ''c'', cluster_Namespace = ''fleet'',
     InfrastructureReady = ready\<rparr>"

definition demoTemplate :: "(string, quantity) gomap \<Rightarrow> (string, quantity) gomap \<Rightarrow>
    KubemarkMachineTemplate" where
  "demoTemplate res cap = \<lparr>kmt_ObjectMeta = demoMeta None,
     kmt_Spec = \<lparr>Template = \<lparr>tr_Spec = demoSpec res\<rparr>\<rparr>, kmt_Status = \<lparr>Capacity = cap\<rparr>\<rparr>"

definition demoSecret :: Secret where
  "demoSecret = \<lparr>secret_Name = ''kc'', secret_Namespace = ''fleet'',
     Data = Some (fmupd ''namespace'' '' hollow '' (fmupd ''kubeconfig'' ''remote'' fmempty))\<rparr>"

definition demoWith :: "KubemarkMachine \<Rightarrow> Machine option \<Rightarrow> demo" where
  "demoWith km m = \<lparr>d_machine = km, d_owner = m, d_cluster = demoCluster True,
     d_template = demoTemplate None None, d_secret = demoSecret\<rparr>"

definition demoRequest :: NamespacedName where
  "demoRequest = \<lparr>nn_Namespace = ''fleet'', nn_Name = ''node-0''\<rparr>"

lemma demoMachine_request [simp]:
  "\<lparr>nn_Namespace = Namespace (demoMeta deleted), nn_Name = Name (demoMeta deleted)\<rparr> = demoRequest"
  "\<lparr>nn_Namespace = Namespace (km_ObjectMeta (demoMachine deleted ready res)),
    nn_Name = Name (km_ObjectMeta (demoMachine deleted ready res))\<rparr> = demoRequest"
  by (simp_all add: demoMachine_def demoMeta_def demoRequest_def)

definition demoStart :: "unit io" where
  "demoStart = \<lparr>world = (), trace = []\<rparr>"

definition demoClient :: kclient where
  "demoClient = KClient ''management''"

lemmas demo_defs =
  demoLib_def demoMeta_def demoSpec_def demoMachine_def demoOwner_def demoCluster_def
  demoTemplate_def demoSecret_def demoWith_def demoRequest_def demoStart_def demoClient_def

section \<open>A deletion and a provisioning run\<close>

definition demoDeleting :: "unit lib" where
  "demoDeleting = demoLib (demoWith (demoMachine (Some 1) True None) (Some (demoOwner None)))"

definition demoProvisioning :: "unit lib" where
  "demoProvisioning =
     demoLib (demoWith (demoMachine None False None) (Some (demoOwner (Some ''v1.21.0''))))"

abbreviation demoCalls :: "unit lib \<Rightarrow> event list" where
  "demoCalls L \<equiv> callsOf
     (Reconcile L (newKubemarkMachineReconciler L demoClient ''img'' []) demoRequest) demoStart"

abbreviation demoOutcome :: "unit lib \<Rightarrow> outcome" where
  "demoOutcome L \<equiv> fst
     (Reconcile L (newKubemarkMachineReconciler L demoClient ''img'' []) demoRequest demoStart)"

lemmas demo_run_defs =
  demoDeleting_def demoProvisioning_def reconcile_defs body_defs call_defs frame_defs invoke_def
  effect_def callsOf_def demo_defs newKubemarkMachineReconciler_def NewKubemarkCluster_def
  generate_without_ref podKey_def addMachineFinalizer_def removeMachineFinalizer_def
  setFinalizers_def

lemma demoDeleting_run:
  defines "key \<equiv> \<lparr>nn_Namespace = ''fleet'', nn_Name = ''node-0''\<rparr>"
    and "km \<equiv> demoMachine (Some 1) True None"
  shows "demoCalls demoDeleting =
     [GotKubemarkMachine demoClient key None,
      GotOwnerMachine demoClient (km_ObjectMeta km) None,
      GotCluster demoClient (demoMeta None) None,
      PatchedKubemarkMachine demoClient km (setFinalizers [MachineFinalizer] km) None,
      DeletedPod demoClient key (Some (Foreign ''NotFound'')),
      DeletedSecret demoClient key None,
      PatchedKubemarkMachine demoClient km (setFinalizers [] km) None]"
  by (simp add: demo_run_defs key_def km_def)

text \<open>The pod and the secret of the provisioning run, up to the bytes of the secret.\<close>

definition demoPod :: Pod where
  "demoPod = \<lparr>pod_Name = ''node-0'', pod_Labels = Some (fmupd ''app'' ''hollow-node'' fmempty),
     pod_Namespace = ''fleet'',
     Containers = [\<lparr>container_Name = ''hollow-node'', Image = ''img:v1.21.0'',
       Args = [''--v=3'', ''--morph=kubelet'', ''--name=node-0''], Command = [''/kubemark''],
       Privileged = Some True,
       VolumeMounts = [\<lparr>MountPath = ''/kubeconfig'', vm_Name = ''kubeconfig''\<rparr>],
       Requests = Some (fmupd ''memory'' (Quantity ''10240Ki'')
         (fmupd ''cpu'' (Quantity ''40m'') fmempty))\<rparr>],
     Tolerations = [\<lparr>Key = ''node-role.kubernetes.io/master'', Effect = ''NoSchedule''\<rparr>],
     Volumes = [\<lparr>volume_Name = ''kubeconfig'', Source = SecretVolume ''node-0''\<rparr>]\<rparr>"

definition demoFiles :: Secret where
  "demoFiles = \<lparr>secret_Name = ''node-0'', secret_Namespace = ''fleet'',
     Data = Some (fmupd ''cert.pem'' ''CERTIFICATEsystem:node:node-0EC PRIVATE KEYkey''
       (fmupd ''kubeconfig'' ''default-context'' fmempty))\<rparr>"

lemma demoProvisioning_run:
  defines "km \<equiv> demoMachine None False None" and "m \<equiv> demoOwner (Some ''v1.21.0'')"
    and "key \<equiv> (\<lambda>n. \<lparr>nn_Namespace = ''fleet'', nn_Name = n\<rparr>)"
  shows "demoCalls demoProvisioning =
     [GotKubemarkMachine demoClient (key ''node-0'') None,
      GotOwnerMachine demoClient (km_ObjectMeta km) None,
      GotCluster demoClient (demoMeta None) None,
      PatchedKubemarkMachine demoClient km (setFinalizers [MachineFinalizer] km) None,
      GotRESTConfig demoClient (key ''c'') None,
      GotSecret demoClient (key ''c-ca'') None,
      CreatedSecret demoClient demoFiles None,
      CreatedPod demoClient demoPod None,
      PatchedMachine demoClient m (m\<lparr>machine_ProviderID := Some ''kubemark://node-0''\<rparr>) None,
      PatchedKubemarkMachine demoClient km
        (markReady (setFinalizers [MachineFinalizer] km)) None]"
  by (simp add: demo_run_defs key_def km_def m_def getRemoteCluster_def kubeletCertificate_def
      generateCertificateKubeconfig_def kubeconfigData_def dataOf_def Let_def hollowPod_def
      basePod_def kubemarkName_def demoPod_def demoFiles_def providerIDOf_def markReady_def)

end
