(* ===== verification/Machine_Theorems.thy ===== *)
theory Machine_Theorems
  imports Machine_Branches Demo_Library
begin

text \<open>
  The properties of \<open>KubemarkMachineReconciler.Reconcile\<close>, for the reconciler of \<open>main.go\<close> and
  for arbitrary API servers. The calls of one reconciliation are \<open>machineCalls\<close>, its result is
  \<open>machineOutcome\<close>. Every theorem with hypotheses is followed by its application to the
  concrete library and objects of \<open>Demo_Library\<close>.
\<close>

definition machineCalls :: "'w lib \<Rightarrow> kclient \<Rightarrow> string \<Rightarrow> string \<Rightarrow> NamespacedName \<Rightarrow> 'w io \<Rightarrow>
    event list" where
  "machineCalls L c img wfv req s =
     callsOf (Reconcile L (newKubemarkMachineReconciler L c img wfv) req) s"

definition machineOutcome :: "'w lib \<Rightarrow> kclient \<Rightarrow> string \<Rightarrow> string \<Rightarrow> NamespacedName \<Rightarrow> 'w io \<Rightarrow>
    outcome" where
  "machineOutcome L c img wfv req s =
     fst (Reconcile L (newKubemarkMachineReconciler L c img wfv) req s)"

lemmas run_defs = machineCalls_def machineOutcome_def

text \<open>Two libraries of \<open>Demo_Library\<close> keep the laws.\<close>

lemma demo_laws:
  "finalizer_laws demoDeleting" "finalizer_laws demoProvisioning"
  "range_laws demoDeleting" "range_laws demoProvisioning"
  by (simp_all add: demoDeleting_def demoProvisioning_def demoLib_laws)

lemma demoDeleting_fetches:
  "fetches demoDeleting demoClient demoRequest () =
     Some (demoMachine (Some 1) True None, demoOwner None, demoCluster True, ())"
  by (simp add: demoDeleting_def demoLib_def demoWith_def fetches_def)

lemma demoProvisioning_fetches:
  "fetches demoProvisioning demoClient demoRequest () =
     Some (demoMachine None False None, demoOwner (Some ''v1.21.0''), demoCluster True, ())"
  by (simp add: demoProvisioning_def demoLib_def demoWith_def fetches_def)

lemma connects_without_ref:
  assumes "fetches L c req (world s) = Some (km, m, cl, w)"
    and "Patch_KubemarkMachine L c km (addMachineFinalizer L km) w = (Inr (), w')"
    and "KubemarkHollowPodClusterSecretRef (km_Spec km) = None"
  shows "\<exists>s2. connects L c req s =
    Some (km, m, cl, c, Namespace (km_ObjectMeta km), s2)"
  using assms
  by (simp add: connects_def patchKubemarkMachine_def invoke_def NewKubemarkCluster_def
      generate_without_ref)

lemma demoDeleting_connects:
  "\<exists>s2. connects demoDeleting demoClient demoRequest demoStart =
     Some (demoMachine (Some 1) True None, demoOwner None, demoCluster True, demoClient, ''fleet'', s2)"
  using connects_without_ref [of demoDeleting demoClient demoRequest demoStart]
    demoDeleting_fetches
  by (simp add: demo_defs demoDeleting_def)

lemma demoProvisioning_connects:
  "\<exists>s2. connects demoProvisioning demoClient demoRequest demoStart =
     Some (demoMachine None False None, demoOwner (Some ''v1.21.0''), demoCluster True, demoClient,
       ''fleet'', s2)"
  using connects_without_ref [of demoProvisioning demoClient demoRequest demoStart]
    demoProvisioning_fetches
  by (simp add: demo_defs demoProvisioning_def)

section \<open>The protocol\<close>

lemma machine_log: "finalizer_laws L \<Longrightarrow> machineCalls L c img wfv req s = evs \<Longrightarrow> conforms L [] evs"
  using Reconcile_log(2) unfolding machineCalls_def by blast

text \<open>
  C1: Every reconciliation implements the protocol \<open>conforms\<close>: whatever the API servers answer,
  the calls it makes come in an order the abstract specification allows.
\<close>

theorem reconcile_conforms:
  assumes "finalizer_laws L"
  shows "conforms L [] (machineCalls L c img wfv req s)"
  unfolding machineCalls_def by (rule Reconcile_log(2) [OF assms])

theorem reconcile_conforms_witness:
  "conforms demoProvisioning []
     (machineCalls demoProvisioning demoClient ''img'' [] demoRequest demoStart)"
  by (rule reconcile_conforms [OF demo_laws(2)])

text \<open>
  C2: A patch that leaves the machine without its finalizer, and so lets it disappear, is sent
  only after the hollow pod and then the secret, both of the machine's name and in one
  namespace of one cluster, were deleted or found to be gone.
\<close>

theorem finalizer_released_last:
  assumes "finalizer_laws L"
    and "machineCalls L c img wfv req s = xs @ PatchedKubemarkMachine c' b a err # ys"
    and "\<not> hasFinalizer a"
  shows "\<exists>as bs cs kc key e1 e2.
    xs = as @ DeletedPod kc key e1 # bs @ DeletedSecret kc key e2 # cs \<and>
    nn_Name key = Name (km_ObjectMeta a) \<and>
    tolerated (IsNotFound L) e1 \<and> tolerated (IsNotFound L) e2"
  by (rule conforms_released [OF machine_log [OF assms(1,2)] assms(3)])

theorem finalizer_released_last_witness:
  "\<exists>xs as bs cs kc key e1 e2.
    machineCalls demoDeleting demoClient ''img'' [] demoRequest demoStart =
      xs @ [PatchedKubemarkMachine demoClient (demoMachine (Some 1) True None)
              (demoMachine (Some 1) True None) None] \<and>
    xs = as @ DeletedPod kc key e1 # bs @ DeletedSecret kc key e2 # cs \<and>
    nn_Name key = ''node-0'' \<and>
    tolerated (IsNotFound demoDeleting) e1 \<and> tolerated (IsNotFound demoDeleting) e2"
proof -
  obtain xs where run: "machineCalls demoDeleting demoClient ''img'' [] demoRequest demoStart =
      xs @ [PatchedKubemarkMachine demoClient (demoMachine (Some 1) True None)
              (demoMachine (Some 1) True None) None]"
    by (simp add: machineCalls_def demoDeleting_run)
      (simp add: setFinalizers_def demoMachine_def demoMeta_def)
  show ?thesis
    using finalizer_released_last [OF demo_laws(1) run] run
    by (auto simp: hasFinalizer_def demoMachine_def demoMeta_def)
qed

text \<open>
  C3: A patch that turns the machine ready is sent only after its secret and then its pod were
  created (or found to exist) on one cluster, in one namespace, under the machine's name.
\<close>

theorem ready_after_creation:
  assumes "finalizer_laws L"
    and "machineCalls L c img wfv req s = xs @ PatchedKubemarkMachine c' b a err # ys"
    and "Ready (km_Status a)" and "\<not> Ready (km_Status b)"
  shows "\<exists>as bs cs kc x p e1 e2.
    xs = as @ CreatedSecret kc x e1 # bs @ CreatedPod kc p e2 # cs \<and>
    pod_Name p = Name (km_ObjectMeta a) \<and> secret_Name x = pod_Name p \<and>
    secret_Namespace x = pod_Namespace p \<and>
    tolerated (IsAlreadyExists L) e1 \<and> tolerated (IsAlreadyExists L) e2"
  by (rule conforms_ready [OF machine_log [OF assms(1,2)] assms(3,4)])

theorem ready_after_creation_witness:
  "\<exists>xs as bs cs kc x p e1 e2 b a.
    machineCalls demoProvisioning demoClient ''img'' [] demoRequest demoStart =
      xs @ [PatchedKubemarkMachine demoClient b a None] \<and>
    xs = as @ CreatedSecret kc x e1 # bs @ CreatedPod kc p e2 # cs \<and> pod_Name p = ''node-0''"
proof -
  let ?km = "demoMachine None False None"
  obtain xs where run: "machineCalls demoProvisioning demoClient ''img'' [] demoRequest demoStart =
      xs @ [PatchedKubemarkMachine demoClient ?km (markReady (setFinalizers [MachineFinalizer] ?km)) None]"
    by (simp add: machineCalls_def demoProvisioning_run)
  have ready: "Ready (km_Status (markReady (setFinalizers [MachineFinalizer] ?km)))"
    "\<not> Ready (km_Status ?km)"
    by (simp_all add: demoMachine_def)
  show ?thesis
    using ready_after_creation [OF demo_laws(2) run ready] run
    by (simp add: demoMachine_def demoMeta_def) blast
qed

text \<open>
  C4: The pod is created only after the finalizer was stored on the machine of the same name, so
  that no pod can be left behind, and after the secret it mounts.
\<close>

theorem pod_after_finalizer_and_secret:
  assumes "finalizer_laws L"
    and "machineCalls L c img wfv req s = xs @ CreatedPod kc p err # ys"
  shows "\<exists>as bs cs pc b a x e.
    xs = as @ PatchedKubemarkMachine pc b a None # bs @ CreatedSecret kc x e # cs \<and>
    Name (km_ObjectMeta a) = pod_Name p \<and> hasFinalizer a \<and>
    secret_Name x = pod_Name p \<and> secret_Namespace x = pod_Namespace p \<and>
    tolerated (IsAlreadyExists L) e"
  by (rule conforms_pod [OF machine_log [OF assms]])

theorem pod_after_finalizer_and_secret_witness:
  "\<exists>xs ys as bs cs pc b a x e.
    machineCalls demoProvisioning demoClient ''img'' [] demoRequest demoStart =
      xs @ CreatedPod demoClient demoPod None # ys \<and>
    xs = as @ PatchedKubemarkMachine pc b a None # bs @ CreatedSecret demoClient x e # cs \<and>
    hasFinalizer a \<and> secret_Name x = ''node-0''"
proof -
  obtain xs ys where run: "machineCalls demoProvisioning demoClient ''img'' [] demoRequest demoStart =
      xs @ CreatedPod demoClient demoPod None # ys"
    by (auto simp: machineCalls_def demoProvisioning_run Cons_eq_append_conv)
  show ?thesis
    using pod_after_finalizer_and_secret [OF demo_laws(2) run] run
    by (simp add: demoPod_def) blast
qed

text \<open>
  One reconciliation never both creates and deletes objects of the kubemark cluster.
\<close>

theorem creates_or_deletes:
  assumes "finalizer_laws L"
  shows "\<not> (list_ex isCreate (machineCalls L c img wfv req s) \<and>
            list_ex isDelete (machineCalls L c img wfv req s))"
  by (rule conforms_no_mix [OF machine_log [OF assms refl]])

theorem creates_or_deletes_witness:
  "\<not> (list_ex isCreate (machineCalls demoDeleting demoClient ''img'' [] demoRequest demoStart) \<and>
      list_ex isDelete (machineCalls demoDeleting demoClient ''img'' [] demoRequest demoStart))"
  by (rule creates_or_deletes [OF demo_laws(1)])

text \<open>
  C20: The provider ID of the owning Machine is only ever changed to that of a pod that the same
  reconciliation created, or found to exist, just before, after a secret of the same name in the same
  namespace and cluster.
\<close>

theorem owner_gets_pod_id:
  assumes "finalizer_laws L"
    and "machineCalls L c img wfv req s = xs @ PatchedMachine c' b a err # ys"
    and "machine_ProviderID a \<noteq> machine_ProviderID b"
  shows "\<exists>as bs cs kc x p e1 e2.
    xs = as @ CreatedSecret kc x e1 # bs @ CreatedPod kc p e2 # cs \<and>
    machine_ProviderID a = Some (''kubemark://'' @ pod_Name p) \<and> secret_Name x = pod_Name p \<and>
    secret_Namespace x = pod_Namespace p \<and>
    tolerated (IsAlreadyExists L) e1 \<and> tolerated (IsAlreadyExists L) e2"
  using conforms_owner [OF machine_log [OF assms(1,2)] assms(3)]
  by (auto simp: providerIDOf_def)

theorem owner_gets_pod_id_witness:
  "\<exists>xs ys as bs cs kc x p e1 e2 b a.
    machineCalls demoProvisioning demoClient ''img'' [] demoRequest demoStart =
      xs @ PatchedMachine demoClient b a None # ys \<and>
    xs = as @ CreatedSecret kc x e1 # bs @ CreatedPod kc p e2 # cs \<and>
    machine_ProviderID a = Some (''kubemark://'' @ pod_Name p) \<and>
    tolerated (IsAlreadyExists demoProvisioning) e2"
proof -
  let ?m = "demoOwner (Some ''v1.21.0'')"
  let ?m' = "?m\<lparr>machine_ProviderID := Some ''kubemark://node-0''\<rparr>"
  obtain xs ys where run: "machineCalls demoProvisioning demoClient ''img'' [] demoRequest demoStart =
      xs @ PatchedMachine demoClient ?m ?m' None # ys"
    by (auto simp: machineCalls_def demoProvisioning_run Cons_eq_append_conv)
  have "machine_ProviderID ?m' \<noteq> machine_ProviderID ?m"
    by (simp add: demoOwner_def)
  from owner_gets_pod_id [OF demo_laws(2) run this] run show ?thesis
    by blast
qed

section \<open>When, and what\<close>

text \<open>
  C15: Objects are created only for a machine that is not being deleted and not ready yet, in a
  cluster whose infrastructure is ready and with bootstrap data available; objects are deleted
  only for a machine that is being deleted.
\<close>

theorem writes_are_gated:
  assumes "fetches L c req (world s) = Some (km, m, cl, w)"
    and "e \<in> set (machineCalls L c img wfv req s)"
  shows "(isCreate e \<longrightarrow>
      IsZero L (DeletionTimestamp (km_ObjectMeta km)) \<and> \<not> Ready (km_Status km) \<and>
      InfrastructureReady cl \<and> DataSecretName m \<noteq> None) \<and>
    (isDelete e \<longrightarrow> \<not> IsZero L (DeletionTimestamp (km_ObjectMeta km)))"
proof -
  have "list_all (gated L km m cl) (machineCalls L c img wfv req s)"
    unfolding machineCalls_def by (rule Reconcile_gated [OF assms(1)])
  then show ?thesis
    using assms(2) by (simp add: list_all_iff gated_def)
qed

theorem writes_are_gated_witness:
  "isCreate (CreatedPod demoClient demoPod None) \<and>
   CreatedPod demoClient demoPod None \<in>
     set (machineCalls demoProvisioning demoClient ''img'' [] demoRequest demoStart) \<and>
   InfrastructureReady (demoCluster True)"
proof -
  have "CreatedPod demoClient demoPod None \<in>
     set (machineCalls demoProvisioning demoClient ''img'' [] demoRequest demoStart)"
    by (simp add: machineCalls_def demoProvisioning_run)
  moreover have "fetches demoProvisioning demoClient demoRequest (world demoStart) =
      Some (demoMachine None False None, demoOwner (Some ''v1.21.0''), demoCluster True, ())"
    using demoProvisioning_fetches by (simp add: demoStart_def)
  ultimately show ?thesis
    using writes_are_gated [of demoProvisioning demoClient demoRequest demoStart] by fastforce
qed

text \<open>
  C24: If one of the objects the reconciliation starts from cannot be fetched, if the owner is not
  set, or if the patch helper cannot be made, nothing is written to any API server.
\<close>

theorem nothing_written_unfetched:
  assumes "fetches L c req (world s) = None"
  shows "list_all isRead (machineCalls L c img wfv req s)"
  using Reconcile_unfetched(1) [of L "newKubemarkMachineReconciler L c img wfv"] assms
  by (simp add: machineCalls_def)

definition demoOrphan :: "unit lib" where
  "demoOrphan = demoLib (demoWith (demoMachine None False None) None)"

theorem nothing_written_unfetched_witness:
  "list_all isRead (machineCalls demoOrphan demoClient ''img'' [] demoRequest demoStart)"
  by (rule nothing_written_unfetched)
    (simp add: demoOrphan_def demoLib_def demoWith_def fetches_def)

text \<open>
  A machine that no longer exists ends the reconciliation without an error and without any
  further call; any other error of that first read is returned and also ends it.
\<close>

theorem machine_gone:
  assumes "Get_KubemarkMachine L c req (world s) = (Inl e, w')"
  shows "machineOutcome L c img wfv req s =
      Returned emptyResult (if IsNotFound L e then None else Some e) \<and>
    machineCalls L c img wfv req s = [GotKubemarkMachine c req (Some e)]"
  using assms
  by (simp add: run_defs callsOf_def Reconcile_def body_defs getKubemarkMachine_def invoke_def)

theorem machine_gone_witness:
  "let L = demoOrphan\<lparr>Get_KubemarkMachine := \<lambda>c k w. (Inl (Foreign ''NotFound''), w)\<rparr>
   in machineOutcome L demoClient ''img'' [] demoRequest demoStart = Returned emptyResult None"
  unfolding Let_def
  by (subst machine_gone [THEN conjunct1])
    (simp_all add: demoOrphan_def demoLib_def demoStart_def)

text \<open>
  Without an owner reference to a Machine, or when the Machine's Cluster cannot be found, the
  reconciliation ends: quietly in the first case, with the error in the second.
\<close>

theorem owner_or_cluster_missing:
  assumes "Get_KubemarkMachine L c req (world s) = (Inr km, w1)"
    and "Lib_GetOwnerMachine L c (km_ObjectMeta km) w1 = (Inr owner, w2)"
    and "\<forall>m. owner = Some m \<longrightarrow>
      Lib_GetClusterFromMetadata L c (machine_ObjectMeta m) w2 = (Inl e, w3)"
  shows "machineOutcome L c img wfv req s =
    Returned emptyResult (if owner = None then None else Some e)"
  using assms
  by (auto simp: run_defs Reconcile_def body_defs getKubemarkMachine_def getOwnerMachine_def
      getClusterFromMetadata_def invoke_def split: option.split)

theorem owner_or_cluster_missing_witness:
  "machineOutcome demoOrphan demoClient ''img'' [] demoRequest demoStart = Returned emptyResult None"
  by (subst owner_or_cluster_missing [where km = "demoMachine None False None" and owner = None
        and ?w1.0 = "()" and ?w2.0 = "()"])
    (simp_all add: demoOrphan_def demoLib_def demoWith_def)

text \<open>
  When storing the finalizer fails, its error is returned and nothing else happens: no pod, no
  secret, no second patch.
\<close>

theorem finalizer_store_fails:
  assumes "fetches L c req (world s) = Some (km, m, cl, w)"
    and "Patch_KubemarkMachine L c km (addMachineFinalizer L km) w = (Inl e, w')"
  shows "machineOutcome L c img wfv req s = Returned emptyResult (Some e) \<and>
    machineCalls L c img wfv req s =
      [GotKubemarkMachine c req None, GotOwnerMachine c (km_ObjectMeta km) None,
       GotCluster c (machine_ObjectMeta m) None,
       PatchedKubemarkMachine c km (addMachineFinalizer L km) (Some e)]"
  unfolding run_defs using finalizer_not_stored [OF assms, of img wfv]
  by (simp add: fetchLog_def)

theorem finalizer_store_fails_witness:
  "let L = demoProvisioning\<lparr>Patch_KubemarkMachine := \<lambda>c b a w. (Inl (Foreign ''Conflict''), w)\<rparr>
   in machineOutcome L demoClient ''img'' [] demoRequest demoStart =
        Returned emptyResult (Some (Foreign ''Conflict''))"
  unfolding Let_def
  by (subst finalizer_store_fails [where km = "demoMachine None False None"
        and m = "demoOwner (Some ''v1.21.0'')" and cl = "demoCluster True" and w = "()",
        THEN conjunct1])
    (simp_all add: demoProvisioning_def demoLib_def demoWith_def fetches_def)

text \<open>
  C16: Every pod that is created carries the machine's name, one container whose image is the
  reconciler's with the Machine's version as tag and whose arguments are those of
  \<open>hollowArgs\<close>, the volume with the secret of the same name, and one volume and one mount of the
  same name per extra mount, in order.
\<close>

theorem created_pod:
  assumes "fetches L c req (world s) = Some (km, m, cl, w)"
    and "CreatedPod kc p err \<in> set (machineCalls L c img wfv req s)"
  shows "\<exists>ver cont. Version m = Some ver \<and> Containers p = [cont] \<and>
    pod_Name p = Name (km_ObjectMeta km) \<and>
    Image cont = img @ '':'' @ ver \<and> hollowArgs L km ver = Some (Args cont) \<and>
    Volumes p = \<lparr>volume_Name = ''kubeconfig'', Source = SecretVolume (Name (km_ObjectMeta km))\<rparr>
      # map (\<lambda>v. \<lparr>volume_Name = mount_Name v, Source = HostPathVolume (HostPath v) (mount_Type v)\<rparr>)
            (ExtraMounts (km_Spec km)) \<and>
    VolumeMounts cont = \<lparr>MountPath = ''/kubeconfig'', vm_Name = ''kubeconfig''\<rparr>
      # map (\<lambda>v. \<lparr>MountPath = ContainerPath v, vm_Name = mount_Name v\<rparr>) (ExtraMounts (km_Spec km))"
proof -
  have "list_all (createsFor L img (addMachineFinalizer L km) m) (machineCalls L c img wfv req s)"
    unfolding machineCalls_def by (rule Reconcile_creates [OF assms(1)])
  then have "podFor L img (addMachineFinalizer L km) m p"
    using assms(2) by (fastforce simp: list_all_iff)
  then show ?thesis
    by (auto simp: podFor_def mountOf_def [abs_def] volumeOf_def [abs_def]
        split: option.splits list.splits)
qed

theorem created_pod_witness:
  "\<exists>cont. Containers demoPod = [cont] \<and>
     hollowArgs demoProvisioning (demoMachine None False None) ''v1.21.0'' = Some (Args cont)"
proof -
  have "CreatedPod demoClient demoPod None \<in>
     set (machineCalls demoProvisioning demoClient ''img'' [] demoRequest demoStart)"
    by (simp add: machineCalls_def demoProvisioning_run)
  moreover have "fetches demoProvisioning demoClient demoRequest (world demoStart) =
      Some (demoMachine None False None, demoOwner (Some ''v1.21.0''), demoCluster True, ())"
    using demoProvisioning_fetches by (simp add: demoStart_def)
  ultimately show ?thesis
    using created_pod [of demoProvisioning demoClient demoRequest demoStart]
    by (fastforce simp: demoOwner_def)
qed

text \<open>
  Every secret that is created carries the machine's name and exactly the two files the pod
  mounts, \<open>kubeconfig\<close> and \<open>cert.pem\<close>.
\<close>

theorem created_secret:
  assumes "fetches L c req (world s) = Some (km, m, cl, w)"
    and "CreatedSecret kc x err \<in> set (machineCalls L c img wfv req s)"
  shows "secret_Name x = Name (km_ObjectMeta km) \<and>
    (\<exists>d. Data x = Some d \<and> fmdom' d = {''kubeconfig'', ''cert.pem''})"
proof -
  have "list_all (createsFor L img (addMachineFinalizer L km) m) (machineCalls L c img wfv req s)"
    unfolding machineCalls_def by (rule Reconcile_creates [OF assms(1)])
  then have "secretFor L (addMachineFinalizer L km) x"
    using assms(2) by (fastforce simp: list_all_iff)
  then show ?thesis
    by (auto simp: secretFor_def fmdom'_fmupd)
qed

theorem created_secret_witness:
  "\<exists>d. Data demoFiles = Some d \<and> fmdom' d = {''kubeconfig'', ''cert.pem''}"
proof -
  have "CreatedSecret demoClient demoFiles None \<in>
     set (machineCalls demoProvisioning demoClient ''img'' [] demoRequest demoStart)"
    by (simp add: machineCalls_def demoProvisioning_run)
  moreover have "fetches demoProvisioning demoClient demoRequest (world demoStart) =
      Some (demoMachine None False None, demoOwner (Some ''v1.21.0''), demoCluster True, ())"
    using demoProvisioning_fetches by (simp add: demoStart_def)
  ultimately show ?thesis
    using created_secret [of demoProvisioning demoClient demoRequest demoStart] by fastforce
qed

text \<open>
  When a reconciliation creates a secret and a pod, the hollow kubelet in the pod finds its
  credentials there.
\<close>

theorem kubelet_finds_credentials:
  assumes "fetches L c req (world s) = Some (km, m, cl, w)"
    and "CreatedSecret kc x err \<in> set (machineCalls L c img wfv req s)"
    and "CreatedPod kc' p err' \<in> set (machineCalls L c img wfv req s)"
  shows "findsCredentials L p x"
proof -
  have all: "list_all (createsFor L img (addMachineFinalizer L km) m) (machineCalls L c img wfv req s)"
    unfolding machineCalls_def by (rule Reconcile_creates [OF assms(1)])
  have "podFor L img (addMachineFinalizer L km) m p" and "secretFor L (addMachineFinalizer L km) x"
    using all assms(2,3) by (fastforce simp: list_all_iff)+
  then show ?thesis
    by (rule credentials_fit) simp
qed

text \<open>
  C21: A machine that asks for extended resources with a version before 1.22.0 never gets a pod.
\<close>

theorem unsupported_version_no_pod:
  assumes "fetches L c req (world s) = Some (km, m, cl, w)"
    and "Version m = Some ver" and "NewConstraint L ''>= 1.22.0'' = Inr con"
    and "NewVersion L ver = Inr v" and "\<not> Check L con v"
    and "ExtendedResources (KubemarkOptions (km_Spec km)) \<noteq> None"
  shows "CreatedPod kc p err \<notin> set (machineCalls L c img wfv req s)"
proof -
  have none: "hollowArgs L km ver = None"
    using assms(3-6) by (simp add: hollowArgs_def Let_def)
  have "list_all (createsFor L img (addMachineFinalizer L km) m) (machineCalls L c img wfv req s)"
    unfolding machineCalls_def by (rule Reconcile_creates [OF assms(1)])
  then show ?thesis
    using none assms(2)
    by (fastforce simp: list_all_iff podFor_def split: option.splits list.splits)
qed

definition demoTooOld :: "unit lib" where
  "demoTooOld = demoLib (demoWith (demoMachine None False (Some fmempty))
     (Some (demoOwner (Some ''v1.21.0''))))"

theorem unsupported_version_no_pod_witness:
  "CreatedPod demoClient demoPod None \<notin>
     set (machineCalls demoTooOld demoClient ''img'' [] demoRequest demoStart)"
  by (rule unsupported_version_no_pod [where km = "demoMachine None False (Some fmempty)" and w = "()"
        and m = "demoOwner (Some ''v1.21.0'')" and cl = "demoCluster True" and ver = "''v1.21.0''"
        and con = "''>= 1.22.0''" and v = "''v1.21.0''"])
    (simp_all add: demoTooOld_def demoLib_def demoWith_def fetches_def demoMachine_def demoSpec_def
      demoOwner_def)

section \<open>Outcomes\<close>

text \<open>
  C22: A retry after ten seconds is asked for only together with an error: the branch that waits
  for a client without one is never taken with the implementation in the repository.
\<close>

theorem no_silent_delay:
  assumes "machineOutcome L c img wfv req s = Returned res err" and "RequeueAfter res \<noteq> 0"
  shows "err \<noteq> None"
proof
  assume "err = None"
  with assms have "delayed (machineOutcome L c img wfv req s)"
    by (simp add: delayed_def)
  then show False
    using exitsD [OF Reconcile_not_delayed, of L c img wfv req s] by (simp add: machineOutcome_def)
qed

definition demoNoKubeconfig :: "unit lib" where
  "demoNoKubeconfig = demoLib (demoWith
     ((demoMachine None False None)\<lparr>km_Spec := (demoSpec None)\<lparr>KubemarkHollowPodClusterSecretRef :=
        Some \<lparr>ref_Namespace = ''fleet'', ref_Name = ''kc''\<rparr>\<rparr>\<rparr>)
     (Some (demoOwner None)))\<lparr>Get_Secret := \<lambda>c k w. (Inl (Foreign ''NotFound''), w)\<rparr>"

theorem no_silent_delay_witness:
  "\<exists>err. machineOutcome demoNoKubeconfig demoClient ''img'' [] demoRequest demoStart =
     Returned requeueAfter10s err \<and> RequeueAfter requeueAfter10s \<noteq> 0 \<and> err \<noteq> None"
proof -
  have delay: "RequeueAfter requeueAfter10s \<noteq> 0"
    by (simp add: requeueAfter10s_def time_Second_def)
  obtain err where run: "machineOutcome demoNoKubeconfig demoClient ''img'' [] demoRequest demoStart =
      Returned requeueAfter10s err"
    by (simp add: machineOutcome_def demoNoKubeconfig_def demo_run_defs
        GenerateKubemarkClusterClient_def)
  show ?thesis
    using no_silent_delay [OF run delay] run delay by blast
qed

text \<open>
  C23: \<open>Reconcile\<close> does not panic: if the four constant quantities of the source parse, every run
  returns, for any objects and any answers.
\<close>

theorem reconcile_returns:
  assumes "constantsParse L"
  shows "\<exists>res err. machineOutcome L c img wfv req s = Returned res err"
  using Reconcile_returns [OF assms, of "newKubemarkMachineReconciler L c img wfv" req]
  by (simp add: machineOutcome_def exits_def returns_def)

theorem reconcile_returns_witness:
  "\<exists>res err. machineOutcome demoProvisioning demoClient ''img'' [] demoRequest demoStart =
     Returned res err"
  by (rule reconcile_returns)
    (simp add: constantsParse_def defaultsParse_def demoProvisioning_def demoLib_def)

section \<open>Branch by branch\<close>

text \<open>
  C14: A reconciliation of a machine that is being deleted ends in one of four ways. Its finalizer
  cannot be stored, or there is no client for the kubemark cluster: then that error is returned, in the
  second case with a retry after ten seconds, nothing is created or deleted, and no patch leaves out
  the finalizer. Or one of the two deletions, pod first, fails with an error other than not found: then
  that error is returned, nothing is deleted after it, and the final patch still has the finalizer. Or
  both succeed: then it returns without an error, and the final patch, whose answer is ignored, leaves
  out the finalizer.
\<close>

theorem deletion_four_ways:
  fixes img wfv :: string
  assumes "fetches L c req (world s) = Some (km, m, cl, w)"
    and "\<not> IsZero L (DeletionTimestamp (km_ObjectMeta km))"
  defines "km' \<equiv> addMachineFinalizer L km" and "out \<equiv> machineOutcome L c img wfv req s"
  shows "\<exists>pre mid. machineCalls L c img wfv req s = pre @ mid \<and> list_all quiet pre \<and>
    (case connects L c req s of
       None \<Rightarrow>
         (\<exists>e. out = Returned emptyResult (Some e) \<and> mid = [PatchedKubemarkMachine c km km' (Some e)]) \<or>
         (\<exists>e reads e'. out = Returned requeueAfter10s (Some e) \<and> list_all isRead reads \<and>
            mid = PatchedKubemarkMachine c km km' None # reads @ [PatchedKubemarkMachine c km km' e'])
     | Some (_, _, _, kc, ns, _) \<Rightarrow>
         (\<exists>e e'. \<not> IsNotFound L e \<and> out = Returned emptyResult (Some e) \<and>
            (mid = [DeletedPod kc (podKey km ns) (Some e), PatchedKubemarkMachine c km km' e'] \<or>
             (\<exists>e1. tolerated (IsNotFound L) e1 \<and>
                mid = [DeletedPod kc (podKey km ns) e1, DeletedSecret kc (podKey km ns) (Some e),
                       PatchedKubemarkMachine c km km' e']))) \<or>
         (\<exists>e1 e2 e'. out = Returned emptyResult None \<and>
            tolerated (IsNotFound L) e1 \<and> tolerated (IsNotFound L) e2 \<and>
            mid = [DeletedPod kc (podKey km ns) e1, DeletedSecret kc (podKey km ns) e2,
                   PatchedKubemarkMachine c km (removeMachineFinalizer L km') e']))"
proof (cases "connects L c req s")
  case None
  then show ?thesis
    using unconnected_ends [OF assms(1) None, of img wfv]
    unfolding run_defs km'_def out_def by simp
next
  case (Some found)
  obtain kc ns s2 where found: "found = (km, m, cl, kc, ns, s2)"
    using Some assms(1) by (auto simp: connects_def split: option.splits prod.splits sum.splits)
  show ?thesis
    using deletion_ends [OF Some [unfolded found] assms(2), of img wfv]
    unfolding Some found run_defs km'_def out_def deletionEnds_def deletionKept_def deletionDone_def
    by simp blast
qed

theorem deletion_four_ways_witness:
  "\<exists>pre mid. machineCalls demoDeleting demoClient ''img'' [] demoRequest demoStart = pre @ mid \<and>
     list_all quiet pre \<and> length mid \<le> 3"
proof -
  obtain s2 where c: "connects demoDeleting demoClient demoRequest demoStart =
      Some (demoMachine (Some 1) True None, demoOwner None, demoCluster True, demoClient, ''fleet'', s2)"
    using demoDeleting_connects by blast
  have f: "fetches demoDeleting demoClient demoRequest (world demoStart) =
      Some (demoMachine (Some 1) True None, demoOwner None, demoCluster True, ())"
    using demoDeleting_fetches by (simp add: demoStart_def)
  have "\<not> IsZero demoDeleting (DeletionTimestamp (km_ObjectMeta (demoMachine (Some 1) True None)))"
    by (simp add: demoDeleting_def demoLib_def demoMachine_def demoMeta_def)
  from deletion_four_ways [OF f this, of "''img''" "[]"] c show ?thesis
    by fastforce
qed






text \<open>
  C12: Provisioning completes: for a machine that can be provisioned, when the calls for its
  credentials, its secret \<open>x\<close> and its pod \<open>p\<close> succeed one after the other in this run (an object that
  exists already counts), and the patches are accepted, one reconciliation returns without an error,
  and its last four calls create the secret and the pod, give the owner Machine the provider ID, and
  mark the \<open>KubemarkMachine\<close> ready with the same ID.
\<close>

theorem provisioning_completes:
  assumes "connects L c req s = Some (km, m, cl, kc, ns, s2)"
    and "provisionable L km m cl" and "provides L img c kc ns km m cl s2 x p s3"
    and "list_all (wentWell L) (machineCalls L c img wfv req s)"
  defines "pid \<equiv> Some (''kubemark://'' @ Name (km_ObjectMeta km))"
  shows "machineOutcome L c img wfv req s = Returned emptyResult None \<and>
    (\<exists>pre e1 e2 km'. machineCalls L c img wfv req s =
       pre @ [CreatedSecret kc x e1, CreatedPod kc p e2,
              PatchedMachine c m (m\<lparr>machine_ProviderID := pid\<rparr>) None,
              PatchedKubemarkMachine c km km' None] \<and>
       Ready (km_Status km') \<and> ProviderID (km_Spec km') = pid)"
proof -
  let ?km = "markReady (addMachineFinalizer L km)"
  obtain pre e1 e2 e e' where calls: "machineCalls L c img wfv req s = pre @ [CreatedSecret kc x e1,
      CreatedPod kc p e2, PatchedMachine c m (identified km m) e, PatchedKubemarkMachine c km ?km e']"
    using provisioning_succeeds(2) [OF assms(1-3), of wfv] unfolding run_defs by blast
  with assms(4) have "e = None" "e' = None" by simp_all
  with calls have "machineCalls L c img wfv req s = pre @ [CreatedSecret kc x e1, CreatedPod kc p e2,
      PatchedMachine c m (m\<lparr>machine_ProviderID := pid\<rparr>) None, PatchedKubemarkMachine c km ?km None]"
    by (simp add: identified_def pid_def providerIDOf_def)
  moreover have "Ready (km_Status ?km) \<and> ProviderID (km_Spec ?km) = pid"
    by (simp add: pid_def providerIDOf_def)
  ultimately show ?thesis
    using provisioning_succeeds(1) [OF assms(1-3), of wfv] unfolding run_defs by blast
qed

lemma demoProvisioning_ready:
  "provisionable demoProvisioning (demoMachine None False None) (demoOwner (Some ''v1.21.0''))
     (demoCluster True)"
  "\<exists>x p s3. provides demoProvisioning ''img'' demoClient demoClient ''fleet'' (demoMachine None False None)
     (demoOwner (Some ''v1.21.0'')) (demoCluster True) s x p s3"
  by (simp_all add: provisionable_def hollowArgs_def Let_def provides_def issues_def call_defs invoke_def
      effect_def getRemoteCluster_def generateCertificateKubeconfig_def hollowPod_def basePod_def
      demo_defs demoProvisioning_def)

theorem provisioning_completes_witness:
  "machineOutcome demoProvisioning demoClient ''img'' [] demoRequest demoStart =
     Returned emptyResult None"
proof -
  obtain s2 where c: "connects demoProvisioning demoClient demoRequest demoStart =
     Some (demoMachine None False None, demoOwner (Some ''v1.21.0''), demoCluster True, demoClient,
       ''fleet'', s2)"
    using demoProvisioning_connects by blast
  obtain x p s3 where p: "provides demoProvisioning ''img'' demoClient demoClient ''fleet''
      (demoMachine None False None) (demoOwner (Some ''v1.21.0'')) (demoCluster True) s2 x p s3"
    using demoProvisioning_ready(2) by blast
  have "list_all (wentWell demoProvisioning)
      (machineCalls demoProvisioning demoClient ''img'' [] demoRequest demoStart)"
    by (simp add: machineCalls_def demoProvisioning_run)
  then show ?thesis
    by (rule provisioning_completes [OF c demoProvisioning_ready(1) p, THEN conjunct1])
qed

end
