(* ===== verification/Machine_Lifecycle.thy ===== *)
theory Machine_Lifecycle
  imports Machine_Properties Template_Controller
begin

text \<open>
  Many reconciliations in a row. A session is what the manager does: it runs the two controllers
  on any requests, one after the other, and between two runs everything outside may change. (The
  work queue never runs two reconciliations of one object at a time; those of other machines are
  part of what changes outside.) The invariant of sessions is that the finalizer of a machine is
  stored for as long as one of its objects may exist.
\<close>

section \<open>Sessions\<close>

inductive session ::
  "'w lib \<Rightarrow> 'w KubemarkMachineReconciler \<Rightarrow> KubemarkMachineTemplateReconciler \<Rightarrow>
   'w io \<Rightarrow> 'w io \<Rightarrow> bool" for L r rt s where
  start: "session L r rt s s"
| machine: "session L r rt s t \<Longrightarrow> Reconcile L r req t = (out, u) \<Longrightarrow> session L r rt s u"
| templates: "session L r rt s t \<Longrightarrow> ReconcileTemplate L rt req t = (out, u) \<Longrightarrow> session L r rt s u"
| outside: "session L r rt s t \<Longrightarrow> session L r rt s (t\<lparr>world := w\<rparr>)"

section \<open>What the log says may exist\<close>

text \<open>
  An object may exist from the moment its creation was tried, whatever the answer (a call that
  timed out may have succeeded), until a deletion succeeded or found nothing.
\<close>

datatype kind = PodObject | SecretObject

type_synonym placed = "kind \<times> kclient \<times> NamespacedName"

fun existAfter :: "'w lib \<Rightarrow> placed set \<Rightarrow> event \<Rightarrow> placed set" where
  "existAfter L E (CreatedPod c p err) =
     insert (PodObject, c, \<lparr>nn_Namespace = pod_Namespace p, nn_Name = pod_Name p\<rparr>) E"
| "existAfter L E (CreatedSecret c x err) =
     insert (SecretObject, c, \<lparr>nn_Namespace = secret_Namespace x, nn_Name = secret_Name x\<rparr>) E"
| "existAfter L E (DeletedPod c k err) =
     (if tolerated (IsNotFound L) err then E - {(PodObject, c, k)} else E)"
| "existAfter L E (DeletedSecret c k err) =
     (if tolerated (IsNotFound L) err then E - {(SecretObject, c, k)} else E)"
| "existAfter L E e = E"

definition mayExist :: "'w lib \<Rightarrow> event list \<Rightarrow> placed set" where
  "mayExist L evs = foldl (existAfter L) {} evs"

text \<open>
  The machines of which the log says that the finalizer is stored: from a patch with it that
  succeeded until a patch without it is sent, whatever the answer.
\<close>

fun guardedAfter :: "string set \<Rightarrow> event \<Rightarrow> string set" where
  "guardedAfter G (PatchedKubemarkMachine c b a err) =
     (if \<not> hasFinalizer a then G - {Name (km_ObjectMeta a)}
      else if err = None then insert (Name (km_ObjectMeta a)) G else G)"
| "guardedAfter G e = G"

definition guarded :: "event list \<Rightarrow> string set" where
  "guarded evs = foldl guardedAfter {} evs"

lemma mayExist_snoc [simp]: "mayExist L (evs @ [e]) = existAfter L (mayExist L evs) e"
  by (simp add: mayExist_def)

lemma guarded_snoc [simp]: "guarded (evs @ [e]) = guardedAfter (guarded evs) e"
  by (simp add: guarded_def)

text \<open>The same for a log in two parts, as \<open>simp\<close> writes it.\<close>

lemma snoc_parts [simp]:
  "mayExist L (xs @ ys @ [e]) = existAfter L (mayExist L (xs @ ys)) e"
  "guarded (xs @ ys @ [e]) = guardedAfter (guarded (xs @ ys)) e"
  using mayExist_snoc [of L "xs @ ys" e] guarded_snoc [of "xs @ ys" e] by simp_all

lemma mayExist_Nil [simp]: "mayExist L [] = {}" and guarded_Nil [simp]: "guarded [] = {}"
  by (simp_all add: mayExist_def guarded_def)

text \<open>
  The objects of a machine are all in one place: the reference to the kubemark cluster, what it
  resolves to, and the namespace did not change while the machine existed.
\<close>

fun placedAt :: "event \<Rightarrow> (kclient \<times> NamespacedName) option" where
  "placedAt (CreatedPod c p err) =
     Some (c, \<lparr>nn_Namespace = pod_Namespace p, nn_Name = pod_Name p\<rparr>)"
| "placedAt (CreatedSecret c x err) =
     Some (c, \<lparr>nn_Namespace = secret_Namespace x, nn_Name = secret_Name x\<rparr>)"
| "placedAt (DeletedPod c k err) = Some (c, k)"
| "placedAt (DeletedSecret c k err) = Some (c, k)"
| "placedAt e = None"

definition atHome :: "kclient \<Rightarrow> NamespacedName \<Rightarrow> event list \<Rightarrow> bool" where
  "atHome c k evs \<longleftrightarrow>
     list_all (\<lambda>e. case placedAt e of
         None \<Rightarrow> True
       | Some (c', k') \<Rightarrow> nn_Name k' = nn_Name k \<longrightarrow> c' = c \<and> k' = k) evs"

lemma atHome_append [simp]: "atHome c k (xs @ ys) \<longleftrightarrow> atHome c k xs \<and> atHome c k ys"
  by (simp add: atHome_def)

lemma atHomeD: "atHome c k evs \<Longrightarrow> e \<in> set evs \<Longrightarrow> placedAt e = Some (c', k') \<Longrightarrow>
    nn_Name k' = nn_Name k \<Longrightarrow> c' = c \<and> k' = k"
  by (fastforce simp: atHome_def list_all_iff)

section \<open>One reconciliation keeps the invariant\<close>

definition finalized :: "'w lib \<Rightarrow> kclient \<Rightarrow> NamespacedName \<Rightarrow> event list \<Rightarrow> bool" where
  "finalized L c k evs \<longleftrightarrow>
     (PodObject, c, k) \<in> mayExist L evs \<or> (SecretObject, c, k) \<in> mayExist L evs \<longrightarrow>
     nn_Name k \<in> guarded evs"

text \<open>While nothing was deleted, a finalizer that was stored in this reconciliation stays.\<close>

lemma stored_guarded:
  "conforms L [] pre \<Longrightarrow> \<not> list_ex isDelete pre \<Longrightarrow> list_ex (storesFinalizer n) pre \<Longrightarrow>
   n \<in> guarded (t0 @ pre)"
proof (induction pre rule: rev_induct)
  case Nil
  then show ?case by simp
next
  case (snoc e pre)
  show ?case
  proof (cases "\<exists>c b a err. e = PatchedKubemarkMachine c b a err")
    case False
    then have "\<not> storesFinalizer n e" and same: "guardedAfter G e = G" for G
      by (cases e; simp)+
    then have "n \<in> guarded (t0 @ pre)"
      using snoc by simp
    then show ?thesis
      using same by simp
  next
    case True
    then obtain c b a err where e: "e = PatchedKubemarkMachine c b a err" by blast
    have "hasFinalizer a"
      using snoc.prems by (auto simp: e list_ex_iff elim!: releasesE)
    then show ?thesis
      using snoc.prems snoc.IH
      by (cases err) (auto simp: e)
  qed
qed

text \<open>What this reconciliation deleted does not exist any more: it creates nothing.\<close>

lemma deleted_gone:
  "\<not> list_ex isCreate pre \<Longrightarrow> list_ex (dropsPod L c k) pre \<Longrightarrow>
     (PodObject, c, k) \<notin> mayExist L (t0 @ pre)"
  "\<not> list_ex isCreate pre \<Longrightarrow> DeletedSecret c k err \<in> set pre \<Longrightarrow> tolerated (IsNotFound L) err \<Longrightarrow>
     (SecretObject, c, k) \<notin> mayExist L (t0 @ pre)"
proof (induction pre rule: rev_induct)
  case (snoc e pre)
  {
    case 1
    then show ?case
      using snoc.IH by (cases e) (auto elim!: dropsPodE)
  next
    case 2
    then show ?case
      using snoc.IH by (cases e) auto
  }
qed simp_all

lemma released_gone:
  assumes "conforms L [] pre" and "atHome c k pre" and "list_ex (releases L (nn_Name k) pre) pre"
  shows "(PodObject, c, k) \<notin> mayExist L (t0 @ pre)" and "(SecretObject, c, k) \<notin> mayExist L (t0 @ pre)"
proof -
  obtain kc key err where d: "DeletedSecret kc key err \<in> set pre" "nn_Name key = nn_Name k"
    "tolerated (IsNotFound L) err" "list_ex (dropsPod L kc key) pre"
    using assms(3) by (auto simp: list_ex_iff elim!: releasesE)
  have at: "kc = c" "key = k"
    using atHomeD [OF assms(2) d(1), of kc key] d(2) by simp_all
  have "list_ex isDelete pre"
    using d(1) by (force simp: list_ex_iff)
  then have "\<not> list_ex isCreate pre"
    using conforms_no_mix [OF assms(1)] by blast
  then show "(PodObject, c, k) \<notin> mayExist L (t0 @ pre)" "(SecretObject, c, k) \<notin> mayExist L (t0 @ pre)"
    using d unfolding at by (simp_all add: deleted_gone)
qed

lemma segment_finalized:
  assumes t0: "finalized L c k t0"
  shows "conforms L [] pre \<Longrightarrow> atHome c k pre \<Longrightarrow> finalized L c k (t0 @ pre)"
proof (induction pre rule: rev_induct)
  case Nil
  then show ?case using t0 by simp
next
  case (snoc e pre)
  have IH: "finalized L c k (t0 @ pre)" and pre: "conforms L [] pre" "atHome c k pre"
    and e: "mayFollow L pre e" "atHome c k [e]"
    using snoc by simp_all
  show ?case
  proof (cases e)
    case (CreatedPod c' p err)
    then show ?thesis
      using e IH stored_guarded [OF pre(1), of "nn_Name k" t0]
      by (auto simp: finalized_def atHome_def)
  next
    case (CreatedSecret c' x err)
    then show ?thesis
      using e IH stored_guarded [OF pre(1), of "nn_Name k" t0]
      by (auto simp: finalized_def atHome_def)
  next
    case (PatchedKubemarkMachine c' b a err)
    then show ?thesis
      using e IH released_gone [OF pre, of t0]
      by (auto simp: finalized_def)
  qed (use IH in \<open>auto simp: finalized_def\<close>)
qed

section \<open>Every session keeps the invariant\<close>

text \<open>The template controller's calls concern no object of a machine.\<close>

fun neutral :: "event \<Rightarrow> bool" where
  "neutral (PatchedKubemarkMachine c b a err) = False"
| "neutral e = (placedAt e = None)"

lemma neutral_read [simp]: "isRead e \<Longrightarrow> neutral e"
  by (cases e) simp_all

lemma neutral_placed: "neutral e \<Longrightarrow> placedAt e = None"
  by (cases e) simp_all

lemma neutral_after: "neutral e \<Longrightarrow> existAfter L E e = E \<and> guardedAfter G e = G"
  by (cases e) simp_all

lemma neutral_log: "list_all neutral evs \<Longrightarrow>
    mayExist L (xs @ evs) = mayExist L xs \<and> guarded (xs @ evs) = guarded xs"
  by (induction evs rule: rev_induct) (simp_all add: neutral_after)

lemma neutral_home: "list_all neutral evs \<Longrightarrow> atHome c k evs"
  by (simp add: atHome_def list_all_iff neutral_placed)

lemma template_neutral:
  assumes "ReconcileTemplate L rt req t = (out, u)"
  shows "\<exists>evs. trace u = trace t @ evs \<and> list_all neutral evs"
proof -
  have "keeps (logs neutral (trace t)) (ReconcileTemplate L rt req)"
    unfolding ReconcileTemplate_def by (auto simp: call_defs intro!: keeps_rules)
  from keepsD [OF this, of t] assms show ?thesis
    by (simp add: logs_def)
qed

text \<open>The log of a session, run by run.\<close>

lemma session_induct [consumes 1, case_names start machine template]:
  assumes "session L r rt s u"
    and "P (trace s)"
    and "\<And>t req. P (trace t) \<Longrightarrow> P (trace (snd (Reconcile L r req t)))"
    and "\<And>t evs. P t \<Longrightarrow> list_all neutral evs \<Longrightarrow> P (t @ evs)"
  shows "P (trace u)"
  using assms(1)
proof (induction rule: session.induct)
  case start
  then show ?case using assms(2) .
next
  case (machine t req out u)
  then show ?case using assms(3) [of t req] by simp
next
  case (templates t req out u)
  then show ?case using template_neutral assms(4) by metis
next
  case (outside t w)
  then show ?case by simp
qed

lemma session_finalized:
  fixes m :: kclient and img wfv :: string
  assumes "session L (newKubemarkMachineReconciler L m img wfv) rt s u"
    and laws: "finalizer_laws L" and "trace s = []"
  shows "atHome c k (trace u) \<longrightarrow> finalized L c k (trace u)"
  using assms(1)
proof (induction rule: session_induct)
  case start
  then show ?case using assms(3) by (simp add: finalized_def)
next
  case (machine t req)
  then show ?case
    using Reconcile_log [OF laws, where s = t and c = m and img = img and wfv = wfv and req = req]
    by (auto intro: segment_finalized)
next
  case (template t evs)
  then show ?case by (simp add: finalized_def neutral_log)
qed

text \<open>An event of a log in two parts is in the first or in the second.\<close>

lemma append_split:
  assumes "t @ evs = xs @ e # ys"
  obtains (old) zs where "t = xs @ e # zs" | (new) zs where "xs = t @ zs" and "evs = zs @ e # ys"
proof -
  from assms obtain us where "t = xs @ us \<and> us @ evs = e # ys \<or> t @ us = xs \<and> evs = us @ e # ys"
    by (auto simp: append_eq_append_conv2)
  then show thesis
    using that(1) that(2) [of "[]"] that(2) [of us] by (cases us) auto
qed

text \<open>When the finalizer is given up, nothing may exist.\<close>

definition givenUp :: "'w lib \<Rightarrow> kclient \<Rightarrow> NamespacedName \<Rightarrow> event list \<Rightarrow> bool" where
  "givenUp L c k evs \<longleftrightarrow>
     (\<forall>xs pc b a err ys. evs = xs @ PatchedKubemarkMachine pc b a err # ys \<longrightarrow> \<not> hasFinalizer a \<longrightarrow>
        Name (km_ObjectMeta a) = nn_Name k \<longrightarrow>
        (PodObject, c, k) \<notin> mayExist L xs \<and> (SecretObject, c, k) \<notin> mayExist L xs)"

lemma segment_givenUp:
  assumes "givenUp L c k t0" and conf: "conforms L [] evs" and home: "atHome c k evs"
  shows "givenUp L c k (t0 @ evs)"
  unfolding givenUp_def
proof (intro allI impI)
  fix xs pc b a err ys
  assume split: "t0 @ evs = xs @ PatchedKubemarkMachine pc b a err # ys"
    and a: "\<not> hasFinalizer a" "Name (km_ObjectMeta a) = nn_Name k"
  from split show "(PodObject, c, k) \<notin> mayExist L xs \<and> (SecretObject, c, k) \<notin> mayExist L xs"
  proof (cases rule: append_split)
    case (old zs)
    then show ?thesis using assms(1) a unfolding givenUp_def by blast
  next
    case (new zs)
    then have "conforms L [] zs" "atHome c k zs"
      "list_ex (releases L (nn_Name k) zs) zs"
      using conf home a by simp_all
    then show ?thesis
      unfolding new(1) by (simp add: released_gone)
  qed
qed

lemma neutral_givenUp:
  assumes "givenUp L c k t0" and "list_all neutral evs"
  shows "givenUp L c k (t0 @ evs)"
  unfolding givenUp_def
proof (intro allI impI)
  fix xs pc b a err ys
  assume split: "t0 @ evs = xs @ PatchedKubemarkMachine pc b a err # ys"
    and a: "\<not> hasFinalizer a" "Name (km_ObjectMeta a) = nn_Name k"
  have "PatchedKubemarkMachine pc b a err \<notin> set evs"
    using assms(2) by (auto simp: list_all_iff)
  with split obtain zs where "t0 = xs @ PatchedKubemarkMachine pc b a err # zs"
    by (cases rule: append_split) auto
  then show "(PodObject, c, k) \<notin> mayExist L xs \<and> (SecretObject, c, k) \<notin> mayExist L xs"
    using assms(1) a unfolding givenUp_def by blast
qed

lemma session_givenUp:
  fixes m :: kclient and img wfv :: string
  assumes "session L (newKubemarkMachineReconciler L m img wfv) rt s u"
    and laws: "finalizer_laws L" and "trace s = []"
  shows "atHome c k (trace u) \<longrightarrow> givenUp L c k (trace u)"
  using assms(1)
proof (induction rule: session_induct)
  case start
  then show ?case using assms(3) by (simp add: givenUp_def)
next
  case (machine t req)
  then show ?case
    using Reconcile_log [OF laws, where s = t and c = m and img = img and wfv = wfv and req = req]
    by (auto intro: segment_givenUp)
next
  case (template t evs)
  then show ?case by (simp add: neutral_givenUp)
qed

end
