(* ===== verification/Lifecycle_Theorems.thy ===== *)
theory Lifecycle_Theorems
  imports Machine_Lifecycle Machine_Theorems
begin

text \<open>
  The properties of sessions: any number of reconciliations of both controllers, on any requests,
  with arbitrary changes outside between them, logged from the start of the manager. An object
  may exist from the attempt to create it to a deletion that succeeded or found nothing.
\<close>

definition demoTemplateReconciler :: KubemarkMachineTemplateReconciler where
  "demoTemplateReconciler = \<lparr>kmtr_Client = demoClient, kmtr_WatchFilterValue = []\<rparr>"

definition demoPlace :: NamespacedName where
  "demoPlace = \<lparr>nn_Namespace = ''fleet'', nn_Name = ''node-0''\<rparr>"

abbreviation demoMachines :: "unit lib \<Rightarrow> unit KubemarkMachineReconciler" where
  "demoMachines L \<equiv> newKubemarkMachineReconciler L demoClient ''img'' []"

lemma demo_session:
  fixes L :: "unit lib"
  defines "u \<equiv> snd (Reconcile L (demoMachines L) demoRequest demoStart)"
  shows "session L (demoMachines L) demoTemplateReconciler demoStart u" and "trace u = demoCalls L"
proof -
  show "session L (demoMachines L) demoTemplateReconciler demoStart u"
    unfolding u_def by (rule session.machine [OF session.start]) (rule surjective_pairing)
  show "trace u = demoCalls L"
    by (simp add: u_def callsOf_def demoStart_def)
qed

text \<open>
  As long as a pod or a secret of a machine may exist, the machine's finalizer is stored: the
  API server will not let the machine disappear, and the controller will be asked to clean up.
  The objects of one machine are assumed to be in one place, that is, its reference to the kubemark
  cluster and what this resolves to do not change.
\<close>

theorem finalizer_guards_objects:
  assumes "session L (newKubemarkMachineReconciler L m img wfv) rt s u"
    and "finalizer_laws L" and "trace s = []"
    and "atHome c k (trace u)"
    and "(x, c, k) \<in> mayExist L (trace u)"
  shows "nn_Name k \<in> guarded (trace u)"
  using session_finalized [OF assms(1-3), of c k] assms(4,5)
  by (cases x) (simp_all add: finalized_def)

theorem finalizer_guards_objects_witness:
  "(PodObject, demoClient, demoPlace) \<in> mayExist demoProvisioning (demoCalls demoProvisioning) \<and>
   ''node-0'' \<in> guarded (demoCalls demoProvisioning)"
proof -
  note run = demo_session [of demoProvisioning]
  have start: "trace demoStart = []"
    by (simp add: demoStart_def)
  have home: "atHome demoClient demoPlace (demoCalls demoProvisioning)"
    by (simp add: demoProvisioning_run atHome_def demoPlace_def demoPod_def demoFiles_def)
  have pod: "(PodObject, demoClient, demoPlace) \<in> mayExist demoProvisioning (demoCalls demoProvisioning)"
    by (simp add: demoProvisioning_run mayExist_def demoPlace_def demoPod_def demoFiles_def)
  have "nn_Name demoPlace \<in> guarded (demoCalls demoProvisioning)"
    using finalizer_guards_objects [OF run(1) demo_laws(2) start, of demoClient demoPlace PodObject]
      home pod run(2) by simp
  with pod show ?thesis by (simp add: demoPlace_def)
qed

text \<open>
  No orphans: at every moment of a session at which a patch gives up the finalizer of a machine,
  neither its pod nor its secret may exist any more.
\<close>

theorem no_orphans:
  assumes "session L (newKubemarkMachineReconciler L m img wfv) rt s u"
    and "finalizer_laws L" and "trace s = []"
    and "trace u = xs @ PatchedKubemarkMachine pc b a err # ys"
    and "\<not> hasFinalizer a" and "Name (km_ObjectMeta a) = nn_Name k"
    and "atHome c k (trace u)"
  shows "(PodObject, c, k) \<notin> mayExist L xs \<and> (SecretObject, c, k) \<notin> mayExist L xs"
  using session_givenUp [OF assms(1-3), of c k] assms(4-7) unfolding givenUp_def by blast

theorem no_orphans_witness:
  "\<exists>xs a. demoCalls demoDeleting =
      xs @ [PatchedKubemarkMachine demoClient (demoMachine (Some 1) True None) a None] \<and>
    \<not> hasFinalizer a \<and> (PodObject, demoClient, demoPlace) \<notin> mayExist demoDeleting xs"
proof -
  let ?a = "setFinalizers [] (demoMachine (Some 1) True None)"
  note run = demo_session [of demoDeleting]
  have start: "trace demoStart = []"
    by (simp add: demoStart_def)
  obtain xs where xs: "demoCalls demoDeleting =
      xs @ [PatchedKubemarkMachine demoClient (demoMachine (Some 1) True None) ?a None]"
    by (simp add: demoDeleting_run)
  have a: "\<not> hasFinalizer ?a" "Name (km_ObjectMeta ?a) = nn_Name demoPlace"
    by (simp_all add: hasFinalizer_def demoPlace_def demoMachine_def demoMeta_def)
  have home: "atHome demoClient demoPlace (demoCalls demoDeleting)"
    by (simp add: demoDeleting_run atHome_def demoPlace_def)
  show ?thesis
    using no_orphans [OF run(1) demo_laws(1) start, of xs demoClient "demoMachine (Some 1) True None"
        ?a None "[]" demoPlace demoClient] xs a home run(2)
    by auto
qed

end
