(* ===== verification/Machine_Fleet.thy ===== *)
theory Machine_Fleet
  imports Machine_Lifecycle
begin

text \<open>
  The manager as it really runs: several workers, each in the middle of a reconciliation of its
  own, whose calls interleave in any way, and a process that may die at any call and start again.
  The work queue gives a request to one worker at a time. While a worker runs, the others change
  the world under it: what it sees is one of a set of libraries, which agree on the documented
  behaviour (\<open>views\<close>) and are otherwise free to answer anything.
\<close>

section \<open>Whose machine a patch is about\<close>

definition keyOf :: "KubemarkMachine \<Rightarrow> NamespacedName" where
  "keyOf km = \<lparr>nn_Namespace = Namespace (km_ObjectMeta km), nn_Name = Name (km_ObjectMeta km)\<rparr>"

fun patchesOnly :: "NamespacedName \<Rightarrow> event \<Rightarrow> bool" where
  "patchesOnly k (PatchedKubemarkMachine c b a err) \<longleftrightarrow> keyOf a = k"
| "patchesOnly k e \<longleftrightarrow> True"

text \<open>\<open>client.Get\<close> gives the object that was asked for.\<close>

definition getsRequested :: "'w lib \<Rightarrow> bool" where
  "getsRequested L \<longleftrightarrow>
     (\<forall>c key w km w'. Get_KubemarkMachine L c key w = (Inr km, w') \<longrightarrow> keyOf km = key)"

lemma keyOf_edits [simp]:
  "keyOf (addMachineFinalizer L km) = keyOf km"
  "keyOf (removeMachineFinalizer L km) = keyOf km"
  "keyOf (markReady km) = keyOf km"
  by (simp_all add: keyOf_def addMachineFinalizer_def removeMachineFinalizer_def)

text \<open>Throughout a reconciliation the machine keeps its key, and only it is patched.\<close>

definition about :: "NamespacedName \<Rightarrow> event list \<Rightarrow> 'w frame \<Rightarrow> bool" where
  "about k t0 f \<longleftrightarrow> keyOf (kubemarkMachine f) = k \<and> logs (patchesOnly k) t0 (api f)"

lemma patchesOnly_read [simp]: "isRead e \<Longrightarrow> patchesOnly k e"
  by (cases e) simp_all

lemma keepsc_about:
  assumes "keepsc (logs (patchesOnly k) t0) m"
  shows "keepsc (about k t0) (onApi m)"
  using assms by (auto simp: keepsc_def about_def onApi_def split: prod.splits)

lemma deferred_about:
  "about k t0 f \<Longrightarrow> about k t0 (deferredPatchMachine L c m f)"
  "about k t0 f \<Longrightarrow> about k t0 (deferredPatchKubemarkMachine L c km f)"
  by (auto simp: about_def logs_def)

lemma about_edit:
  "about k t0 f \<Longrightarrow> keyOf km = keyOf (kubemarkMachine f) \<Longrightarrow>
    about k t0 (f\<lparr>kubemarkMachine := km\<rparr>)"
  by (simp add: about_def)

lemmas about_rules = keepsc_about deferred_about about_edit

lemma reconcileDelete_about: "keeps (about k t0) (reconcileDelete L c ns)"
  unfolding reconcileDelete_def by (auto simp: call_defs intro!: keeps_rules about_rules)

lemma issueCredentials_about:
  "(\<And>x. keeps (about k t0) (body x)) \<Longrightarrow> keeps (about k t0) (issueCredentials L mc cl cfg c ns body)"
  unfolding issueCredentials_def by (auto simp: call_defs intro!: keeps_rules about_rules)

lemma selectArgs_about:
  "(\<And>ver args. keeps (about k t0) (body ver args)) \<Longrightarrow> keeps (about k t0) (selectArgs L body)"
  unfolding selectArgs_def by (auto intro!: keeps_rules)

lemma launch_about: "keeps (about k t0) (launch L img c ns x ver args)"
  unfolding launch_def
  by (auto simp: call_defs about_def intro!: keeps_rules about_rules)

lemma reconcileNormal_about: "keeps (about k t0) (reconcileNormal L r cl c ns)"
  unfolding reconcileNormal_def
  by (auto intro!: keeps_rules about_rules issueCredentials_about selectArgs_about launch_about)

lemma reconcileOnCluster_about: "keeps (about k t0) (reconcileOnCluster L r km cl res)"
  unfolding reconcileOnCluster_def
  by (auto intro!: keeps_rules reconcileDelete_about reconcileNormal_about)

lemma reconcileOwned_about:
  assumes "KubemarkCluster r = NewKubemarkCluster L c"
  shows "keeps (about k t0) (reconcileOwned L r before cl)"
  unfolding reconcileOwned_def assms
  by (auto simp: call_defs about_def [of k t0]
    intro!: keeps_rules keeps_reading_inv about_rules reconcileOnCluster_about)

lemma fetches_key:
  assumes "getsRequested L" and "fetches L c req w = Some (km, m, cl, w')"
  shows "keyOf km = req"
proof -
  obtain w1 where "Get_KubemarkMachine L c req w = (Inr km, w1)"
    using assms(2) by (auto simp: fetches_def split: prod.splits sum.splits option.splits)
  then show ?thesis
    using assms(1) unfolding getsRequested_def by blast
qed

lemma Reconcile_patches:
  fixes L :: "'w lib" and c :: kclient and img wfv :: string and req :: NamespacedName
  assumes "getsRequested L"
  defines "b \<equiv> Reconcile L (newKubemarkMachineReconciler L c img wfv) req"
  shows "list_all (patchesOnly req) (callsOf b s)"
proof (cases "fetches L c req (world s)")
  case None
  then have "list_all isRead (callsOf b s)"
    using Reconcile_unfetched(1) [of L "newKubemarkMachineReconciler L c img wfv" req s]
    by (simp add: b_def)
  then show ?thesis by (rule list.pred_mono_strong) simp
next
  case (Some found)
  then obtain km m cl w where found: "fetches L c req (world s) = Some (km, m, cl, w)"
    by (cases found) auto
  let ?r = "newKubemarkMachineReconciler L c img wfv"
  let ?f = "\<lparr>api = \<lparr>world = w, trace = trace s @ fetchLog c req km m\<rparr>, kubemarkMachine = km, machine = m\<rparr>"
  note key = fetches_key [OF assms(1) found]
  have "about req (trace s) ?f"
    by (simp add: about_def key logs_def fetchLog_def)
  with reconcileOwned_about have "about req (trace s) (snd (reconcileOwned L ?r km cl ?f))"
    by (rule keepsD) simp
  moreover have "snd (b s) = api (snd (reconcileOwned L ?r km cl ?f))"
    using found Reconcile_fetched [of L ?r req s] by (simp add: b_def inFrame_snd)
  ultimately show ?thesis
    by (auto simp: about_def logs_def callsOf_def)
qed

section \<open>The fleet of workers\<close>

text \<open>What a worker sees may be any library that keeps the documented laws and names errors alike.\<close>

definition views :: "'w lib \<Rightarrow> 'w lib \<Rightarrow> bool" where
  "views L0 L \<longleftrightarrow> finalizer_laws L \<and> getsRequested L \<and>
     IsNotFound L = IsNotFound L0 \<and> IsAlreadyExists L = IsAlreadyExists L0"

datatype worker =
    MachineWorker NamespacedName
  | TemplateWorker NamespacedName

text \<open>The calls each running reconciliation has still to make, and all calls made so far.\<close>

record fleet =
  running :: "worker \<Rightarrow> event list option"
  journal :: "(worker \<times> event) list"

definition idleFleet :: fleet where
  "idleFleet = \<lparr>running = (\<lambda>_. None), journal = []\<rparr>"

inductive fleet_step ::
  "'w lib set \<Rightarrow> kclient \<Rightarrow> string \<Rightarrow> string \<Rightarrow> KubemarkMachineTemplateReconciler \<Rightarrow>
   fleet \<Rightarrow> fleet \<Rightarrow> bool" for Ls m img wfv rt where
  begin_machine: "running F (MachineWorker req) = None \<Longrightarrow> L \<in> Ls \<Longrightarrow>
    fleet_step Ls m img wfv rt F (F\<lparr>running := (running F)(MachineWorker req \<mapsto>
      callsOf (Reconcile L (newKubemarkMachineReconciler L m img wfv) req) s)\<rparr>)"
| begin_template: "running F (TemplateWorker req) = None \<Longrightarrow> L \<in> Ls \<Longrightarrow>
    fleet_step Ls m img wfv rt F (F\<lparr>running := (running F)(TemplateWorker req \<mapsto>
      callsOf (ReconcileTemplate L rt req) s)\<rparr>)"
| call: "running F w = Some (e # es) \<Longrightarrow>
    fleet_step Ls m img wfv rt F
      (F\<lparr>running := (running F)(w \<mapsto> es), journal := journal F @ [(w, e)]\<rparr>)"
| finish: "running F w = Some [] \<Longrightarrow>
    fleet_step Ls m img wfv rt F (F\<lparr>running := (running F)(w := None)\<rparr>)"
| crash: "fleet_step Ls m img wfv rt F (F\<lparr>running := (\<lambda>_. None)\<rparr>)"

inductive fleet_runs ::
  "'w lib set \<Rightarrow> kclient \<Rightarrow> string \<Rightarrow> string \<Rightarrow> KubemarkMachineTemplateReconciler \<Rightarrow> fleet \<Rightarrow> bool"
  for Ls m img wfv rt where
  idle: "fleet_runs Ls m img wfv rt idleFleet"
| step: "fleet_runs Ls m img wfv rt F \<Longrightarrow> fleet_step Ls m img wfv rt F G \<Longrightarrow>
    fleet_runs Ls m img wfv rt G"

inductive_cases fleet_stepE: "fleet_step Ls m img wfv rt F G"

definition callsBy :: "worker \<Rightarrow> (worker \<times> event) list \<Rightarrow> event list" where
  "callsBy w j = map snd (filter (\<lambda>x. fst x = w) j)"

lemma callsBy_simps [simp]:
  "callsBy w [] = []"
  "callsBy w (xs @ ys) = callsBy w xs @ callsBy w ys"
  "callsBy w ((w', e) # xs) = (if w' = w then e # callsBy w xs else callsBy w xs)"
  by (simp_all add: callsBy_def)

text \<open>What holds of the calls of each reconciliation holds of the journal.\<close>

definition promised :: "(worker \<Rightarrow> event \<Rightarrow> bool) \<Rightarrow> fleet \<Rightarrow> bool" where
  "promised P F \<longleftrightarrow> list_all (\<lambda>(w, e). P w e) (journal F) \<and>
     (\<forall>w es. running F w = Some es \<longrightarrow> list_all (P w) es)"

lemma fleet_promised:
  assumes "fleet_runs Ls m img wfv rt F"
    and machine: "\<And>L req s. L \<in> Ls \<Longrightarrow> list_all (P (MachineWorker req))
      (callsOf (Reconcile L (newKubemarkMachineReconciler L m img wfv) req) s)"
    and template: "\<And>L req s. L \<in> Ls \<Longrightarrow> list_all (P (TemplateWorker req))
      (callsOf (ReconcileTemplate L rt req) s)"
  shows "promised P F"
  using assms(1)
proof (induction rule: fleet_runs.induct)
  case idle
  show ?case by (simp add: promised_def idleFleet_def)
next
  case (step F G)
  have queued: "list_all (P w) es" if "running F w = Some es" for w es
    using step.IH that by (simp add: promised_def)
  from step.hyps(2) step.IH show ?case
    by (cases rule: fleet_stepE)
      (auto simp: promised_def machine template dest: queued split: if_splits)
qed

section \<open>What one worker has past\<close>

text \<open>
  The calls of a worker are finished or abandoned reconciliations and then, while it runs, the
  part of one that it has made. Each part conforms to the specification: it is a prefix of a log.
\<close>

inductive ledger :: "'w lib \<Rightarrow> event list \<Rightarrow> bool" for L where
  none: "ledger L []"
| more: "ledger L t \<Longrightarrow> conforms L [] seg \<Longrightarrow> ledger L (t @ seg)"

lemma ledger_finalized: "ledger L t \<Longrightarrow> atHome c k t \<Longrightarrow> finalized L c k t"
proof (induction rule: ledger.induct)
  case none
  then show ?case by (simp add: finalized_def)
next
  case (more t seg)
  then show ?case by (simp add: segment_finalized)
qed

lemma ledger_givenUp: "ledger L t \<Longrightarrow> atHome c k t \<Longrightarrow> givenUp L c k t"
proof (induction rule: ledger.induct)
  case none
  then show ?case by (simp add: givenUp_def)
next
  case (more t seg)
  then show ?case by (simp add: segment_givenUp)
qed

text \<open>Before each pod its secret was created, or found, in the same namespace of the same cluster.\<close>

definition secured :: "'w lib \<Rightarrow> event list \<Rightarrow> bool" where
  "secured L t \<longleftrightarrow> (\<forall>xs ys kc p err. t = xs @ CreatedPod kc p err # ys \<longrightarrow>
     list_ex (makesSecret L kc (pod_Namespace p) (pod_Name p)) xs)"

lemma ledger_secured: "ledger L t \<Longrightarrow> secured L t"
proof (induction rule: ledger.induct)
  case none
  then show ?case by (simp add: secured_def)
next
  case (more t seg)
  show ?case unfolding secured_def
  proof clarify
    fix xs ys kc p err assume "t @ seg = xs @ CreatedPod kc p err # ys"
    then show "list_ex (makesSecret L kc (pod_Namespace p) (pod_Name p)) xs"
    proof (cases rule: append_split)
      case (old zs)
      then show ?thesis using more.IH unfolding secured_def by blast
    next
      case (new zs)
      then show ?thesis using more.hyps(2) by simp
    qed
  qed
qed

text \<open>The specification looks at the library only to read errors.\<close>

lemma conforms_views:
  assumes "views L0 L"
  shows "conforms L pre evs = conforms L0 pre evs"
proof -
  have err: "IsNotFound L = IsNotFound L0" "IsAlreadyExists L = IsAlreadyExists L0"
    using assms by (simp_all add: views_def)
  have secret: "makesSecret L c ns n = makesSecret L0 c ns n" for c ns n
    by (rule ext, rename_tac e, case_tac e) (simp_all add: err)
  have pod: "dropsPod L c k = dropsPod L0 c k" for c k
    by (rule ext, rename_tac e, case_tac e) (simp_all add: err)
  have provisions: "provisions L P pre = provisions L0 P pre" for P pre
    by (rule ext, rename_tac e, case_tac e) (simp_all add: err secret)
  have releases: "releases L n pre = releases L0 n pre" for n pre
    by (rule ext, rename_tac e, case_tac e) (simp_all add: err pod)
  have follow: "mayFollow L pre e = mayFollow L0 pre e" for pre e
    by (cases e) (simp_all add: secret pod provisions releases)
  show ?thesis
    by (induction evs arbitrary: pre) (simp_all add: follow)
qed

definition inProgress :: "'w lib \<Rightarrow> NamespacedName \<Rightarrow> event list \<Rightarrow> event list option \<Rightarrow> bool" where
  "inProgress L req past rest \<longleftrightarrow> list_all (patchesOnly req) past \<and>
     (case rest of None \<Rightarrow> ledger L past
      | Some es \<Rightarrow> (\<exists>old seg. past = old @ seg \<and> ledger L old \<and> conforms L [] (seg @ es)) \<and>
          list_all (patchesOnly req) es)"

lemma inProgress_ledger: "inProgress L req past rest \<Longrightarrow> ledger L past"
  by (auto simp: inProgress_def intro: ledger.more split: option.splits)

lemma inProgress_call:
  assumes "inProgress L req past (Some (e # es))"
  shows "inProgress L req (past @ [e]) (Some es)"
proof -
  obtain old seg where log: "past = old @ seg" "ledger L old" "conforms L [] (seg @ e # es)"
    and p: "list_all (patchesOnly req) past" "patchesOnly req e" "list_all (patchesOnly req) es"
    using assms unfolding inProgress_def by auto
  have "past @ [e] = old @ (seg @ [e])" and "conforms L [] ((seg @ [e]) @ es)"
    using log by simp_all
  with log(2) have "\<exists>old' seg'. past @ [e] = old' @ seg' \<and> ledger L old' \<and> conforms L [] (seg' @ es)"
    by blast
  then show ?thesis
    using p unfolding inProgress_def by simp
qed

section \<open>Every run of the fleet\<close>

definition orderly :: "'w lib \<Rightarrow> fleet \<Rightarrow> bool" where
  "orderly L F \<longleftrightarrow>
     (\<forall>req. inProgress L req (callsBy (MachineWorker req) (journal F)) (running F (MachineWorker req))) \<and>
     (\<forall>req. list_all neutral (callsBy (TemplateWorker req) (journal F)) \<and>
        (case running F (TemplateWorker req) of None \<Rightarrow> True | Some es \<Rightarrow> list_all neutral es))"

lemma orderly_machine: "orderly L F \<Longrightarrow>
    inProgress L req (callsBy (MachineWorker req) (journal F)) (running F (MachineWorker req))"
  by (simp add: orderly_def)

lemma inProgress_stop:
  "inProgress L req past rest \<Longrightarrow> inProgress L req past None"
  using inProgress_ledger [of L req past rest] by (simp add: inProgress_def)

lemma inProgress_begin:
  assumes "inProgress L req past None" and "conforms L [] evs" and "list_all (patchesOnly req) evs"
  shows "inProgress L req past (Some evs)"
proof -
  have "ledger L past" and "list_all (patchesOnly req) past"
    using assms(1) by (simp_all add: inProgress_def)
  moreover have "past = past @ []" and "conforms L [] ([] @ evs)" using assms(2) by simp_all
  ultimately have "\<exists>old seg. past = old @ seg \<and> ledger L old \<and> conforms L [] (seg @ evs)"
    by blast
  then show ?thesis
    using \<open>list_all (patchesOnly req) past\<close> assms(3) unfolding inProgress_def by simp
qed

lemma orderly_step:
  assumes "fleet_step Ls m img wfv rt F G" and "\<forall>L\<in>Ls. views L0 L" and "orderly L0 F"
  shows "orderly L0 G"
  using assms(1)
proof (cases rule: fleet_stepE [consumes 1, case_names begin_machine begin_template call finish crash])
  case (begin_machine req L s)
  let ?b = "Reconcile L (newKubemarkMachineReconciler L m img wfv) req"
  have L: "views L0 L" using assms(2) begin_machine by blast
  then have "conforms L0 [] (callsOf ?b s)" and "list_all (patchesOnly req) (callsOf ?b s)"
    using Reconcile_log(2) [where L = L and c = m and img = img and wfv = wfv and req = req and s = s]
      Reconcile_patches [where L = L and c = m and img = img and wfv = wfv and req = req and s = s]
      conforms_views [OF L] by (simp_all add: views_def)
  moreover have "inProgress L0 req (callsBy (MachineWorker req) (journal F)) None"
    using orderly_machine [OF assms(3), of req] begin_machine by simp
  ultimately have "inProgress L0 req (callsBy (MachineWorker req) (journal F)) (Some (callsOf ?b s))"
    by (intro inProgress_begin)
  then show ?thesis
    using assms(3) by (simp add: begin_machine orderly_def)
next
  case (begin_template req L s)
  obtain out u where run: "ReconcileTemplate L rt req s = (out, u)" by force
  from template_neutral [OF run] have "list_all neutral (callsOf (ReconcileTemplate L rt req) s)"
    by (auto simp: callsOf_def run)
  then show ?thesis
    using assms(3) by (simp add: begin_template orderly_def)
next
  case (call w e es)
  show ?thesis
  proof (cases w)
    case (MachineWorker req)
    have "inProgress L0 req (callsBy w (journal F) @ [e]) (Some es)"
      by (rule inProgress_call) (use orderly_machine [OF assms(3), of req] call MachineWorker in simp)
    then show ?thesis
      using assms(3) by (simp add: call MachineWorker orderly_def)
  next
    case (TemplateWorker req)
    have "list_all neutral (e # es)"
      using assms(3) call TemplateWorker unfolding orderly_def by (metis option.case(2))
    then show ?thesis
      using assms(3) by (simp add: call TemplateWorker orderly_def)
  qed
next
  case (finish w)
  show ?thesis
    using assms(3) by (cases w) (auto simp: finish orderly_def intro: inProgress_stop)
next
  case crash
  show ?thesis
    using assms(3) by (auto simp: crash orderly_def intro: inProgress_stop)
qed

lemma orderly_runs:
  assumes "fleet_runs Ls m img wfv rt F" and "\<forall>L\<in>Ls. views L0 L"
  shows "orderly L0 F"
  using assms(1)
proof (induction rule: fleet_runs.induct)
  case idle
  show ?case by (simp add: orderly_def idleFleet_def inProgress_def ledger.none)
next
  case (step F G)
  then show ?case using orderly_step [OF _ assms(2)] by blast
qed

section \<open>What the workers create\<close>

text \<open>
  A machine worker creates objects for its own machine only, as it or an earlier attempt found it.
\<close>

definition createsOwn :: "'w lib set \<Rightarrow> string \<Rightarrow> worker \<Rightarrow> event \<Rightarrow> bool" where
  "createsOwn Ls img w e \<longleftrightarrow> isRead e \<or> (case w of TemplateWorker _ \<Rightarrow> True
     | MachineWorker req \<Rightarrow> (\<exists>L\<in>Ls. \<exists>km m. keyOf km = req \<and> createsFor L img km m e))"

lemma Reconcile_creates_own:
  fixes L :: "'w lib" and c :: kclient and img wfv :: string and req :: NamespacedName
  assumes "L \<in> Ls" and "getsRequested L"
  shows "list_all (createsOwn Ls img (MachineWorker req))
    (callsOf (Reconcile L (newKubemarkMachineReconciler L c img wfv) req) s)"
proof (cases "fetches L c req (world s)")
  case None
  then have "list_all isRead (callsOf (Reconcile L (newKubemarkMachineReconciler L c img wfv) req) s)"
    using Reconcile_unfetched(1) [of L "newKubemarkMachineReconciler L c img wfv" req s] by simp
  then show ?thesis
    by (rule list.pred_mono_strong) (simp add: createsOwn_def)
next
  case (Some found)
  then obtain km m cl w where found: "fetches L c req (world s) = Some (km, m, cl, w)"
    by (cases found) auto
  have "keyOf (addMachineFinalizer L km) = req"
    using fetches_key [OF assms(2) found] by simp
  then show ?thesis
    using assms(1) by (intro list.pred_mono_strong [OF Reconcile_creates [OF found]])
      (auto simp: createsOwn_def)
qed

lemma fleet_creates_own:
  assumes "fleet_runs Ls m img wfv rt F" and "\<forall>L\<in>Ls. views L0 L"
    and "(w, e) \<in> set (journal F)"
  shows "createsOwn Ls img w e"
proof -
  have "promised (createsOwn Ls img) F"
    by (rule fleet_promised [OF assms(1) Reconcile_creates_own])
      (use assms(2) in \<open>auto simp: views_def list_all_iff createsOwn_def\<close>)
  then show ?thesis
    using assms(3) by (fastforce simp: promised_def list_all_iff)
qed

section \<open>From the journal to one machine\<close>

text \<open>The finalizer of the machine with this key is stored, as far as the calls tell.\<close>

fun storedAfter :: "NamespacedName \<Rightarrow> bool \<Rightarrow> event \<Rightarrow> bool" where
  "storedAfter k g (PatchedKubemarkMachine c b a err) =
     (if keyOf a \<noteq> k then g else if \<not> hasFinalizer a then False else err = None \<or> g)"
| "storedAfter k g e = g"

definition finalizerStored :: "NamespacedName \<Rightarrow> event list \<Rightarrow> bool" where
  "finalizerStored k evs = foldl (storedAfter k) False evs"

text \<open>
  The objects of the machine \<open>k\<close> are at one place of one cluster, and no other machine has its
  objects there. A place is a namespace and the machine's name.
\<close>

definition residence :: "NamespacedName \<Rightarrow> kclient \<Rightarrow> NamespacedName \<Rightarrow> (worker \<times> event) list \<Rightarrow> bool" where
  "residence k c place j \<longleftrightarrow> nn_Name place = nn_Name k \<and>
     list_all (\<lambda>(w, e). placedAt e \<noteq> None \<longrightarrow>
        (w = MachineWorker k \<longleftrightarrow> placedAt e = Some (c, place))) j"

lemma residence_append [simp]:
  "residence k c place (xs @ ys) \<longleftrightarrow> residence k c place xs \<and> residence k c place ys"
  by (simp add: residence_def) argo

lemma residence_home: "residence k c place j \<Longrightarrow> atHome c place (callsBy (MachineWorker k) j)"
  by (fastforce simp: residence_def atHome_def callsBy_def list_all_iff split: option.splits)

lemma exist_elsewhere:
  "placedAt e \<noteq> Some (c, place) \<Longrightarrow> (x, c, place) \<in> existAfter L E e \<longleftrightarrow> (x, c, place) \<in> E"
  by (cases e) auto

lemma exist_local:
  "(x, c, place) \<in> E \<longleftrightarrow> (x, c, place) \<in> E' \<Longrightarrow>
    (x, c, place) \<in> existAfter L E e \<longleftrightarrow> (x, c, place) \<in> existAfter L E' e"
  by (cases e) auto

lemma mayExist_own:
  "residence k c place j \<Longrightarrow>
    (x, c, place) \<in> mayExist L (map snd j) \<longleftrightarrow> (x, c, place) \<in> mayExist L (callsBy (MachineWorker k) j)"
proof (induction j rule: rev_induct)
  case (snoc we j)
  obtain w e where we: "we = (w, e)" by (cases we)
  have IH: "(x, c, place) \<in> mayExist L (map snd j) \<longleftrightarrow>
      (x, c, place) \<in> mayExist L (callsBy (MachineWorker k) j)"
    using snoc by simp
  show ?case
  proof (cases "w = MachineWorker k")
    case True
    then show ?thesis using exist_local [OF IH] by (simp add: we)
  next
    case False
    then have "placedAt e \<noteq> Some (c, place)"
      using snoc.prems by (auto simp: residence_def we)
    then show ?thesis using IH False by (simp add: we exist_elsewhere)
  qed
qed simp

text \<open>Each worker patches its own machine only.\<close>

definition ownPatches :: "(worker \<times> event) list \<Rightarrow> bool" where
  "ownPatches j \<longleftrightarrow> (\<forall>(w, e) \<in> set j. \<forall>c b a err. e = PatchedKubemarkMachine c b a err \<longrightarrow>
     w = MachineWorker (keyOf a))"

lemma orderly_patches:
  assumes "orderly L F"
  shows "ownPatches (journal F)"
  unfolding ownPatches_def
proof clarify
  fix w c b a err
  assume e: "(w, PatchedKubemarkMachine c b a err) \<in> set (journal F)"
  then have own: "PatchedKubemarkMachine c b a err \<in> set (callsBy w (journal F))"
    by (force simp: callsBy_def)
  show "w = MachineWorker (keyOf a)"
  proof (cases w)
    case (MachineWorker req)
    then show ?thesis
      using orderly_machine [OF assms, of req] own by (auto simp: inProgress_def list_all_iff)
  next
    case (TemplateWorker req)
    then have "list_all neutral (callsBy w (journal F))"
      using assms by (simp add: orderly_def)
    with own have "neutral (PatchedKubemarkMachine c b a err)"
      unfolding list_all_iff by blast
    then show ?thesis by simp
  qed
qed

text \<open>Only the workers of machines create objects.\<close>

lemma orderly_creator:
  assumes "orderly L F" and e: "(w, CreatedPod kc p err) \<in> set (journal F)"
  shows "\<exists>k. w = MachineWorker k"
proof (cases w)
  case (TemplateWorker req)
  then have "list_all neutral (callsBy w (journal F))"
    using assms(1) by (simp add: orderly_def)
  moreover have "CreatedPod kc p err \<in> set (callsBy w (journal F))"
    using e by (force simp: callsBy_def)
  ultimately have "neutral (CreatedPod kc p err)"
    unfolding list_all_iff by blast
  then show ?thesis by simp
qed simp

lemma stored_own:
  "ownPatches j \<Longrightarrow>
    finalizerStored k (map snd j) \<longleftrightarrow> nn_Name k \<in> guarded (callsBy (MachineWorker k) j)"
proof (induction j rule: rev_induct)
  case Nil
  then show ?case by (simp add: finalizerStored_def)
next
  case (snoc we j)
  obtain w e where we: "we = (w, e)" by (cases we)
  have IH: "finalizerStored k (map snd j) \<longleftrightarrow> nn_Name k \<in> guarded (callsBy (MachineWorker k) j)"
    using snoc by (simp add: ownPatches_def)
  show ?case
  proof (cases "\<exists>c b a err. e = PatchedKubemarkMachine c b a err")
    case True
    then obtain c b a err where e: "e = PatchedKubemarkMachine c b a err" by blast
    then have "w = MachineWorker (keyOf a)"
      using snoc.prems by (auto simp: ownPatches_def we)
    then show ?thesis
      using IH by (auto simp: we e finalizerStored_def keyOf_def)
  next
    case False
    then have "storedAfter k g e = g" and "guardedAfter G e = G" for g G
      by (cases e; simp)+
    then show ?thesis using IH by (simp add: we finalizerStored_def)
  qed
qed

end
