(* ===== verification/Fleet_Theorems.thy ===== *)
theory Fleet_Theorems
  imports Machine_Fleet Lifecycle_Theorems
begin

text \<open>
  The properties of the manager with its workers running at the same time and crashing at any
  moment, and a run with two workers to apply them to.
\<close>

section \<open>A run with a crash\<close>

lemma fleet_works:
  "fleet_runs Ls m img wfv rt F \<Longrightarrow> running F w = Some (xs @ ys) \<Longrightarrow>
    fleet_runs Ls m img wfv rt
      (F\<lparr>running := (running F)(w \<mapsto> ys), journal := journal F @ map (Pair w) xs\<rparr>)"
proof (induction xs arbitrary: F)
  case Nil
  then show ?case by (simp add: map_upd_triv)
next
  case (Cons e xs)
  let ?G = "F\<lparr>running := (running F)(w \<mapsto> xs @ ys), journal := journal F @ [(w, e)]\<rparr>"
  have "fleet_runs Ls m img wfv rt ?G"
    using fleet_runs.step [OF Cons.prems(1) fleet_step.call] Cons.prems(2) by simp
  from Cons.IH [OF this] show ?case by (simp cong: if_cong)
qed

text \<open>A worker takes up a request, makes some of its calls, and the process dies.\<close>

definition crashedFleet :: "(worker \<times> event) list \<Rightarrow> fleet" where
  "crashedFleet j = \<lparr>running = (\<lambda>_. None), journal = j\<rparr>"

lemma fleet_attempt:
  assumes "fleet_runs Ls m img wfv rt (crashedFleet j)" and "L \<in> Ls"
    and "callsOf (Reconcile L (newKubemarkMachineReconciler L m img wfv) req) s = xs @ ys"
  shows "fleet_runs Ls m img wfv rt (crashedFleet (j @ map (Pair (MachineWorker req)) xs))"
proof -
  let ?w = "MachineWorker req"
  have "fleet_runs Ls m img wfv rt
      (crashedFleet j\<lparr>running := (running (crashedFleet j))(?w \<mapsto> xs @ ys)\<rparr>)"
    unfolding assms(3) [symmetric]
    by (rule fleet_runs.step [OF assms(1) fleet_step.begin_machine [OF _ assms(2)]])
      (simp add: crashedFleet_def)
  from fleet_runs.step [OF fleet_works [OF this, of ?w xs ys] fleet_step.crash]
  show ?thesis by (simp add: crashedFleet_def)
qed

definition demoViews :: "unit lib set" where
  "demoViews = {demoProvisioning, demoDeleting}"

lemma demo_views: "\<forall>L\<in>demoViews. views demoProvisioning L"
  by (auto simp: demoViews_def views_def getsRequested_def keyOf_def demoProvisioning_def
    demoDeleting_def demoLib_laws) (simp_all add: demoLib_def split: if_splits)

abbreviation demoWorker :: worker where
  "demoWorker \<equiv> MachineWorker demoRequest"

text \<open>
  The first attempt at provisioning dies after the secret, the second after the pod; then the
  machine is deleted.
\<close>

definition demoAttempts :: "(worker \<times> event) list" where
  "demoAttempts = map (Pair demoWorker) (take 7 (demoCalls demoProvisioning)) @
     map (Pair demoWorker) (take 8 (demoCalls demoProvisioning))"

definition demoJournal :: "(worker \<times> event) list" where
  "demoJournal = demoAttempts @ map (Pair demoWorker) (demoCalls demoDeleting)"

lemma demo_fleet:
  "fleet_runs demoViews demoClient ''img'' [] demoTemplateReconciler (crashedFleet demoAttempts)"
  "fleet_runs demoViews demoClient ''img'' [] demoTemplateReconciler (crashedFleet demoJournal)"
proof -
  have idle: "fleet_runs demoViews demoClient ''img'' [] demoTemplateReconciler (crashedFleet [])"
    using fleet_runs.idle by (simp add: idleFleet_def crashedFleet_def)
  have L: "demoProvisioning \<in> demoViews" "demoDeleting \<in> demoViews"
    by (simp_all add: demoViews_def)
  have two: "fleet_runs demoViews demoClient ''img'' [] demoTemplateReconciler
      (crashedFleet (([] @ map (Pair demoWorker) (take 7 (demoCalls demoProvisioning))) @
        map (Pair demoWorker) (take 8 (demoCalls demoProvisioning))))"
    by (rule fleet_attempt [OF fleet_attempt [OF idle L(1)] L(1)]) (rule append_take_drop_id [symmetric])+
  then show attempts: "fleet_runs demoViews demoClient ''img'' [] demoTemplateReconciler (crashedFleet demoAttempts)"
    by (simp add: demoAttempts_def)
  show "fleet_runs demoViews demoClient ''img'' [] demoTemplateReconciler (crashedFleet demoJournal)"
    unfolding demoJournal_def
    by (rule fleet_attempt [OF attempts L(2), where ys = "[]"]) simp
qed

section \<open>The properties\<close>





text \<open>
  C19: The hollow kubelet finds its credentials, also when they come from an attempt that crashed.
  Whenever a worker creates a pod, it has before asked for a secret of the pod's name in the same namespace
  of the same cluster, and it was created or there already. And every secret of that namespace and
  cluster that the worker creates in any attempt of the run fits the pod: the pod's container mounts
  it at a directory; its \<open>kubeconfig\<close> encodes a configuration whose current context leads to a user
  whose certificate and key are in the file \<open>cert.pem\<close> of that directory; and its \<open>cert.pem\<close> holds a
  certificate for the node name the kubelet is started with, signed with the certificate and key of
  one secret, and the key that belongs to it.
\<close>

theorem fleet_finds_credentials:
  fixes Ls :: "'w lib set"
  assumes "fleet_runs Ls m img wfv rt F" and "\<forall>L\<in>Ls. views L0 L"
    and "journal F = xs @ (w, CreatedPod kc p err) # ys"
  shows "(\<exists>x e. (w, CreatedSecret kc x e) \<in> set xs \<and> secret_Namespace x = pod_Namespace p \<and>
      secret_Name x = pod_Name p \<and> tolerated (IsAlreadyExists L0) e) \<and>
    (\<forall>x e. (w, CreatedSecret kc x e) \<in> set (journal F) \<and> secret_Namespace x = pod_Namespace p \<longrightarrow>
      (\<exists>L\<in>Ls. \<exists>cont dir volume restConfig user node.
        Containers p = [cont] \<and>
        \<lparr>MountPath = dir, vm_Name = volume\<rparr> \<in> set (VolumeMounts cont) \<and>
        \<lparr>volume_Name = volume, Source = SecretVolume (secret_Name x)\<rparr> \<in> set (Volumes p) \<and>
        Encode_KubeConfig L (kubeconfigData restConfig (ClientCertificate user)) =
          Inr (dataOf x ''kubeconfig'') \<and>
        map_option snd (resolve (kubeconfigData restConfig (ClientCertificate user))) = Some user \<and>
        ClientCertificate user = dir @ ''/cert.pem'' \<and> ClientKey user = dir @ ''/cert.pem'' \<and>
        identifies L node (dataOf x ''cert.pem'') \<and> ''--name='' @ node \<in> set (Args cont)))"
proof -
  have w: "(w, CreatedPod kc p err) \<in> set (journal F)"
    by (simp add: assms(3))
  obtain k where k: "w = MachineWorker k"
    using orderly_creator [OF orderly_runs [OF assms(1,2)] w] by auto
  have "callsBy w (journal F) = callsBy w xs @ CreatedPod kc p err # callsBy w ys"
    by (simp add: assms(3))
  then have "list_ex (makesSecret L0 kc (pod_Namespace p) (pod_Name p)) (callsBy w xs)"
    using ledger_secured [OF inProgress_ledger [OF orderly_machine [OF orderly_runs [OF assms(1,2)], of k]]]
    unfolding secured_def k by blast
  then obtain e' where "e' \<in> set (callsBy w xs)" "makesSecret L0 kc (pod_Namespace p) (pod_Name p) e'"
    by (auto simp: list_ex_iff)
  then have secret: "\<exists>x e. (w, CreatedSecret kc x e) \<in> set xs \<and> secret_Namespace x = pod_Namespace p \<and>
      secret_Name x = pod_Name p \<and> tolerated (IsAlreadyExists L0) e"
    by (auto simp: callsBy_def elim!: makesSecretE) blast
  have fits: "\<exists>L\<in>Ls. findsCredentials L p x" if x: "(w, CreatedSecret kc x e) \<in> set (journal F)" for x e
  proof -
    obtain L km where "L \<in> Ls" and x: "keyOf km = k" "secretFor L km x"
      using fleet_creates_own [OF assms(1,2) x] by (auto simp: createsOwn_def k)
    moreover obtain L' :: "'w lib" and km' m' where p: "keyOf km' = k" "podFor L' img km' m' p"
      using fleet_creates_own [OF assms(1,2) w] by (auto simp: createsOwn_def k)
    have "Name (km_ObjectMeta km') = Name (km_ObjectMeta km)"
      using x(1) p(1) by (auto simp: keyOf_def)
    then have "findsCredentials L p x"
      by (rule credentials_fit [OF p(2) x(2)])
    ultimately show ?thesis by blast
  qed
  with secret show ?thesis
    unfolding findsCredentials_def by blast
qed

text \<open>The secret of the first attempt and the pod of the second.\<close>

theorem fleet_finds_credentials_witness:
  "\<exists>L\<in>demoViews. \<exists>node cont. Containers demoPod = [cont] \<and> ''--name='' @ node \<in> set (Args cont) \<and>
     identifies L node ''CERTIFICATEsystem:node:node-0EC PRIVATE KEYkey''"
proof -
  have x: "(demoWorker, CreatedSecret demoClient demoFiles None) \<in> set demoAttempts"
    "secret_Namespace demoFiles = pod_Namespace demoPod"
    unfolding demoAttempts_def demoProvisioning_run by (simp_all add: demoFiles_def demoPod_def)
  have "(demoWorker, CreatedPod demoClient demoPod None) \<in> set demoAttempts"
    unfolding demoAttempts_def demoProvisioning_run by simp
  then obtain xs ys where "demoAttempts = xs @ (demoWorker, CreatedPod demoClient demoPod None) # ys"
    by (meson split_list)
  then have "journal (crashedFleet demoAttempts) = xs @ (demoWorker, CreatedPod demoClient demoPod None) # ys"
    by (simp add: crashedFleet_def)
  from fleet_finds_credentials [OF demo_fleet(1) demo_views this] x
  have "\<exists>L\<in>demoViews. \<exists>node cont. Containers demoPod = [cont] \<and> ''--name='' @ node \<in> set (Args cont) \<and>
      identifies L node (dataOf demoFiles ''cert.pem'')"
    by (fastforce simp: crashedFleet_def)
  moreover have "dataOf demoFiles ''cert.pem'' = ''CERTIFICATEsystem:node:node-0EC PRIVATE KEYkey''"
    by (simp add: dataOf_def demoFiles_def)
  ultimately show ?thesis by simp
qed

end
