(* ===== verification/Component_Theorems.thy ===== *)
theory Component_Theorems
  imports Template_Controller Hollow_Pod Kubelet_Credentials Demo_Library
begin

text \<open>
  The properties of the components \<open>Reconcile\<close> is made of: the extended resources and their flag,
  the client of the kubemark cluster, the template controller, the pod, the kubelet's credentials
  and the accessors of the conditions.
\<close>

section \<open>Extended resources\<close>

text \<open>
  C25: Whatever order the Go runtime visits the options in, the resources are the options with the
  defaults \<open>1\<close> CPU and \<open>4G\<close> of memory for what they leave out.
\<close>

theorem resources_are_spec:
  assumes "range_laws L" and "getKubemarkExtendedResources L options = Some res"
  shows "res \<noteq> None \<and> gomap_get res k =
    (case gomap_get (ExtendedResources options) k of
       Some v \<Rightarrow> Some v
     | None \<Rightarrow> if k = ''cpu'' then MustParse L ''1''
               else if k = ''memory'' then MustParse L ''4G'' else None)"
  using resources_lookup(1) [OF assms] resources_lookup(2) [OF assms, of k]
  unfolding resourcesSpec_def KubemarkExtendedResourceCPU_def KubemarkExtendedResourceMemory_def
    DefaultCPUResource_def DefaultMemResource_def by simp

definition demoOptions :: KubemarkProcessOptions where
  "demoOptions = \<lparr>ExtendedResources =
     Some (fmupd ''cpu'' (Quantity ''16'') (fmupd ''gpu'' (Quantity ''2'') fmempty))\<rparr>"

definition demoAny :: "unit lib" where
  "demoAny = demoLib (demoWith (demoMachine None False None) None)"

lemma demoAny_laws: "range_laws demoAny" "finalizer_laws demoAny" "defaultsParse demoAny"
  by (simp_all add: demoAny_def demoLib_laws)

theorem resources_are_spec_witness:
  "\<exists>res. getKubemarkExtendedResources demoAny demoOptions = Some res \<and>
     gomap_get res ''cpu'' = Some (Quantity ''16'') \<and> gomap_get res ''memory'' = Some (Quantity ''4G'')"
proof -
  obtain res where res: "getKubemarkExtendedResources demoAny demoOptions = Some res"
    using resources_returns [of demoAny demoOptions] demoAny_laws(3) by auto
  show ?thesis
    using resources_are_spec [OF demoAny_laws(1) res, of "''cpu''"]
      resources_are_spec [OF demoAny_laws(1) res, of "''memory''"] res
    by (simp add: demoOptions_def demoAny_def demoLib_def)
qed

text \<open>
  C26: Printing the flag and reading it back gives the resources as they were, with every quantity in
  its canonical text, when no name or quantity contains a delimiter; only for the empty map,
  which the controller never prints, does the reader refuse the flag.
\<close>

theorem flag_roundtrip:
  assumes "range_laws L" and "flagSafe L m"
  shows "mapFromExtendedResourceFlags (getKubemarkExtendedResourcesFlag L None) = Inr None \<and>
    (case mapFromExtendedResourceFlags (getKubemarkExtendedResourcesFlag L (Some m)) of
       Inr res \<Rightarrow> m \<noteq> fmempty \<and> res = Some (fmmap (QuantityString L) m)
     | Inl e \<Rightarrow> m = fmempty)"
proof (cases "m = fmempty")
  case True
  have "rangeResources L fmempty = []"
    using range_order_set [OF range_laws_orders(2) [OF assms(1)], of fmempty] by simp
  then show ?thesis
    using True
    by (simp add: mapFromExtendedResourceFlags_def getKubemarkExtendedResourcesFlag_def
        flagPrefix_def stringsHasPrefix_def)
next
  case False
  then show ?thesis
    using flag_roundtrip_nonempty [OF assms]
    by (simp add: mapFromExtendedResourceFlags_def [of "[]"] getKubemarkExtendedResourcesFlag_def
        [of L None])
qed

theorem flag_roundtrip_witness:
  "case mapFromExtendedResourceFlags
      (getKubemarkExtendedResourcesFlag demoAny (Some (fmupd ''gpu'' (Quantity ''2'') fmempty))) of
     Inr res \<Rightarrow> res = Some (fmupd ''gpu'' ''2'' fmempty) | Inl e \<Rightarrow> False"
proof -
  let ?m = "fmupd ''gpu'' (Quantity ''2'') fmempty :: (string, quantity) fmap"
  have "flagSafe demoAny ?m"
    by (auto simp: flagSafe_def flagClean_def demoAny_def demoLib_def fmpred_iff)
  moreover have "?m \<noteq> fmempty"
    by (metis fmempty_lookup fmupd_lookup option.distinct(1))
  moreover have "fmmap (QuantityString demoAny) ?m = fmupd ''gpu'' ''2'' fmempty"
    by (rule fmap_ext) (simp add: demoAny_def demoLib_def)
  ultimately show ?thesis
    using flag_roundtrip [OF demoAny_laws(1), of ?m] by (auto split: sum.splits)
qed

text \<open>
  The reader accepts a flag exactly when it is empty, or it starts with the prefix and every
  segment between commas has exactly one equals sign.
\<close>

theorem reader_accepts:
  "(\<exists>res. mapFromExtendedResourceFlags flags = Inr res) \<longleftrightarrow>
     flags = [] \<or>
     (\<exists>body. flags = ''--extended-resources='' @ body \<and>
        list_all (\<lambda>r. count_list r CHR ''='' = 1) (stringsSplit body CHR '',''))"
proof -
  have ok: "(\<exists>res. map_sum id Some (parsePairs flags rs acc) = Inr res) \<longleftrightarrow>
      list_all (\<lambda>r. count_list r CHR ''='' = 1) rs" for rs acc
    using parsePairs_ok_iff [of flags rs acc]
    by (cases "parsePairs flags rs acc") (simp_all add: list_all_iff)
  have prefix: "stringsHasPrefix flags flagPrefix \<longleftrightarrow> (\<exists>body. flags = flagPrefix @ body)"
    using stringsHasPrefix_drop [of flags flagPrefix] by auto
  show ?thesis
    by (auto simp: mapFromExtendedResourceFlags_def ok prefix simp flip: flagPrefix_def)
qed

section \<open>The kubemark cluster\<close>

text \<open>
  C28: \<open>GenerateKubemarkClusterClient\<close> gives a client or an error, never both and never neither,
  an empty namespace with an error, and does nothing but read; without a secret reference it
  gives the management cluster's client and the owner's namespace.
\<close>

theorem cluster_client_contract:
  assumes "GenerateKubemarkClusterClient L w ref ns s = ((c, n, e), s')"
  shows "(e = None \<longleftrightarrow> c \<noteq> None) \<and> (if e = None then True else n = []) \<and> appends isRead s s' \<and>
    (if ref = None then c = Some (kc_Client w) \<and> n = ns \<and> s' = s else True)"
proof (cases ref)
  case None
  then show ?thesis
    using assms by (auto simp: generate_without_ref)
next
  case (Some r)
  then show ?thesis
    using generate_result [OF assms] generate_appends [OF assms] by (cases e) auto
qed

theorem cluster_client_contract_witness:
  "\<exists>c n s'. GenerateKubemarkClusterClient demoAny \<lparr>kc_Client = demoClient\<rparr> None ''fleet'' demoStart =
      ((c, n, None), s') \<and> c = Some demoClient \<and> n = ''fleet''"
proof -
  obtain c n e s' where run: "GenerateKubemarkClusterClient demoAny \<lparr>kc_Client = demoClient\<rparr> None
      ''fleet'' demoStart = ((c, n, e), s')"
    by (metis prod_cases3 surj_pair)
  then have "c = Some demoClient \<and> n = ''fleet'' \<and> e = None"
    using cluster_client_contract [OF run] by simp
  with run show ?thesis by simp
qed

text \<open>
  C27: With a reference, the client talks to the cluster of the kubeconfig stored in that very
  secret, and the namespace is the one in the secret with all white space around it, and nothing
  else, cut off, or \<open>default\<close> when the secret names none.
\<close>

theorem cluster_client_from_secret:
  assumes "GenerateKubemarkClusterClient L w (Some ref) ns s = ((Some c, n, e), s')"
  shows "\<exists>sec w1 kubeConfig cfg.
    Get_Secret L (kc_Client w) \<lparr>nn_Namespace = ref_Namespace ref, nn_Name = ref_Name ref\<rparr>
      (world s) = (Inr sec, w1) \<and>
    gomap_get (Data sec) ''kubeconfig'' = Some kubeConfig \<and>
    RESTConfigFromKubeConfig L kubeConfig = Inr cfg \<and>
    Client_New L cfg (kc_Client w) w1 = (Inr c, world s') \<and>
    (case gomap_get (Data sec) ''namespace'' of
       None \<Rightarrow> n = ''default''
     | Some b \<Rightarrow> (\<exists>ps qs. b = concat ps @ n @ concat qs \<and>
           set ps \<subseteq> set spaceEncodings \<and> set qs \<subseteq> set spaceEncodings) \<and>
         \<not> leadingSpace n \<and> \<not> trailingSpace n)"
proof -
  obtain sec w1 kubeConfig cfg where *:
    "Get_Secret L (kc_Client w) \<lparr>nn_Namespace = ref_Namespace ref, nn_Name = ref_Name ref\<rparr>
       (world s) = (Inr sec, w1)"
    "gomap_get (Data sec) ''kubeconfig'' = Some kubeConfig"
    "RESTConfigFromKubeConfig L kubeConfig = Inr cfg"
    "Client_New L cfg (kc_Client w) w1 = (Inr c, world s')"
    "n = (case gomap_get (Data sec) ''namespace'' of
            None \<Rightarrow> ''default'' | Some b \<Rightarrow> stringsTrimSpace b)"
    using generate_with_ref [OF assms] by metis
  then show ?thesis
    using stringsTrimSpace_ends stringsTrimSpace_parts by (simp split: option.split)
qed

definition demoRef :: ObjectReference where
  "demoRef = \<lparr>ref_Namespace = ''fleet'', ref_Name = ''kc''\<rparr>"

lemma demoRef_run:
  "\<exists>s'. GenerateKubemarkClusterClient demoAny \<lparr>kc_Client = demoClient\<rparr> (Some demoRef) ''x'' demoStart =
     ((Some (KClient ''remote''), stringsTrimSpace '' hollow '', None), s')"
  by (simp add: GenerateKubemarkClusterClient_def demoAny_def demo_defs call_defs invoke_def
      demoRef_def)

theorem cluster_client_from_secret_witness:
  "\<exists>sec. gomap_get (Data sec) ''kubeconfig'' = Some ''remote'' \<and>
     Get_Secret demoAny demoClient \<lparr>nn_Namespace = ''fleet'', nn_Name = ''kc''\<rparr> () = (Inr sec, ())"
proof -
  obtain s' where run: "GenerateKubemarkClusterClient demoAny \<lparr>kc_Client = demoClient\<rparr> (Some demoRef)
      ''x'' demoStart = ((Some (KClient ''remote''), stringsTrimSpace '' hollow '', None), s')"
    using demoRef_run by blast
  show ?thesis
    using cluster_client_from_secret [OF run]
    by (auto simp: demoAny_def demo_defs)
qed

text \<open>
  A secret without the key \<open>kubeconfig\<close>, or a reference to no secret, gives an error that says
  so, no client, and no client is built.
\<close>

theorem cluster_client_errors:
  assumes "Get_Secret L (kc_Client w) \<lparr>nn_Namespace = ref_Namespace ref, nn_Name = ref_Name ref\<rparr>
      (world s) = (res, w1)"
    and "case res of Inl _ \<Rightarrow> True | Inr sec \<Rightarrow> gomap_get (Data sec) ''kubeconfig'' = None"
  shows "\<exists>s'. GenerateKubemarkClusterClient L w (Some ref) ns s = ((None, [], Some
      (case res of
         Inl e \<Rightarrow> ErrorsWrap e (''failed to fetch kubemark cluster kubeconfig secret '' @
                   ref_Namespace ref @ ''/'' @ ref_Name ref)
       | Inr _ \<Rightarrow> ErrorsNew (''failed to retrieve kubemark cluster kubeconfig from secret: '' @
                   [CHR 0x27] @ ''kubeconfig'' @ [CHR 0x27] @ '' key is missing''))), s') \<and>
    trace s' = trace s @ [GotSecret (kc_Client w)
      \<lparr>nn_Namespace = ref_Namespace ref, nn_Name = ref_Name ref\<rparr> (errOf res)]"
  using assms
  by (auto simp: GenerateKubemarkClusterClient_def getSecret_def invoke_def split: sum.splits)

theorem cluster_client_errors_witness:
  "let L = demoAny\<lparr>Get_Secret := \<lambda>c k w. (Inl (Foreign ''NotFound''), w)\<rparr>
   in \<exists>s'. GenerateKubemarkClusterClient L \<lparr>kc_Client = demoClient\<rparr> (Some demoRef) ''x'' demoStart =
     ((None, [], Some (ErrorsWrap (Foreign ''NotFound'')
       ''failed to fetch kubemark cluster kubeconfig secret fleet/kc'')), s')"
  using cluster_client_errors [of "demoAny\<lparr>Get_Secret := \<lambda>c k w. (Inl (Foreign ''NotFound''), w)\<rparr>"
      "\<lparr>kc_Client = demoClient\<rparr>" demoRef demoStart "Inl (Foreign ''NotFound'')" "()" "''x''"]
  by (auto simp: Let_def demoRef_def)

section \<open>The template controller\<close>

text \<open>
  The capacity that is published is the resources a node of the template's spec gets; nothing
  else of the template changes, and the update flag is set exactly when something does.
\<close>

theorem capacity_published:
  assumes "range_laws L" and "updateCapacity L t = Some (t', upd)"
    and "ExtendedResources (templateOptions t) \<noteq> None"
  shows "getKubemarkExtendedResources L (templateOptions t) = Some (Capacity (kmt_Status t')) \<and>
    t' = t\<lparr>kmt_Status := \<lparr>Capacity = Capacity (kmt_Status t')\<rparr>\<rparr> \<and> (upd \<longleftrightarrow> t' \<noteq> t)"
  using updateCapacity_published [OF assms] updateCapacity_result(1,2) [OF assms(1,2)]
  by (simp flip: setCapacity_eq)

definition demoSized :: KubemarkMachineTemplate where
  "demoSized = demoTemplate (ExtendedResources demoOptions) None"

lemma demoSized_update:
  "\<exists>t' upd. updateCapacity demoAny demoSized = Some (t', upd)"
  "ExtendedResources (templateOptions demoSized) \<noteq> None"
  using resources_returns [of demoAny "templateOptions demoSized"] demoAny_laws(3)
  by (auto simp: updateCapacity_def Let_def demoSized_def demoTemplate_def demoSpec_def
      templateOptions_def demoOptions_def)

theorem capacity_published_witness:
  "\<exists>t' upd. updateCapacity demoAny demoSized = Some (t', upd) \<and>
     getKubemarkExtendedResources demoAny (templateOptions demoSized) = Some (Capacity (kmt_Status t'))"
  using demoSized_update capacity_published [OF demoAny_laws(1), of demoSized] by blast

text \<open>
  C29: The template controller settles: reconciling a template that carries the capacity a previous
  reconciliation computed makes no call but the read, and returns without an error.
\<close>

theorem template_settles:
  assumes "updateCapacity L t = Some (t', upd)"
    and "Get_KubemarkMachineTemplate L (kmtr_Client r) req (world s) = (Inr t', w)"
    and "NewHelper_KubemarkMachineTemplate L (kmtr_Client r) t' = Inr ()"
  shows "ReconcileTemplate L r req s = (Returned emptyResult None,
    \<lparr>world = w, trace = trace s @ [GotKubemarkMachineTemplate (kmtr_Client r) req None]\<rparr>)"
  using updateCapacity_idem [OF assms(1)] assms(2,3)
  by (simp add: ReconcileTemplate_def body_defs getKubemarkMachineTemplate_def invoke_def)

definition demoTemplates :: KubemarkMachineTemplateReconciler where
  "demoTemplates = \<lparr>kmtr_Client = demoClient, kmtr_WatchFilterValue = []\<rparr>"

theorem template_settles_witness:
  "\<exists>t'. fst (ReconcileTemplate
      (demoAny\<lparr>Get_KubemarkMachineTemplate := \<lambda>c k w. (Inr t', w)\<rparr>) demoTemplates demoRequest
      demoStart) = Returned emptyResult None \<and> Capacity (kmt_Status t') \<noteq> None"
proof -
  obtain t' upd where u: "updateCapacity demoAny demoSized = Some (t', upd)"
    using demoSized_update by blast
  let ?L = "demoAny\<lparr>Get_KubemarkMachineTemplate := \<lambda>c k w. (Inr t', w)\<rparr>"
  have same: "getKubemarkExtendedResources ?L = getKubemarkExtendedResources demoAny"
    "rangeResources ?L = rangeResources demoAny"
    by (simp_all add: fun_eq_iff getKubemarkExtendedResources_def cong: option.case_cong)
  have "updateCapacity ?L demoSized = Some (t', upd)"
    using u unfolding updateCapacity_def same .
  from template_settles [OF this, of demoTemplates demoRequest demoStart "()"]
  have "fst (ReconcileTemplate ?L demoTemplates demoRequest demoStart) = Returned emptyResult None"
    by (simp add: demoAny_def demoLib_def)
  moreover have "Capacity (kmt_Status t') \<noteq> None"
    using updateCapacity_result(3) [OF demoAny_laws(1) u] demoSized_update by blast
  ultimately show ?thesis by blast
qed

text \<open>
  C30: The template controller never writes anything but the capacity of a template whose spec has
  extended resources, and only when it changes.
\<close>

theorem template_writes_capacity_only:
  assumes "range_laws L" and "e \<in> set (callsOf (ReconcileTemplate L r req) s)"
  shows "isRead e \<or> (\<exists>b a err. e = PatchedKubemarkMachineTemplate (kmtr_Client r) b a err \<and>
    a \<noteq> b \<and> a = b\<lparr>kmt_Status := \<lparr>Capacity = Capacity (kmt_Status a)\<rparr>\<rparr> \<and>
    ExtendedResources (templateOptions b) \<noteq> None)"
  by (rule template_calls [OF assms])

theorem template_writes_capacity_only_witness:
  "\<exists>e \<in> set (callsOf (ReconcileTemplate demoAny demoTemplates demoRequest) demoStart). isRead e"
proof -
  let ?e = "GotKubemarkMachineTemplate demoClient demoRequest None"
  have e: "?e \<in> set (callsOf (ReconcileTemplate demoAny demoTemplates demoRequest) demoStart)"
    by (simp add: ReconcileTemplate_def callsOf_def body_defs call_defs invoke_def demoAny_def
        demo_defs demoTemplates_def updateCapacity_def templateOptions_def)
  show ?thesis
    using template_writes_capacity_only [OF demoAny_laws(1) e] e by (intro bexI [OF _ e]) auto
qed

text \<open>
  C31: A template that is gone, before the read or before the patch, is no error; every other error
  of the two calls is returned, and so is that of the patch helper, wrapped.
\<close>

theorem template_errors:
  assumes "defaultsParse L"
    and "Get_KubemarkMachineTemplate L (kmtr_Client r) req (world s) = (got, w)"
  shows "fst (ReconcileTemplate L r req s) = Returned emptyResult
    (case got of
       Inl e \<Rightarrow> if IsNotFound L e then None else Some e
     | Inr t \<Rightarrow>
       (case NewHelper_KubemarkMachineTemplate L (kmtr_Client r) t of
          Inl e \<Rightarrow> Some (Errorf ''failed to init patch helper: '' e)
        | Inr _ \<Rightarrow>
          (case updateCapacity L t of
             Some (t', True) \<Rightarrow>
               (case fst (Patch_KubemarkMachineTemplate L (kmtr_Client r) t t' w) of
                  Inl e \<Rightarrow> if IsNotFound L e then None else Some e
                | Inr _ \<Rightarrow> None)
           | _ \<Rightarrow> None)))"
proof (cases got)
  case (Inl e)
  then show ?thesis
    using assms(2) by (simp add: ReconcileTemplate_def body_defs call_defs invoke_def)
next
  case (Inr t)
  obtain t' upd where "updateCapacity L t = Some (t', upd)"
    using updateCapacity_returns [OF assms(1), of t] by auto
  then show ?thesis
    using assms(2) Inr
    by (auto simp: ReconcileTemplate_def body_defs call_defs invoke_def
        split: sum.split prod.split bool.split)
qed

theorem template_errors_witness:
  "fst (ReconcileTemplate (demoAny\<lparr>Get_KubemarkMachineTemplate := \<lambda>c k w. (Inl (Foreign ''x''), w)\<rparr>)
      demoTemplates demoRequest demoStart) = Returned emptyResult (Some (Foreign ''x''))"
  by (subst template_errors [where got = "Inl (Foreign ''x'')" and w = "()"])
    (simp_all add: demoAny_def demoLib_def defaultsParse_def)

section \<open>The pod\<close>

text \<open>
  C39: The loop that writes the containers' slice while it ranges over it appends to every container
  one mount, and to the pod one volume, per extra mount, in order, and leaves the rest alone.
\<close>

theorem extra_mounts_append:
  "addExtraMounts vs pod = pod
     \<lparr>Containers := map (\<lambda>c. c\<lparr>VolumeMounts := VolumeMounts c @
        map (\<lambda>v. \<lparr>MountPath = ContainerPath v, vm_Name = mount_Name v\<rparr>) vs\<rparr>) (Containers pod),
      Volumes := Volumes pod @
        map (\<lambda>v. \<lparr>volume_Name = mount_Name v, Source = HostPathVolume (HostPath v) (mount_Type v)\<rparr>)
          vs\<rparr>"
  using addExtraMounts_eq [of vs pod]
  unfolding mounted_def [abs_def] mountOf_def [abs_def] volumeOf_def [abs_def] .

text \<open>
  In the pod of a hollow node every mount of every container refers to a volume of the pod, and
  the secret's volume is there.
\<close>

theorem pod_mounts_have_volumes:
  assumes "hollowPod L img km ns ver args sec = Some p"
    and "c \<in> set (Containers p)" and "vm \<in> set (VolumeMounts c)"
  shows "vm_Name vm \<in> volume_Name ` set (Volumes p) \<and>
    \<lparr>volume_Name = ''kubeconfig'', Source = SecretVolume sec\<rparr> \<in> set (Volumes p)"
  using hollowPod_parts(3,4) [OF assms(1)] assms(2,3)
  by (auto simp: mountOf_def volumeOf_def image_iff) blast

theorem pod_mounts_have_volumes_witness:
  "\<exists>p c. hollowPod demoAny ''img'' (demoMachine None False None) ''fleet'' ''v1.21.0'' [] ''s'' = Some p \<and>
     c \<in> set (Containers p) \<and> ''kubeconfig'' \<in> volume_Name ` set (Volumes p)"
proof -
  obtain p where p: "hollowPod demoAny ''img'' (demoMachine None False None) ''fleet'' ''v1.21.0'' []
      ''s'' = Some p"
    by (simp add: hollowPod_def basePod_def demoAny_def demoLib_def)
  then obtain c where c: "c \<in> set (Containers p)"
    and vm: "\<lparr>MountPath = ''/kubeconfig'', vm_Name = ''kubeconfig''\<rparr> \<in> set (VolumeMounts c)"
    using hollowPod_parts(4) [OF p] by auto
  show ?thesis
    using pod_mounts_have_volumes [OF p c vm] p c by auto
qed

section \<open>Credentials\<close>

text \<open>
  The kubeconfig resolves: its current context leads to the remote cluster's address, with the
  CA as a file or as data but never both, and to a user whose certificate and key are the file
  the pod mounts.
\<close>

theorem kubeconfig_resolves:
  "\<exists>cl au. resolve (kubeconfigData cfg pem) = Some (cl, au) \<and>
     Server cl = Host cfg \<and> InsecureSkipTLSVerify cl = Insecure cfg \<and>
     ClientCertificate au = pem \<and> ClientKey au = pem \<and>
     (if CAFile cfg = [] then CertificateAuthority cl = [] \<and> CertificateAuthorityData cl = CAData cfg
      else CertificateAuthority cl = CAFile cfg \<and> CertificateAuthorityData cl = [])"
  by (simp add: resolve_def kubeconfigData_def Let_def)

text \<open>
  The client for the workload cluster has a timeout of thirty seconds, and otherwise is what
  \<open>remote.RESTConfig\<close> gave.
\<close>

theorem remote_cluster_timeout:
  assumes "getRemoteCluster L c cl s = (Inr cfg, s')"
  shows "sint (Timeout cfg) = 30 * 10 ^ 9 \<and>
    (\<exists>cfg0. cfg = cfg0\<lparr>Timeout := Timeout cfg\<rparr> \<and>
      RESTConfig L ''kubemarkmachine-controller'' c
        \<lparr>nn_Namespace = cluster_Namespace cl, nn_Name = cluster_Name cl\<rparr> (world s) = (Inr cfg0, world s'))"
  using assms
  by (auto simp: getRemoteCluster_def remoteRESTConfig_def invoke_def MachineControllerName_def
      time_Second_def split: sum.splits prod.splits)

theorem remote_cluster_timeout_witness:
  "\<exists>cfg s'. getRemoteCluster demoAny demoClient (demoCluster True) demoStart = (Inr cfg, s') \<and>
     sint (Timeout cfg) = 30 * 10 ^ 9"
proof -
  obtain cfg s' where run: "getRemoteCluster demoAny demoClient (demoCluster True) demoStart =
      (Inr cfg, s')"
    by (simp add: getRemoteCluster_def remoteRESTConfig_def invoke_def demoAny_def demo_defs)
  show ?thesis
    using remote_cluster_timeout [OF run] run by blast
qed

section \<open>Conditions\<close>

text \<open>
  Any sequence of edits through \<open>GetConditions\<close> and \<open>SetConditions\<close> has on the list of conditions
  the effect of the edits one after the other, and changes nothing else of the machine.
\<close>

theorem condition_edits:
  "fold (\<lambda>f km. SetConditions km (f (GetConditions km))) fs km =
     km\<lparr>km_Status := (km_Status km)\<lparr>Conditions := fold (\<lambda>f cs. f cs) fs (Conditions (km_Status km))\<rparr>\<rparr>"
  using km_conditions.edit_fold [of fs km] by (simp add: SetConditions_def GetConditions_def)

end
