(* ===== verification/Manager_Startup.thy ===== *)
theory Manager_Startup
  imports Machine_Controller Template_Controller
begin

text \<open>
  \<open>main.go\<close> and what it calls before the first reconciliation: the flags, the scheme, the options
  of the manager and the two \<open>SetupWithManager\<close> methods. controller-runtime, pflag and the logging
  and TLS libraries are parameters; each call to them is written to a log with its arguments and
  its error. Seeding \<open>math/rand\<close> and setting the logger leave no trace and are left out.
\<close>

section \<open>Flags\<close>

text \<open>
  A flag's name, default and usage, as given to \<open>StringVar\<close>, \<open>BoolVar\<close>, \<open>DurationVar\<close> and
  \<open>IntVar\<close>. The variable it sets is below, in \<open>flagVariables\<close>. The last one is a flag of Go's own
  \<open>flag\<close> package, which \<open>main\<close> adds to pflag's before parsing; the flags that the logging and TLS
  libraries add for themselves are part of the parser.
\<close>

datatype manager_flag =
    StringFlag string string string
  | BoolFlag string bool string
  | DurationFlag string Duration string
  | IntFlag string int string

fun flagName :: "manager_flag \<Rightarrow> string" where
  "flagName (StringFlag n d u) = n"
| "flagName (BoolFlag n d u) = n"
| "flagName (DurationFlag n d u) = n"
| "flagName (IntFlag n d u) = n"

definition InitFlags :: "string \<Rightarrow> manager_flag list" where
  "InitFlags WatchLabel =
    [StringFlag ''metrics-bind-addr'' ''localhost:8080''
       ''The address the metric endpoint binds to.'',
     BoolFlag ''leader-elect'' False
       ''Enable leader election for controller manager. Enabling this will ensure there is only one active controller manager.'',
     DurationFlag ''leader-elect-lease-duration'' (1 * time_Minute)
       ''Interval at which non-leader candidates will wait to force acquire leadership (duration string)'',
     DurationFlag ''leader-elect-renew-deadline'' (40 * time_Second)
       ''Duration that the leading controller manager will retry refreshing leadership before giving up (duration string)'',
     DurationFlag ''leader-elect-retry-period'' (5 * time_Second)
       ''Duration the LeaderElector clients should wait between tries of actions (duration string)'',
     StringFlag ''namespace'' []
       ''Namespace that the controller watches to reconcile cluster-api objects. If unspecified, the controller watches for cluster-api objects across all namespaces.'',
     StringFlag ''profiler-address'' []
       ''Bind address to expose the pprof profiler (e.g. localhost:6060)'',
     IntFlag ''kubemarkmachineconcurrency-concurrency'' 10
       ''Number of KubemarkMachine to process simultaneously'',
     IntFlag ''kubemarkmachineTemplateconcurrency'' 10
       ''Number of KubemarkMachineTemplates to process simultaneously'',
     DurationFlag ''sync-period'' (10 * time_Minute)
       ''The minimum interval at which watched resources are reconciled (e.g. 15m)'',
     StringFlag ''watch-filter'' []
       (''Label value that the controller watches to reconcile cluster-api objects. Label key is always '' @
        WatchLabel @
        ''. If unspecified, the controller watches for all cluster-api objects.''),
     IntFlag ''webhook-port'' 9443 ''Webhook Server port'',
     StringFlag ''webhook-cert-dir'' ''/tmp/k8s-webhook-server/serving-certs/''
       ''Webhook cert dir, only used when webhook-port is specified.'',
     StringFlag ''health-addr'' '':9440'' ''The address the health endpoint binds to.'',
     StringFlag ''kubemark-image'' ''quay.io/elmiko/kubemark'' ''The location of the kubemark image'']"

text \<open>
  What the command line was parsed to: a value for every flag by its name (the default where it
  was not given), and the options of the logging and TLS libraries, whose flags are their own.
\<close>

record parsed_flags =
  strings :: "string \<Rightarrow> string"
  bools :: "string \<Rightarrow> bool"
  durations :: "string \<Rightarrow> Duration"
  ints :: "string \<Rightarrow> int"
  logging :: opaque
  tls :: opaque

text \<open>The package's variables after \<open>pflag.Parse()\<close>.\<close>

record flag_variables =
  metricsBindAddr :: string
  enableLeaderElection :: bool
  leaderElectionLeaseDuration :: Duration
  leaderElectionRenewDeadline :: Duration
  leaderElectionRetryPeriod :: Duration
  watchFilterValue :: string
  watchNamespace :: string
  profilerAddress :: string
  kubemarkMachineConcurrency :: int
  kubemarkMachineTemplateConcurrency :: int
  syncPeriod :: Duration
  webhookPort :: int
  webhookCertDir :: string
  healthAddr :: string
  kubemarkImage :: string
  tlsOptions :: opaque
  logOptions :: opaque

definition flagVariables :: "parsed_flags \<Rightarrow> flag_variables" where
  "flagVariables p =
    \<lparr>metricsBindAddr = strings p ''metrics-bind-addr'',
     enableLeaderElection = bools p ''leader-elect'',
     leaderElectionLeaseDuration = durations p ''leader-elect-lease-duration'',
     leaderElectionRenewDeadline = durations p ''leader-elect-renew-deadline'',
     leaderElectionRetryPeriod = durations p ''leader-elect-retry-period'',
     watchFilterValue = strings p ''watch-filter'',
     watchNamespace = strings p ''namespace'',
     profilerAddress = strings p ''profiler-address'',
     kubemarkMachineConcurrency = ints p ''kubemarkmachineconcurrency-concurrency'',
     kubemarkMachineTemplateConcurrency = ints p ''kubemarkmachineTemplateconcurrency'',
     syncPeriod = durations p ''sync-period'',
     webhookPort = ints p ''webhook-port'',
     webhookCertDir = strings p ''webhook-cert-dir'',
     healthAddr = strings p ''health-addr'',
     kubemarkImage = strings p ''kubemark-image'',
     tlsOptions = tls p,
     logOptions = logging p\<rparr>"

section \<open>The scheme\<close>

record GroupVersionKind =
  Group :: string
  GroupVersion :: string
  gvk_Kind :: string

text \<open>\<open>GroupVersion.WithKind\<close>\<close>

definition infrav1_WithKind :: "string \<Rightarrow> GroupVersionKind" where
  "infrav1_WithKind kind =
    \<lparr>Group = ''infrastructure.cluster.x-k8s.io'', GroupVersion = ''v1alpha4'', gvk_Kind = kind\<rparr>"

text \<open>What the \<open>init\<close> functions of the API package register with its \<open>SchemeBuilder\<close>.\<close>

definition machineRegistered :: "GroupVersionKind list" where
  "machineRegistered = map infrav1_WithKind [''KubemarkMachine'', ''KubemarkMachineList'']"

definition templateRegistered :: "GroupVersionKind list" where
  "templateRegistered = map infrav1_WithKind [''KubemarkMachineTemplate'', ''KubemarkMachineTemplateList'']"

text \<open>\<open>main\<close>'s \<open>init\<close>: Kubernetes' own kinds, this API, Cluster API's and the bootstrap provider's.\<close>

definition mainScheme ::
  "GroupVersionKind list \<Rightarrow> GroupVersionKind list \<Rightarrow> GroupVersionKind list \<Rightarrow> GroupVersionKind list"
where
  "mainScheme clientgo clusterv1 bootstrapv1 =
     clientgo @ (machineRegistered @ templateRegistered) @ clusterv1 @ bootstrapv1"

section \<open>The manager and its controllers\<close>

record manager_config = RestConfig +
  UserAgent :: string

record manager_options =
  MetricsBindAddress :: string
  LeaderElection :: bool
  LeaderElectionID :: string
  LeaseDuration :: Duration
  RenewDeadline :: Duration
  RetryPeriod :: Duration
  LeaderElectionResourceLock :: string
  manager_Namespace :: string
  SyncPeriod :: Duration
  ClientDisableCacheFor :: "string list"
  Port :: int
  HealthProbeBindAddress :: string
  CertDir :: string
  TLSOpts :: opaque

record controller_options =
  MaxConcurrentReconciles :: int

definition concurrency :: "int \<Rightarrow> controller_options" where
  "concurrency c = \<lparr>MaxConcurrentReconciles = c\<rparr>"

text \<open>How events become requests, and which events are let through.\<close>

datatype map_func =
    MachineToInfrastructureMapFunc GroupVersionKind
  | ClusterToObjects opaque

datatype event_filter =
    ResourceNotPausedAndHasFilterLabel string
  | ClusterUnpausedAndInfrastructureReady

datatype 'w reconciler =
    ForKubemarkMachine "'w KubemarkMachineReconciler"
  | ForKubemarkMachineTemplate KubemarkMachineTemplateReconciler

text \<open>What \<open>NewControllerManagedBy(mgr)\<close> was told when \<open>Build\<close> or \<open>Complete\<close> is called.\<close>

record 'w controller_builder =
  For :: string
  WithOptions :: controller_options
  Watches :: "(string \<times> map_func) list"
  WithEventFilter :: event_filter
  Built :: "'w reconciler"

datatype 'w startup_event =
    LoggingApplied opaque "go_error option"
  | ProfilerListening string
  | ManagerMade manager_config manager_options "go_error option"
  | ControllerBuilt "'w controller_builder" "go_error option"
  | WatchAdded opaque string map_func event_filter "go_error option"
  | ManagerStarted opaque "go_error option"
  | LoggedInfo string
  | LoggedError go_error string

record ('w, 'v) runtime =
  ParsePFlags :: "manager_flag list \<Rightarrow> string list \<Rightarrow> parsed_flags option"
  ClusterWatchLabel :: string
  ValidateAndApply :: "opaque \<Rightarrow> 'v \<Rightarrow> go_error option \<times> 'v"
  GetTLSOptionOverrideFuncs :: "opaque \<Rightarrow> go_error + opaque"
  LeasesResourceLock :: string
  GetConfig :: "'v \<Rightarrow> manager_config option \<times> 'v"
  DefaultClusterAPIUserAgent :: "string \<Rightarrow> string"
  NewManager :: "manager_config \<Rightarrow> manager_options \<Rightarrow> 'v \<Rightarrow> (go_error + opaque) \<times> 'v"
  GetClient :: "opaque \<Rightarrow> kclient"
  Build :: "opaque \<Rightarrow> 'w controller_builder \<Rightarrow> 'v \<Rightarrow> (go_error + opaque) \<times> 'v"
  ClusterToObjectsMapper :: "kclient \<Rightarrow> string \<Rightarrow> go_error + opaque"
  Watch :: "opaque \<Rightarrow> string \<Rightarrow> map_func \<Rightarrow> event_filter \<Rightarrow> 'v \<Rightarrow> (go_error + unit) \<times> 'v"
  Start :: "opaque \<Rightarrow> 'v \<Rightarrow> go_error option \<times> 'v"

record ('w, 'v) startup =
  machine :: 'v
  startup_log :: "'w startup_event list"

type_synonym ('w, 'v, 'a) starting = "('w, 'v) startup \<Rightarrow> 'a \<times> ('w, 'v) startup"

definition logged :: "('v \<Rightarrow> 'a \<times> 'v) \<Rightarrow> ('a \<Rightarrow> 'w startup_event) \<Rightarrow> ('w, 'v, 'a) starting" where
  "logged f ev s = (case f (machine s) of
     (a, v) \<Rightarrow> (a, \<lparr>machine = v, startup_log = startup_log s @ [ev a]\<rparr>))"

definition noting :: "'w startup_event \<Rightarrow> ('w, 'v, 'a) starting \<Rightarrow> ('w, 'v, 'a) starting" where
  "noting ev k s = k (s\<lparr>startup_log := startup_log s @ [ev]\<rparr>)"

text \<open>\<open>x, err := call; if err != nil { handle err }; k\<close>, for calls that give a value or only an error.\<close>

definition orElse ::
  "('w, 'v, go_error + 'a) starting \<Rightarrow> (go_error \<Rightarrow> ('w, 'v, 'r) starting) \<Rightarrow>
    ('a \<Rightarrow> ('w, 'v, 'r) starting) \<Rightarrow> ('w, 'v, 'r) starting"
where
  "orElse call handle k s = (case call s of (Inl err, s') \<Rightarrow> handle err s' | (Inr x, s') \<Rightarrow> k x s')"

definition ifError ::
  "('w, 'v, go_error option) starting \<Rightarrow> (go_error \<Rightarrow> ('w, 'v, 'r) starting) \<Rightarrow>
    ('w, 'v, 'r) starting \<Rightarrow> ('w, 'v, 'r) starting"
where
  "ifError call handle k s = (case call s of (Some err, s') \<Rightarrow> handle err s' | (None, s') \<Rightarrow> k s')"

definition give :: "'a \<Rightarrow> ('w, 'v, 'a) starting" where
  "give a s = (a, s)"

section \<open>SetupWithManager\<close>

definition machineBuilder ::
  "'w KubemarkMachineReconciler \<Rightarrow> controller_options \<Rightarrow> 'w controller_builder" where
  "machineBuilder r options =
    \<lparr>For = ''KubemarkMachine'', WithOptions = options,
     Watches = [(''Machine'', MachineToInfrastructureMapFunc (infrav1_WithKind ''KubemarkMachine''))],
     WithEventFilter = ResourceNotPausedAndHasFilterLabel (kmr_WatchFilterValue r),
     Built = ForKubemarkMachine r\<rparr>"

definition Machine_SetupWithManager ::
  "('w, 'v) runtime \<Rightarrow> 'w KubemarkMachineReconciler \<Rightarrow> opaque \<Rightarrow> controller_options \<Rightarrow>
    ('w, 'v, go_error option) starting"
where
  "Machine_SetupWithManager RT r mgr options =
     orElse (logged (Build RT mgr (machineBuilder r options))
              (\<lambda>x. ControllerBuilt (machineBuilder r options) (errOf x)))
       (\<lambda>err. give (Some (ErrorsWrap err ''failed setting up with a controller manager''))) (\<lambda>c.
     orElse (give (ClusterToObjectsMapper RT (GetClient RT mgr) ''KubemarkMachineList''))
       (\<lambda>err. give (Some (ErrorsWrap err
          ''failed create MapFunc for Watch for Clusters to KubemarkMachines''))) (\<lambda>clusterToKubemarkMachines.
     orElse (logged (Watch RT c ''Cluster'' (ClusterToObjects clusterToKubemarkMachines)
                       ClusterUnpausedAndInfrastructureReady)
              (\<lambda>x. WatchAdded c ''Cluster'' (ClusterToObjects clusterToKubemarkMachines)
                       ClusterUnpausedAndInfrastructureReady (errOf x)))
       (\<lambda>err. give (Some (ErrorsWrap err ''failed adding Watch for Clusters to KubemarkMachines''))) (\<lambda>_.
     give None)))"

definition templateBuilder ::
  "KubemarkMachineTemplateReconciler \<Rightarrow> controller_options \<Rightarrow> 'w controller_builder" where
  "templateBuilder r options =
    \<lparr>For = ''KubemarkMachineTemplate'', WithOptions = options, Watches = [],
     WithEventFilter = ResourceNotPausedAndHasFilterLabel (kmtr_WatchFilterValue r),
     Built = ForKubemarkMachineTemplate r\<rparr>"

definition Template_SetupWithManager ::
  "('w, 'v) runtime \<Rightarrow> KubemarkMachineTemplateReconciler \<Rightarrow> opaque \<Rightarrow> controller_options \<Rightarrow>
    ('w, 'v, go_error option) starting"
where
  "Template_SetupWithManager RT r mgr options =
     orElse (logged (Build RT mgr (templateBuilder r options))
              (\<lambda>x. ControllerBuilt (templateBuilder r options) (errOf x)))
       (\<lambda>err. give (Some err)) (\<lambda>_. give None)"

section \<open>main\<close>

definition managerOptions ::
  "('w, 'v) runtime \<Rightarrow> flag_variables \<Rightarrow> opaque \<Rightarrow> manager_options" where
  "managerOptions RT f tlsOptionOverrides =
    \<lparr>MetricsBindAddress = metricsBindAddr f,
     LeaderElection = enableLeaderElection f,
     LeaderElectionID = ''kubemark-manager-leader-election-capi'',
     LeaseDuration = leaderElectionLeaseDuration f,
     RenewDeadline = leaderElectionRenewDeadline f,
     RetryPeriod = leaderElectionRetryPeriod f,
     LeaderElectionResourceLock = LeasesResourceLock RT,
     manager_Namespace = watchNamespace f,
     SyncPeriod = syncPeriod f,
     ClientDisableCacheFor = [],
     Port = webhookPort f,
     HealthProbeBindAddress = healthAddr f,
     CertDir = webhookCertDir f,
     TLSOpts = tlsOptionOverrides\<rparr>"

text \<open>\<open>GetConfigOrDie\<close> ends the program when there is no configuration.\<close>

definition getConfig :: "('w, 'v) runtime \<Rightarrow> ('w, 'v, manager_config option) starting" where
  "getConfig RT s = (case GetConfig RT (machine s) of
     (c, v) \<Rightarrow> (map_option (\<lambda>restConfig. restConfig\<lparr>UserAgent :=
         DefaultClusterAPIUserAgent RT ''cluster-api-kubemark-manager''\<rparr>) c, s\<lparr>machine := v\<rparr>))"

definition orDie ::
  "('w, 'v, 'a option) starting \<Rightarrow> ('a \<Rightarrow> ('w, 'v, int) starting) \<Rightarrow> ('w, 'v, int) starting" where
  "orDie call k s = (case call s of (None, s') \<Rightarrow> (1, s') | (Some x, s') \<Rightarrow> k x s')"

text \<open>\<open>setupLog.Error(err, message); os.Exit(1)\<close>, the error's further keys left out.\<close>

definition exitWith :: "string \<Rightarrow> go_error \<Rightarrow> ('w, 'v, int) starting" where
  "exitWith message err = noting (LoggedError err message) (give 1)"

text \<open>The template reconciler as \<open>main\<close> builds it; the machine's is \<open>newKubemarkMachineReconciler\<close>.\<close>

definition newKubemarkMachineTemplateReconciler ::
  "kclient \<Rightarrow> string \<Rightarrow> KubemarkMachineTemplateReconciler" where
  "newKubemarkMachineTemplateReconciler client wfv =
    \<lparr>kmtr_Client = client, kmtr_WatchFilterValue = wfv\<rparr>"

text \<open>The exit code. (pflag itself exits with 2 when the arguments do not parse.)\<close>

definition runManager :: "'w lib \<Rightarrow> ('w, 'v) runtime \<Rightarrow> flag_variables \<Rightarrow> ('w, 'v, int) starting" where
  "runManager L RT f =
     ifError (logged (ValidateAndApply RT (logOptions f)) (LoggingApplied (logOptions f)))
       (exitWith ''unable to start manager'') (
     (if profilerAddress f \<noteq> [] then noting (ProfilerListening (profilerAddress f)) else (\<lambda>k. k)) (
     orElse (give (GetTLSOptionOverrideFuncs RT (tlsOptions f)))
       (exitWith ''unable to add TLS settings to the webhook server'') (\<lambda>tlsOptionOverrides.
     orDie (getConfig RT) (\<lambda>config.
     let options = managerOptions RT f tlsOptionOverrides in
     orElse (logged (NewManager RT config options) (\<lambda>x. ManagerMade config options (errOf x)))
       (exitWith ''unable to start manager'') (\<lambda>mgr.
     ifError (Machine_SetupWithManager RT
                (newKubemarkMachineReconciler L (GetClient RT mgr) (kubemarkImage f) (watchFilterValue f))
                mgr (concurrency (kubemarkMachineConcurrency f)))
       (exitWith ''unable to create controller'') (
     ifError (Template_SetupWithManager RT
                (newKubemarkMachineTemplateReconciler (GetClient RT mgr) (watchFilterValue f))
                mgr (concurrency (kubemarkMachineTemplateConcurrency f)))
       (exitWith ''unable to create controller'') (
     noting (LoggedInfo ''starting manager'') (
     ifError (logged (Start RT mgr) (ManagerStarted mgr))
       (exitWith ''problem running manager'') (
     give 0)))))))))"

definition managerMain :: "'w lib \<Rightarrow> ('w, 'v) runtime \<Rightarrow> string list \<Rightarrow> ('w, 'v, int) starting" where
  "managerMain L RT args =
     (case ParsePFlags RT (InitFlags (ClusterWatchLabel RT)) args of
        None \<Rightarrow> give 2
      | Some parsed \<Rightarrow> runManager L RT (flagVariables parsed))"

end
