(* ===== verification/Startup_Theorems.thy ===== *)
theory Startup_Theorems
  imports Manager_Startup Machine_Theorems
begin

text \<open>
  The theorems about the start of the program: when the manager is started at all, what was set up
  by then, how a failure ends it, and what the defaults of the flags are.
\<close>

definition booted :: "'v \<Rightarrow> ('w, 'v) startup" where
  "booted v = \<lparr>machine = v, startup_log = []\<rparr>"

section \<open>Running the start\<close>

text \<open>After \<open>m\<close> from \<open>s\<close>, \<open>Q\<close> holds; one rule for each way the start is built from steps.\<close>

definition runs :: "('a \<Rightarrow> ('w, 'v) startup \<Rightarrow> bool) \<Rightarrow> ('w, 'v, 'a) starting \<Rightarrow> ('w, 'v) startup \<Rightarrow> bool" where
  "runs Q m s = (case m s of (a, s') \<Rightarrow> Q a s')"

lemma runsD: "runs Q m s \<Longrightarrow> m s = (a, s') \<Longrightarrow> Q a s'"
  by (simp add: runs_def)

lemma runs_give: "Q a s \<Longrightarrow> runs Q (give a) s"
  by (simp add: runs_def give_def)

lemma runs_exit:
  "Q 1 (s\<lparr>startup_log := startup_log s @ [LoggedError err message]\<rparr>) \<Longrightarrow> runs Q (exitWith message err) s"
  by (simp add: runs_def exitWith_def noting_def give_def)

lemma runs_noting:
  "runs Q k (s\<lparr>startup_log := startup_log s @ [ev]\<rparr>) \<Longrightarrow> runs Q (noting ev k) s"
  by (simp add: runs_def noting_def)

lemma runs_if:
  "(P \<Longrightarrow> runs Q (m k) s) \<Longrightarrow> (\<not> P \<Longrightarrow> runs Q k s) \<Longrightarrow> runs Q ((if P then m else (\<lambda>k. k)) k) s"
  by simp

lemma runs_orElse_logged:
  assumes "\<And>v err. runs Q (h err) \<lparr>machine = v, startup_log = startup_log s @ [ev (Inl err)]\<rparr>"
    and "\<And>v x. runs Q (k x) \<lparr>machine = v, startup_log = startup_log s @ [ev (Inr x)]\<rparr>"
  shows "runs Q (orElse (logged f ev) h k) s"
  using assms by (cases "f (machine s)") (auto simp: runs_def orElse_def logged_def split: sum.split)

lemma runs_orElse_give:
  assumes "\<And>err. x = Inl err \<Longrightarrow> runs Q (h err) s" and "\<And>y. x = Inr y \<Longrightarrow> runs Q (k y) s"
  shows "runs Q (orElse (give x) h k) s"
  using assms by (auto simp: runs_def orElse_def give_def split: sum.split)

lemma runs_ifError_logged:
  assumes "\<And>v err. f (machine s) = (Some err, v) \<Longrightarrow>
      runs Q (h err) \<lparr>machine = v, startup_log = startup_log s @ [ev (Some err)]\<rparr>"
    and "\<And>v. f (machine s) = (None, v) \<Longrightarrow> runs Q k \<lparr>machine = v, startup_log = startup_log s @ [ev None]\<rparr>"
  shows "runs Q (ifError (logged f ev) h k) s"
  using assms by (cases "f (machine s)") (auto simp: runs_def ifError_def logged_def split: option.split)

lemma runs_config:
  assumes "\<And>v. fst (GetConfig RT (machine s)) = None \<Longrightarrow> Q 1 (s\<lparr>machine := v\<rparr>)"
    and "\<And>v c. fst (GetConfig RT (machine s)) \<noteq> None \<Longrightarrow> UserAgent c = DefaultClusterAPIUserAgent RT ''cluster-api-kubemark-manager'' \<Longrightarrow>
      runs Q (k c) (s\<lparr>machine := v\<rparr>)"
  shows "runs Q (orDie (getConfig RT) k) s"
  using assms by (cases "GetConfig RT (machine s)")
    (auto simp: runs_def orDie_def getConfig_def split: option.split)

lemma runs_machine_setup:
  assumes "\<And>v err. runs Q (h (ErrorsWrap err ''failed setting up with a controller manager''))
      \<lparr>machine = v, startup_log = startup_log s @ [ControllerBuilt (machineBuilder r options) (Some err)]\<rparr>"
    and "\<And>v err. ClusterToObjectsMapper RT (GetClient RT mgr) ''KubemarkMachineList'' = Inl err \<Longrightarrow>
      runs Q (h (ErrorsWrap err ''failed create MapFunc for Watch for Clusters to KubemarkMachines''))
      \<lparr>machine = v, startup_log = startup_log s @ [ControllerBuilt (machineBuilder r options) None]\<rparr>"
    and "\<And>v c mapper err. ClusterToObjectsMapper RT (GetClient RT mgr) ''KubemarkMachineList'' = Inr mapper \<Longrightarrow>
      runs Q (h (ErrorsWrap err ''failed adding Watch for Clusters to KubemarkMachines''))
      \<lparr>machine = v, startup_log = startup_log s @ [ControllerBuilt (machineBuilder r options) None,
        WatchAdded c ''Cluster'' (ClusterToObjects mapper) ClusterUnpausedAndInfrastructureReady (Some err)]\<rparr>"
    and "\<And>v c mapper. ClusterToObjectsMapper RT (GetClient RT mgr) ''KubemarkMachineList'' = Inr mapper \<Longrightarrow>
      runs Q k
      \<lparr>machine = v, startup_log = startup_log s @ [ControllerBuilt (machineBuilder r options) None,
        WatchAdded c ''Cluster'' (ClusterToObjects mapper) ClusterUnpausedAndInfrastructureReady None]\<rparr>"
  shows "runs Q (ifError (Machine_SetupWithManager RT r mgr options) h k) s"
proof -
  let ?Q = "\<lambda>e s'. case e of Some err \<Rightarrow> runs Q (h err) s' | None \<Rightarrow> runs Q k s'"
  have "runs ?Q (Machine_SetupWithManager RT r mgr options) s"
    unfolding Machine_SetupWithManager_def
    by (intro runs_orElse_logged runs_orElse_give runs_give) (simp_all add: errOf_def assms)
  then show ?thesis by (auto simp: runs_def ifError_def split: prod.splits option.splits)
qed

lemma runs_template_setup:
  assumes "\<And>v err. runs Q (h err)
      \<lparr>machine = v, startup_log = startup_log s @ [ControllerBuilt (templateBuilder r options) (Some err)]\<rparr>"
    and "\<And>v. runs Q k
      \<lparr>machine = v, startup_log = startup_log s @ [ControllerBuilt (templateBuilder r options) None]\<rparr>"
  shows "runs Q (ifError (Template_SetupWithManager RT r mgr options) h k) s"
proof -
  let ?Q = "\<lambda>e s'. case e of Some err \<Rightarrow> runs Q (h err) s' | None \<Rightarrow> runs Q k s'"
  have "runs ?Q (Template_SetupWithManager RT r mgr options) s"
    unfolding Template_SetupWithManager_def
    by (intro runs_orElse_logged runs_give) (simp_all add: errOf_def assms)
  then show ?thesis by (auto simp: runs_def ifError_def split: prod.splits option.splits)
qed

lemmas runs_rules =
  runs_machine_setup runs_template_setup runs_ifError_logged runs_orElse_logged runs_orElse_give
  runs_config runs_if runs_noting runs_exit runs_give

section \<open>What a start logs\<close>


text \<open>
  What the log of a start is when everything before the manager's start went well.
\<close>

definition fullStart :: "'w lib \<Rightarrow> ('w, 'v) runtime \<Rightarrow> flag_variables \<Rightarrow> manager_config \<Rightarrow> opaque \<Rightarrow>
    opaque \<Rightarrow> opaque \<Rightarrow> opaque \<Rightarrow> 'w startup_event list" where
  "fullStart L RT f config tlsOverrides mgr c mapper =
    [LoggingApplied (logOptions f) None] @
    (if profilerAddress f \<noteq> [] then [ProfilerListening (profilerAddress f)] else []) @
    [ManagerMade config (managerOptions RT f tlsOverrides) None,
     ControllerBuilt (machineBuilder
       (newKubemarkMachineReconciler L (GetClient RT mgr) (kubemarkImage f) (watchFilterValue f))
       (concurrency (kubemarkMachineConcurrency f))) None,
     WatchAdded c ''Cluster'' (ClusterToObjects mapper) ClusterUnpausedAndInfrastructureReady None,
     ControllerBuilt (templateBuilder
       (newKubemarkMachineTemplateReconciler (GetClient RT mgr) (watchFilterValue f))
       (concurrency (kubemarkMachineTemplateConcurrency f))) None,
     LoggedInfo ''starting manager'']"

lemma runManager_started:
  "runs (\<lambda>code s'. \<forall>mgr e. ManagerStarted mgr e \<in> set (startup_log s') \<longrightarrow>
    (\<exists>config tlsOverrides c mapper.
      UserAgent config = DefaultClusterAPIUserAgent RT ''cluster-api-kubemark-manager'' \<and>
      startup_log s' = fullStart L RT f config tlsOverrides mgr c mapper @ [ManagerStarted mgr e] @
        (case e of None \<Rightarrow> [] | Some err \<Rightarrow> [LoggedError err ''problem running manager'']) \<and>
      code = (case e of None \<Rightarrow> 0 | Some _ \<Rightarrow> 1))) (runManager L RT f) (booted v)"
  unfolding runManager_def Let_def
  by (intro runs_rules) (auto simp: booted_def fullStart_def errOf_def)

text \<open>
  C18: The manager is started only after everything is set up: the log of such a start is exactly
  the logging options applied, the profiler if it has an address, the manager made with the options
  of the flags and the user agent, the machine controller built with its reconciler, its watch on
  machines and the flag's concurrency, its watch on clusters added, the template controller built
  with its own concurrency, all without an error, and then the start. The exit code tells whether the
  manager ended with an error.
\<close>

theorem manager_starts_last:
  assumes "managerMain L RT args (booted v) = (code, s')"
    and "ManagerStarted mgr e \<in> set (startup_log s')"
  shows "\<exists>parsed config tlsOverrides c mapper.
    ParsePFlags RT (InitFlags (ClusterWatchLabel RT)) args = Some parsed \<and>
    UserAgent config = DefaultClusterAPIUserAgent RT ''cluster-api-kubemark-manager'' \<and>
    startup_log s' = fullStart L RT (flagVariables parsed) config tlsOverrides mgr c mapper @
      [ManagerStarted mgr e] @
      (case e of None \<Rightarrow> [] | Some err \<Rightarrow> [LoggedError err ''problem running manager'']) \<and>
    code = (case e of None \<Rightarrow> 0 | Some _ \<Rightarrow> 1)"
proof (cases "ParsePFlags RT (InitFlags (ClusterWatchLabel RT)) args")
  case None
  then show ?thesis using assms by (auto simp: managerMain_def give_def booted_def)
next
  case (Some parsed)
  then have "runManager L RT (flagVariables parsed) (booted v) = (code, s')"
    using assms(1) by (simp add: managerMain_def)
  from runsD [OF runManager_started this] assms(2) Some show ?thesis by blast
qed











section \<open>Defaults\<close>

text \<open>
  What the documentation of pflag promises: a flag that is not given has its default, when no two
  flags share a name.
\<close>

definition keepsDefaults :: "(manager_flag list \<Rightarrow> string list \<Rightarrow> parsed_flags option) \<Rightarrow> bool" where
  "keepsDefaults parse \<longleftrightarrow> (\<forall>fs p. distinct (map flagName fs) \<longrightarrow> parse fs [] = Some p \<longrightarrow>
    (\<forall>fl \<in> set fs. case fl of
        StringFlag n d _ \<Rightarrow> strings p n = d
      | BoolFlag n d _ \<Rightarrow> bools p n = d
      | DurationFlag n d _ \<Rightarrow> durations p n = d
      | IntFlag n d _ \<Rightarrow> ints p n = d))"

lemma InitFlags_distinct: "distinct (map flagName (InitFlags wl))"
  by (simp add: InitFlags_def)

lemma default_variables:
  assumes "keepsDefaults parse" and "parse (InitFlags wl) [] = Some p"
  shows "leaderElectionLeaseDuration (flagVariables p) = time_Minute"
    "leaderElectionRenewDeadline (flagVariables p) = 40 * time_Second"
    "leaderElectionRetryPeriod (flagVariables p) = 5 * time_Second"
    "syncPeriod (flagVariables p) = 10 * time_Minute"
    "enableLeaderElection (flagVariables p) = False"
    "watchNamespace (flagVariables p) = []" "watchFilterValue (flagVariables p) = []"
    "profilerAddress (flagVariables p) = []"
    "kubemarkMachineConcurrency (flagVariables p) = 10"
    "kubemarkMachineTemplateConcurrency (flagVariables p) = 10"
    "kubemarkImage (flagVariables p) = ''quay.io/elmiko/kubemark''"
proof -
  have "list_all (\<lambda>fl. case fl of StringFlag n d _ \<Rightarrow> strings p n = d | BoolFlag n d _ \<Rightarrow> bools p n = d
      | DurationFlag n d _ \<Rightarrow> durations p n = d | IntFlag n d _ \<Rightarrow> ints p n = d) (InitFlags wl)"
    using assms(1) InitFlags_distinct assms(2) unfolding keepsDefaults_def list_all_iff by blast
  note d = this [unfolded InitFlags_def list.pred_inject manager_flag.case mult_1]
  show "leaderElectionLeaseDuration (flagVariables p) = time_Minute"
    "leaderElectionRenewDeadline (flagVariables p) = 40 * time_Second"
    "leaderElectionRetryPeriod (flagVariables p) = 5 * time_Second"
    "syncPeriod (flagVariables p) = 10 * time_Minute"
    "enableLeaderElection (flagVariables p) = False"
    "watchNamespace (flagVariables p) = []" "watchFilterValue (flagVariables p) = []"
    "profilerAddress (flagVariables p) = []"
    "kubemarkMachineConcurrency (flagVariables p) = 10"
    "kubemarkMachineTemplateConcurrency (flagVariables p) = 10"
    "kubemarkImage (flagVariables p) = ''quay.io/elmiko/kubemark''"
    unfolding flagVariables_def flag_variables.simps using d by blast+
qed

text \<open>
  Without arguments the manager gets leader-election times its library accepts if leader
  election is turned on: the lease is longer than the renew deadline, which is longer than 1.2 retry
  periods, counted in nanoseconds without wrapping around; it syncs every ten minutes, watches every
  namespace and label, and no profiler is started.
\<close>

theorem default_manager_options:
  assumes "keepsDefaults (ParsePFlags RT)"
    and "ParsePFlags RT (InitFlags (ClusterWatchLabel RT)) [] = Some p"
    and "options = managerOptions RT (flagVariables p) tlsOverrides"
  shows "sint (LeaseDuration options) > sint (RenewDeadline options) \<and>
    10 * sint (RenewDeadline options) > 12 * sint (RetryPeriod options) \<and>
    sint (RetryPeriod options) = 5 * 10 ^ 9 \<and> sint (SyncPeriod options) = 600 * 10 ^ 9 \<and>
    \<not> LeaderElection options \<and> manager_Namespace options = [] \<and>
    watchFilterValue (flagVariables p) = [] \<and> profilerAddress (flagVariables p) = []"
  by (simp add: assms(3) managerOptions_def default_variables [OF assms(1,2)] duration_defs)

section \<open>Kinds\<close>

text \<open>
  Every kind of this API that the controllers are set up with is in the scheme, whatever the
  third-party packages add to it.
\<close>

lemma kinds_registered:
  "infrav1_WithKind (For (machineBuilder r options)) \<in> set (mainScheme clientgo clusterv1 bootstrapv1)"
  "infrav1_WithKind (For (templateBuilder t options)) \<in> set (mainScheme clientgo clusterv1 bootstrapv1)"
  "infrav1_WithKind ''KubemarkMachineList'' \<in> set (mainScheme clientgo clusterv1 bootstrapv1)"
  "(kind, MachineToInfrastructureMapFunc gvk) \<in> set (Watches (machineBuilder r options)) \<Longrightarrow>
    gvk \<in> set (mainScheme clientgo clusterv1 bootstrapv1)"
  by (auto simp: mainScheme_def machineRegistered_def templateRegistered_def machineBuilder_def
    templateBuilder_def)

section \<open>A start\<close>

text \<open>A parser that reads defaults only; the manager runs until it is stopped or cannot start.\<close>

definition stringDefault :: "manager_flag list \<Rightarrow> string \<Rightarrow> string" where
  "stringDefault fs n = (case find (\<lambda>fl. flagName fl = n) fs of Some (StringFlag _ d _) \<Rightarrow> d | _ \<Rightarrow> [])"

definition boolDefault :: "manager_flag list \<Rightarrow> string \<Rightarrow> bool" where
  "boolDefault fs n = (case find (\<lambda>fl. flagName fl = n) fs of Some (BoolFlag _ d _) \<Rightarrow> d | _ \<Rightarrow> False)"

definition durationDefault :: "manager_flag list \<Rightarrow> string \<Rightarrow> Duration" where
  "durationDefault fs n = (case find (\<lambda>fl. flagName fl = n) fs of Some (DurationFlag _ d _) \<Rightarrow> d | _ \<Rightarrow> 0)"

definition intDefault :: "manager_flag list \<Rightarrow> string \<Rightarrow> int" where
  "intDefault fs n = (case find (\<lambda>fl. flagName fl = n) fs of Some (IntFlag _ d _) \<Rightarrow> d | _ \<Rightarrow> 0)"

definition defaultsOf :: "manager_flag list \<Rightarrow> string list \<Rightarrow> parsed_flags option" where
  "defaultsOf fs args = (if args \<noteq> [] then None else Some
    \<lparr>strings = stringDefault fs, bools = boolDefault fs, durations = durationDefault fs,
     ints = intDefault fs, logging = [], tls = []\<rparr>)"

lemma find_flag:
  "distinct (map flagName fs) \<Longrightarrow> fl \<in> set fs \<Longrightarrow> find (\<lambda>f. flagName f = flagName fl) fs = Some fl"
  by (induction fs) (auto simp: image_iff)

lemma defaultsOf_keeps: "keepsDefaults defaultsOf"
  unfolding keepsDefaults_def
proof (intro allI impI ballI)
  fix fs p fl
  assume "distinct (map flagName fs)" and p: "defaultsOf fs [] = Some p" and "fl \<in> set fs"
  from find_flag [OF this(1,3)]
  show "case fl of StringFlag n d _ \<Rightarrow> strings p n = d | BoolFlag n d _ \<Rightarrow> bools p n = d
      | DurationFlag n d _ \<Rightarrow> durations p n = d | IntFlag n d _ \<Rightarrow> ints p n = d"
    using p by (cases fl) (auto simp: defaultsOf_def stringDefault_def boolDefault_def
      durationDefault_def intDefault_def)
qed

definition demoRuntime :: "go_error option \<Rightarrow> (unit, unit) runtime" where
  "demoRuntime stopped =
    \<lparr>ParsePFlags = defaultsOf, ClusterWatchLabel = ''cluster.x-k8s.io/watch-filter'',
     ValidateAndApply = (\<lambda>_ v. (None, v)), GetTLSOptionOverrideFuncs = Inr,
     LeasesResourceLock = ''leases'',
     GetConfig = (\<lambda>v. (Some \<lparr>Host = ''https://mgmt'', CAFile = [], CAData = [], Insecure = False,
       Timeout = 0, UserAgent = []\<rparr>, v)),
     DefaultClusterAPIUserAgent = (\<lambda>n. n), NewManager = (\<lambda>_ _ v. (Inr ''mgr'', v)),
     GetClient = KClient, Build = (\<lambda>_ b v. (Inr (For b), v)),
     ClusterToObjectsMapper = (\<lambda>_. Inr), Watch = (\<lambda>_ _ _ _ v. (Inr (), v)),
     Start = (\<lambda>_ v. (stopped, v))\<rparr>"

lemmas demo_startup =
  demoRuntime_def booted_def Let_def runManager_def orElse_def
  ifError_def orDie_def noting_def logged_def give_def exitWith_def getConfig_def errOf_def
  Machine_SetupWithManager_def Template_SetupWithManager_def

lemma demo_run:
  assumes "profilerAddress f = []"
  shows "\<exists>s'. runManager demoDeleting (demoRuntime e) f (booted ()) =
      ((case e of None \<Rightarrow> 0 | Some _ \<Rightarrow> 1), s') \<and> ManagerStarted ''mgr'' e \<in> set (startup_log s')"
  using assms by (cases e) (simp_all add: demo_startup)

lemma demo_main:
  "\<exists>s'. managerMain demoDeleting (demoRuntime e) [] (booted ()) =
      ((case e of None \<Rightarrow> 0 | Some _ \<Rightarrow> 1), s') \<and> ManagerStarted ''mgr'' e \<in> set (startup_log s')"
proof -
  obtain p where p: "defaultsOf (InitFlags ''cluster.x-k8s.io/watch-filter'') [] = Some p"
    by (simp add: defaultsOf_def)
  then have "managerMain demoDeleting (demoRuntime e) [] = runManager demoDeleting (demoRuntime e) (flagVariables p)"
    by (simp add: managerMain_def demoRuntime_def)
  then show ?thesis using demo_run [OF default_variables(8) [OF defaultsOf_keeps p]] by simp
qed

lemma manager_starts_last_witness:
  "\<exists>s' config tlsOverrides c mapper parsed.
    managerMain demoDeleting (demoRuntime None) [] (booted ()) = (0, s') \<and>
    startup_log s' = fullStart demoDeleting (demoRuntime None) (flagVariables parsed) config tlsOverrides
      ''mgr'' c mapper @ [ManagerStarted ''mgr'' None]"
proof -
  obtain s' where run: "managerMain demoDeleting (demoRuntime None) [] (booted ()) = (0, s')"
    and started: "ManagerStarted ''mgr'' None \<in> set (startup_log s')"
    using demo_main [of None] by auto
  from manager_starts_last [OF run started] run show ?thesis by fastforce
qed


lemma default_manager_options_witness:
  "\<exists>p. defaultsOf (InitFlags ''cluster.x-k8s.io/watch-filter'') [] = Some p \<and>
    sint (LeaseDuration (managerOptions (demoRuntime None) (flagVariables p) [])) >
    sint (RenewDeadline (managerOptions (demoRuntime None) (flagVariables p) []))"
proof -
  obtain p where p: "defaultsOf (InitFlags ''cluster.x-k8s.io/watch-filter'') [] = Some p"
    by (simp add: defaultsOf_def)
  show ?thesis
    using default_manager_options [of "demoRuntime None" p "managerOptions (demoRuntime None) (flagVariables p) []" "[]"]
      p defaultsOf_keeps by (simp add: demoRuntime_def)
qed

end
