(* ===== verification/Api_Store.thy ===== *)
theory Api_Store
  imports Machine_Branches Machine_Fleet
begin

text \<open>
  What the calls of a reconciliation leave behind. The objects the API servers hold are a
  \<open>cluster_state\<close>. For each logged call, \<open>effects\<close> are the contents after it was carried out, as the
  Kubernetes API documents, \<open>remains\<close> those after it failed, perhaps halfway, and \<open>honest\<close> says what an
  answer tells of the contents. Objects are held as the clients have asked for them; what the servers
  add by defaulting is left out. \<open>serves\<close> says that a library talks to such servers, \<open>\<alpha>\<close> being what they
  hold in a world. It is a hypothesis of the convergence theorems only. Any call may fail, at any time
  and in any way; the theorems ask for the calls of one run to go well.
\<close>

section \<open>What the servers hold\<close>

type_synonym place = "kclient \<times> NamespacedName"

text \<open>
  A pod or secret that is deleted can stay for a while, to shut down gracefully or until others have
  removed their finalizers from it. Until then it is being terminated.
\<close>

record cluster_state =
  stored_pods :: "place \<Rightarrow> Pod option"
  stored_secrets :: "place \<Rightarrow> Secret option"
  stored_machines :: "place \<Rightarrow> KubemarkMachine option"
  stored_owners :: "place \<Rightarrow> Machine option"
  terminating_pods :: "place set"
  terminating_secrets :: "place set"

definition podPlace :: "Pod \<Rightarrow> NamespacedName" where
  "podPlace p = \<lparr>nn_Namespace = pod_Namespace p, nn_Name = pod_Name p\<rparr>"

definition secretPlace :: "Secret \<Rightarrow> NamespacedName" where
  "secretPlace x = \<lparr>nn_Namespace = secret_Namespace x, nn_Name = secret_Name x\<rparr>"

definition ownerKey :: "Machine \<Rightarrow> NamespacedName" where
  "ownerKey m =
     \<lparr>nn_Namespace = Namespace (machine_ObjectMeta m), nn_Name = Name (machine_ObjectMeta m)\<rparr>"

text \<open>
  A merge patch sends the fields in which the object differs from the copy the patch helper took;
  the others stay as they are stored. A list is replaced as a whole. Only the fields that the
  program sets can differ.
\<close>

definition merged :: "'a \<Rightarrow> 'a \<Rightarrow> 'a \<Rightarrow> 'a" where
  "merged before after stored = (if before = after then stored else after)"

definition mergeKubemarkMachine ::
  "KubemarkMachine \<Rightarrow> KubemarkMachine \<Rightarrow> KubemarkMachine \<Rightarrow> KubemarkMachine" where
  "mergeKubemarkMachine b a s =
     s\<lparr>km_ObjectMeta := (km_ObjectMeta s)\<lparr>Finalizers :=
         merged (Finalizers (km_ObjectMeta b)) (Finalizers (km_ObjectMeta a)) (Finalizers (km_ObjectMeta s))\<rparr>,
       km_Spec := (km_Spec s)\<lparr>ProviderID :=
         merged (ProviderID (km_Spec b)) (ProviderID (km_Spec a)) (ProviderID (km_Spec s))\<rparr>,
       km_Status := (km_Status s)\<lparr>Ready :=
         merged (Ready (km_Status b)) (Ready (km_Status a)) (Ready (km_Status s))\<rparr>\<rparr>"

definition mergeMachine :: "Machine \<Rightarrow> Machine \<Rightarrow> Machine \<Rightarrow> Machine" where
  "mergeMachine b a s =
     s\<lparr>machine_ProviderID := merged (machine_ProviderID b) (machine_ProviderID a) (machine_ProviderID s)\<rparr>"

text \<open>An object that is being deleted goes with its last finalizer.\<close>

definition survivor :: "KubemarkMachine \<Rightarrow> KubemarkMachine option" where
  "survivor km =
     (if DeletionTimestamp (km_ObjectMeta km) \<noteq> None \<and> Finalizers (km_ObjectMeta km) = []
      then None else Some km)"

text \<open>
  A call that was answered without an error has been carried out; one that was answered with an error
  the program tolerates has changed nothing. A deletion removes the object at once or marks it.
\<close>

fun applied :: "event \<Rightarrow> cluster_state \<Rightarrow> cluster_state" where
  "applied (CreatedPod c p None) \<sigma> = \<sigma>\<lparr>stored_pods := (stored_pods \<sigma>)((c, podPlace p) \<mapsto> p)\<rparr>"
| "applied (CreatedSecret c x None) \<sigma> =
     \<sigma>\<lparr>stored_secrets := (stored_secrets \<sigma>)((c, secretPlace x) \<mapsto> x)\<rparr>"
| "applied (DeletedPod c k None) \<sigma> = \<sigma>\<lparr>stored_pods := (stored_pods \<sigma>)((c, k) := None),
     terminating_pods := terminating_pods \<sigma> - {(c, k)}\<rparr>"
| "applied (DeletedSecret c k None) \<sigma> = \<sigma>\<lparr>stored_secrets := (stored_secrets \<sigma>)((c, k) := None),
     terminating_secrets := terminating_secrets \<sigma> - {(c, k)}\<rparr>"
| "applied (PatchedKubemarkMachine c b a None) \<sigma> =
     \<sigma>\<lparr>stored_machines := (stored_machines \<sigma>)((c, keyOf a) :=
         Option.bind (stored_machines \<sigma> (c, keyOf a)) (survivor \<circ> mergeKubemarkMachine b a))\<rparr>"
| "applied (PatchedMachine c b a None) \<sigma> =
     \<sigma>\<lparr>stored_owners := (stored_owners \<sigma>)((c, ownerKey a) :=
         map_option (mergeMachine b a) (stored_owners \<sigma> (c, ownerKey a)))\<rparr>"
| "applied e \<sigma> = \<sigma>"

fun marked :: "event \<Rightarrow> cluster_state \<Rightarrow> cluster_state" where
  "marked (DeletedPod c k None) \<sigma> = \<sigma>\<lparr>terminating_pods := insert (c, k) (terminating_pods \<sigma>)\<rparr>"
| "marked (DeletedSecret c k None) \<sigma> =
     \<sigma>\<lparr>terminating_secrets := insert (c, k) (terminating_secrets \<sigma>)\<rparr>"
| "marked e \<sigma> = applied e \<sigma>"

definition effects :: "event \<Rightarrow> cluster_state \<Rightarrow> cluster_state set" where
  "effects e \<sigma> = {applied e \<sigma>, marked e \<sigma>}"

text \<open>
  The patch helper sends the change of an object as up to two requests, one of them for the status.
  These are the calls that are carried out when only one of them is.
\<close>

fun halves :: "event \<Rightarrow> event set" where
  "halves (PatchedKubemarkMachine c b a err) =
     {PatchedKubemarkMachine c b (a\<lparr>km_Status := km_Status b\<rparr>) err,
      PatchedKubemarkMachine c b (a\<lparr>km_Spec := km_Spec b,
        km_ObjectMeta := (km_ObjectMeta a)\<lparr>Finalizers := Finalizers (km_ObjectMeta b)\<rparr>\<rparr>) err}"
| "halves e = {}"

text \<open>After a call whose answer is lost, or an error, it may have been carried out, by halves or not at all.\<close>

definition remains :: "event \<Rightarrow> cluster_state \<Rightarrow> cluster_state set" where
  "remains e \<sigma> = insert \<sigma> (\<Union>e' \<in> insert e (halves e). effects e' \<sigma>)"

text \<open>
  The answers of calls that went well: an object can be created unless there is one of its name,
  deleted if there is one, and changed by a patch if there is one.
\<close>

fun honest :: "cluster_state \<Rightarrow> event \<Rightarrow> bool" where
  "honest \<sigma> (CreatedPod c p err) \<longleftrightarrow> (err = None \<longleftrightarrow> stored_pods \<sigma> (c, podPlace p) = None)"
| "honest \<sigma> (CreatedSecret c x err) \<longleftrightarrow> (err = None \<longleftrightarrow> stored_secrets \<sigma> (c, secretPlace x) = None)"
| "honest \<sigma> (DeletedPod c k err) \<longleftrightarrow> (err = None \<longleftrightarrow> stored_pods \<sigma> (c, k) \<noteq> None)"
| "honest \<sigma> (DeletedSecret c k err) \<longleftrightarrow> (err = None \<longleftrightarrow> stored_secrets \<sigma> (c, k) \<noteq> None)"
| "honest \<sigma> (PatchedKubemarkMachine c b a err) \<longleftrightarrow> b = a \<or> stored_machines \<sigma> (c, keyOf a) \<noteq> None"
| "honest \<sigma> (PatchedMachine c b' a' err) \<longleftrightarrow> b' = a' \<or> stored_owners \<sigma> (c, ownerKey a') \<noteq> None"
| "honest \<sigma> e \<longleftrightarrow> True"

section \<open>A library of honest servers\<close>

definition silent :: "('w \<Rightarrow> cluster_state) \<Rightarrow> ('w \<Rightarrow> 'a \<times> 'w) \<Rightarrow> bool" where
  "silent \<alpha> f \<longleftrightarrow> (\<forall>w. \<alpha> (snd (f w)) = \<alpha> w)"

definition backed :: "'w lib \<Rightarrow> ('w \<Rightarrow> cluster_state) \<Rightarrow> ('w \<Rightarrow> (go_error + 'a) \<times> 'w) \<Rightarrow>
    (go_error option \<Rightarrow> event) \<Rightarrow> bool" where
  "backed L \<alpha> f ev \<longleftrightarrow>
     (\<forall>w r w'. f w = (r, w') \<longrightarrow>
        (if wentWell L (ev (errOf r))
         then honest (\<alpha> w) (ev (errOf r)) \<and> \<alpha> w' \<in> effects (ev (errOf r)) (\<alpha> w)
         else \<alpha> w' \<in> remains (ev None) (\<alpha> w)))"

definition serves :: "'w lib \<Rightarrow> ('w \<Rightarrow> cluster_state) \<Rightarrow> bool" where
  "serves L \<alpha> \<longleftrightarrow>
     (\<forall>c k. silent \<alpha> (Get_KubemarkMachine L c k)) \<and> (\<forall>c o'. silent \<alpha> (Lib_GetOwnerMachine L c o')) \<and>
     (\<forall>c o'. silent \<alpha> (Lib_GetClusterFromMetadata L c o')) \<and> (\<forall>c k. silent \<alpha> (Get_Secret L c k)) \<and>
     (\<forall>u c k. silent \<alpha> (RESTConfig L u c k)) \<and> (\<forall>cfg c. silent \<alpha> (Client_New L cfg c)) \<and>
     silent \<alpha> (GenerateKey L) \<and> silent \<alpha> (Now L) \<and>
     (\<forall>t p pub priv. silent \<alpha> (CreateCertificate L t p pub priv)) \<and>
     (\<forall>c x. backed L \<alpha> (Create_Secret L c x) (CreatedSecret c x)) \<and>
     (\<forall>c p. backed L \<alpha> (Create_Pod L c p) (CreatedPod c p)) \<and>
     (\<forall>c k. backed L \<alpha> (Delete_Secret L c k) (DeletedSecret c k)) \<and>
     (\<forall>c k. backed L \<alpha> (Delete_Pod L c k) (DeletedPod c k)) \<and>
     (\<forall>c b a. backed L \<alpha> (Patch_KubemarkMachine L c b a) (PatchedKubemarkMachine c b a)) \<and>
     (\<forall>c b a. backed L \<alpha> (Patch_Machine L c b a) (PatchedMachine c b a))"

lemma silentD: "silent \<alpha> f \<Longrightarrow> f w = (r, w') \<Longrightarrow> \<alpha> w' = \<alpha> w"
  by (metis silent_def snd_conv)

lemma backedD:
  "backed L \<alpha> f ev \<Longrightarrow> f w = (r, w') \<Longrightarrow> wentWell L (ev (errOf r)) \<Longrightarrow>
     honest (\<alpha> w) (ev (errOf r)) \<and> \<alpha> w' \<in> effects (ev (errOf r)) (\<alpha> w)"
  by (auto simp: backed_def)

text \<open>Whatever the answer, no more than was asked for is left.\<close>

lemma backed_remains:
  assumes "backed L \<alpha> f ev" and "f w = (r, w')" and "\<And>\<sigma> e. effects (ev (Some e)) \<sigma> = {\<sigma>}"
  shows "\<alpha> w' \<in> remains (ev None) (\<alpha> w)"
proof (cases "wentWell L (ev (errOf r))")
  case True
  then have "\<alpha> w' \<in> effects (ev (errOf r)) (\<alpha> w)"
    using backedD [OF assms(1,2)] by blast
  then show ?thesis
    using assms(3) by (cases "errOf r") (auto simp: remains_def)
next
  case False
  then show ?thesis
    using assms(1,2) by (auto simp: backed_def)
qed

lemma serves_reads:
  assumes "serves L \<alpha>"
  shows "silent \<alpha> (Get_KubemarkMachine L c k)" and "silent \<alpha> (Lib_GetOwnerMachine L c meta)"
    and "silent \<alpha> (Lib_GetClusterFromMetadata L c meta)" and "silent \<alpha> (Get_Secret L c k)"
    and "silent \<alpha> (RESTConfig L u c k)" and "silent \<alpha> (Client_New L cfg c)"
    and "silent \<alpha> (GenerateKey L)" and "silent \<alpha> (Now L)"
    and "silent \<alpha> (CreateCertificate L t p pub priv)"
  using assms by (simp_all add: serves_def)

lemmas serves_silent = serves_reads [THEN silentD]

lemma serves_backed:
  assumes "serves L \<alpha>"
  shows "backed L \<alpha> (Create_Secret L c x) (CreatedSecret c x)"
    and "backed L \<alpha> (Create_Pod L c p) (CreatedPod c p)"
    and "backed L \<alpha> (Delete_Secret L c k) (DeletedSecret c k)"
    and "backed L \<alpha> (Delete_Pod L c k) (DeletedPod c k)"
    and "backed L \<alpha> (Patch_KubemarkMachine L c b a) (PatchedKubemarkMachine c b a)"
    and "backed L \<alpha> (Patch_Machine L c mb ma) (PatchedMachine c mb ma)"
  using assms by (simp_all add: serves_def)

lemmas serves_writes = serves_backed [THEN backedD]

text \<open>What each write that goes well does, case by case.\<close>

lemma create_pod_stores:
  assumes "serves L \<alpha>" and "Create_Pod L c p w = (r, w')" and "tolerated (IsAlreadyExists L) (errOf r)"
  shows "\<alpha> w' = (if stored_pods (\<alpha> w) (c, podPlace p) = None
      then (\<alpha> w)\<lparr>stored_pods := (stored_pods (\<alpha> w))((c, podPlace p) \<mapsto> p)\<rparr> else \<alpha> w)"
  using serves_writes(2) [OF assms(1,2)] assms(3)
  by (cases "errOf r") (auto simp: effects_def)

lemma create_secret_stores:
  assumes "serves L \<alpha>" and "Create_Secret L c x w = (r, w')" and "tolerated (IsAlreadyExists L) (errOf r)"
  shows "\<alpha> w' = (if stored_secrets (\<alpha> w) (c, secretPlace x) = None
      then (\<alpha> w)\<lparr>stored_secrets := (stored_secrets (\<alpha> w))((c, secretPlace x) \<mapsto> x)\<rparr> else \<alpha> w)"
  using serves_writes(1) [OF assms(1,2)] assms(3)
  by (cases "errOf r") (auto simp: effects_def)

text \<open>A pod, or a secret, is gone or on its way; nothing else has changed.\<close>

definition podLeaves :: "place \<Rightarrow> cluster_state \<Rightarrow> cluster_state \<Rightarrow> bool" where
  "podLeaves q \<sigma> \<sigma>' \<longleftrightarrow> (stored_pods \<sigma>' q = None \<or> q \<in> terminating_pods \<sigma>') \<and>
     stored_secrets \<sigma>' = stored_secrets \<sigma> \<and> terminating_secrets \<sigma>' = terminating_secrets \<sigma> \<and>
     stored_machines \<sigma>' = stored_machines \<sigma> \<and> stored_owners \<sigma>' = stored_owners \<sigma>"

definition secretLeaves :: "place \<Rightarrow> cluster_state \<Rightarrow> cluster_state \<Rightarrow> bool" where
  "secretLeaves q \<sigma> \<sigma>' \<longleftrightarrow> (stored_secrets \<sigma>' q = None \<or> q \<in> terminating_secrets \<sigma>') \<and>
     stored_pods \<sigma>' = stored_pods \<sigma> \<and> terminating_pods \<sigma>' = terminating_pods \<sigma> \<and>
     stored_machines \<sigma>' = stored_machines \<sigma> \<and> stored_owners \<sigma>' = stored_owners \<sigma>"

lemma delete_pod_stores:
  assumes "serves L \<alpha>" and "Delete_Pod L c k w = (r, w')" and "tolerated (IsNotFound L) (errOf r)"
  shows "podLeaves (c, k) (\<alpha> w) (\<alpha> w')"
  using serves_writes(4) [OF assms(1,2)] assms(3)
  by (cases "errOf r") (auto simp: effects_def podLeaves_def)

lemma delete_secret_stores:
  assumes "serves L \<alpha>" and "Delete_Secret L c k w = (r, w')" and "tolerated (IsNotFound L) (errOf r)"
  shows "secretLeaves (c, k) (\<alpha> w) (\<alpha> w')"
  using serves_writes(3) [OF assms(1,2)] assms(3)
  by (cases "errOf r") (auto simp: effects_def secretLeaves_def)

lemma patch_machine_stores:
  assumes "serves L \<alpha>" and "Patch_KubemarkMachine L c b a w = (r, w')" and "errOf r = None"
    and "stored_machines (\<alpha> w) (c, keyOf a) = Some km"
  shows "\<alpha> w' = (\<alpha> w)\<lparr>stored_machines :=
      (stored_machines (\<alpha> w))((c, keyOf a) := survivor (mergeKubemarkMachine b a km))\<rparr>"
  using serves_writes(5) [OF assms(1,2)] assms(3,4) by (auto simp: effects_def)

lemma patch_owner_stores:
  assumes "serves L \<alpha>" and "Patch_Machine L c b a w = (r, w')" and "errOf r = None"
    and "stored_owners (\<alpha> w) (c, ownerKey a) = Some m"
  shows "\<alpha> w' = (\<alpha> w)\<lparr>stored_owners :=
      (stored_owners (\<alpha> w))((c, ownerKey a) \<mapsto> mergeMachine b a m)\<rparr>"
  using serves_writes(6) [OF assms(1,2)] assms(3,4) by (auto simp: effects_def)

text \<open>A patch of an object that was not changed does nothing, whatever the answer.\<close>

lemma patch_nothing_stores:
  assumes "serves L \<alpha>" and "Patch_KubemarkMachine L c km km w = (r, w')"
    and "stored_machines (\<alpha> w) (c, keyOf km) = Some s" and "survivor s = Some s"
  shows "\<alpha> w' = \<alpha> w"
proof -
  have same: "applied (PatchedKubemarkMachine c km a None) (\<alpha> w) = \<alpha> w"
    if "keyOf a = keyOf km" "\<And>s. mergeKubemarkMachine km a s = s" for a
    using assms(3,4) that by (simp add: fun_upd_idem)
  have halves: "e' \<in> insert (PatchedKubemarkMachine c km km None) (halves (PatchedKubemarkMachine c km km None)) \<Longrightarrow>
      effects e' (\<alpha> w) = {\<alpha> w}" for e'
    using same by (auto simp: effects_def keyOf_def mergeKubemarkMachine_def merged_def)
  then have "remains (PatchedKubemarkMachine c km km None) (\<alpha> w) = {\<alpha> w}"
    by (auto simp: remains_def)
  moreover have "\<alpha> w' \<in> remains (PatchedKubemarkMachine c km km None) (\<alpha> w)"
    by (rule backed_remains [OF serves_backed(5) [OF assms(1)] assms(2)]) (simp add: effects_def)
  ultimately show ?thesis by simp
qed

section \<open>The patches of the controller\<close>

lemma merged_simps [simp]:
  "merged b a b = a" "merged b a a = a" "merged b b s = s"
  by (simp_all add: merged_def)

lemma merge_finalizer: "mergeKubemarkMachine km (addMachineFinalizer L km) km = addMachineFinalizer L km"
  by (simp add: mergeKubemarkMachine_def addMachineFinalizer_def setFinalizers_def)

lemma merge_ready:
  "mergeKubemarkMachine km (markReady (addMachineFinalizer L km)) (addMachineFinalizer L km) =
     markReady (addMachineFinalizer L km)"
  by (simp add: mergeKubemarkMachine_def markReady_def addMachineFinalizer_def setFinalizers_def)

lemma merge_same [simp]: "mergeKubemarkMachine km km s = s"
  by (simp add: mergeKubemarkMachine_def)

text \<open>With its finalizer already there when it is fetched, a machine loses it by the deferred patch.\<close>

lemma merge_release:
  assumes "finalizer_laws L" and "MachineFinalizer \<in> set (Finalizers (km_ObjectMeta km))"
  shows "mergeKubemarkMachine km (removeMachineFinalizer L (addMachineFinalizer L km))
      (addMachineFinalizer L km) = removeMachineFinalizer L (addMachineFinalizer L km)"
proof -
  let ?fs = "RemoveFinalizer L (AddFinalizer L (Finalizers (km_ObjectMeta km)) MachineFinalizer) MachineFinalizer"
  have "MachineFinalizer \<notin> set ?fs"
    using finalizer_laws_sets(2) [OF assms(1)] by simp
  then have "Finalizers (km_ObjectMeta km) \<noteq> ?fs"
    using assms(2) by metis
  then show ?thesis
    by (simp add: mergeKubemarkMachine_def removeMachineFinalizer_def addMachineFinalizer_def
        setFinalizers_def merged_def)
qed

lemma merge_owner: "mergeMachine m (m\<lparr>machine_ProviderID := pid\<rparr>) m = m\<lparr>machine_ProviderID := pid\<rparr>"
  by (simp add: mergeMachine_def)

lemma survivor_finalized:
  assumes "finalizer_laws L"
  shows "survivor (addMachineFinalizer L km) = Some (addMachineFinalizer L km)"
    and "survivor (markReady (addMachineFinalizer L km)) = Some (markReady (addMachineFinalizer L km))"
  using finalizer_laws_sets(1) [OF assms, of "Finalizers (km_ObjectMeta km)" MachineFinalizer]
  by (auto simp: survivor_def addMachineFinalizer_def)

section \<open>Up to the kubemark cluster\<close>

lemma generate_stores:
  assumes "serves L \<alpha>" and "NewKubemarkCluster L c ref ns s = (res, s')"
  shows "\<alpha> (world s') = \<alpha> (world s)"
  using assms(2) serves_silent(4,6) [OF assms(1)]
  by (fastforce simp: NewKubemarkCluster_def GenerateKubemarkClusterClient_def Let_def getSecret_def
      newClient_def invoke_def split: option.splits prod.splits sum.splits)

text \<open>
  The client reads from a cache that lags behind the servers, so a reconciliation may find objects as
  they were. The convergence theorems are about one that finds them as they are stored.
\<close>

definition upToDate :: "kclient \<Rightarrow> NamespacedName \<Rightarrow> KubemarkMachine \<Rightarrow> Machine \<Rightarrow> cluster_state \<Rightarrow> bool"
where
  "upToDate c req km m \<sigma> \<longleftrightarrow> keyOf km = req \<and> stored_machines \<sigma> (c, req) = Some km \<and>
     stored_owners \<sigma> (c, ownerKey m) = Some m"

lemma fetches_stores:
  assumes "serves L \<alpha>" and "fetches L c req w = Some (km, m, cl, w')"
  shows "\<alpha> w' = \<alpha> w"
proof -
  obtain w1 w2 where get: "Get_KubemarkMachine L c req w = (Inr km, w1)"
    and own: "Lib_GetOwnerMachine L c (km_ObjectMeta km) w1 = (Inr (Some m), w2)"
    and clu: "Lib_GetClusterFromMetadata L c (machine_ObjectMeta m) w2 = (Inr cl, w')"
    using assms(2) by (auto simp: fetches_def split: prod.splits sum.splits option.splits)
  have "\<alpha> w1 = \<alpha> w" "\<alpha> w2 = \<alpha> w1" "\<alpha> w' = \<alpha> w2"
    using serves_silent(1,2,3) [OF assms(1)] get own clu by blast+
  then show "\<alpha> w' = \<alpha> w" by simp
qed

text \<open>The finalizer is the only change up to there.\<close>

lemma connects_stores:
  assumes "serves L \<alpha>" and "finalizer_laws L" and "connects L c req s = Some (km, m, cl, kc, ns, s2)"
    and "upToDate c req km m (\<alpha> (world s))"
  shows "\<alpha> (world s2) = (\<alpha> (world s))\<lparr>stored_machines :=
      (stored_machines (\<alpha> (world s)))((c, req) \<mapsto> addMachineFinalizer L km)\<rparr>"
proof -
  obtain w u s1 res where f: "fetches L c req (world s) = Some (km, m, cl, w)"
    and patch: "patchKubemarkMachine L c km (addMachineFinalizer L km)
      \<lparr>world = w, trace = trace s @ fetchLog c req km m\<rparr> = (Inr u, s1)"
    and g: "NewKubemarkCluster L c (KubemarkHollowPodClusterSecretRef (km_Spec km))
      (Namespace (km_ObjectMeta km)) s1 = (res, s2)"
    using assms(3) by (auto simp: connects_def split: option.splits prod.splits sum.splits)
  then have p: "Patch_KubemarkMachine L c km (addMachineFinalizer L km) w = (Inr u, world s1)"
    by (auto simp: patchKubemarkMachine_def invoke_def split: prod.splits)
  note eq = fetches_stores [OF assms(1) f]
  have "\<alpha> (world s1) = (\<alpha> w)\<lparr>stored_machines := (stored_machines (\<alpha> w))((c, req) \<mapsto> addMachineFinalizer L km)\<rparr>"
    using patch_machine_stores [OF assms(1) p, of km] assms(4) survivor_finalized [OF assms(2)]
    by (simp add: merge_finalizer eq upToDate_def)
  then show ?thesis
    using generate_stores [OF assms(1) g] eq by simp
qed

end
