(* ===== verification/Store_Phases.thy ===== *)
theory Store_Phases
  imports Api_Store
begin

text \<open>
  What the provisioning phase leaves at the API servers, when its calls succeed (\<open>provides\<close>).
\<close>

section \<open>What provisioning is to bring about\<close>

text \<open>An object that was there stays, otherwise one as the controller makes it is there.\<close>

definition podHeld :: "'w lib \<Rightarrow> string \<Rightarrow> KubemarkMachine \<Rightarrow> Machine \<Rightarrow> place \<Rightarrow>
    cluster_state \<Rightarrow> cluster_state \<Rightarrow> bool" where
  "podHeld L img km m place \<sigma> \<sigma>' \<longleftrightarrow>
     (\<exists>p. stored_pods \<sigma>' place = Some p \<and> (stored_pods \<sigma> place = Some p \<or> podFor L img km m p))"

definition secretHeld :: "'w lib \<Rightarrow> KubemarkMachine \<Rightarrow> place \<Rightarrow> cluster_state \<Rightarrow> cluster_state \<Rightarrow> bool"
where
  "secretHeld L km place \<sigma> \<sigma>' \<longleftrightarrow>
     (\<exists>x. stored_secrets \<sigma>' place = Some x \<and> (stored_secrets \<sigma> place = Some x \<or> secretFor L km x))"

abbreviation held :: "('w \<Rightarrow> cluster_state) \<Rightarrow> 'w frame \<Rightarrow> cluster_state" where
  "held \<alpha> f \<equiv> \<alpha> (world (api f))"

section \<open>Provisioning\<close>

lemma silent_invoke: "silent \<alpha> g \<Longrightarrow> invoke g ev s = (r, s') \<Longrightarrow> \<alpha> (world s') = \<alpha> (world s)"
  by (auto simp: invoke_def silentD split: prod.splits)

lemma silent_effect: "silent \<alpha> g \<Longrightarrow> effect g s = (r, s') \<Longrightarrow> \<alpha> (world s') = \<alpha> (world s)"
  by (auto simp: effect_def silentD split: prod.splits)

lemma remote_stores:
  "serves L \<alpha> \<Longrightarrow> getRemoteCluster L c cl s = (r, s') \<Longrightarrow> \<alpha> (world s') = \<alpha> (world s)"
  using silent_invoke [OF serves_reads(5)]
  by (fastforce simp: getRemoteCluster_def remoteRESTConfig_def split: prod.splits sum.splits)

lemma issues_stores:
  assumes "serves L \<alpha>" and "issues L c cl name s kubeconfig pem s'"
  shows "\<alpha> (world s') = \<alpha> (world s)"
    and "issuedFiles L ''/kubeconfig/cert.pem'' name kubeconfig pem"
proof -
  obtain cfg ca key der caCert caKey now cert certPEM s1 s2 s3 s4 where
    "getRemoteCluster L c cl s = (Inr cfg, s1)"
    "getSecret L c \<lparr>nn_Namespace = cluster_Namespace cl,
       nn_Name = SecretNameOf L (cluster_Name cl) (ClusterCA L)\<rparr> s1 = (Inr ca, s2)"
    "effect (GenerateKey L) s2 = (Inr key, s3)" "effect (Now L) s3 = (now, s4)"
    and cert: "effect (CreateCertificate L (kubeletCertificate name now) caCert (PublicKey L key) caKey) s4 =
      (Inr cert, s')"
    and der: "MarshalECPrivateKey L key = Inr der"
    and ca: "DecodeCertPEM L (dataOf ca (TLSCrtDataName L)) = Inr caCert"
      "DecodePrivateKeyPEM L (dataOf ca (TLSKeyDataName L)) = Inr caKey"
    and enc: "generateCertificateKubeconfig L cfg ''/kubeconfig/cert.pem'' = Inr kubeconfig"
      "Pem_Encode L (CertificateBlockType L) cert = Inr certPEM"
      "pem = certPEM @ Pem_EncodeToMemory L (ECPrivateKeyBlockType L) der"
    using assms(2) unfolding issues_def by blast
  then show "\<alpha> (world s') = \<alpha> (world s)"
    using remote_stores [OF assms(1)] silent_invoke [OF serves_reads(4) [OF assms(1)]]
      silent_effect [OF serves_reads(7) [OF assms(1)]] silent_effect [OF serves_reads(8) [OF assms(1)]]
      silent_effect [OF serves_reads(9) [OF assms(1)]] unfolding getSecret_def by metis
  obtain w w' where "CreateCertificate L (kubeletCertificate name now) caCert (PublicKey L key) caKey w =
      (Inr cert, w')"
    using cert by (auto simp: effect_def split: prod.splits)
  from issuedFilesI [OF der ca this enc(1,2)] show "issuedFiles L ''/kubeconfig/cert.pem'' name kubeconfig pem"
    by (simp add: enc(3))
qed

lemma provides_stores:
  assumes "serves L \<alpha>" and "provides L img c kc ns km m cl s x p s'"
  defines "q \<equiv> (kc, podKey km ns)" and "\<sigma> \<equiv> \<alpha> (world s)" and "\<sigma>' \<equiv> \<alpha> (world s')"
  shows "podHeld L img km m q \<sigma> \<sigma>'" and "secretHeld L km q \<sigma> \<sigma>'"
    and "stored_machines \<sigma>' = stored_machines \<sigma>" and "stored_owners \<sigma>' = stored_owners \<sigma>"
    and "terminating_pods \<sigma>' = terminating_pods \<sigma>" and "terminating_secrets \<sigma>' = terminating_secrets \<sigma>"
proof -
  obtain kubeconfig pem ver args s1 r1 s2 r2 where i: "issues L c cl (Name (km_ObjectMeta km)) s kubeconfig pem s1"
    and x: "x = \<lparr>secret_Name = Name (km_ObjectMeta km), secret_Namespace = ns,
          Data = Some (fmupd ''cert.pem'' pem (fmupd ''kubeconfig'' kubeconfig fmempty))\<rparr>"
    and r1: "createSecret L kc x s1 = (r1, s2)" "tolerated (IsAlreadyExists L) (errOf r1)"
    and v: "Version m = Some ver" "hollowArgs L km ver = Some args"
    and p: "hollowPod L img km ns ver args (secret_Name x) = Some p"
    and r2: "createPod L kc p s2 = (r2, s')" "tolerated (IsAlreadyExists L) (errOf r2)"
    using assms(2) unfolding provides_def by blast
  have \<sigma>1: "\<alpha> (world s1) = \<sigma>"
    unfolding \<sigma>_def by (rule issues_stores(1) [OF assms(1) i])
  have files: "secretFor L km x" "(kc, secretPlace x) = q"
    using issues_stores(2) [OF assms(1) i] secretForI
    by (auto simp: x secretPlace_def podKey_def q_def)
  have pod: "podFor L img km m p" "(kc, podPlace p) = q"
    using hollowPod_parts [OF p] v by (auto simp: podFor_def podPlace_def podKey_def q_def x)
  have "Create_Secret L kc x (world s1) = (r1, world s2)"
    using r1 by (auto simp: createSecret_def invoke_def split: prod.splits)
  note s2 = create_secret_stores [OF assms(1) this r1(2), unfolded files(2) \<sigma>1]
  have "Create_Pod L kc p (world s2) = (r2, world s')"
    using r2 by (auto simp: createPod_def invoke_def split: prod.splits)
  note s' = create_pod_stores [OF assms(1) this r2(2), unfolded pod(2), folded \<sigma>'_def]
  show "podHeld L img km m q \<sigma> \<sigma>'" "secretHeld L km q \<sigma> \<sigma>'"
    using files(1) pod(1) by (auto simp: s2 s' podHeld_def secretHeld_def)
  show "stored_machines \<sigma>' = stored_machines \<sigma>" "stored_owners \<sigma>' = stored_owners \<sigma>"
    "terminating_pods \<sigma>' = terminating_pods \<sigma>" "terminating_secrets \<sigma>' = terminating_secrets \<sigma>"
    by (simp_all add: s2 s')
qed

text \<open>The patches, when they are accepted.\<close>

lemma patched_owner_stores:
  assumes "serves L \<alpha>" and "errOf (fst (patchMachine L c b a s)) = None"
    and "stored_owners (\<alpha> (world s)) (c, ownerKey a) = Some m"
  shows "\<alpha> (world (snd (patchMachine L c b a s))) = (\<alpha> (world s))\<lparr>stored_owners :=
      (stored_owners (\<alpha> (world s)))((c, ownerKey a) \<mapsto> mergeMachine b a m)\<rparr>"
  using assms(2,3) patch_owner_stores [OF assms(1), of c b a "world s"]
  by (simp add: patchMachine_def invoke_def split: prod.splits)

lemma patched_machine_stores:
  assumes "serves L \<alpha>" and "errOf (fst (patchKubemarkMachine L c b a s)) = None"
    and "stored_machines (\<alpha> (world s)) (c, keyOf a) = Some km"
  shows "\<alpha> (world (snd (patchKubemarkMachine L c b a s))) = (\<alpha> (world s))\<lparr>stored_machines :=
      (stored_machines (\<alpha> (world s)))((c, keyOf a) := survivor (mergeKubemarkMachine b a km))\<rparr>"
  using assms(2,3) patch_machine_stores [OF assms(1), of c b a "world s"]
  by (simp add: patchKubemarkMachine_def invoke_def split: prod.splits)

lemma ownerKey_identified [simp]: "ownerKey (identified km m) = ownerKey m"
  by (simp add: ownerKey_def identified_def)

end
