(* ===== verification/Demo_Store.thy ===== *)
theory Demo_Store
  imports Store_Phases Demo_Library
begin

text \<open>
  A library whose world is what the API servers hold: it keeps the contract \<open>serves\<close> and lets the
  convergence theorems be applied. It models no part of the program.
\<close>

text \<open>The answer of a call whose event with this error the servers would log.\<close>

definition answer :: "bool \<Rightarrow> string \<Rightarrow> (go_error option \<Rightarrow> event) \<Rightarrow> cluster_state \<Rightarrow>
    (go_error + unit) \<times> cluster_state" where
  "answer ok reason ev \<sigma> =
     (if ok then (Inr (), applied (ev None) \<sigma>) else (Inl (Foreign reason), applied (ev (Some (Foreign reason))) \<sigma>))"

definition storeLib :: "cluster_state lib" where
  "storeLib =
     \<lparr>IsNotFound = (\<lambda>e. e = Foreign ''NotFound''),
      IsAlreadyExists = (\<lambda>e. e = Foreign ''AlreadyExists''),
      IsZero = (\<lambda>t. t = None),
      MustParse = (\<lambda>s. Some (Quantity s)),
      QuantityString = (\<lambda>q. case q of Quantity s \<Rightarrow> s),
      Get_KubemarkMachine = (\<lambda>c k \<sigma>.
        (case stored_machines \<sigma> (c, k) of
           Some km \<Rightarrow> if keyOf km = k then Inr km else Inl (Foreign ''Corrupt'')
         | None \<Rightarrow> Inl (Foreign ''NotFound''), \<sigma>)),
      Get_KubemarkMachineTemplate = (\<lambda>c k \<sigma>. (Inl (Foreign ''NotFound''), \<sigma>)),
      Get_Secret = (\<lambda>c k \<sigma>. (Inr demoSecret, \<sigma>)),
      Create_Secret = (\<lambda>c x \<sigma>.
        answer (stored_secrets \<sigma> (c, secretPlace x) = None) ''AlreadyExists'' (CreatedSecret c x) \<sigma>),
      Create_Pod = (\<lambda>c p \<sigma>.
        answer (stored_pods \<sigma> (c, podPlace p) = None) ''AlreadyExists'' (CreatedPod c p) \<sigma>),
      Delete_Secret = (\<lambda>c k \<sigma>.
        answer (stored_secrets \<sigma> (c, k) \<noteq> None) ''NotFound'' (DeletedSecret c k) \<sigma>),
      Delete_Pod = (\<lambda>c k \<sigma>.
        answer (stored_pods \<sigma> (c, k) \<noteq> None) ''NotFound'' (DeletedPod c k) \<sigma>),
      AddFinalizer = (\<lambda>fs f. if f \<in> set fs then fs else fs @ [f]),
      RemoveFinalizer = (\<lambda>fs f. removeAll f fs),
      Lib_GetOwnerMachine = (\<lambda>c meta \<sigma>.
        (Inr (case stored_owners \<sigma> (c, \<lparr>nn_Namespace = Namespace meta, nn_Name = Name meta\<rparr>) of
           Some m \<Rightarrow>
             if ownerKey m = \<lparr>nn_Namespace = Namespace meta, nn_Name = Name meta\<rparr> then Some m else None
         | None \<Rightarrow> None), \<sigma>)),
      Lib_GetClusterFromMetadata = (\<lambda>c meta \<sigma>. (Inr (demoCluster True), \<sigma>)),
      NewHelper_KubemarkMachine = (\<lambda>c x. Inr ()),
      NewHelper_Machine = (\<lambda>c x. Inr ()),
      NewHelper_KubemarkMachineTemplate = (\<lambda>c x. Inr ()),
      Patch_KubemarkMachine = (\<lambda>c b a \<sigma>.
        answer (stored_machines \<sigma> (c, keyOf a) \<noteq> None) ''NotFound'' (PatchedKubemarkMachine c b a) \<sigma>),
      Patch_Machine = (\<lambda>c b a \<sigma>.
        answer (stored_owners \<sigma> (c, ownerKey a) \<noteq> None) ''NotFound'' (PatchedMachine c b a) \<sigma>),
      Patch_KubemarkMachineTemplate = (\<lambda>c b a \<sigma>. (Inl (Foreign ''NotFound''), \<sigma>)),
      SecretNameOf = (\<lambda>cluster purpose. cluster @ ''-'' @ purpose),
      ClusterCA = ''ca'',
      TLSCrtDataName = ''tls.crt'',
      TLSKeyDataName = ''tls.key'',
      DecodeCertPEM = Inr,
      DecodePrivateKeyPEM = Inr,
      RESTConfig = (\<lambda>user c k \<sigma>. (Inr \<lparr>Host = ''h'', CAFile = [], CAData = ''ca'',
        Insecure = False, Timeout = 0\<rparr>, \<sigma>)),
      RESTConfigFromKubeConfig = (\<lambda>b. Inr \<lparr>Host = b, CAFile = [], CAData = [],
        Insecure = False, Timeout = 0\<rparr>),
      Client_New = (\<lambda>cfg c \<sigma>. (Inr (KClient (Host cfg)), \<sigma>)),
      Encode_KubeConfig = (\<lambda>kc. Inr (CurrentContext kc)),
      ECPrivateKeyBlockType = ''EC PRIVATE KEY'',
      CertificateBlockType = ''CERTIFICATE'',
      GenerateKey = (\<lambda>\<sigma>. (Inr ''key'', \<sigma>)),
      PublicKey = (\<lambda>k. k),
      MarshalECPrivateKey = Inr,
      Pem_EncodeToMemory = (\<lambda>t b. t @ b),
      Pem_Encode = (\<lambda>t b. Inr (t @ b)),
      CreateCertificate = (\<lambda>t p pub priv \<sigma>. (Inr (CommonName t), \<sigma>)),
      Now = (\<lambda>\<sigma>. (0, \<sigma>)),
      NewConstraint = Inr,
      NewVersion = Inr,
      Check = (\<lambda>c v. v = ''v1.22.0''),
      rangeOptions = alphabetical,
      rangeResources = alphabetical\<rparr>"

lemma storeLib_serves: "serves storeLib (\<lambda>\<sigma>. \<sigma>)"
proof -
  have writes:
    "backed storeLib (\<lambda>\<sigma>. \<sigma>) (Create_Secret storeLib c x) (CreatedSecret c x)"
    "backed storeLib (\<lambda>\<sigma>. \<sigma>) (Create_Pod storeLib c p) (CreatedPod c p)"
    "backed storeLib (\<lambda>\<sigma>. \<sigma>) (Delete_Secret storeLib c k) (DeletedSecret c k)"
    "backed storeLib (\<lambda>\<sigma>. \<sigma>) (Delete_Pod storeLib c k) (DeletedPod c k)"
    "backed storeLib (\<lambda>\<sigma>. \<sigma>) (Patch_KubemarkMachine storeLib c b a) (PatchedKubemarkMachine c b a)"
    "backed storeLib (\<lambda>\<sigma>. \<sigma>) (Patch_Machine storeLib c mb ma) (PatchedMachine c mb ma)"
    for c x p k b a mb ma
    by (auto simp: storeLib_def backed_def answer_def effects_def remains_def split: if_splits)
  show ?thesis
    unfolding serves_def using writes
    by (auto simp: silent_def storeLib_def split: option.splits if_splits)
qed

lemma storeLib_laws:
  "finalizer_laws storeLib" "constantsParse storeLib" "IsZero storeLib None"
  by (auto simp: finalizer_laws_def constantsParse_def defaultsParse_def storeLib_def)

text \<open>A machine and its owner, and nothing else, or with pod and secret from before.\<close>

definition demoStored :: "KubemarkMachine \<Rightarrow> Machine \<Rightarrow> cluster_state" where
  "demoStored km m =
     \<lparr>stored_pods = (\<lambda>_. None), stored_secrets = (\<lambda>_. None),
      stored_machines = [(demoClient, keyOf km) \<mapsto> km],
      stored_owners = [(demoClient, ownerKey m) \<mapsto> m],
      terminating_pods = {}, terminating_secrets = {}\<rparr>"

definition storeStart :: "cluster_state \<Rightarrow> cluster_state io" where
  "storeStart \<sigma> = \<lparr>world = \<sigma>, trace = []\<rparr>"

lemmas store_run_defs =
  demo_run_defs storeLib_def answer_def keyOf_def ownerKey_def storeStart_def demoStored_def
  getRemoteCluster_def kubeletCertificate_def generateCertificateKubeconfig_def kubeconfigData_def
  dataOf_def Let_def hollowPod_def basePod_def kubemarkName_def providerIDOf_def markReady_def
  survivor_def mergeKubemarkMachine_def

lemma storeLib_connects:
  assumes "stored_machines (world s) (c, req) = Some km" and "keyOf km = req"
    and "stored_owners (world s) (c, req) = Some m" and "ownerKey m = req"
    and "KubemarkHollowPodClusterSecretRef (km_Spec km) = None"
  shows "\<exists>s2. connects storeLib c req s =
    Some (km, m, demoCluster True, c, Namespace (km_ObjectMeta km), s2)"
proof -
  have key: "\<lparr>nn_Namespace = Namespace (km_ObjectMeta km), nn_Name = Name (km_ObjectMeta km)\<rparr> = req"
    using assms(2) by (simp add: keyOf_def)
  have "fetches storeLib c req (world s) = Some (km, m, demoCluster True, world s)"
    using assms by (simp add: fetches_def storeLib_def key)
  moreover have "\<exists>w'. Patch_KubemarkMachine storeLib c km (addMachineFinalizer storeLib km) (world s) = (Inr (), w')"
    using assms by (simp add: storeLib_def answer_def)
  ultimately show ?thesis
    using assms(5)
    by (auto simp: connects_def patchKubemarkMachine_def invoke_def NewKubemarkCluster_def
        generate_without_ref)
qed

lemma demo_keys [simp]:
  "keyOf (demoMachine deleted ready res) = demoRequest"
  "keyOf (setFinalizers fs km) = keyOf km"
  "ownerKey (demoOwner ver) = demoRequest"
  "podKey (demoMachine deleted ready res) ''fleet'' = demoRequest"
  "podKey (setFinalizers fs km) ns = podKey km ns"
  "Namespace (km_ObjectMeta (demoMachine deleted ready res)) = ''fleet''"
  "KubemarkHollowPodClusterSecretRef (km_Spec (demoMachine deleted ready res)) = None"
  "\<lparr>nn_Namespace = ''fleet'', nn_Name = Name (km_ObjectMeta (demoMachine deleted ready res))\<rparr> =
     demoRequest"
  by (simp_all add: keyOf_def ownerKey_def podKey_def demoMachine_def demoOwner_def demoMeta_def
      demoSpec_def demoRequest_def)

end
