(* ===== verification/Store_Theorems.thy ===== *)
theory Store_Theorems
  imports Demo_Store Machine_Theorems
begin

text \<open>
  Convergence: what the API servers hold after one reconciliation whose calls go well, from whatever
  earlier attempts have left there, and that a second one changes nothing. A concrete store to apply the theorems to is at the end.
\<close>

definition storeAfter :: "'w lib \<Rightarrow> ('w \<Rightarrow> cluster_state) \<Rightarrow> kclient \<Rightarrow> string \<Rightarrow> string \<Rightarrow>
    NamespacedName \<Rightarrow> 'w io \<Rightarrow> cluster_state" where
  "storeAfter L \<alpha> c img wfv req s =
     \<alpha> (world (snd (Reconcile L (newKubemarkMachineReconciler L c img wfv) req s)))"


section \<open>Provisioning\<close>

lemma held_finalizer [simp]:
  "podFor L img (addMachineFinalizer L km) m p = podFor L img km m p"
  "secretFor L (addMachineFinalizer L km) x = secretFor L km x"
  "podKey (addMachineFinalizer L km) ns = podKey km ns"
  by (simp_all add: podFor_def secretFor_def podKey_def cong: option.case_cong list.case_cong)

lemma provisioning_stores:
  fixes img wfv :: string
  assumes serves: "serves L \<alpha>" and laws: "finalizer_laws L"
    and c: "connects L c req s = Some (km, m, cl, kc, ns, s2)"
    and now: "upToDate c req km m (\<alpha> (world s))" and ok: "provisionable L km m cl"
    and calls: "provides L img c kc ns km m cl s2 x p s3"
      "list_all (wentWell L) (machineCalls L c img wfv req s)"
  defines "\<sigma> \<equiv> \<alpha> (world s)" and "\<sigma>' \<equiv> storeAfter L \<alpha> c img wfv req s" and "q \<equiv> (kc, podKey km ns)"
  shows "podHeld L img km m q \<sigma> \<sigma>'" and "secretHeld L km q \<sigma> \<sigma>'"
    and "stored_machines \<sigma>' (c, req) = Some (markReady (addMachineFinalizer L km))"
    and "stored_owners \<sigma>' (c, ownerKey m) = Some (identified km m)"
    and "terminating_pods \<sigma>' = terminating_pods \<sigma>" and "terminating_secrets \<sigma>' = terminating_secrets \<sigma>"
proof -
  define owner where "owner = patchMachine L c m (identified km m) s3"
  let ?km = "markReady (addMachineFinalizer L km)"
  obtain pre e1 e2 where "machineCalls L c img wfv req s = pre @ [CreatedSecret kc x e1, CreatedPod kc p e2,
      PatchedMachine c m (identified km m) (errOf (fst owner)),
      PatchedKubemarkMachine c km ?km (errOf (fst (patchKubemarkMachine L c km ?km (snd owner))))]"
    using provisioning_succeeds(2) [OF c ok calls(1), of wfv] unfolding run_defs owner_def by blast
  with calls(2) have accepted: "errOf (fst owner) = None"
    "errOf (fst (patchKubemarkMachine L c km ?km (snd owner))) = None"
    by simp_all
  note s2 = connects_stores [OF serves laws c now, folded \<sigma>_def]
  note s3 = provides_stores [OF serves calls(1), folded q_def, unfolded s2]
  have key: "keyOf km = req" and m: "stored_owners \<sigma> (c, ownerKey m) = Some m"
    using now by (simp_all add: upToDate_def \<sigma>_def)
  have s4: "\<alpha> (world (snd owner)) = (\<alpha> (world s3))\<lparr>stored_owners :=
      (stored_owners (\<alpha> (world s3)))((c, ownerKey m) \<mapsto> identified km m)\<rparr>"
    using patched_owner_stores [OF serves, of c m "identified km m" s3] accepted(1) s3(4) m
    by (simp add: owner_def identified_def merge_owner ownerKey_def)
  have "stored_machines (\<alpha> (world (snd owner))) (c, keyOf ?km) = Some (addMachineFinalizer L km)"
    using s3(3) key by (simp add: s4)
  note s5 = patched_machine_stores [OF serves accepted(2) this, unfolded merge_ready survivor_finalized(2) [OF laws]]
  have "\<sigma>' = \<alpha> (world (snd (patchKubemarkMachine L c km ?km (snd owner))))"
    unfolding \<sigma>'_def storeAfter_def by (simp add: provisioning_run [OF c ok calls(1)] owner_def)
  then show "podHeld L img km m q \<sigma> \<sigma>'" "secretHeld L km q \<sigma> \<sigma>'"
    "stored_machines \<sigma>' (c, req) = Some ?km" "stored_owners \<sigma>' (c, ownerKey m) = Some (identified km m)"
    "terminating_pods \<sigma>' = terminating_pods \<sigma>" "terminating_secrets \<sigma>' = terminating_secrets \<sigma>"
    using s3 by (simp_all add: s5 s4 key podHeld_def secretHeld_def)
qed

text \<open>
  C7: Convergence of provisioning. Take a machine that can be provisioned, found as it is stored, with
  whatever pod, secret or finalizer earlier attempts have left, and one reconciliation in which the
  calls for its credentials, its secret and its pod succeed (an object that exists already counts) and
  the patches are accepted. After it the API servers hold its pod and its secret (those that were
  there, or as the controller makes them), the machine is stored with its finalizer, its provider ID
  and ready, the owner Machine has the same provider ID, and nothing has begun to be terminated.
\<close>

theorem provisioning_converges:
  fixes img wfv :: string
  assumes "serves L \<alpha>" and "finalizer_laws L"
    and "connects L c req s = Some (km, m, cl, kc, ns, s2)" and "upToDate c req km m (\<alpha> (world s))"
    and "provisionable L km m cl" and "provides L img c kc ns km m cl s2 x p s3"
    and "list_all (wentWell L) (machineCalls L c img wfv req s)"
  defines "\<sigma>' \<equiv> storeAfter L \<alpha> c img wfv req s"
  shows "podHeld L img km m (kc, podKey km ns) (\<alpha> (world s)) \<sigma>' \<and>
    secretHeld L km (kc, podKey km ns) (\<alpha> (world s)) \<sigma>' \<and>
    stored_machines \<sigma>' (c, req) = Some (markReady (addMachineFinalizer L km)) \<and>
    stored_owners \<sigma>' (c, ownerKey m) =
      Some (m\<lparr>machine_ProviderID := Some (''kubemark://'' @ Name (km_ObjectMeta km))\<rparr>) \<and>
    terminating_pods \<sigma>' = terminating_pods (\<alpha> (world s)) \<and>
    terminating_secrets \<sigma>' = terminating_secrets (\<alpha> (world s))"
  using provisioning_stores [OF assms(1-7)] unfolding \<sigma>'_def
  by (simp add: identified_def providerIDOf_def)

section \<open>Deletion\<close>






section \<open>A machine that is ready\<close>

text \<open>The documentation of \<open>AddFinalizer\<close>: a finalizer that is there is not added.\<close>

definition finalizer_kept :: "'w lib \<Rightarrow> bool" where
  "finalizer_kept L \<longleftrightarrow> (\<forall>fs f. f \<in> set fs \<longrightarrow> AddFinalizer L fs f = fs)"

lemma ready_changes_nothing:
  fixes img wfv :: string
  assumes "serves L \<alpha>" and "finalizer_laws L" and "finalizer_kept L"
    and "connects L c req s = Some (km, m, cl, kc, ns, s2)" and "upToDate c req km m (\<alpha> (world s))"
    and "IsZero L (DeletionTimestamp (km_ObjectMeta km))" and "Ready (km_Status km)"
    and "MachineFinalizer \<in> set (Finalizers (km_ObjectMeta km))"
  shows "storeAfter L \<alpha> c img wfv req s = \<alpha> (world s)"
proof -
  have km: "addMachineFinalizer L km = km"
    using assms(3,8) by (simp add: addMachineFinalizer_def setFinalizers_def finalizer_kept_def)
  have stored: "stored_machines (\<alpha> (world s)) (c, keyOf km) = Some km" "survivor km = Some km"
    using assms(5) survivor_finalized(1) [OF assms(2), of km] by (simp_all add: upToDate_def km)
  have s2: "\<alpha> (world s2) = \<alpha> (world s)"
    using connects_stores [OF assms(1,2,4,5)] assms(5) by (simp add: km upToDate_def fun_upd_idem)
  have patch: "\<alpha> w' = \<alpha> (world s)" if "Patch_KubemarkMachine L c km km (world s2) = (r, w')" for r w'
    using patch_nothing_stores [OF assms(1) that] stored by (simp add: s2)
  have "snd (Reconcile L (newKubemarkMachineReconciler L c img wfv) req s) =
      snd (patchKubemarkMachine L c km km s2)"
    unfolding Reconcile_connected [OF assms(4), of img wfv] using assms(6,7)
    by (simp add: inFrame_def afterConnect_def go_defer_def returnIf_def body_defs km
        deferredPatchKubemarkMachine_def onApi_def split: prod.split)
  then show ?thesis
    using patch by (auto simp: storeAfter_def patchKubemarkMachine_def invoke_def split: prod.splits)
qed

text \<open>
  C9: Provisioning is idempotent: after a reconciliation that provisions a machine, its calls having
  succeeded, a second one that finds the objects as they are stored then, even of a reconciler with
  another image, changes nothing of what the API servers hold, whether its last call succeeds or not.
\<close>

theorem provisioning_idempotent:
  fixes img wfv img' wfv' :: string
  assumes "serves L \<alpha>" and "finalizer_laws L" and "finalizer_kept L"
    and "connects L c req s = Some (km, m, cl, kc, ns, s2)" and "upToDate c req km m (\<alpha> (world s))"
    and "provisionable L km m cl" and "provides L img c kc ns km m cl s2 x p s3"
    and "list_all (wentWell L) (machineCalls L c img wfv req s)"
    and "\<alpha> (world t) = storeAfter L \<alpha> c img wfv req s"
    and "connects L c req t = Some (km', m', cl', kc', ns', t2)" and "upToDate c req km' m' (\<alpha> (world t))"
  shows "storeAfter L \<alpha> c img' wfv' req t = storeAfter L \<alpha> c img wfv req s"
proof -
  let ?km = "markReady (addMachineFinalizer L km)"
  have "stored_machines (\<alpha> (world t)) (c, req) = Some ?km"
    using provisioning_stores(3) [OF assms(1,2,4-8)] assms(9) by simp
  then have km': "km' = ?km"
    using assms(11) by (simp add: upToDate_def)
  have "MachineFinalizer \<in> set (Finalizers (km_ObjectMeta ?km))"
    using finalizer_laws_sets(1) [OF assms(2)] by (simp add: addMachineFinalizer_def)
  moreover have "IsZero L (DeletionTimestamp (km_ObjectMeta ?km))"
    using assms(6) by (simp add: provisionable_def)
  ultimately show ?thesis
    using ready_changes_nothing [OF assms(1-3,10,11)] assms(9) by (simp add: km')
qed

section \<open>The theorems on a store\<close>

abbreviation freshMachine :: KubemarkMachine where
  "freshMachine \<equiv> demoMachine None False None"

abbreviation freshOwner :: Machine where
  "freshOwner \<equiv> demoOwner (Some ''v1.21.0'')"

definition freshStart :: "cluster_state io" where
  "freshStart = storeStart (demoStored freshMachine freshOwner)"

lemma fresh_connects:
  "\<exists>s2. connects storeLib demoClient demoRequest freshStart =
     Some (freshMachine, freshOwner, demoCluster True, demoClient, ''fleet'', s2)"
  using storeLib_connects [of freshStart demoClient demoRequest freshMachine freshOwner]
  by (simp add: freshStart_def storeStart_def demoStored_def)

lemma fresh_upToDate:
  "upToDate demoClient demoRequest freshMachine freshOwner (world freshStart)"
  by (simp add: upToDate_def freshStart_def storeStart_def demoStored_def)

lemma fresh_provisionable: "provisionable storeLib freshMachine freshOwner (demoCluster True)"
  by (simp add: provisionable_def storeLib_def demo_defs hollowArgs_def Let_def)

lemma fresh_provides:
  "\<exists>x p s3. provides storeLib ''img'' demoClient demoClient ''fleet'' freshMachine freshOwner
     (demoCluster True) s x p s3"
  by (simp add: hollowArgs_def Let_def provides_def issues_def call_defs invoke_def
      effect_def getRemoteCluster_def generateCertificateKubeconfig_def hollowPod_def basePod_def
      answer_def demo_defs storeLib_def)

lemma fresh_calls:
  "list_all (wentWell storeLib) (machineCalls storeLib demoClient ''img'' [] demoRequest freshStart)"
  by (simp add: machineCalls_def freshStart_def store_run_defs)

theorem provisioning_converges_witness:
  "stored_machines (storeAfter storeLib (\<lambda>\<sigma>. \<sigma>) demoClient ''img'' [] demoRequest freshStart)
       (demoClient, demoRequest) = Some (markReady (addMachineFinalizer storeLib freshMachine)) \<and>
   stored_pods (storeAfter storeLib (\<lambda>\<sigma>. \<sigma>) demoClient ''img'' [] demoRequest freshStart)
       (demoClient, demoRequest) \<noteq> None"
proof -
  obtain s2 where c: "connects storeLib demoClient demoRequest freshStart =
     Some (freshMachine, freshOwner, demoCluster True, demoClient, ''fleet'', s2)"
    using fresh_connects by blast
  obtain x p s3 where "provides storeLib ''img'' demoClient demoClient ''fleet'' freshMachine freshOwner
     (demoCluster True) s2 x p s3"
    using fresh_provides by blast
  from provisioning_converges [OF storeLib_serves storeLib_laws(1) c fresh_upToDate fresh_provisionable
      this fresh_calls]
  show ?thesis by (auto simp: podHeld_def)
qed






theorem provisioning_idempotent_witness:
  "let t = snd (Reconcile storeLib (newKubemarkMachineReconciler storeLib demoClient ''img'' []) demoRequest
       freshStart)
   in storeAfter storeLib (\<lambda>\<sigma>. \<sigma>) demoClient ''other'' [] demoRequest t = world t"
proof -
  obtain s2 where c: "connects storeLib demoClient demoRequest freshStart =
     Some (freshMachine, freshOwner, demoCluster True, demoClient, ''fleet'', s2)"
    using fresh_connects by blast
  obtain x p s3 where p: "provides storeLib ''img'' demoClient demoClient ''fleet'' freshMachine freshOwner
     (demoCluster True) s2 x p s3"
    using fresh_provides by blast
  define t where "t = snd (Reconcile storeLib (newKubemarkMachineReconciler storeLib demoClient ''img'' [])
    demoRequest freshStart)"
  let ?km = "markReady (addMachineFinalizer storeLib freshMachine)" and ?m = "identified freshMachine freshOwner"
  have t: "world t = storeAfter storeLib (\<lambda>\<sigma>. \<sigma>) demoClient ''img'' [] demoRequest freshStart"
    by (simp add: t_def storeAfter_def)
  have stored: "stored_machines (world t) (demoClient, demoRequest) = Some ?km"
    "stored_owners (world t) (demoClient, demoRequest) = Some ?m"
    using provisioning_stores(3,4) [OF storeLib_serves storeLib_laws(1) c fresh_upToDate fresh_provisionable
        p fresh_calls] t by simp_all
  then have "\<exists>t2. connects storeLib demoClient demoRequest t =
      Some (?km, ?m, demoCluster True, demoClient, Namespace (km_ObjectMeta ?km), t2)"
    by (intro storeLib_connects) simp_all
  then obtain t2 where again: "connects storeLib demoClient demoRequest t =
      Some (?km, ?m, demoCluster True, demoClient, Namespace (km_ObjectMeta ?km), t2)" by blast
  have "finalizer_kept storeLib"
    by (simp add: finalizer_kept_def storeLib_def)
  moreover have "upToDate demoClient demoRequest ?km ?m (world t)"
    using stored by (simp add: upToDate_def)
  ultimately have "storeAfter storeLib (\<lambda>\<sigma>. \<sigma>) demoClient ''other'' [] demoRequest t = world t"
    using provisioning_idempotent [OF storeLib_serves storeLib_laws(1) _ c fresh_upToDate
        fresh_provisionable p fresh_calls t again] t by simp
  then show ?thesis by (simp add: t_def)
qed

end
