(* ===== verification/Store_Frame.thy ===== *)
theory Store_Frame
  imports Demo_Store Store_Theorems
begin

text \<open>
  What a reconciliation leaves alone. Whatever the calls return, and also when an answer is lost or
  an API server fails halfway, the objects of others stay as they are: each phase of \<open>Reconcile\<close>
  keeps them.
\<close>

section \<open>Calls that do no more than they are asked to\<close>

text \<open>A call has been carried out, by halves or not at all, and its answer need not tell which.\<close>

definition halfway :: "('w \<Rightarrow> cluster_state) \<Rightarrow> ('w \<Rightarrow> 'a \<times> 'w) \<Rightarrow> event \<Rightarrow> bool" where
  "halfway \<alpha> f e \<longleftrightarrow> (\<forall>w. \<alpha> (snd (f w)) \<in> remains e (\<alpha> w))"

definition confined :: "'w lib \<Rightarrow> ('w \<Rightarrow> cluster_state) \<Rightarrow> bool" where
  "confined L \<alpha> \<longleftrightarrow>
     (\<forall>c k. silent \<alpha> (Get_KubemarkMachine L c k)) \<and> (\<forall>c o'. silent \<alpha> (Lib_GetOwnerMachine L c o')) \<and>
     (\<forall>c o'. silent \<alpha> (Lib_GetClusterFromMetadata L c o')) \<and> (\<forall>c k. silent \<alpha> (Get_Secret L c k)) \<and>
     (\<forall>u c k. silent \<alpha> (RESTConfig L u c k)) \<and> (\<forall>cfg c. silent \<alpha> (Client_New L cfg c)) \<and>
     silent \<alpha> (GenerateKey L) \<and> silent \<alpha> (Now L) \<and>
     (\<forall>t p pub priv. silent \<alpha> (CreateCertificate L t p pub priv)) \<and>
     (\<forall>c x. halfway \<alpha> (Create_Secret L c x) (CreatedSecret c x None)) \<and>
     (\<forall>c p. halfway \<alpha> (Create_Pod L c p) (CreatedPod c p None)) \<and>
     (\<forall>c k. halfway \<alpha> (Delete_Secret L c k) (DeletedSecret c k None)) \<and>
     (\<forall>c k. halfway \<alpha> (Delete_Pod L c k) (DeletedPod c k None)) \<and>
     (\<forall>c b a. halfway \<alpha> (Patch_KubemarkMachine L c b a) (PatchedKubemarkMachine c b a None)) \<and>
     (\<forall>c b a. halfway \<alpha> (Patch_Machine L c b a) (PatchedMachine c b a None))"

lemma confinedD:
  assumes "confined L \<alpha>"
  shows "silent \<alpha> (Get_KubemarkMachine L c k)" and "silent \<alpha> (Lib_GetOwnerMachine L c meta)"
    and "silent \<alpha> (Lib_GetClusterFromMetadata L c meta)" and "silent \<alpha> (Get_Secret L c k)"
    and "silent \<alpha> (RESTConfig L u c k)" and "silent \<alpha> (Client_New L cfg c)"
    and "silent \<alpha> (GenerateKey L)" and "silent \<alpha> (Now L)"
    and "silent \<alpha> (CreateCertificate L t p pub priv)"
    and "halfway \<alpha> (Create_Secret L c x) (CreatedSecret c x None)"
    and "halfway \<alpha> (Create_Pod L c pod) (CreatedPod c pod None)"
    and "halfway \<alpha> (Delete_Secret L c k) (DeletedSecret c k None)"
    and "halfway \<alpha> (Delete_Pod L c k) (DeletedPod c k None)"
    and "halfway \<alpha> (Patch_KubemarkMachine L c b a) (PatchedKubemarkMachine c b a None)"
    and "halfway \<alpha> (Patch_Machine L c mb ma) (PatchedMachine c mb ma None)"
  using assms by (simp_all add: confined_def)

lemma backed_halfway:
  "backed L \<alpha> f ev \<Longrightarrow> (\<And>\<sigma> e. effects (ev (Some e)) \<sigma> = {\<sigma>}) \<Longrightarrow> halfway \<alpha> f (ev None)"
  unfolding halfway_def using backed_remains by (metis surjective_pairing)

text \<open>Servers that are honest are an instance.\<close>

lemma serves_confined: "serves L \<alpha> \<Longrightarrow> confined L \<alpha>"
  unfolding confined_def
  by (intro conjI allI) (simp_all add: serves_reads serves_backed [THEN backed_halfway] effects_def)

section \<open>The objects of others\<close>

text \<open>
  Two contents that agree outside one place for the pod and the secret, one for the machine and
  one for its owner.
\<close>

definition onlyAt :: "place \<Rightarrow> place \<Rightarrow> place \<Rightarrow> cluster_state \<Rightarrow> cluster_state \<Rightarrow> bool" where
  "onlyAt pod machine' owner \<sigma> \<sigma>' \<longleftrightarrow>
     (\<forall>q. q \<noteq> pod \<longrightarrow> stored_pods \<sigma>' q = stored_pods \<sigma> q \<and> stored_secrets \<sigma>' q = stored_secrets \<sigma> q \<and>
        (q \<in> terminating_pods \<sigma>' \<longleftrightarrow> q \<in> terminating_pods \<sigma>) \<and>
        (q \<in> terminating_secrets \<sigma>' \<longleftrightarrow> q \<in> terminating_secrets \<sigma>)) \<and>
     (\<forall>q. q \<noteq> machine' \<longrightarrow> stored_machines \<sigma>' q = stored_machines \<sigma> q) \<and>
     (\<forall>q. q \<noteq> owner \<longrightarrow> stored_owners \<sigma>' q = stored_owners \<sigma> q)"

fun aims :: "place \<Rightarrow> place \<Rightarrow> place \<Rightarrow> event \<Rightarrow> bool" where
  "aims pod machine' owner (CreatedPod c p err) \<longleftrightarrow> (c, podPlace p) = pod"
| "aims pod machine' owner (CreatedSecret c x err) \<longleftrightarrow> (c, secretPlace x) = pod"
| "aims pod machine' owner (DeletedPod c k err) \<longleftrightarrow> (c, k) = pod"
| "aims pod machine' owner (DeletedSecret c k err) \<longleftrightarrow> (c, k) = pod"
| "aims pod machine' owner (PatchedKubemarkMachine c b a err) \<longleftrightarrow> (c, keyOf a) = machine'"
| "aims pod machine' owner (PatchedMachine c b a err) \<longleftrightarrow> (c, ownerKey a) = owner"
| "aims pod machine' owner e \<longleftrightarrow> True"

lemma onlyAt_refl [simp]: "onlyAt p k o' \<sigma> \<sigma>"
  by (simp add: onlyAt_def)

lemma onlyAt_applied: "onlyAt p k o' \<sigma> \<sigma>' \<Longrightarrow> aims p k o' e \<Longrightarrow> onlyAt p k o' \<sigma> (applied e \<sigma>')"
  by (cases "(e, \<sigma>')" rule: applied.cases) (auto simp: onlyAt_def)

lemma onlyAt_marked: "onlyAt p k o' \<sigma> \<sigma>' \<Longrightarrow> aims p k o' e \<Longrightarrow> onlyAt p k o' \<sigma> (marked e \<sigma>')"
  using onlyAt_applied [of p k o' \<sigma> \<sigma>' e]
  by (cases "(e, \<sigma>')" rule: marked.cases) (auto simp: onlyAt_def)

lemma aims_halves: "aims p k o' e \<Longrightarrow> e' \<in> halves e \<Longrightarrow> aims p k o' e'"
  by (cases e rule: halves.cases) (auto simp: keyOf_def)

lemma onlyAt_remains:
  "onlyAt p k o' \<sigma> \<sigma>' \<Longrightarrow> aims p k o' e \<Longrightarrow> \<sigma>'' \<in> remains e \<sigma>' \<Longrightarrow> onlyAt p k o' \<sigma> \<sigma>''"
  by (auto simp: remains_def effects_def intro: onlyAt_applied onlyAt_marked aims_halves)

lemma onlyAt_halfway:
  "halfway \<alpha> f e \<Longrightarrow> aims p k o' e \<Longrightarrow> onlyAt p k o' \<sigma> (\<alpha> w) \<Longrightarrow> f w = (r, w') \<Longrightarrow>
    onlyAt p k o' \<sigma> (\<alpha> w')"
  using onlyAt_remains by (metis halfway_def snd_conv)

section \<open>Through the phases\<close>

text \<open>
  The frame's two objects keep their keys and only their places, and the one of the pod and the
  secret, change.
\<close>

definition minds :: "('w \<Rightarrow> cluster_state) \<Rightarrow> cluster_state \<Rightarrow> kclient \<Rightarrow> place \<Rightarrow> NamespacedName \<Rightarrow>
    NamespacedName \<Rightarrow> 'w frame \<Rightarrow> bool" where
  "minds \<alpha> \<sigma> c p k o' f \<longleftrightarrow> keyOf (kubemarkMachine f) = k \<and> ownerKey (machine f) = o' \<and>
     onlyAt p (c, k) (c, o') \<sigma> (held \<alpha> f)"

lemma minds_silent: "silent \<alpha> g \<Longrightarrow> keepsc (minds \<alpha> \<sigma> c p k o') (onApi (invoke g ev))"
  by (auto simp: keepsc_def minds_def onApi_def invoke_def silentD split: prod.splits)

lemma minds_effect: "silent \<alpha> g \<Longrightarrow> keepsc (minds \<alpha> \<sigma> c p k o') (onApi (effect g))"
  by (auto simp: keepsc_def minds_def onApi_def effect_def silentD split: prod.splits)

lemma minds_write:
  "halfway \<alpha> g e \<Longrightarrow> aims p (c, k) (c, o') e \<Longrightarrow> keepsc (minds \<alpha> \<sigma> c p k o') (onApi (invoke g ev))"
  by (auto simp: keepsc_def minds_def onApi_def invoke_def split: prod.splits elim: onlyAt_halfway)

lemma minds_remote:
  assumes "confined L \<alpha>"
  shows "keepsc (minds \<alpha> \<sigma> c p k o') (onApi (getRemoteCluster L c' cl))"
  using silentD [OF confinedD(5) [OF assms]]
  by (auto simp: keepsc_def minds_def onApi_def getRemoteCluster_def remoteRESTConfig_def invoke_def
      split: prod.splits sum.splits)

lemma minds_deferred:
  assumes "confined L \<alpha>" and "minds \<alpha> \<sigma> c p k o' f"
  shows "minds \<alpha> \<sigma> c p k o' (deferredPatchMachine L c m f)"
    and "minds \<alpha> \<sigma> c p k o' (deferredPatchKubemarkMachine L c km f)"
proof -
  have owner: "aims p (c, k) (c, o') (PatchedMachine c m (machine f) None)"
    and km: "aims p (c, k) (c, o') (PatchedKubemarkMachine c km (kubemarkMachine f) None)"
    using assms(2) by (simp_all add: minds_def)
  show "minds \<alpha> \<sigma> c p k o' (deferredPatchMachine L c m f)"
    unfolding deferredPatchMachine_def patchMachine_def
    using minds_write [OF confinedD(15) [OF assms(1)] owner] assms(2) by (simp add: keepsc_def)
  show "minds \<alpha> \<sigma> c p k o' (deferredPatchKubemarkMachine L c km f)"
    unfolding deferredPatchKubemarkMachine_def patchKubemarkMachine_def
    using minds_write [OF confinedD(14) [OF assms(1)] km] assms(2) by (simp add: keepsc_def)
qed

lemma minds_edit:
  "minds \<alpha> \<sigma> c p k o' f \<Longrightarrow> keyOf km = keyOf (kubemarkMachine f) \<Longrightarrow>
    minds \<alpha> \<sigma> c p k o' (f\<lparr>kubemarkMachine := km\<rparr>)"
  "minds \<alpha> \<sigma> c p k o' f \<Longrightarrow> ownerKey m = ownerKey (machine f) \<Longrightarrow>
    minds \<alpha> \<sigma> c p k o' (f\<lparr>machine := m\<rparr>)"
  by (simp_all add: minds_def)

lemmas minds_rules = minds_silent minds_effect minds_write minds_remote minds_deferred minds_edit

text \<open>The place of the pod and the secret of the machine with key \<open>k\<close>.\<close>

abbreviation placed :: "kclient \<Rightarrow> string \<Rightarrow> NamespacedName \<Rightarrow> place" where
  "placed kc ns k \<equiv> (kc, \<lparr>nn_Namespace = ns, nn_Name = nn_Name k\<rparr>)"

lemma minds_name: "minds \<alpha> \<sigma> c p k o' f \<Longrightarrow> Name (km_ObjectMeta (kubemarkMachine f)) = nn_Name k"
  by (auto simp: minds_def keyOf_def)

lemma reconcileDelete_minds:
  assumes "confined L \<alpha>"
  shows "keeps (minds \<alpha> \<sigma> c (placed kc ns k) k o') (reconcileDelete L kc ns)"
  unfolding reconcileDelete_def call_defs
  by (auto simp: podKey_def minds_name
      intro!: keeps_rules keeps_reading_inv minds_edit minds_write [OF confinedD(12) [OF assms]]
        minds_write [OF confinedD(13) [OF assms]])

lemma launch_minds:
  assumes "confined L \<alpha>"
  shows "keeps (minds \<alpha> \<sigma> c (placed kc ns k) k o') (launch L img kc ns x ver args)"
  unfolding launch_def call_defs
  by (auto simp: podPlace_def minds_name minds_edit hollowPod_parts(1,2)
      intro!: keeps_rules keeps_reading_inv minds_write [OF confinedD(11) [OF assms]])
    (simp add: minds_def ownerKey_def)

lemma issueCredentials_minds:
  assumes "confined L \<alpha>" and "\<And>x. keeps (minds \<alpha> \<sigma> c (placed kc ns k) k o') (body x)"
  shows "keeps (minds \<alpha> \<sigma> c (placed kc ns k) k o') (issueCredentials L mc cl cfg kc ns body)"
  unfolding issueCredentials_def call_defs
  by (auto simp: secretPlace_def minds_name Let_def
      intro!: keeps_rules keeps_reading_inv assms(2) minds_write [OF confinedD(10) [OF assms(1)]]
        minds_silent [OF confinedD(4) [OF assms(1)]] minds_effect confinedD(7-9) [OF assms(1)])

lemma selectArgs_minds:
  "(\<And>ver args. keeps (minds \<alpha> \<sigma> c p k o') (body ver args)) \<Longrightarrow> keeps (minds \<alpha> \<sigma> c p k o') (selectArgs L body)"
  unfolding selectArgs_def by (auto intro!: keeps_rules)

lemma reconcileNormal_minds:
  assumes "confined L \<alpha>"
  shows "keeps (minds \<alpha> \<sigma> (kmr_Client r) (placed kc ns k) k o') (reconcileNormal L r cl kc ns)"
  unfolding reconcileNormal_def
  by (auto intro!: keeps_rules minds_deferred minds_remote issueCredentials_minds selectArgs_minds
      launch_minds assms)

lemma reconcileOnCluster_minds:
  assumes "confined L \<alpha>"
  shows "keeps (minds \<alpha> \<sigma> (kmr_Client r) (placed (the kc) ns k) k o')
    (reconcileOnCluster L r km cl (kc, ns, err))"
  unfolding reconcileOnCluster_def
  by (auto intro!: keeps_rules reconcileDelete_minds reconcileNormal_minds assms)

text \<open>The client and the namespace that \<open>GenerateKubemarkClusterClient\<close> gives decide the place.\<close>

lemma generate_silent:
  assumes "confined L \<alpha>" and "NewKubemarkCluster L c ref ns s = (res, s')"
  shows "\<alpha> (world s') = \<alpha> (world s)"
  using assms(2) silentD [OF confinedD(4) [OF assms(1)]] silentD [OF confinedD(6) [OF assms(1)]]
  by (fastforce simp: NewKubemarkCluster_def GenerateKubemarkClusterClient_def Let_def getSecret_def
      newClient_def invoke_def split: option.splits prod.splits sum.splits)

text \<open>Where the pod and the secret of a machine go: without a reference, beside the machine.\<close>

definition placeFor :: "kclient \<Rightarrow> KubemarkMachine \<Rightarrow> place \<Rightarrow> bool" where
  "placeFor c km p \<longleftrightarrow> nn_Name (snd p) = Name (km_ObjectMeta km) \<and>
     (KubemarkHollowPodClusterSecretRef (km_Spec km) = None \<longrightarrow> p = (c, keyOf km))"

lemma reconcileOwned_minds:
  assumes "confined L \<alpha>" and "KubemarkCluster r = NewKubemarkCluster L c" and "kmr_Client r = c"
    and f: "kubemarkMachine f = km" "machine f = m"
  shows "\<exists>p. placeFor c km p \<and>
    minds \<alpha> (held \<alpha> f) c p (keyOf km) (ownerKey m) (snd (reconcileOwned L r before cl f))"
proof -
  let ?minds = "\<lambda>p. minds \<alpha> (held \<alpha> f) c p (keyOf km) (ownerKey m)"
  let ?f1 = "f\<lparr>kubemarkMachine := addMachineFinalizer L km\<rparr>"
  obtain r1 f2 where patch: "onApi (patchKubemarkMachine L c before (addMachineFinalizer L km)) ?f1 = (r1, f2)"
    by fastforce
  have minds: "?minds p f2" for p
  proof -
    have "aims p (c, keyOf km) (c, ownerKey m) (PatchedKubemarkMachine c before (addMachineFinalizer L km) None)"
      by simp
    note step = minds_write [OF confinedD(14) [OF assms(1)] this, of "held \<alpha> f"]
    show ?thesis
      by (rule keepsc_step [where s = ?f1, OF step]) (use patch in \<open>simp_all add: patchKubemarkMachine_def minds_def f\<close>)
  qed
  obtain kc ns err f3 where gen: "onApi (NewKubemarkCluster L c (KubemarkHollowPodClusterSecretRef (km_Spec km))
      (Namespace (km_ObjectMeta km))) f2 = ((kc, ns, err), f3)"
    by (metis prod_cases3 surjective_pairing)
  let ?p = "placed (the kc) ns (keyOf km)"
  have "placeFor c km ?p"
    using gen by (auto simp: placeFor_def keyOf_def onApi_def NewKubemarkCluster_def generate_without_ref
        split: prod.splits)
  moreover have "?minds ?p f3"
    using gen minds [of ?p] by (auto simp: onApi_def minds_def generate_silent [OF assms(1)] split: prod.splits)
  then have "?minds ?p (snd (reconcileOnCluster L r (addMachineFinalizer L km) cl (kc, ns, err) f3))"
    using keepsD [OF reconcileOnCluster_minds [OF assms(1)]] assms(3) by blast
  then have "?minds ?p (snd (reconcileOwned L r before cl f))"
    using minds [of ?p] patch gen f
    by (auto simp: reconcileOwned_def assms(2,3) body_defs reading_def minds_deferred [OF assms(1)]
        split: sum.splits prod.splits)
  ultimately show ?thesis by blast
qed

text \<open>Without the objects nothing changes.\<close>

lemma unfetched_silent:
  assumes "confined L \<alpha>" and none: "fetches L (kmr_Client r) req (world s) = None"
  shows "\<alpha> (world (snd (Reconcile L r req s))) = \<alpha> (world s)"
proof -
  let ?c = "kmr_Client r"
  obtain r1 w1 where get: "Get_KubemarkMachine L ?c req (world s) = (r1, w1)" by fastforce
  note eq1 = silentD [OF confinedD(1) [OF assms(1)] get]
  show ?thesis
  proof (cases r1)
    case (Inl e)
    then show ?thesis
      using get eq1 by (simp add: Reconcile_def body_defs getKubemarkMachine_def invoke_def)
  next
    case (Inr km)
    obtain r2 w2 where own: "Lib_GetOwnerMachine L ?c (km_ObjectMeta km) w1 = (r2, w2)" by fastforce
    note eq2 = silentD [OF confinedD(2) [OF assms(1)] own]
    show ?thesis
    proof (cases "\<exists>m. r2 = Inr (Some m)")
      case False
      then show ?thesis
        using get eq1 Inr own eq2
        by (cases r2) (auto simp: Reconcile_def body_defs getKubemarkMachine_def getOwnerMachine_def invoke_def
            split: option.splits)
    next
      case True
      then obtain m where m: "r2 = Inr (Some m)" by blast
      obtain r3 w3 where clu: "Lib_GetClusterFromMetadata L ?c (machine_ObjectMeta m) w2 = (r3, w3)"
        by fastforce
      note eq3 = silentD [OF confinedD(3) [OF assms(1)] clu]
      show ?thesis
        using none get eq1 Inr own eq2 m clu eq3
        by (cases r3; cases "NewHelper_KubemarkMachine L ?c km")
          (simp_all add: fetches_def Reconcile_def body_defs getKubemarkMachine_def getOwnerMachine_def
            getClusterFromMetadata_def invoke_def)
    qed
  qed
qed

section \<open>The theorem\<close>

text \<open>
  C10: A reconciliation, whatever its calls return and even when an answer is lost, changes at the API
  servers no objects but the machine it is for, that machine's owner, and a pod and a secret of the
  machine's name in one place, which without a reference to another cluster is the machine's own
  namespace; and nothing at all when the objects cannot be fetched.
\<close>

theorem others_untouched:
  fixes L :: "'w lib" and c :: kclient and img wfv :: string and req :: NamespacedName and s :: "'w io"
  assumes "confined L \<alpha>" and "getsRequested L"
  defines "\<sigma>' \<equiv> storeAfter L \<alpha> c img wfv req s"
  shows "case fetches L c req (world s) of
      None \<Rightarrow> \<sigma>' = \<alpha> (world s)
    | Some (km, m, cl, w) \<Rightarrow>
        \<exists>p. placeFor c km p \<and> onlyAt p (c, req) (c, ownerKey m) (\<alpha> (world s)) \<sigma>'"
proof (cases "fetches L c req (world s)")
  case None
  then show ?thesis
    using unfetched_silent [OF assms(1), of "newKubemarkMachineReconciler L c img wfv" req s]
    by (simp add: \<sigma>'_def storeAfter_def)
next
  case (Some found)
  then obtain km m cl w where found: "fetches L c req (world s) = Some (km, m, cl, w)"
    by (cases found) auto
  let ?r = "newKubemarkMachineReconciler L c img wfv"
  let ?f = "\<lparr>api = \<lparr>world = w, trace = trace s @ fetchLog c req km m\<rparr>, kubemarkMachine = km, machine = m\<rparr>"
  have eq: "\<alpha> w = \<alpha> (world s)"
    using found silentD [OF confinedD(1) [OF assms(1)]] silentD [OF confinedD(2) [OF assms(1)]]
      silentD [OF confinedD(3) [OF assms(1)]]
    by (auto simp: fetches_def split: prod.splits sum.splits option.splits)
  have "\<sigma>' = held \<alpha> (snd (reconcileOwned L ?r km cl ?f))"
    using found Reconcile_fetched [of L ?r req s] by (simp add: \<sigma>'_def storeAfter_def inFrame_snd)
  moreover have "keyOf km = req"
    by (rule fetches_key [OF assms(2) found])
  ultimately show ?thesis
    using reconcileOwned_minds [OF assms(1), of ?r c ?f km m km cl] found eq by (auto simp: minds_def)
qed

text \<open>A machine beside the pod of another.\<close>

definition neighbour :: NamespacedName where
  "neighbour = \<lparr>nn_Namespace = ''fleet'', nn_Name = ''node-1''\<rparr>"

definition crowdedStart :: "cluster_state io" where
  "crowdedStart = storeStart ((demoStored freshMachine freshOwner)
     \<lparr>stored_pods := [(demoClient, neighbour) \<mapsto> demoPod]\<rparr>)"

theorem others_untouched_witness:
  "stored_pods (storeAfter storeLib (\<lambda>\<sigma>. \<sigma>) demoClient ''img'' [] demoRequest crowdedStart)
     (demoClient, neighbour) = Some demoPod"
proof -
  have gets: "getsRequested storeLib"
    by (auto simp: getsRequested_def storeLib_def split: option.splits if_splits)
  have "\<exists>s2. connects storeLib demoClient demoRequest crowdedStart =
     Some (freshMachine, freshOwner, demoCluster True, demoClient, ''fleet'', s2)"
    using storeLib_connects [of crowdedStart demoClient demoRequest freshMachine freshOwner]
    by (simp add: crowdedStart_def storeStart_def demoStored_def)
  then obtain w where "fetches storeLib demoClient demoRequest (world crowdedStart) =
      Some (freshMachine, freshOwner, demoCluster True, w)"
    by (auto simp: connects_def split: option.splits prod.splits sum.splits)
  then obtain p where p: "placeFor demoClient freshMachine p"
    and only: "onlyAt p (demoClient, demoRequest) (demoClient, demoRequest) (world crowdedStart)
      (storeAfter storeLib (\<lambda>\<sigma>. \<sigma>) demoClient ''img'' [] demoRequest crowdedStart)"
    using others_untouched [OF serves_confined [OF storeLib_serves] gets, where c = demoClient and
        req = demoRequest and s = crowdedStart and img = "''img''" and wfv = "[]"] by auto
  have "(demoClient, neighbour) \<noteq> p"
    using p by (simp add: placeFor_def neighbour_def demoRequest_def)
  then show ?thesis
    using only by (simp add: onlyAt_def crowdedStart_def storeStart_def)
qed

end
