(* ===== verification/Memory.thy ===== *)
theory Memory
  imports Prelude
begin

text \<open>
  A Go heap, for the one part of the program that is about aliasing: the generated deep copies.
  Addresses are numbers, a cell holds one value, allocation takes the next address. The locale
  \<open>deep_copy\<close> is the contract of a deep copy of a value that points into the memory; its lemmas
  say what the contract is good for. The rest of the theory builds copies from copies, the way
  structs are built from fields, pointers and slices.
\<close>

section \<open>Cells\<close>

type_synonym addr = nat

record 'c memory =
  store :: "addr \<Rightarrow> 'c option"
  limit :: addr

text \<open>Only addresses below the limit are allocated.\<close>

definition lookup :: "'c memory \<Rightarrow> addr \<Rightarrow> 'c option" where
  "lookup m a = (if a < limit m then store m a else None)"

definition alloc :: "'c \<Rightarrow> 'c memory \<Rightarrow> addr \<times> 'c memory" where
  "alloc c m = (limit m, \<lparr>store = (store m)(limit m := Some c), limit = Suc (limit m)\<rparr>)"

text \<open>A later memory: everything allocated before is as it was.\<close>

definition extends :: "'c memory \<Rightarrow> 'c memory \<Rightarrow> bool" where
  "extends m m' \<longleftrightarrow> limit m \<le> limit m' \<and> (\<forall>a < limit m. lookup m' a = lookup m a)"

lemma extends_refl [simp, intro]: "extends m m"
  by (simp add: extends_def)

lemma extends_trans [trans]: "extends m n \<Longrightarrow> extends n k \<Longrightarrow> extends m k"
  by (auto simp: extends_def)

lemma extends_limit: "extends m m' \<Longrightarrow> limit m \<le> limit m'"
  by (simp add: extends_def)

lemma extends_lookup: "extends m m' \<Longrightarrow> a < limit m \<Longrightarrow> lookup m' a = lookup m a"
  by (simp add: extends_def)

lemma lookup_old: "lookup m a \<noteq> None \<Longrightarrow> a < limit m"
  by (simp add: lookup_def split: if_splits)

lemma alloc_extends: "alloc c m = (a, m') \<Longrightarrow> extends m m'"
  by (auto simp: alloc_def extends_def lookup_def)

lemma alloc_new: "alloc c m = (a, m') \<Longrightarrow> a = limit m \<and> limit m' = Suc (limit m) \<and> lookup m' a = Some c"
  by (auto simp: alloc_def lookup_def)

section \<open>The contract of a deep copy\<close>

text \<open>
  \<open>val\<close> is the value that something denotes in a memory (\<open>None\<close> for a dangling pointer), \<open>foot\<close>
  the cells it reaches there. What a deep copy is good for: nothing that was in the memory is
  changed, the original \<open>x\<close> and the copy \<open>y\<close> have the same value, and whatever is written to the
  cells of the one, the other keeps its value.
\<close>

definition independent_copies :: "('c memory \<Rightarrow> 'x \<Rightarrow> 'v option) \<Rightarrow> ('c memory \<Rightarrow> 'x \<Rightarrow> addr set) \<Rightarrow>
    'v \<Rightarrow> 'c memory \<Rightarrow> 'x \<Rightarrow> 'x \<Rightarrow> 'c memory \<Rightarrow> bool" where
  "independent_copies val foot v m x y m' \<longleftrightarrow>
     extends m m' \<and> val m' x = Some v \<and> val m' y = Some v \<and> foot m' x \<inter> foot m' y = {} \<and>
     (\<forall>m''. (\<forall>a. a \<notin> foot m' y \<longrightarrow> lookup m'' a = lookup m' a) \<longrightarrow> val m'' x = Some v) \<and>
     (\<forall>m''. (\<forall>a. a \<notin> foot m' x \<longrightarrow> lookup m'' a = lookup m' a) \<longrightarrow> val m'' y = Some v)"

locale deep_copy =
  fixes copy :: "'x \<Rightarrow> 'c memory \<Rightarrow> 'x \<times> 'c memory"
    and val :: "'c memory \<Rightarrow> 'x \<Rightarrow> 'v option"
    and foot :: "'c memory \<Rightarrow> 'x \<Rightarrow> addr set"
  assumes copy_extends: "copy x m = (y, m') \<Longrightarrow> extends m m'"
    and copy_val: "val m x = Some v \<Longrightarrow> copy x m = (y, m') \<Longrightarrow> val m' y = Some v"
    and copy_new: "val m x = Some v \<Longrightarrow> copy x m = (y, m') \<Longrightarrow> foot m' y \<subseteq> {limit m..<limit m'}"
    and foot_old: "val m x = Some v \<Longrightarrow> foot m x \<subseteq> {..<limit m}"
    and local: "val m x = Some v \<Longrightarrow> (\<And>a. a \<in> foot m x \<Longrightarrow> lookup m' a = lookup m a) \<Longrightarrow>
      val m' x = Some v \<and> foot m' x = foot m x"
begin

lemma later:
  assumes "val m x = Some v" and "extends m m'"
  shows "val m' x = Some v \<and> foot m' x = foot m x"
proof (rule local [OF assms(1)])
  fix a assume "a \<in> foot m x"
  with foot_old [OF assms(1)] have "a < limit m" by auto
  then show "lookup m' a = lookup m a" by (rule extends_lookup [OF assms(2)])
qed

lemmas val_later = later [THEN conjunct1]
lemmas foot_later = later [THEN conjunct2]

text \<open>Original and copy share no cell.\<close>

lemma disjoint:
  assumes "val m x = Some v" and "copy x m = (y, m')"
  shows "foot m' x \<inter> foot m' y = {}"
proof -
  have "foot m' x = foot m x"
    by (rule foot_later [OF assms(1) copy_extends [OF assms(2)]])
  then show ?thesis
    using foot_old [OF assms(1)] copy_new [OF assms] by fastforce
qed

text \<open>Whatever is written to the cells of the one, the other keeps its value.\<close>

lemma original_kept:
  assumes "val m x = Some v" and "copy x m = (y, m')"
    and "\<And>a. a \<notin> foot m' y \<Longrightarrow> lookup m'' a = lookup m' a"
  shows "val m'' x = Some v"
proof -
  have later: "val m' x = Some v"
    using val_later [OF assms(1) copy_extends [OF assms(2)]] .
  show ?thesis
    by (rule local [OF later, THEN conjunct1]) (use disjoint [OF assms(1,2)] assms(3) in blast)
qed

lemma copy_kept:
  assumes "val m x = Some v" and "copy x m = (y, m')"
    and "\<And>a. a \<notin> foot m' x \<Longrightarrow> lookup m'' a = lookup m' a"
  shows "val m'' y = Some v"
  by (rule local [OF copy_val [OF assms(1,2)], THEN conjunct1])
    (use disjoint [OF assms(1,2)] assms(3) in blast)

lemma independent:
  assumes "val m x = Some v" and "copy x m = (y, m')"
  shows "independent_copies val foot v m x y m'"
  using assms val_later [OF assms(1) copy_extends [OF assms(2)]] copy_val [OF assms]
    disjoint [OF assms] original_kept [OF assms] copy_kept [OF assms] copy_extends [OF assms(2)]
  unfolding independent_copies_def by blast

end

section \<open>Copies from copies\<close>

text \<open>Values without pointers: Go's assignment copies them.\<close>

definition assignCopy :: "'x \<Rightarrow> 'c memory \<Rightarrow> 'x \<times> 'c memory" where
  "assignCopy x m = (x, m)"

lemma deep_copy_assign: "deep_copy assignCopy (\<lambda>_. Some) (\<lambda>_ _. {})"
  by unfold_locales (simp_all add: assignCopy_def)

text \<open>Two fields of a struct, one after the other.\<close>

fun both :: "'a option \<Rightarrow> 'b option \<Rightarrow> ('a \<times> 'b) option" where
  "both (Some a) (Some b) = Some (a, b)"
| "both _ _ = None"

lemma both_Some: "both x y = Some (a, b) \<longleftrightarrow> x = Some a \<and> y = Some b"
  by (cases x; cases y) auto

definition copyPair :: "('x \<Rightarrow> 'c memory \<Rightarrow> 'x \<times> 'c memory) \<Rightarrow>
    ('y \<Rightarrow> 'c memory \<Rightarrow> 'y \<times> 'c memory) \<Rightarrow> 'x \<times> 'y \<Rightarrow> 'c memory \<Rightarrow> ('x \<times> 'y) \<times> 'c memory" where
  "copyPair c d z m = (case c (fst z) m of (x, m1) \<Rightarrow> case d (snd z) m1 of (y, m2) \<Rightarrow> ((x, y), m2))"

lemma copyPair_eq:
  "copyPair c d (x, y) m = (z, m') \<longleftrightarrow>
    (\<exists>x' m1 y'. c x m = (x', m1) \<and> d y m1 = (y', m') \<and> z = (x', y'))"
  by (auto simp: copyPair_def split: prod.splits)

lemma deep_copy_pair:
  assumes "deep_copy c v f" and "deep_copy d w g"
  shows "deep_copy (copyPair c d) (\<lambda>m z. both (v m (fst z)) (w m (snd z)))
    (\<lambda>m z. f m (fst z) \<union> g m (snd z))"
proof (unfold_locales, goal_cases)
  case (1 z m y m')
  then show ?case
    using deep_copy.copy_extends [OF assms(1)] deep_copy.copy_extends [OF assms(2)]
    by (cases z) (force simp: copyPair_eq elim: extends_trans)
next
  case (2 m z r y m')
  obtain x1 x2 where z: "z = (x1, x2)" by (cases z)
  obtain y1 m1 y2 where c: "c x1 m = (y1, m1)" and d: "d x2 m1 = (y2, m')" and y: "y = (y1, y2)"
    using 2(2) by (auto simp: copyPair_eq z)
  obtain r1 r2 where r: "r = (r1, r2)" "v m x1 = Some r1" "w m x2 = Some r2"
    using 2(1) by (cases r) (auto simp: both_Some z)
  have "v m' y1 = Some r1"
    by (rule deep_copy.val_later [OF assms(1) deep_copy.copy_val [OF assms(1) r(2) c]
      deep_copy.copy_extends [OF assms(2) d]])
  moreover have "w m' y2 = Some r2"
    by (rule deep_copy.copy_val [OF assms(2) deep_copy.val_later [OF assms(2) r(3)
      deep_copy.copy_extends [OF assms(1) c]] d])
  ultimately show ?case by (simp add: y r(1))
next
  case (3 m z r y m')
  obtain x1 x2 where z: "z = (x1, x2)" by (cases z)
  obtain y1 m1 y2 where c: "c x1 m = (y1, m1)" and d: "d x2 m1 = (y2, m')" and y: "y = (y1, y2)"
    using 3(2) by (auto simp: copyPair_eq z)
  obtain r1 r2 where r: "v m x1 = Some r1" "w m x2 = Some r2"
    using 3(1) by (cases r) (auto simp: both_Some z)
  have e1: "extends m m1" and e2: "extends m1 m'"
    using deep_copy.copy_extends [OF assms(1) c] deep_copy.copy_extends [OF assms(2) d] .
  have "f m' y1 = f m1 y1"
    by (rule deep_copy.foot_later [OF assms(1) deep_copy.copy_val [OF assms(1) r(1) c] e2])
  moreover have "f m1 y1 \<subseteq> {limit m..<limit m1}"
    by (rule deep_copy.copy_new [OF assms(1) r(1) c])
  moreover have "g m' y2 \<subseteq> {limit m1..<limit m'}"
    by (rule deep_copy.copy_new [OF assms(2) deep_copy.val_later [OF assms(2) r(2) e1] d])
  ultimately show ?case
    using extends_limit [OF e1] extends_limit [OF e2] by (fastforce simp: y)
next
  case (4 m z r)
  then show ?case
    using deep_copy.foot_old [OF assms(1)] deep_copy.foot_old [OF assms(2)]
    by (cases r) (simp add: both_Some)
next
  case (5 m z r m')
  then show ?case
    using deep_copy.local [OF assms(1), of m "fst z" _ m']
      deep_copy.local [OF assms(2), of m "snd z" _ m']
    by (cases r) (simp add: both_Some)
qed

text \<open>A struct: the fields \<open>get\<close> reads are copied and put into an assigned copy of the rest.\<close>

lemma deep_copy_struct:
  assumes "deep_copy c v f"
    and copy: "\<And>h m. copy h m = (case c (get h) m of (t, m') \<Rightarrow> (put h t, m'))"
    and get: "\<And>h t. get (put h t) = t"
    and val: "\<And>m h. val m h = map_option (mk h) (v m (get h))"
    and mk: "\<And>h t. mk (put h t) = mk h"
    and foot: "\<And>m h. foot m h = f m (get h)"
  shows "deep_copy copy val foot"
proof (unfold_locales, goal_cases)
  case (1 h m y m')
  then show ?case
    by (auto simp: copy split: prod.splits intro: deep_copy.copy_extends [OF assms(1)])
next
  case (2 m h r y m')
  then show ?case
    by (auto simp: copy val get mk split: prod.splits dest: deep_copy.copy_val [OF assms(1)])
next
  case (3 m h r y m')
  then obtain t s where "c (get h) m = (t, m')" and "y = put h t" and "v m (get h) = Some s"
    by (auto simp: copy val split: prod.splits)
  then show ?case
    using deep_copy.copy_new [OF assms(1), of m "get h" s t m'] by (simp add: foot get)
next
  case (4 m h r)
  then show ?case
    using deep_copy.foot_old [OF assms(1)] by (auto simp: val foot)
next
  case (5 m h r m')
  then show ?case
    using deep_copy.local [OF assms(1), of m "get h" _ m'] by (auto simp: val foot)
qed

text \<open>The guard \<open>if in.X != nil\<close> around the copy of a pointer, slice or map.\<close>

definition ifNotNil :: "('x \<Rightarrow> 'c memory \<Rightarrow> 'x \<times> 'c memory) \<Rightarrow>
    'x option \<Rightarrow> 'c memory \<Rightarrow> 'x option \<times> 'c memory" where
  "ifNotNil c p m = (case p of None \<Rightarrow> (None, m) | Some x \<Rightarrow> (case c x m of (y, m') \<Rightarrow> (Some y, m')))"

definition nilOr :: "('c memory \<Rightarrow> 'x \<Rightarrow> 'v option) \<Rightarrow> 'c memory \<Rightarrow> 'x option \<Rightarrow> 'v option option" where
  "nilOr v m p = (case p of None \<Rightarrow> Some None | Some x \<Rightarrow> map_option Some (v m x))"

definition nilFoot :: "('c memory \<Rightarrow> 'x \<Rightarrow> addr set) \<Rightarrow> 'c memory \<Rightarrow> 'x option \<Rightarrow> addr set" where
  "nilFoot f m p = (case p of None \<Rightarrow> {} | Some x \<Rightarrow> f m x)"

lemma ifNotNil_eq:
  "ifNotNil c p m = (q, m') \<longleftrightarrow>
    (p = None \<and> q = None \<and> m' = m) \<or> (\<exists>x y. p = Some x \<and> c x m = (y, m') \<and> q = Some y)"
  by (cases p) (auto simp: ifNotNil_def split: prod.splits)

lemma nilOr_Some:
  "nilOr v m p = Some r \<longleftrightarrow> (p = None \<and> r = None) \<or> (\<exists>x w. p = Some x \<and> v m x = Some w \<and> r = Some w)"
  by (cases p) (auto simp: nilOr_def)

lemma deep_copy_nil:
  assumes deep: "deep_copy c v f"
  shows "deep_copy (ifNotNil c) (nilOr v) (nilFoot f)"
proof (unfold_locales, goal_cases)
  case (1 p m y m')
  then show ?case using deep_copy.copy_extends [OF deep] by (auto simp: ifNotNil_eq)
next
  case (2 m p r y m')
  then show ?case
    using deep_copy.copy_val [OF deep] unfolding ifNotNil_eq nilOr_Some by blast
next
  case (3 m p r y m')
  then consider "y = None" | x w x' where "v m x = Some w" "c x m = (x', m')" "y = Some x'"
    by (auto simp: ifNotNil_eq nilOr_Some)
  then show ?case
  proof cases
    case 2
    from deep_copy.copy_new [OF deep 2(1,2)] show ?thesis by (simp add: 2(3) nilFoot_def)
  qed (simp add: nilFoot_def)
next
  case (4 m p r)
  then show ?case
    using deep_copy.foot_old [OF deep] by (cases p) (force simp: nilOr_Some nilFoot_def)+
next
  case (5 m p r m')
  then show ?case
  proof (cases p)
    case (Some x)
    obtain w where w: "v m x = Some w" "r = Some w" using 5(1) by (auto simp: nilOr_Some Some)
    then show ?thesis
      using deep_copy.local [OF deep w(1), of m'] 5(2) by (simp add: nilOr_def nilFoot_def Some)
  qed (simp add: nilOr_def nilFoot_def)
qed

text \<open>
  What a reference \<open>r\<close> refers to: the cell at the address \<open>at r\<close>, read by \<open>load r\<close>. Its copy is a
  fresh reference to a new cell, which \<open>wrap\<close> makes of a copy of what was read. (Go takes the new
  cell first and fills it afterwards, which nothing here can tell apart: the copies in between do
  not read it.)
\<close>

definition deref :: "('r \<Rightarrow> addr) \<Rightarrow> ('r \<Rightarrow> 'c \<Rightarrow> 'x option) \<Rightarrow> 'c memory \<Rightarrow> 'r \<Rightarrow> 'x option" where
  "deref at load m r = Option.bind (lookup m (at r)) (load r)"

definition copyRef :: "('r \<Rightarrow> addr) \<Rightarrow> ('r \<Rightarrow> 'c \<Rightarrow> 'x option) \<Rightarrow> (addr \<Rightarrow> 'x \<Rightarrow> 'r) \<Rightarrow> ('x \<Rightarrow> 'c) \<Rightarrow>
    ('x \<Rightarrow> 'c memory \<Rightarrow> 'x \<times> 'c memory) \<Rightarrow> 'r \<Rightarrow> 'c memory \<Rightarrow> 'r \<times> 'c memory" where
  "copyRef at load fresh wrap c r m = (case deref at load m r of
      None \<Rightarrow> (r, m)
    | Some x \<Rightarrow> (case c x m of (y, m1) \<Rightarrow>
       case alloc (wrap y) m1 of (a, m') \<Rightarrow> (fresh a y, m')))"

definition refVal where
  "refVal at load v m r = Option.bind (deref at load m r) (v m)"

definition refFoot where
  "refFoot at load f m r =
    insert (at r) (case deref at load m r of None \<Rightarrow> {} | Some x \<Rightarrow> f m x)"

lemma copyRef_Some:
  "deref at load m r = Some x \<Longrightarrow> copyRef at load fresh wrap c r m = (s, m') \<Longrightarrow>
    \<exists>y m1 a. c x m = (y, m1) \<and> alloc (wrap y) m1 = (a, m') \<and> s = fresh a y"
  by (auto simp: copyRef_def split: prod.splits)

lemma refVal_Some:
  "refVal at load v m r = Some w \<Longrightarrow> \<exists>x. deref at load m r = Some x \<and> v m x = Some w"
  by (auto simp: refVal_def bind_eq_Some_conv)

lemma deep_copy_ref:
  assumes deep: "deep_copy c v f"
    and at: "\<And>a y. at (fresh a y) = a" and load: "\<And>a y. load (fresh a y) (wrap y) = Some y"
  shows "deep_copy (copyRef at load fresh wrap c) (refVal at load v) (refFoot at load f)"
proof (unfold_locales, goal_cases)
  case (1 r m s m')
  then show ?case
    by (cases "deref at load m r")
      (auto simp: copyRef_def split: prod.splits
        intro: extends_trans deep_copy.copy_extends [OF deep] alloc_extends)
next
  case (2 m r w s m')
  obtain x where x: "deref at load m r = Some x" "v m x = Some w" using refVal_Some [OF 2(1)] by auto
  obtain y m1 a where c: "c x m = (y, m1)" and a: "alloc (wrap y) m1 = (a, m')" and s: "s = fresh a y"
    using copyRef_Some [OF x(1) 2(2)] by auto
  have "v m' y = Some w"
    by (rule deep_copy.val_later [OF deep deep_copy.copy_val [OF deep x(2) c] alloc_extends [OF a]])
  moreover have "lookup m' a = Some (wrap y)" using alloc_new [OF a] by blast
  ultimately show ?case by (simp add: refVal_def deref_def s at load)
next
  case (3 m r w s m')
  obtain x where x: "deref at load m r = Some x" "v m x = Some w" using refVal_Some [OF 3(1)] by auto
  obtain y m1 a where c: "c x m = (y, m1)" and a: "alloc (wrap y) m1 = (a, m')" and s: "s = fresh a y"
    using copyRef_Some [OF x(1) 3(2)] by auto
  have "f m' y = f m1 y"
    by (rule deep_copy.foot_later [OF deep deep_copy.copy_val [OF deep x(2) c] alloc_extends [OF a]])
  then show ?case
    using alloc_new [OF a] deep_copy.copy_new [OF deep x(2) c]
      extends_limit [OF deep_copy.copy_extends [OF deep c]]
    by (fastforce simp: refFoot_def deref_def s at load)
next
  case (4 m r w)
  obtain x where x: "deref at load m r = Some x" "v m x = Some w" using refVal_Some [OF 4] by auto
  have "at r < limit m" using x(1) by (intro lookup_old) (auto simp: deref_def bind_eq_Some_conv)
  then show ?case using deep_copy.foot_old [OF deep x(2)] by (simp add: refFoot_def x(1))
next
  case (5 m r w m')
  obtain x where x: "deref at load m r = Some x" "v m x = Some w" using refVal_Some [OF 5(1)] by auto
  have same: "lookup m' a = lookup m a" if "a = at r \<or> a \<in> f m x" for a
    using 5(2) that by (auto simp: refFoot_def x(1))
  have "deref at load m' r = Some x" using x(1) by (simp add: deref_def same)
  then show ?case
    using deep_copy.local [OF deep x(2), of m'] same x by (simp add: refVal_def refFoot_def)
qed

text \<open>The elements of an array, in order.\<close>

primrec copyEach :: "('x \<Rightarrow> 'c memory \<Rightarrow> 'x \<times> 'c memory) \<Rightarrow> 'x list \<Rightarrow> 'c memory \<Rightarrow> 'x list \<times> 'c memory"
where
  "copyEach c [] m = ([], m)"
| "copyEach c (x # xs) m = (case c x m of (y, m1) \<Rightarrow> case copyEach c xs m1 of (ys, m2) \<Rightarrow> (y # ys, m2))"

primrec valEach :: "('c memory \<Rightarrow> 'x \<Rightarrow> 'v option) \<Rightarrow> 'c memory \<Rightarrow> 'x list \<Rightarrow> 'v list option" where
  "valEach v m [] = Some []"
| "valEach v m (x # xs) = map_option (\<lambda>(w, ws). w # ws) (both (v m x) (valEach v m xs))"

primrec footEach :: "('c memory \<Rightarrow> 'x \<Rightarrow> addr set) \<Rightarrow> 'c memory \<Rightarrow> 'x list \<Rightarrow> addr set" where
  "footEach f m [] = {}"
| "footEach f m (x # xs) = f m x \<union> footEach f m xs"

lemma footEach_UN: "footEach f m xs = (\<Union>x\<in>set xs. f m x)"
  by (induction xs) auto

lemma valEach_Some:
  "valEach v m xs = Some ws \<longleftrightarrow> list_all2 (\<lambda>x w. v m x = Some w) xs ws"
  by (induction xs arbitrary: ws) (auto simp: both_Some list_all2_Cons1)

lemma copyEach_copies:
  assumes "deep_copy c v f" and "list_all2 (\<lambda>x w. v m x = Some w) xs ws"
    and "copyEach c xs m = (ys, m')"
  shows "extends m m' \<and> list_all2 (\<lambda>y w. v m' y = Some w) ys ws \<and>
    footEach f m' ys \<subseteq> {limit m..<limit m'}"
  using assms(2,3)
proof (induction xs arbitrary: ws m ys)
  case (Cons x xs)
  obtain w us where ws: "ws = w # us" and w: "v m x = Some w"
    and us: "list_all2 (\<lambda>x w. v m x = Some w) xs us"
    using Cons.prems(1) by (auto simp: list_all2_Cons1)
  obtain y m1 zs where c: "c x m = (y, m1)" and cs: "copyEach c xs m1 = (zs, m')"
    and ys: "ys = y # zs"
    using Cons.prems(2) by (auto split: prod.splits)
  have e: "extends m m1" by (rule deep_copy.copy_extends [OF assms(1) c])
  have us': "list_all2 (\<lambda>x w. v m1 x = Some w) xs us"
    by (rule list_all2_mono [OF us]) (rule deep_copy.val_later [OF assms(1) _ e])
  note IH = Cons.IH [OF us' cs]
  have y: "v m1 y = Some w" by (rule deep_copy.copy_val [OF assms(1) w c])
  have "v m' y = Some w" and "f m' y = f m1 y"
    using deep_copy.later [OF assms(1) y, of m'] IH by blast+
  moreover have "f m1 y \<subseteq> {limit m..<limit m1}" by (rule deep_copy.copy_new [OF assms(1) w c])
  moreover have "limit m \<le> limit m1" "limit m1 \<le> limit m'" "extends m m'"
    using e IH extends_limit extends_trans by blast+
  ultimately show ?case
    using IH by (fastforce simp: ws ys)
qed simp

lemma deep_copy_each:
  assumes "deep_copy c v f"
  shows "deep_copy (copyEach c) (valEach v) (footEach f)"
proof (unfold_locales, goal_cases)
  case (1 xs m ys m')
  then show ?case
  proof (induction xs arbitrary: m ys)
    case (Cons x xs)
    then show ?case
      by (auto split: prod.splits intro: extends_trans deep_copy.copy_extends [OF assms])
  qed simp
next
  case (2 m xs ws ys m')
  then show ?case using copyEach_copies [OF assms] by (simp add: valEach_Some)
next
  case (3 m xs ws ys m')
  then show ?case using copyEach_copies [OF assms] by (simp add: valEach_Some)
next
  case (4 m xs ws)
  then show ?case
    by (induction xs arbitrary: ws)
      (auto simp: both_Some dest: deep_copy.foot_old [OF assms])
next
  case (5 m xs ws m')
  then show ?case
  proof (induction xs arbitrary: ws)
    case (Cons x xs)
    then show ?case
      using deep_copy.local [OF assms, of m x _ m'] by (auto simp: both_Some)
  qed simp
qed

section \<open>Pointers, slices and maps\<close>

text \<open>A pointer: \<open>*out = new(T); (*in).DeepCopyInto(*out)\<close>.\<close>

definition newCopy :: "('c \<Rightarrow> 'x option) \<Rightarrow> ('x \<Rightarrow> 'c) \<Rightarrow> ('x \<Rightarrow> 'c memory \<Rightarrow> 'x \<times> 'c memory) \<Rightarrow>
    addr \<Rightarrow> 'c memory \<Rightarrow> addr \<times> 'c memory" where
  "newCopy unwrap wrap = copyRef (\<lambda>a. a) (\<lambda>_. unwrap) (\<lambda>a _. a) wrap"

definition ptrVal where "ptrVal unwrap = refVal (\<lambda>a. a) (\<lambda>_. unwrap)"

definition ptrFoot where "ptrFoot unwrap = refFoot (\<lambda>a. a) (\<lambda>_. unwrap)"

lemma deep_copy_ptr:
  assumes "deep_copy c v f" and "\<And>x. unwrap (wrap x) = Some x"
  shows "deep_copy (newCopy unwrap wrap c) (ptrVal unwrap v) (ptrFoot unwrap f)"
  unfolding newCopy_def ptrVal_def ptrFoot_def by (rule deep_copy_ref) (use assms in simp_all)

text \<open>
  A slice is a window of an array. The copy
  \<open>*out = make([]T, len(*in)); for i := range *in { (*in)[i].DeepCopyInto(&(*out)[i]) }\<close>
  has an array of its own of just the window's length.
\<close>

record slice =
  array :: addr
  offset :: nat
  len :: nat

definition window :: "('c \<Rightarrow> 'x list option) \<Rightarrow> slice \<Rightarrow> 'c \<Rightarrow> 'x list option" where
  "window unwrap s c = (case unwrap c of
      None \<Rightarrow> None
    | Some xs \<Rightarrow> if offset s + len s \<le> length xs then Some (take (len s) (drop (offset s) xs)) else None)"

definition makeCopy :: "('c \<Rightarrow> 'x list option) \<Rightarrow> ('x list \<Rightarrow> 'c) \<Rightarrow>
    ('x \<Rightarrow> 'c memory \<Rightarrow> 'x \<times> 'c memory) \<Rightarrow> slice \<Rightarrow> 'c memory \<Rightarrow> slice \<times> 'c memory" where
  "makeCopy unwrap wrap c = copyRef array (window unwrap)
    (\<lambda>a ys. \<lparr>array = a, offset = 0, len = length ys\<rparr>) wrap (copyEach c)"

definition sliceVal where "sliceVal unwrap v = refVal array (window unwrap) (valEach v)"

definition sliceFoot where "sliceFoot unwrap f = refFoot array (window unwrap) (footEach f)"

lemma deep_copy_slice:
  assumes "deep_copy c v f" and "\<And>xs. unwrap (wrap xs) = Some xs"
  shows "deep_copy (makeCopy unwrap wrap c) (sliceVal unwrap v) (sliceFoot unwrap f)"
  unfolding makeCopy_def sliceVal_def sliceFoot_def
  by (rule deep_copy_ref) (use assms in \<open>simp_all add: deep_copy_each window_def\<close>)

text \<open>
  A map. \<open>for key, val := range *in { (*out)[key] = val.DeepCopy() }\<close>, the keys in some order.
\<close>

primrec rangeCopy :: "('x \<Rightarrow> 'c memory \<Rightarrow> 'x \<times> 'c memory) \<Rightarrow> (string, 'x) fmap \<Rightarrow> string list \<Rightarrow>
    (string, 'x) fmap \<Rightarrow> 'c memory \<Rightarrow> (string, 'x) fmap \<times> 'c memory" where
  "rangeCopy c src [] out m = (out, m)"
| "rangeCopy c src (key # keys) out m = (case fmlookup src key of
      None \<Rightarrow> rangeCopy c src keys out m
    | Some val \<Rightarrow> (case c val m of (val', m1) \<Rightarrow> rangeCopy c src keys (fmupd key val' out) m1))"

definition entriesCopy :: "('c memory \<Rightarrow> (string, 'x) fmap \<Rightarrow> string list) \<Rightarrow>
    ('x \<Rightarrow> 'c memory \<Rightarrow> 'x \<times> 'c memory) \<Rightarrow> (string, 'x) fmap \<Rightarrow> 'c memory \<Rightarrow>
    (string, 'x) fmap \<times> 'c memory" where
  "entriesCopy order c src m = rangeCopy c src (order m src) fmempty m"

definition entriesVal :: "('c memory \<Rightarrow> 'x \<Rightarrow> 'v option) \<Rightarrow> 'c memory \<Rightarrow> (string, 'x) fmap \<Rightarrow>
    (string, 'v) fmap option" where
  "entriesVal v m src = (if fmpred (\<lambda>_ x. v m x \<noteq> None) src
    then Some (fmmap (\<lambda>x. the (v m x)) src) else None)"

definition entriesFoot :: "('c memory \<Rightarrow> 'x \<Rightarrow> addr set) \<Rightarrow> 'c memory \<Rightarrow> (string, 'x) fmap \<Rightarrow> addr set" where
  "entriesFoot f m src = (\<Union>x\<in>fmran' src. f m x)"

lemma entriesVal_Some:
  "entriesVal v m src = Some w \<longleftrightarrow> fmdom' w = fmdom' src \<and>
    (\<forall>k x. fmlookup src k = Some x \<longrightarrow> (\<exists>z. fmlookup w k = Some z \<and> v m x = Some z))"
  (is "?l \<longleftrightarrow> ?r")
proof
  assume ?l
  then have all: "\<And>k x. fmlookup src k = Some x \<Longrightarrow> v m x \<noteq> None"
    and w: "w = fmmap (\<lambda>x. the (v m x)) src"
    by (auto simp: entriesVal_def fmpred_iff split: if_splits)
  show ?r using all by (auto simp: w)
next
  assume r: ?r
  have "fmpred (\<lambda>_ x. v m x \<noteq> None) src" using r unfolding fmpred_iff by blast
  moreover have "fmmap (\<lambda>x. the (v m x)) src = w"
  proof (rule fmap_ext)
    fix k show "fmlookup (fmmap (\<lambda>x. the (v m x)) src) k = fmlookup w k"
    proof (cases "fmlookup src k")
      case None
      then have "k \<notin> fmdom' w" using r by (simp add: fmlookup_dom'_iff)
      then show ?thesis using None by (simp add: fmlookup_dom'_iff)
    next
      case (Some x)
      with r obtain z where "fmlookup w k = Some z" and "v m x = Some z" by blast
      then show ?thesis using Some by simp
    qed
  qed
  ultimately show ?l by (simp add: entriesVal_def)
qed

lemma rangeCopy_extends:
  assumes "deep_copy c v f"
  shows "rangeCopy c src keys out m = (out', m') \<Longrightarrow> extends m m'"
  by (induction keys arbitrary: out m)
    (auto split: option.splits prod.splits intro: extends_trans deep_copy.copy_extends [OF assms])

text \<open>What the loop has copied so far: fresh cells with the values of the original's entries.\<close>

definition copied :: "('c memory \<Rightarrow> 'x \<Rightarrow> 'v option) \<Rightarrow> ('c memory \<Rightarrow> 'x \<Rightarrow> addr set) \<Rightarrow>
    (string, 'v) fmap \<Rightarrow> addr \<Rightarrow> 'c memory \<Rightarrow> (string, 'x) fmap \<Rightarrow> bool" where
  "copied v f w lo m out \<longleftrightarrow> (\<forall>k y. fmlookup out k = Some y \<longrightarrow>
    (\<exists>z. fmlookup w k = Some z \<and> v m y = Some z \<and> f m y \<subseteq> {lo..<limit m}))"

lemma copied_later:
  assumes deep: "deep_copy c v f" and "copied v f w lo m out" and e: "extends m m'"
  shows "copied v f w lo m' out"
  unfolding copied_def
proof (intro allI impI)
  fix k y assume "fmlookup out k = Some y"
  with assms(2) obtain z where z: "fmlookup w k = Some z" "v m y = Some z" "f m y \<subseteq> {lo..<limit m}"
    unfolding copied_def by blast
  then show "\<exists>z. fmlookup w k = Some z \<and> v m' y = Some z \<and> f m' y \<subseteq> {lo..<limit m'}"
    using deep_copy.later [OF deep z(2) e] extends_limit [OF e] by fastforce
qed

lemma rangeCopy_copies:
  assumes deep: "deep_copy c v f"
  shows "entriesVal v m src = Some w \<Longrightarrow> copied v f w lo m out \<Longrightarrow> lo \<le> limit m \<Longrightarrow>
    rangeCopy c src keys out m = (out', m') \<Longrightarrow>
    copied v f w lo m' out' \<and> fmdom' out' = fmdom' out \<union> (set keys \<inter> fmdom' src)"
proof (induction keys arbitrary: out m)
  case (Cons k keys)
  show ?case
  proof (cases "fmlookup src k")
    case None
    then show ?thesis using Cons.IH [OF Cons.prems(1-3)] Cons.prems(4)
      by (auto simp: fmlookup_dom'_iff)
  next
    case (Some x)
    from Cons.prems(4) obtain y m1 where c: "c x m = (y, m1)"
      and loop: "rangeCopy c src keys (fmupd k y out) m1 = (out', m')"
      by (auto simp: Some split: prod.splits)
    have e: "extends m m1" by (rule deep_copy.copy_extends [OF deep c])
    obtain z where z: "v m x = Some z" "fmlookup w k = Some z"
      using Cons.prems(1) Some unfolding entriesVal_Some by blast
    have 1: "entriesVal v m1 src = Some w"
      using Cons.prems(1) deep_copy.val_later [OF deep _ e] unfolding entriesVal_Some by blast
    have lo: "lo \<le> limit m1" using Cons.prems(3) extends_limit [OF e] by simp
    have "v m1 y = Some z" and "f m1 y \<subseteq> {lo..<limit m1}"
      using deep_copy.copy_val [OF deep z(1) c] deep_copy.copy_new [OF deep z(1) c] Cons.prems(3)
      by auto
    then have 2: "copied v f w lo m1 (fmupd k y out)"
      using copied_later [OF deep Cons.prems(2) e] z(2) by (auto simp: copied_def)
    show ?thesis using Cons.IH [OF 1 2 lo loop] Some by (auto simp: fmlookup_dom'_iff)
  qed
qed simp

lemma deep_copy_entries:
  assumes deep: "deep_copy c v f" and order: "\<And>m src. range_order src (order m src)"
  shows "deep_copy (entriesCopy order c) (entriesVal v) (entriesFoot f)"
proof (unfold_locales, goal_cases)
  case (1 src m out m')
  then show ?case by (simp add: entriesCopy_def rangeCopy_extends [OF deep])
next
  case (2 m src w out m')
  then have "copied v f w 0 m' out" and "fmdom' out = fmdom' src"
    using rangeCopy_copies [OF deep 2(1), of 0 fmempty "order m src" out m'] range_order_set [OF order]
    by (auto simp: entriesCopy_def copied_def)
  moreover have "fmdom' w = fmdom' src" using 2(1) by (simp add: entriesVal_Some)
  ultimately show ?case unfolding entriesVal_Some copied_def by blast
next
  case (3 m src w out m')
  then have "copied v f w (limit m) m' out"
    using rangeCopy_copies [OF deep 3(1), of "limit m" fmempty "order m src" out m']
    by (auto simp: entriesCopy_def copied_def)
  then show ?case by (fastforce simp: entriesFoot_def copied_def fmlookup_ran'_iff)
next
  case (4 m src w)
  then show ?case
    by (fastforce simp: entriesFoot_def entriesVal_Some fmlookup_ran'_iff
      dest: deep_copy.foot_old [OF deep])
next
  case (5 m src w m')
  have entry: "v m' x = v m x \<and> f m' x = f m x" if x: "fmlookup src k = Some x" for k x
  proof -
    obtain z where z: "v m x = Some z"
      using 5(1) x unfolding entriesVal_Some by blast
    show ?thesis
      using deep_copy.local [OF deep z, of m'] 5(2) x z
      by (fastforce simp: entriesFoot_def fmlookup_ran'_iff)
  qed
  then show ?case
    using 5(1) by (fastforce simp: entriesFoot_def entriesVal_Some fmlookup_ran'_iff)
qed

end
