(* ===== verification/Deep_Copy.thy ===== *)
theory Deep_Copy
  imports Memory Api_Types
begin

text \<open>
  \<open>api/v1alpha4/zz_generated.deepcopy.go\<close>, function by function, and the Go structs as they lie in
  memory: a pointer, slice or map field is a reference to a cell. \<open>x_DeepCopyInto\<close> gives the struct
  that \<open>in.DeepCopyInto(out)\<close> leaves in \<open>*out\<close> (each starts with \<open>*out = *in\<close>, so nothing of the old
  \<open>*out\<close> survives); \<open>x_DeepCopy\<close> takes and gives a pointer. What a struct denotes is the value of
  theory \<open>Api_Types\<close> that the controllers compute with.
\<close>

section \<open>The structs in memory\<close>

record TypeMeta =
  Kind :: string
  APIVersion :: string

record Mount_mem =
  mem_Name :: string
  mem_ContainerPath :: string
  mem_HostPath :: string
  mem_Type :: "addr option"

record KubemarkProcessOptions_mem =
  mem_ExtendedResources :: "addr option"

record KubemarkMachineSpec_mem =
  mem_ProviderID :: "addr option"
  mem_ExtraMounts :: "slice option"
  mem_KubemarkOptions :: KubemarkProcessOptions_mem
  mem_SecretRef :: "addr option"

record KubemarkMachineStatus_mem =
  mem_Ready :: bool
  mem_Conditions :: "slice option"

record 'meta KubemarkMachine_mem =
  mem_TypeMeta :: TypeMeta
  mem_ObjectMeta :: 'meta
  mem_Spec :: KubemarkMachineSpec_mem
  mem_Status :: KubemarkMachineStatus_mem

record KubemarkMachineTemplateResource_mem =
  mem_tr_Spec :: KubemarkMachineSpec_mem

record KubemarkMachineTemplateSpec_mem =
  mem_Template :: KubemarkMachineTemplateResource_mem

record KubemarkMachineTemplateStatus_mem =
  mem_Capacity :: "addr option"

record 'meta KubemarkMachineTemplate_mem =
  mem_kmt_TypeMeta :: TypeMeta
  mem_kmt_ObjectMeta :: 'meta
  mem_kmt_Spec :: KubemarkMachineTemplateSpec_mem
  mem_kmt_Status :: KubemarkMachineTemplateStatus_mem

record 'lmeta KubemarkMachineList_mem =
  mem_list_TypeMeta :: TypeMeta
  mem_ListMeta :: 'lmeta
  mem_Items :: "slice option"

record 'lmeta KubemarkMachineTemplateList_mem =
  mem_tlist_TypeMeta :: TypeMeta
  mem_tlist_ListMeta :: 'lmeta
  mem_tlist_Items :: "slice option"

text \<open>
  The cells. The third-party structs (\<open>resource.Quantity\<close>, \<open>Condition\<close>, \<open>ObjectMeta\<close>, \<open>ListMeta\<close>) are
  type parameters, and so is what their own pointers lead to.
\<close>

datatype ('q, 'cond, 'meta, 'lmeta, 'f) cell =
    is_String: StringCell (theString: string)
  | is_HostPathType: HostPathTypeCell (theHostPathType: string)
  | is_Reference: ReferenceCell (theReference: ObjectReference)
  | is_Resources: ResourcesCell (theResources: "(string, 'q) fmap")
  | is_Mounts: MountsCell (theMounts: "Mount_mem list")
  | is_Conditions: ConditionsCell (theConditions: "'cond list")
  | is_Machines: MachinesCell (theMachines: "'meta KubemarkMachine_mem list")
  | is_Templates: TemplatesCell (theTemplates: "'meta KubemarkMachineTemplate_mem list")
  | is_Mount: MountCell (theMount: Mount_mem)
  | is_Options: OptionsCell (theOptions: KubemarkProcessOptions_mem)
  | is_Spec: SpecCell (theSpec: KubemarkMachineSpec_mem)
  | is_Status: StatusCell (theStatus: KubemarkMachineStatus_mem)
  | is_Machine: MachineCell (theMachine: "'meta KubemarkMachine_mem")
  | is_MachineList: MachineListCell (theMachineList: "'lmeta KubemarkMachineList_mem")
  | is_TemplateResource: TemplateResourceCell (theTemplateResource: KubemarkMachineTemplateResource_mem)
  | is_TemplateSpec: TemplateSpecCell (theTemplateSpec: KubemarkMachineTemplateSpec_mem)
  | is_TemplateStatus: TemplateStatusCell (theTemplateStatus: KubemarkMachineTemplateStatus_mem)
  | is_Template: TemplateCell (theTemplate: "'meta KubemarkMachineTemplate_mem")
  | is_TemplateList: TemplateListCell (theTemplateList: "'lmeta KubemarkMachineTemplateList_mem")
  | is_Foreign: ForeignCell 'f

text \<open>Reading a cell of the wanted kind.\<close>

definition as :: "('c \<Rightarrow> bool) \<Rightarrow> ('c \<Rightarrow> 'x) \<Rightarrow> 'c \<Rightarrow> 'x option" where
  "as is sel c = (if is c then Some (sel c) else None)"

lemma as_simps [simp]: "is c \<Longrightarrow> as is sel c = Some (sel c)"
  by (simp add: as_def)

section \<open>Third-party code\<close>

text \<open>
  The deep copies of the third-party structs, and the order in which a \<open>range\<close> loop visits a map
  (which may be another one each time the loop runs, so it depends on the memory too).
\<close>

record ('c, 'q, 'cond, 'meta, 'lmeta) copiers =
  Quantity_DeepCopy :: "'q \<Rightarrow> 'c memory \<Rightarrow> 'q \<times> 'c memory"
  Condition_DeepCopyInto :: "'cond \<Rightarrow> 'c memory \<Rightarrow> 'cond \<times> 'c memory"
  ObjectMeta_DeepCopyInto :: "'meta \<Rightarrow> 'c memory \<Rightarrow> 'meta \<times> 'c memory"
  ListMeta_DeepCopyInto :: "'lmeta \<Rightarrow> 'c memory \<Rightarrow> 'lmeta \<times> 'c memory"
  rangeMap :: "'c memory \<Rightarrow> (string, 'q) fmap \<Rightarrow> string list"

text \<open>What the third-party structs denote, and the cells they reach.\<close>

record ('c, 'q, 'cond, 'meta, 'lmeta) readers =
  Quantity_val :: "'c memory \<Rightarrow> 'q \<Rightarrow> quantity option"
  Quantity_foot :: "'c memory \<Rightarrow> 'q \<Rightarrow> addr set"
  Condition_val :: "'c memory \<Rightarrow> 'cond \<Rightarrow> opaque option"
  Condition_foot :: "'c memory \<Rightarrow> 'cond \<Rightarrow> addr set"
  ObjectMeta_val :: "'c memory \<Rightarrow> 'meta \<Rightarrow> ObjectMeta option"
  ObjectMeta_foot :: "'c memory \<Rightarrow> 'meta \<Rightarrow> addr set"
  ListMeta_val :: "'c memory \<Rightarrow> 'lmeta \<Rightarrow> opaque option"
  ListMeta_foot :: "'c memory \<Rightarrow> 'lmeta \<Rightarrow> addr set"

text \<open>The contract of apimachinery and Cluster API: what they call a deep copy is one.\<close>

definition copiers_deep :: "('c, 'q, 'cond, 'meta, 'lmeta) copiers \<Rightarrow>
    ('c, 'q, 'cond, 'meta, 'lmeta) readers \<Rightarrow> bool" where
  "copiers_deep A R \<longleftrightarrow>
     deep_copy (Quantity_DeepCopy A) (Quantity_val R) (Quantity_foot R) \<and>
     deep_copy (Condition_DeepCopyInto A) (Condition_val R) (Condition_foot R) \<and>
     deep_copy (ObjectMeta_DeepCopyInto A) (ObjectMeta_val R) (ObjectMeta_foot R) \<and>
     deep_copy (ListMeta_DeepCopyInto A) (ListMeta_val R) (ListMeta_foot R) \<and>
     (\<forall>m src. range_order src (rangeMap A m src))"

lemma copiers_deepD:
  assumes "copiers_deep A R"
  shows "deep_copy (Quantity_DeepCopy A) (Quantity_val R) (Quantity_foot R)"
    and "deep_copy (Condition_DeepCopyInto A) (Condition_val R) (Condition_foot R)"
    and "deep_copy (ObjectMeta_DeepCopyInto A) (ObjectMeta_val R) (ObjectMeta_foot R)"
    and "deep_copy (ListMeta_DeepCopyInto A) (ListMeta_val R) (ListMeta_foot R)"
    and "range_order src (rangeMap A m src)"
  using assms by (auto simp: copiers_deep_def)

section \<open>Mount\<close>

type_synonym ('q, 'cond, 'meta, 'lmeta, 'f) heap = "('q, 'cond, 'meta, 'lmeta, 'f) cell memory"

type_synonym ('q, 'cond, 'meta, 'lmeta, 'f) apimachinery =
  "(('q, 'cond, 'meta, 'lmeta, 'f) cell, 'q, 'cond, 'meta, 'lmeta) copiers"

type_synonym ('q, 'cond, 'meta, 'lmeta, 'f) reading =
  "(('q, 'cond, 'meta, 'lmeta, 'f) cell, 'q, 'cond, 'meta, 'lmeta) readers"

definition Mount_DeepCopyInto ::
  "Mount_mem \<Rightarrow> ('q, 'cond, 'meta, 'lmeta, 'f) heap \<Rightarrow> Mount_mem \<times> ('q, 'cond, 'meta, 'lmeta, 'f) heap"
where
  "Mount_DeepCopyInto x m =
    (case ifNotNil (newCopy (as is_HostPathType theHostPathType) HostPathTypeCell assignCopy)
            (mem_Type x) m of
      (t, m1) \<Rightarrow> (x\<lparr>mem_Type := t\<rparr>, m1))"

definition Mount_DeepCopy ::
  "addr option \<Rightarrow> ('q, 'cond, 'meta, 'lmeta, 'f) heap \<Rightarrow> addr option \<times> ('q, 'cond, 'meta, 'lmeta, 'f) heap"
where
  "Mount_DeepCopy = ifNotNil (newCopy (as is_Mount theMount) MountCell Mount_DeepCopyInto)"

definition Mount_of :: "Mount_mem \<Rightarrow> string option \<Rightarrow> Mount" where
  "Mount_of x t =
    \<lparr>mount_Name = mem_Name x, ContainerPath = mem_ContainerPath x, HostPath = mem_HostPath x, mount_Type = t\<rparr>"

definition Mount_val :: "('q, 'cond, 'meta, 'lmeta, 'f) heap \<Rightarrow> Mount_mem \<Rightarrow> Mount option" where
  "Mount_val m x = map_option (Mount_of x)
    (nilOr (ptrVal (as is_HostPathType theHostPathType) (\<lambda>_. Some)) m (mem_Type x))"

definition Mount_foot :: "('q, 'cond, 'meta, 'lmeta, 'f) heap \<Rightarrow> Mount_mem \<Rightarrow> addr set" where
  "Mount_foot m x = nilFoot (ptrFoot (as is_HostPathType theHostPathType) (\<lambda>_ _. {})) m (mem_Type x)"

lemma deep_copy_Mount: "deep_copy Mount_DeepCopyInto Mount_val Mount_foot"
  by (rule deep_copy_struct [OF deep_copy_nil [OF deep_copy_ptr [OF deep_copy_assign]],
      where get = mem_Type and put = "\<lambda>x t. x\<lparr>mem_Type := t\<rparr>" and mk = Mount_of])
    (auto simp: Mount_DeepCopyInto_def Mount_val_def Mount_foot_def Mount_of_def)

interpretation mount: deep_copy Mount_DeepCopyInto Mount_val Mount_foot
  by (rule deep_copy_Mount)

section \<open>Pointers to plain values\<close>

lemma deep_copy_String:
  "deep_copy (newCopy (as is_String theString) StringCell assignCopy)
    (ptrVal (as is_String theString) (\<lambda>_. Some)) (ptrFoot (as is_String theString) (\<lambda>_ _. {}))"
  by (rule deep_copy_ptr [OF deep_copy_assign]) simp

lemma deep_copy_Reference:
  "deep_copy (newCopy (as is_Reference theReference) ReferenceCell assignCopy)
    (ptrVal (as is_Reference theReference) (\<lambda>_. Some)) (ptrFoot (as is_Reference theReference) (\<lambda>_ _. {}))"
  by (rule deep_copy_ptr [OF deep_copy_assign]) simp

section \<open>Maps of quantities\<close>

text \<open>A map that is not nil, \<open>make\<close> and the loop over its entries.\<close>

definition copyResources ::
  "('q, 'cond, 'meta, 'lmeta, 'f) apimachinery \<Rightarrow> addr \<Rightarrow>
    ('q, 'cond, 'meta, 'lmeta, 'f) heap \<Rightarrow> addr \<times> ('q, 'cond, 'meta, 'lmeta, 'f) heap"
where
  "copyResources A =
    newCopy (as is_Resources theResources) ResourcesCell (entriesCopy (rangeMap A) (Quantity_DeepCopy A))"

definition Resources_val where
  "Resources_val R = ptrVal (as is_Resources theResources) (entriesVal (Quantity_val R))"

definition Resources_foot where
  "Resources_foot R = ptrFoot (as is_Resources theResources) (entriesFoot (Quantity_foot R))"

lemma deep_copy_Resources:
  "copiers_deep A R \<Longrightarrow> deep_copy (copyResources A) (Resources_val R) (Resources_foot R)"
  unfolding copyResources_def Resources_val_def Resources_foot_def
  by (rule deep_copy_ptr [OF deep_copy_entries]) (simp_all add: copiers_deepD)

text \<open>
  The method of the map type itself makes an empty map of a nil one; only \<open>DeepCopy\<close> keeps nil.
\<close>

definition KubemarkExtendedResourceList_DeepCopyInto ::
  "('q, 'cond, 'meta, 'lmeta, 'f) apimachinery \<Rightarrow> addr option \<Rightarrow>
    ('q, 'cond, 'meta, 'lmeta, 'f) heap \<Rightarrow> addr option \<times> ('q, 'cond, 'meta, 'lmeta, 'f) heap"
where
  "KubemarkExtendedResourceList_DeepCopyInto A x m = (case x of
      None \<Rightarrow> (case alloc (ResourcesCell fmempty) m of (a, m') \<Rightarrow> (Some a, m'))
    | Some r \<Rightarrow> (case copyResources A r m of (a, m') \<Rightarrow> (Some a, m')))"

definition KubemarkExtendedResourceList_DeepCopy ::
  "('q, 'cond, 'meta, 'lmeta, 'f) apimachinery \<Rightarrow> addr option \<Rightarrow>
    ('q, 'cond, 'meta, 'lmeta, 'f) heap \<Rightarrow> addr option \<times> ('q, 'cond, 'meta, 'lmeta, 'f) heap"
where
  "KubemarkExtendedResourceList_DeepCopy A x m =
    (if x = None then (None, m) else KubemarkExtendedResourceList_DeepCopyInto A x m)"

lemma KubemarkExtendedResourceList_DeepCopy_nil:
  "KubemarkExtendedResourceList_DeepCopy A = ifNotNil (copyResources A)"
  by (intro ext) (simp add: KubemarkExtendedResourceList_DeepCopy_def
    KubemarkExtendedResourceList_DeepCopyInto_def ifNotNil_def split: option.split)

lemma deep_copy_ResourceList:
  "copiers_deep A R \<Longrightarrow> deep_copy (KubemarkExtendedResourceList_DeepCopy A)
    (nilOr (Resources_val R)) (nilFoot (Resources_foot R))"
  by (simp add: KubemarkExtendedResourceList_DeepCopy_nil deep_copy_nil deep_copy_Resources)

section \<open>KubemarkProcessOptions and KubemarkMachineTemplateStatus\<close>

definition KubemarkProcessOptions_DeepCopyInto ::
  "('q, 'cond, 'meta, 'lmeta, 'f) apimachinery \<Rightarrow> KubemarkProcessOptions_mem \<Rightarrow>
    ('q, 'cond, 'meta, 'lmeta, 'f) heap \<Rightarrow> KubemarkProcessOptions_mem \<times> ('q, 'cond, 'meta, 'lmeta, 'f) heap"
where
  "KubemarkProcessOptions_DeepCopyInto A x m =
    (case ifNotNil (copyResources A) (mem_ExtendedResources x) m of
      (r, m1) \<Rightarrow> (x\<lparr>mem_ExtendedResources := r\<rparr>, m1))"

definition KubemarkProcessOptions_DeepCopy ::
  "('q, 'cond, 'meta, 'lmeta, 'f) apimachinery \<Rightarrow> addr option \<Rightarrow>
    ('q, 'cond, 'meta, 'lmeta, 'f) heap \<Rightarrow> addr option \<times> ('q, 'cond, 'meta, 'lmeta, 'f) heap"
where
  "KubemarkProcessOptions_DeepCopy A = ifNotNil (newCopy (as is_Options theOptions) OptionsCell (KubemarkProcessOptions_DeepCopyInto A))"

definition KubemarkProcessOptions_of :: "KubemarkProcessOptions_mem \<Rightarrow> (string, quantity) gomap \<Rightarrow> KubemarkProcessOptions" where
  "KubemarkProcessOptions_of x = (\<lambda>r. \<lparr>ExtendedResources = r\<rparr>)"

definition KubemarkProcessOptions_val ::
  "('q, 'cond, 'meta, 'lmeta, 'f) reading \<Rightarrow> ('q, 'cond, 'meta, 'lmeta, 'f) heap \<Rightarrow> KubemarkProcessOptions_mem \<Rightarrow> KubemarkProcessOptions option"
where
  "KubemarkProcessOptions_val R m x = map_option (KubemarkProcessOptions_of x)
    (nilOr (Resources_val R) m (mem_ExtendedResources x))"

definition KubemarkProcessOptions_foot ::
  "('q, 'cond, 'meta, 'lmeta, 'f) reading \<Rightarrow> ('q, 'cond, 'meta, 'lmeta, 'f) heap \<Rightarrow> KubemarkProcessOptions_mem \<Rightarrow> addr set"
where
  "KubemarkProcessOptions_foot R m x = nilFoot (Resources_foot R) m (mem_ExtendedResources x)"

lemma deep_copy_KubemarkProcessOptions:
  assumes "copiers_deep A R"
  shows "deep_copy (KubemarkProcessOptions_DeepCopyInto A) (KubemarkProcessOptions_val R) (KubemarkProcessOptions_foot R)"
  by (rule deep_copy_struct [OF deep_copy_nil [OF deep_copy_Resources [OF assms]],
      where get = "mem_ExtendedResources" and put = "\<lambda>x r. x\<lparr>mem_ExtendedResources := r\<rparr>" and mk = KubemarkProcessOptions_of])
    (auto simp: KubemarkProcessOptions_DeepCopyInto_def KubemarkProcessOptions_val_def KubemarkProcessOptions_foot_def KubemarkProcessOptions_of_def
      copyPair_def split: prod.split)

definition KubemarkMachineTemplateStatus_DeepCopyInto ::
  "('q, 'cond, 'meta, 'lmeta, 'f) apimachinery \<Rightarrow> KubemarkMachineTemplateStatus_mem \<Rightarrow>
    ('q, 'cond, 'meta, 'lmeta, 'f) heap \<Rightarrow> KubemarkMachineTemplateStatus_mem \<times> ('q, 'cond, 'meta, 'lmeta, 'f) heap"
where
  "KubemarkMachineTemplateStatus_DeepCopyInto A x m =
    (case ifNotNil (copyResources A) (mem_Capacity x) m of
      (r, m1) \<Rightarrow> (x\<lparr>mem_Capacity := r\<rparr>, m1))"

definition KubemarkMachineTemplateStatus_DeepCopy ::
  "('q, 'cond, 'meta, 'lmeta, 'f) apimachinery \<Rightarrow> addr option \<Rightarrow>
    ('q, 'cond, 'meta, 'lmeta, 'f) heap \<Rightarrow> addr option \<times> ('q, 'cond, 'meta, 'lmeta, 'f) heap"
where
  "KubemarkMachineTemplateStatus_DeepCopy A = ifNotNil (newCopy (as is_TemplateStatus theTemplateStatus) TemplateStatusCell (KubemarkMachineTemplateStatus_DeepCopyInto A))"

definition KubemarkMachineTemplateStatus_of :: "KubemarkMachineTemplateStatus_mem \<Rightarrow> (string, quantity) gomap \<Rightarrow> KubemarkMachineTemplateStatus" where
  "KubemarkMachineTemplateStatus_of x = (\<lambda>r. \<lparr>Capacity = r\<rparr>)"

definition KubemarkMachineTemplateStatus_val ::
  "('q, 'cond, 'meta, 'lmeta, 'f) reading \<Rightarrow> ('q, 'cond, 'meta, 'lmeta, 'f) heap \<Rightarrow> KubemarkMachineTemplateStatus_mem \<Rightarrow> KubemarkMachineTemplateStatus option"
where
  "KubemarkMachineTemplateStatus_val R m x = map_option (KubemarkMachineTemplateStatus_of x)
    (nilOr (Resources_val R) m (mem_Capacity x))"

definition KubemarkMachineTemplateStatus_foot ::
  "('q, 'cond, 'meta, 'lmeta, 'f) reading \<Rightarrow> ('q, 'cond, 'meta, 'lmeta, 'f) heap \<Rightarrow> KubemarkMachineTemplateStatus_mem \<Rightarrow> addr set"
where
  "KubemarkMachineTemplateStatus_foot R m x = nilFoot (Resources_foot R) m (mem_Capacity x)"

lemma deep_copy_KubemarkMachineTemplateStatus:
  assumes "copiers_deep A R"
  shows "deep_copy (KubemarkMachineTemplateStatus_DeepCopyInto A) (KubemarkMachineTemplateStatus_val R) (KubemarkMachineTemplateStatus_foot R)"
  by (rule deep_copy_struct [OF deep_copy_nil [OF deep_copy_Resources [OF assms]],
      where get = "mem_Capacity" and put = "\<lambda>x r. x\<lparr>mem_Capacity := r\<rparr>" and mk = KubemarkMachineTemplateStatus_of])
    (auto simp: KubemarkMachineTemplateStatus_DeepCopyInto_def KubemarkMachineTemplateStatus_val_def KubemarkMachineTemplateStatus_foot_def KubemarkMachineTemplateStatus_of_def
      copyPair_def split: prod.split)

section \<open>KubemarkMachineSpec and KubemarkMachineStatus\<close>

text \<open>A nil slice and an empty one are the same list of elements.\<close>

definition elements :: "'x list option \<Rightarrow> 'x list" where
  "elements s = (case s of None \<Rightarrow> [] | Some xs \<Rightarrow> xs)"

definition KubemarkMachineSpec_DeepCopyInto ::
  "('q, 'cond, 'meta, 'lmeta, 'f) apimachinery \<Rightarrow> KubemarkMachineSpec_mem \<Rightarrow>
    ('q, 'cond, 'meta, 'lmeta, 'f) heap \<Rightarrow> KubemarkMachineSpec_mem \<times> ('q, 'cond, 'meta, 'lmeta, 'f) heap"
where
  "KubemarkMachineSpec_DeepCopyInto A x m =
    (case ifNotNil (newCopy (as is_String theString) StringCell assignCopy) (mem_ProviderID x) m of
      (p, m1) \<Rightarrow>
    case ifNotNil (makeCopy (as is_Mounts theMounts) MountsCell Mount_DeepCopyInto)
           (mem_ExtraMounts x) m1 of
      (ms, m2) \<Rightarrow>
    case KubemarkProcessOptions_DeepCopyInto A (mem_KubemarkOptions x) m2 of
      (opts, m3) \<Rightarrow>
    case ifNotNil (newCopy (as is_Reference theReference) ReferenceCell assignCopy)
           (mem_SecretRef x) m3 of
      (r, m4) \<Rightarrow>
    (x\<lparr>mem_ProviderID := p, mem_ExtraMounts := ms, mem_KubemarkOptions := opts, mem_SecretRef := r\<rparr>,
      m4))"

definition KubemarkMachineSpec_DeepCopy ::
  "('q, 'cond, 'meta, 'lmeta, 'f) apimachinery \<Rightarrow> addr option \<Rightarrow>
    ('q, 'cond, 'meta, 'lmeta, 'f) heap \<Rightarrow> addr option \<times> ('q, 'cond, 'meta, 'lmeta, 'f) heap"
where
  "KubemarkMachineSpec_DeepCopy A = ifNotNil (newCopy (as is_Spec theSpec) SpecCell (KubemarkMachineSpec_DeepCopyInto A))"

definition KubemarkMachineSpec_of :: "KubemarkMachineSpec_mem \<Rightarrow> string option \<times> Mount list option \<times> KubemarkProcessOptions \<times> ObjectReference option \<Rightarrow> KubemarkMachineSpec" where
  "KubemarkMachineSpec_of x = (\<lambda>(p, ms, opts, r).
    \<lparr>ProviderID = p, ExtraMounts = elements ms, KubemarkOptions = opts,
      KubemarkHollowPodClusterSecretRef = r\<rparr>)"

definition KubemarkMachineSpec_val ::
  "('q, 'cond, 'meta, 'lmeta, 'f) reading \<Rightarrow> ('q, 'cond, 'meta, 'lmeta, 'f) heap \<Rightarrow> KubemarkMachineSpec_mem \<Rightarrow> KubemarkMachineSpec option"
where
  "KubemarkMachineSpec_val R m x = map_option (KubemarkMachineSpec_of x)
    (both (nilOr (ptrVal (as is_String theString) (\<lambda>_. Some)) m (mem_ProviderID x))
    (both (nilOr (sliceVal (as is_Mounts theMounts) Mount_val) m (mem_ExtraMounts x))
    (both (KubemarkProcessOptions_val R m (mem_KubemarkOptions x))
          (nilOr (ptrVal (as is_Reference theReference) (\<lambda>_. Some)) m (mem_SecretRef x)))))"

definition KubemarkMachineSpec_foot ::
  "('q, 'cond, 'meta, 'lmeta, 'f) reading \<Rightarrow> ('q, 'cond, 'meta, 'lmeta, 'f) heap \<Rightarrow> KubemarkMachineSpec_mem \<Rightarrow> addr set"
where
  "KubemarkMachineSpec_foot R m x = 
    nilFoot (ptrFoot (as is_String theString) (\<lambda>_ _. {})) m (mem_ProviderID x) \<union>
    (nilFoot (sliceFoot (as is_Mounts theMounts) Mount_foot) m (mem_ExtraMounts x) \<union>
    (KubemarkProcessOptions_foot R m (mem_KubemarkOptions x) \<union>
     nilFoot (ptrFoot (as is_Reference theReference) (\<lambda>_ _. {})) m (mem_SecretRef x)))"

lemma deep_copy_KubemarkMachineSpec:
  assumes "copiers_deep A R"
  shows "deep_copy (KubemarkMachineSpec_DeepCopyInto A) (KubemarkMachineSpec_val R) (KubemarkMachineSpec_foot R)"
  by (rule deep_copy_struct [OF deep_copy_pair
        [OF deep_copy_nil [OF deep_copy_String] deep_copy_pair
        [OF deep_copy_nil [OF deep_copy_slice [where wrap = MountsCell, OF deep_copy_Mount]] deep_copy_pair
        [OF deep_copy_KubemarkProcessOptions [OF assms]
            deep_copy_nil [OF deep_copy_Reference]]]],
      where get = "\<lambda>x. (mem_ProviderID x, mem_ExtraMounts x, mem_KubemarkOptions x, mem_SecretRef x)" and put = "\<lambda>x (p, ms, opts, r).
        x\<lparr>mem_ProviderID := p, mem_ExtraMounts := ms, mem_KubemarkOptions := opts, mem_SecretRef := r\<rparr>" and mk = KubemarkMachineSpec_of])
    (auto simp: KubemarkMachineSpec_DeepCopyInto_def KubemarkMachineSpec_val_def KubemarkMachineSpec_foot_def KubemarkMachineSpec_of_def
      copyPair_def split: prod.split)

definition KubemarkMachineStatus_DeepCopyInto ::
  "('q, 'cond, 'meta, 'lmeta, 'f) apimachinery \<Rightarrow> KubemarkMachineStatus_mem \<Rightarrow>
    ('q, 'cond, 'meta, 'lmeta, 'f) heap \<Rightarrow> KubemarkMachineStatus_mem \<times> ('q, 'cond, 'meta, 'lmeta, 'f) heap"
where
  "KubemarkMachineStatus_DeepCopyInto A x m =
    (case ifNotNil (makeCopy (as is_Conditions theConditions) ConditionsCell (Condition_DeepCopyInto A))
            (mem_Conditions x) m of
      (cs, m1) \<Rightarrow> (x\<lparr>mem_Conditions := cs\<rparr>, m1))"

definition KubemarkMachineStatus_DeepCopy ::
  "('q, 'cond, 'meta, 'lmeta, 'f) apimachinery \<Rightarrow> addr option \<Rightarrow>
    ('q, 'cond, 'meta, 'lmeta, 'f) heap \<Rightarrow> addr option \<times> ('q, 'cond, 'meta, 'lmeta, 'f) heap"
where
  "KubemarkMachineStatus_DeepCopy A = ifNotNil (newCopy (as is_Status theStatus) StatusCell (KubemarkMachineStatus_DeepCopyInto A))"

definition KubemarkMachineStatus_of :: "KubemarkMachineStatus_mem \<Rightarrow> opaque list option \<Rightarrow> KubemarkMachineStatus" where
  "KubemarkMachineStatus_of x = (\<lambda>cs. \<lparr>Ready = mem_Ready x, Conditions = elements cs\<rparr>)"

definition KubemarkMachineStatus_val ::
  "('q, 'cond, 'meta, 'lmeta, 'f) reading \<Rightarrow> ('q, 'cond, 'meta, 'lmeta, 'f) heap \<Rightarrow> KubemarkMachineStatus_mem \<Rightarrow> KubemarkMachineStatus option"
where
  "KubemarkMachineStatus_val R m x = map_option (KubemarkMachineStatus_of x)
    (nilOr (sliceVal (as is_Conditions theConditions) (Condition_val R)) m (mem_Conditions x))"

definition KubemarkMachineStatus_foot ::
  "('q, 'cond, 'meta, 'lmeta, 'f) reading \<Rightarrow> ('q, 'cond, 'meta, 'lmeta, 'f) heap \<Rightarrow> KubemarkMachineStatus_mem \<Rightarrow> addr set"
where
  "KubemarkMachineStatus_foot R m x = 
    nilFoot (sliceFoot (as is_Conditions theConditions) (Condition_foot R)) m (mem_Conditions x)"

lemma deep_copy_KubemarkMachineStatus:
  assumes "copiers_deep A R"
  shows "deep_copy (KubemarkMachineStatus_DeepCopyInto A) (KubemarkMachineStatus_val R) (KubemarkMachineStatus_foot R)"
  by (rule deep_copy_struct [OF deep_copy_nil [OF deep_copy_slice [where wrap = ConditionsCell, OF copiers_deepD(2) [OF assms]]],
      where get = "mem_Conditions" and put = "\<lambda>x cs. x\<lparr>mem_Conditions := cs\<rparr>" and mk = KubemarkMachineStatus_of])
    (auto simp: KubemarkMachineStatus_DeepCopyInto_def KubemarkMachineStatus_val_def KubemarkMachineStatus_foot_def KubemarkMachineStatus_of_def
      copyPair_def split: prod.split)

section \<open>KubemarkMachine\<close>

definition KubemarkMachine_DeepCopyInto ::
  "('q, 'cond, 'meta, 'lmeta, 'f) apimachinery \<Rightarrow> 'meta KubemarkMachine_mem \<Rightarrow>
    ('q, 'cond, 'meta, 'lmeta, 'f) heap \<Rightarrow> 'meta KubemarkMachine_mem \<times> ('q, 'cond, 'meta, 'lmeta, 'f) heap"
where
  "KubemarkMachine_DeepCopyInto A x m =
    (let out = x\<lparr>mem_TypeMeta := mem_TypeMeta x\<rparr> in
    case ObjectMeta_DeepCopyInto A (mem_ObjectMeta x) m of
      (meta, m1) \<Rightarrow>
    case KubemarkMachineSpec_DeepCopyInto A (mem_Spec x) m1 of
      (spec, m2) \<Rightarrow>
    case KubemarkMachineStatus_DeepCopyInto A (mem_Status x) m2 of
      (status, m3) \<Rightarrow>
    (out\<lparr>mem_ObjectMeta := meta, mem_Spec := spec, mem_Status := status\<rparr>, m3))"

definition KubemarkMachine_DeepCopy ::
  "('q, 'cond, 'meta, 'lmeta, 'f) apimachinery \<Rightarrow> addr option \<Rightarrow>
    ('q, 'cond, 'meta, 'lmeta, 'f) heap \<Rightarrow> addr option \<times> ('q, 'cond, 'meta, 'lmeta, 'f) heap"
where
  "KubemarkMachine_DeepCopy A = ifNotNil (newCopy (as is_Machine theMachine) MachineCell (KubemarkMachine_DeepCopyInto A))"

definition KubemarkMachine_of :: "'meta KubemarkMachine_mem \<Rightarrow> ObjectMeta \<times> KubemarkMachineSpec \<times> KubemarkMachineStatus \<Rightarrow> TypeMeta \<times> KubemarkMachine" where
  "KubemarkMachine_of x = (\<lambda>(meta, spec, status).
    (mem_TypeMeta x, \<lparr>km_ObjectMeta = meta, km_Spec = spec, km_Status = status\<rparr>))"

definition KubemarkMachine_val ::
  "('q, 'cond, 'meta, 'lmeta, 'f) reading \<Rightarrow> ('q, 'cond, 'meta, 'lmeta, 'f) heap \<Rightarrow> 'meta KubemarkMachine_mem \<Rightarrow> (TypeMeta \<times> KubemarkMachine) option"
where
  "KubemarkMachine_val R m x = map_option (KubemarkMachine_of x)
    (both (ObjectMeta_val R m (mem_ObjectMeta x))
    (both (KubemarkMachineSpec_val R m (mem_Spec x)) (KubemarkMachineStatus_val R m (mem_Status x))))"

definition KubemarkMachine_foot ::
  "('q, 'cond, 'meta, 'lmeta, 'f) reading \<Rightarrow> ('q, 'cond, 'meta, 'lmeta, 'f) heap \<Rightarrow> 'meta KubemarkMachine_mem \<Rightarrow> addr set"
where
  "KubemarkMachine_foot R m x = ObjectMeta_foot R m (mem_ObjectMeta x) \<union>
    (KubemarkMachineSpec_foot R m (mem_Spec x) \<union> KubemarkMachineStatus_foot R m (mem_Status x))"

lemma deep_copy_KubemarkMachine:
  assumes "copiers_deep A R"
  shows "deep_copy (KubemarkMachine_DeepCopyInto A) (KubemarkMachine_val R) (KubemarkMachine_foot R)"
  by (rule deep_copy_struct [OF deep_copy_pair [OF copiers_deepD(3) [OF assms]
        deep_copy_pair [OF deep_copy_KubemarkMachineSpec [OF assms] deep_copy_KubemarkMachineStatus [OF assms]]],
      where get = "\<lambda>x. (mem_ObjectMeta x, mem_Spec x, mem_Status x)" and put = "\<lambda>x (meta, spec, status). x\<lparr>mem_ObjectMeta := meta, mem_Spec := spec, mem_Status := status\<rparr>" and mk = KubemarkMachine_of])
    (auto simp: KubemarkMachine_DeepCopyInto_def KubemarkMachine_val_def KubemarkMachine_foot_def KubemarkMachine_of_def
      copyPair_def split: prod.split)

lemma deep_copy_KubemarkMachinePtr:
  "copiers_deep A R \<Longrightarrow> deep_copy (KubemarkMachine_DeepCopy A)
    (nilOr (ptrVal (as is_Machine theMachine) (KubemarkMachine_val R))) (nilFoot (ptrFoot (as is_Machine theMachine) (KubemarkMachine_foot R)))"
  unfolding KubemarkMachine_DeepCopy_def
  by (rule deep_copy_nil [OF deep_copy_ptr [OF deep_copy_KubemarkMachine]]) simp_all

section \<open>KubemarkMachineTemplate\<close>

definition KubemarkMachineTemplateResource_DeepCopyInto ::
  "('q, 'cond, 'meta, 'lmeta, 'f) apimachinery \<Rightarrow> KubemarkMachineTemplateResource_mem \<Rightarrow>
    ('q, 'cond, 'meta, 'lmeta, 'f) heap \<Rightarrow> KubemarkMachineTemplateResource_mem \<times> ('q, 'cond, 'meta, 'lmeta, 'f) heap"
where
  "KubemarkMachineTemplateResource_DeepCopyInto A x m =
    (case KubemarkMachineSpec_DeepCopyInto A (mem_tr_Spec x) m of
      (spec, m1) \<Rightarrow> (x\<lparr>mem_tr_Spec := spec\<rparr>, m1))"

definition KubemarkMachineTemplateResource_DeepCopy ::
  "('q, 'cond, 'meta, 'lmeta, 'f) apimachinery \<Rightarrow> addr option \<Rightarrow>
    ('q, 'cond, 'meta, 'lmeta, 'f) heap \<Rightarrow> addr option \<times> ('q, 'cond, 'meta, 'lmeta, 'f) heap"
where
  "KubemarkMachineTemplateResource_DeepCopy A = ifNotNil (newCopy (as is_TemplateResource theTemplateResource) TemplateResourceCell (KubemarkMachineTemplateResource_DeepCopyInto A))"

definition KubemarkMachineTemplateResource_of :: "KubemarkMachineTemplateResource_mem \<Rightarrow> KubemarkMachineSpec \<Rightarrow> KubemarkMachineTemplateResource" where
  "KubemarkMachineTemplateResource_of x = (\<lambda>spec. \<lparr>tr_Spec = spec\<rparr>)"

definition KubemarkMachineTemplateResource_val ::
  "('q, 'cond, 'meta, 'lmeta, 'f) reading \<Rightarrow> ('q, 'cond, 'meta, 'lmeta, 'f) heap \<Rightarrow> KubemarkMachineTemplateResource_mem \<Rightarrow> KubemarkMachineTemplateResource option"
where
  "KubemarkMachineTemplateResource_val R m x = map_option (KubemarkMachineTemplateResource_of x)
    (KubemarkMachineSpec_val R m (mem_tr_Spec x))"

definition KubemarkMachineTemplateResource_foot ::
  "('q, 'cond, 'meta, 'lmeta, 'f) reading \<Rightarrow> ('q, 'cond, 'meta, 'lmeta, 'f) heap \<Rightarrow> KubemarkMachineTemplateResource_mem \<Rightarrow> addr set"
where
  "KubemarkMachineTemplateResource_foot R m x = KubemarkMachineSpec_foot R m (mem_tr_Spec x)"

lemma deep_copy_KubemarkMachineTemplateResource:
  assumes "copiers_deep A R"
  shows "deep_copy (KubemarkMachineTemplateResource_DeepCopyInto A) (KubemarkMachineTemplateResource_val R) (KubemarkMachineTemplateResource_foot R)"
  by (rule deep_copy_struct [OF deep_copy_KubemarkMachineSpec [OF assms],
      where get = "mem_tr_Spec" and put = "\<lambda>x spec. x\<lparr>mem_tr_Spec := spec\<rparr>" and mk = KubemarkMachineTemplateResource_of])
    (auto simp: KubemarkMachineTemplateResource_DeepCopyInto_def KubemarkMachineTemplateResource_val_def KubemarkMachineTemplateResource_foot_def KubemarkMachineTemplateResource_of_def
      copyPair_def split: prod.split)

definition KubemarkMachineTemplateSpec_DeepCopyInto ::
  "('q, 'cond, 'meta, 'lmeta, 'f) apimachinery \<Rightarrow> KubemarkMachineTemplateSpec_mem \<Rightarrow>
    ('q, 'cond, 'meta, 'lmeta, 'f) heap \<Rightarrow> KubemarkMachineTemplateSpec_mem \<times> ('q, 'cond, 'meta, 'lmeta, 'f) heap"
where
  "KubemarkMachineTemplateSpec_DeepCopyInto A x m =
    (case KubemarkMachineTemplateResource_DeepCopyInto A (mem_Template x) m of
      (template, m1) \<Rightarrow> (x\<lparr>mem_Template := template\<rparr>, m1))"

definition KubemarkMachineTemplateSpec_DeepCopy ::
  "('q, 'cond, 'meta, 'lmeta, 'f) apimachinery \<Rightarrow> addr option \<Rightarrow>
    ('q, 'cond, 'meta, 'lmeta, 'f) heap \<Rightarrow> addr option \<times> ('q, 'cond, 'meta, 'lmeta, 'f) heap"
where
  "KubemarkMachineTemplateSpec_DeepCopy A = ifNotNil (newCopy (as is_TemplateSpec theTemplateSpec) TemplateSpecCell (KubemarkMachineTemplateSpec_DeepCopyInto A))"

definition KubemarkMachineTemplateSpec_of :: "KubemarkMachineTemplateSpec_mem \<Rightarrow> KubemarkMachineTemplateResource \<Rightarrow> KubemarkMachineTemplateSpec" where
  "KubemarkMachineTemplateSpec_of x = (\<lambda>t. \<lparr>Template = t\<rparr>)"

definition KubemarkMachineTemplateSpec_val ::
  "('q, 'cond, 'meta, 'lmeta, 'f) reading \<Rightarrow> ('q, 'cond, 'meta, 'lmeta, 'f) heap \<Rightarrow> KubemarkMachineTemplateSpec_mem \<Rightarrow> KubemarkMachineTemplateSpec option"
where
  "KubemarkMachineTemplateSpec_val R m x = map_option (KubemarkMachineTemplateSpec_of x)
    (KubemarkMachineTemplateResource_val R m (mem_Template x))"

definition KubemarkMachineTemplateSpec_foot ::
  "('q, 'cond, 'meta, 'lmeta, 'f) reading \<Rightarrow> ('q, 'cond, 'meta, 'lmeta, 'f) heap \<Rightarrow> KubemarkMachineTemplateSpec_mem \<Rightarrow> addr set"
where
  "KubemarkMachineTemplateSpec_foot R m x = KubemarkMachineTemplateResource_foot R m (mem_Template x)"

lemma deep_copy_KubemarkMachineTemplateSpec:
  assumes "copiers_deep A R"
  shows "deep_copy (KubemarkMachineTemplateSpec_DeepCopyInto A) (KubemarkMachineTemplateSpec_val R) (KubemarkMachineTemplateSpec_foot R)"
  by (rule deep_copy_struct [OF deep_copy_KubemarkMachineTemplateResource [OF assms],
      where get = "mem_Template" and put = "\<lambda>x t. x\<lparr>mem_Template := t\<rparr>" and mk = KubemarkMachineTemplateSpec_of])
    (auto simp: KubemarkMachineTemplateSpec_DeepCopyInto_def KubemarkMachineTemplateSpec_val_def KubemarkMachineTemplateSpec_foot_def KubemarkMachineTemplateSpec_of_def
      copyPair_def split: prod.split)

definition KubemarkMachineTemplate_DeepCopyInto ::
  "('q, 'cond, 'meta, 'lmeta, 'f) apimachinery \<Rightarrow> 'meta KubemarkMachineTemplate_mem \<Rightarrow>
    ('q, 'cond, 'meta, 'lmeta, 'f) heap \<Rightarrow> 'meta KubemarkMachineTemplate_mem \<times> ('q, 'cond, 'meta, 'lmeta, 'f) heap"
where
  "KubemarkMachineTemplate_DeepCopyInto A x m =
    (let out = x\<lparr>mem_kmt_TypeMeta := mem_kmt_TypeMeta x\<rparr> in
    case ObjectMeta_DeepCopyInto A (mem_kmt_ObjectMeta x) m of
      (meta, m1) \<Rightarrow>
    case KubemarkMachineTemplateSpec_DeepCopyInto A (mem_kmt_Spec x) m1 of
      (spec, m2) \<Rightarrow>
    case KubemarkMachineTemplateStatus_DeepCopyInto A (mem_kmt_Status x) m2 of
      (status, m3) \<Rightarrow>
    (out\<lparr>mem_kmt_ObjectMeta := meta, mem_kmt_Spec := spec, mem_kmt_Status := status\<rparr>, m3))"

definition KubemarkMachineTemplate_DeepCopy ::
  "('q, 'cond, 'meta, 'lmeta, 'f) apimachinery \<Rightarrow> addr option \<Rightarrow>
    ('q, 'cond, 'meta, 'lmeta, 'f) heap \<Rightarrow> addr option \<times> ('q, 'cond, 'meta, 'lmeta, 'f) heap"
where
  "KubemarkMachineTemplate_DeepCopy A = ifNotNil (newCopy (as is_Template theTemplate) TemplateCell (KubemarkMachineTemplate_DeepCopyInto A))"

definition KubemarkMachineTemplate_of :: "'meta KubemarkMachineTemplate_mem \<Rightarrow> ObjectMeta \<times> KubemarkMachineTemplateSpec \<times> KubemarkMachineTemplateStatus \<Rightarrow> TypeMeta \<times> KubemarkMachineTemplate" where
  "KubemarkMachineTemplate_of x = (\<lambda>(meta, spec, status).
    (mem_kmt_TypeMeta x, \<lparr>kmt_ObjectMeta = meta, kmt_Spec = spec, kmt_Status = status\<rparr>))"

definition KubemarkMachineTemplate_val ::
  "('q, 'cond, 'meta, 'lmeta, 'f) reading \<Rightarrow> ('q, 'cond, 'meta, 'lmeta, 'f) heap \<Rightarrow> 'meta KubemarkMachineTemplate_mem \<Rightarrow> (TypeMeta \<times> KubemarkMachineTemplate) option"
where
  "KubemarkMachineTemplate_val R m x = map_option (KubemarkMachineTemplate_of x)
    (both (ObjectMeta_val R m (mem_kmt_ObjectMeta x))
    (both (KubemarkMachineTemplateSpec_val R m (mem_kmt_Spec x))
          (KubemarkMachineTemplateStatus_val R m (mem_kmt_Status x))))"

definition KubemarkMachineTemplate_foot ::
  "('q, 'cond, 'meta, 'lmeta, 'f) reading \<Rightarrow> ('q, 'cond, 'meta, 'lmeta, 'f) heap \<Rightarrow> 'meta KubemarkMachineTemplate_mem \<Rightarrow> addr set"
where
  "KubemarkMachineTemplate_foot R m x = ObjectMeta_foot R m (mem_kmt_ObjectMeta x) \<union>
    (KubemarkMachineTemplateSpec_foot R m (mem_kmt_Spec x) \<union>
     KubemarkMachineTemplateStatus_foot R m (mem_kmt_Status x))"

lemma deep_copy_KubemarkMachineTemplate:
  assumes "copiers_deep A R"
  shows "deep_copy (KubemarkMachineTemplate_DeepCopyInto A) (KubemarkMachineTemplate_val R) (KubemarkMachineTemplate_foot R)"
  by (rule deep_copy_struct [OF deep_copy_pair [OF copiers_deepD(3) [OF assms]
        deep_copy_pair [OF deep_copy_KubemarkMachineTemplateSpec [OF assms]
          deep_copy_KubemarkMachineTemplateStatus [OF assms]]],
      where get = "\<lambda>x. (mem_kmt_ObjectMeta x, mem_kmt_Spec x, mem_kmt_Status x)" and put = "\<lambda>x (meta, spec, status).
        x\<lparr>mem_kmt_ObjectMeta := meta, mem_kmt_Spec := spec, mem_kmt_Status := status\<rparr>" and mk = KubemarkMachineTemplate_of])
    (auto simp: KubemarkMachineTemplate_DeepCopyInto_def KubemarkMachineTemplate_val_def KubemarkMachineTemplate_foot_def KubemarkMachineTemplate_of_def
      copyPair_def split: prod.split)

lemma deep_copy_KubemarkMachineTemplatePtr:
  "copiers_deep A R \<Longrightarrow> deep_copy (KubemarkMachineTemplate_DeepCopy A)
    (nilOr (ptrVal (as is_Template theTemplate) (KubemarkMachineTemplate_val R))) (nilFoot (ptrFoot (as is_Template theTemplate) (KubemarkMachineTemplate_foot R)))"
  unfolding KubemarkMachineTemplate_DeepCopy_def
  by (rule deep_copy_nil [OF deep_copy_ptr [OF deep_copy_KubemarkMachineTemplate]]) simp_all

section \<open>The lists\<close>

definition KubemarkMachineList_DeepCopyInto ::
  "('q, 'cond, 'meta, 'lmeta, 'f) apimachinery \<Rightarrow> 'lmeta KubemarkMachineList_mem \<Rightarrow>
    ('q, 'cond, 'meta, 'lmeta, 'f) heap \<Rightarrow> 'lmeta KubemarkMachineList_mem \<times> ('q, 'cond, 'meta, 'lmeta, 'f) heap"
where
  "KubemarkMachineList_DeepCopyInto A x m =
    (let out = x\<lparr>mem_list_TypeMeta := mem_list_TypeMeta x\<rparr> in
    case ListMeta_DeepCopyInto A (mem_ListMeta x) m of
      (meta, m1) \<Rightarrow>
    case ifNotNil (makeCopy (as is_Machines theMachines) MachinesCell (KubemarkMachine_DeepCopyInto A)) (mem_Items x) m1 of
      (items, m2) \<Rightarrow>
    (out\<lparr>mem_ListMeta := meta, mem_Items := items\<rparr>, m2))"

definition KubemarkMachineList_DeepCopy ::
  "('q, 'cond, 'meta, 'lmeta, 'f) apimachinery \<Rightarrow> addr option \<Rightarrow>
    ('q, 'cond, 'meta, 'lmeta, 'f) heap \<Rightarrow> addr option \<times> ('q, 'cond, 'meta, 'lmeta, 'f) heap"
where
  "KubemarkMachineList_DeepCopy A = ifNotNil (newCopy (as is_MachineList theMachineList) MachineListCell (KubemarkMachineList_DeepCopyInto A))"

definition KubemarkMachineList_of :: "'lmeta KubemarkMachineList_mem \<Rightarrow> opaque \<times> (TypeMeta \<times> KubemarkMachine) list option \<Rightarrow> TypeMeta \<times> opaque \<times> (TypeMeta \<times> KubemarkMachine) list option" where
  "KubemarkMachineList_of x = (\<lambda>(meta, items). (mem_list_TypeMeta x, meta, items))"

definition KubemarkMachineList_val ::
  "('q, 'cond, 'meta, 'lmeta, 'f) reading \<Rightarrow> ('q, 'cond, 'meta, 'lmeta, 'f) heap \<Rightarrow> 'lmeta KubemarkMachineList_mem \<Rightarrow> (TypeMeta \<times> opaque \<times> (TypeMeta \<times> KubemarkMachine) list option) option"
where
  "KubemarkMachineList_val R m x = map_option (KubemarkMachineList_of x)
    (both (ListMeta_val R m (mem_ListMeta x))
          (nilOr (sliceVal (as is_Machines theMachines) (KubemarkMachine_val R)) m (mem_Items x)))"

definition KubemarkMachineList_foot ::
  "('q, 'cond, 'meta, 'lmeta, 'f) reading \<Rightarrow> ('q, 'cond, 'meta, 'lmeta, 'f) heap \<Rightarrow> 'lmeta KubemarkMachineList_mem \<Rightarrow> addr set"
where
  "KubemarkMachineList_foot R m x = ListMeta_foot R m (mem_ListMeta x) \<union>
    nilFoot (sliceFoot (as is_Machines theMachines) (KubemarkMachine_foot R)) m (mem_Items x)"

lemma deep_copy_KubemarkMachineList:
  assumes "copiers_deep A R"
  shows "deep_copy (KubemarkMachineList_DeepCopyInto A) (KubemarkMachineList_val R) (KubemarkMachineList_foot R)"
  by (rule deep_copy_struct [OF deep_copy_pair [OF copiers_deepD(4) [OF assms]
        deep_copy_nil [OF deep_copy_slice [where wrap = MachinesCell, OF deep_copy_KubemarkMachine [OF assms]]]],
      where get = "\<lambda>x. (mem_ListMeta x, mem_Items x)" and put = "\<lambda>x (meta, items). x\<lparr>mem_ListMeta := meta, mem_Items := items\<rparr>" and mk = KubemarkMachineList_of])
    (auto simp: KubemarkMachineList_DeepCopyInto_def KubemarkMachineList_val_def KubemarkMachineList_foot_def KubemarkMachineList_of_def
      copyPair_def split: prod.split)

lemma deep_copy_KubemarkMachineListPtr:
  "copiers_deep A R \<Longrightarrow> deep_copy (KubemarkMachineList_DeepCopy A)
    (nilOr (ptrVal (as is_MachineList theMachineList) (KubemarkMachineList_val R))) (nilFoot (ptrFoot (as is_MachineList theMachineList) (KubemarkMachineList_foot R)))"
  unfolding KubemarkMachineList_DeepCopy_def
  by (rule deep_copy_nil [OF deep_copy_ptr [OF deep_copy_KubemarkMachineList]]) simp_all

definition KubemarkMachineTemplateList_DeepCopyInto ::
  "('q, 'cond, 'meta, 'lmeta, 'f) apimachinery \<Rightarrow> 'lmeta KubemarkMachineTemplateList_mem \<Rightarrow>
    ('q, 'cond, 'meta, 'lmeta, 'f) heap \<Rightarrow> 'lmeta KubemarkMachineTemplateList_mem \<times> ('q, 'cond, 'meta, 'lmeta, 'f) heap"
where
  "KubemarkMachineTemplateList_DeepCopyInto A x m =
    (let out = x\<lparr>mem_tlist_TypeMeta := mem_tlist_TypeMeta x\<rparr> in
    case ListMeta_DeepCopyInto A (mem_tlist_ListMeta x) m of
      (meta, m1) \<Rightarrow>
    case ifNotNil (makeCopy (as is_Templates theTemplates) TemplatesCell (KubemarkMachineTemplate_DeepCopyInto A)) (mem_tlist_Items x) m1 of
      (items, m2) \<Rightarrow>
    (out\<lparr>mem_tlist_ListMeta := meta, mem_tlist_Items := items\<rparr>, m2))"

definition KubemarkMachineTemplateList_DeepCopy ::
  "('q, 'cond, 'meta, 'lmeta, 'f) apimachinery \<Rightarrow> addr option \<Rightarrow>
    ('q, 'cond, 'meta, 'lmeta, 'f) heap \<Rightarrow> addr option \<times> ('q, 'cond, 'meta, 'lmeta, 'f) heap"
where
  "KubemarkMachineTemplateList_DeepCopy A = ifNotNil (newCopy (as is_TemplateList theTemplateList) TemplateListCell (KubemarkMachineTemplateList_DeepCopyInto A))"

definition KubemarkMachineTemplateList_of :: "'lmeta KubemarkMachineTemplateList_mem \<Rightarrow> opaque \<times> (TypeMeta \<times> KubemarkMachineTemplate) list option \<Rightarrow> TypeMeta \<times> opaque \<times> (TypeMeta \<times> KubemarkMachineTemplate) list option" where
  "KubemarkMachineTemplateList_of x = (\<lambda>(meta, items). (mem_tlist_TypeMeta x, meta, items))"

definition KubemarkMachineTemplateList_val ::
  "('q, 'cond, 'meta, 'lmeta, 'f) reading \<Rightarrow> ('q, 'cond, 'meta, 'lmeta, 'f) heap \<Rightarrow> 'lmeta KubemarkMachineTemplateList_mem \<Rightarrow> (TypeMeta \<times> opaque \<times> (TypeMeta \<times> KubemarkMachineTemplate) list option) option"
where
  "KubemarkMachineTemplateList_val R m x = map_option (KubemarkMachineTemplateList_of x)
    (both (ListMeta_val R m (mem_tlist_ListMeta x))
          (nilOr (sliceVal (as is_Templates theTemplates) (KubemarkMachineTemplate_val R)) m (mem_tlist_Items x)))"

definition KubemarkMachineTemplateList_foot ::
  "('q, 'cond, 'meta, 'lmeta, 'f) reading \<Rightarrow> ('q, 'cond, 'meta, 'lmeta, 'f) heap \<Rightarrow> 'lmeta KubemarkMachineTemplateList_mem \<Rightarrow> addr set"
where
  "KubemarkMachineTemplateList_foot R m x = ListMeta_foot R m (mem_tlist_ListMeta x) \<union>
    nilFoot (sliceFoot (as is_Templates theTemplates) (KubemarkMachineTemplate_foot R)) m (mem_tlist_Items x)"

lemma deep_copy_KubemarkMachineTemplateList:
  assumes "copiers_deep A R"
  shows "deep_copy (KubemarkMachineTemplateList_DeepCopyInto A) (KubemarkMachineTemplateList_val R) (KubemarkMachineTemplateList_foot R)"
  by (rule deep_copy_struct [OF deep_copy_pair [OF copiers_deepD(4) [OF assms]
        deep_copy_nil [OF deep_copy_slice [where wrap = TemplatesCell, OF deep_copy_KubemarkMachineTemplate [OF assms]]]],
      where get = "\<lambda>x. (mem_tlist_ListMeta x, mem_tlist_Items x)" and put = "\<lambda>x (meta, items). x\<lparr>mem_tlist_ListMeta := meta, mem_tlist_Items := items\<rparr>" and mk = KubemarkMachineTemplateList_of])
    (auto simp: KubemarkMachineTemplateList_DeepCopyInto_def KubemarkMachineTemplateList_val_def KubemarkMachineTemplateList_foot_def KubemarkMachineTemplateList_of_def
      copyPair_def split: prod.split)

lemma deep_copy_KubemarkMachineTemplateListPtr:
  "copiers_deep A R \<Longrightarrow> deep_copy (KubemarkMachineTemplateList_DeepCopy A)
    (nilOr (ptrVal (as is_TemplateList theTemplateList) (KubemarkMachineTemplateList_val R))) (nilFoot (ptrFoot (as is_TemplateList theTemplateList) (KubemarkMachineTemplateList_foot R)))"
  unfolding KubemarkMachineTemplateList_DeepCopy_def
  by (rule deep_copy_nil [OF deep_copy_ptr [OF deep_copy_KubemarkMachineTemplateList]]) simp_all

section \<open>DeepCopyObject\<close>

text \<open>
  \<open>runtime.Object\<close>: a nil interface, or a pointer with its type. A nil pointer in the interface
  would not be a nil interface, which is why the code tests \<open>c != nil\<close>.
\<close>

datatype runtime_object =
    KubemarkMachineObject "addr option"
  | KubemarkMachineListObject "addr option"
  | KubemarkMachineTemplateObject "addr option"
  | KubemarkMachineTemplateListObject "addr option"

definition asObject ::
  "(addr option \<Rightarrow> runtime_object) \<Rightarrow> addr option \<times> 'm \<Rightarrow> runtime_object option \<times> 'm"
where
  "asObject mk r = (case r of (c, m) \<Rightarrow> (if c \<noteq> None then Some (mk c) else None, m))"

definition KubemarkMachine_DeepCopyObject ::
  "('q, 'cond, 'meta, 'lmeta, 'f) apimachinery \<Rightarrow> addr option \<Rightarrow>
    ('q, 'cond, 'meta, 'lmeta, 'f) heap \<Rightarrow> runtime_object option \<times> ('q, 'cond, 'meta, 'lmeta, 'f) heap"
where
  "KubemarkMachine_DeepCopyObject A p m = asObject KubemarkMachineObject (KubemarkMachine_DeepCopy A p m)"

definition KubemarkMachineList_DeepCopyObject ::
  "('q, 'cond, 'meta, 'lmeta, 'f) apimachinery \<Rightarrow> addr option \<Rightarrow>
    ('q, 'cond, 'meta, 'lmeta, 'f) heap \<Rightarrow> runtime_object option \<times> ('q, 'cond, 'meta, 'lmeta, 'f) heap"
where
  "KubemarkMachineList_DeepCopyObject A p m = asObject KubemarkMachineListObject (KubemarkMachineList_DeepCopy A p m)"

definition KubemarkMachineTemplate_DeepCopyObject ::
  "('q, 'cond, 'meta, 'lmeta, 'f) apimachinery \<Rightarrow> addr option \<Rightarrow>
    ('q, 'cond, 'meta, 'lmeta, 'f) heap \<Rightarrow> runtime_object option \<times> ('q, 'cond, 'meta, 'lmeta, 'f) heap"
where
  "KubemarkMachineTemplate_DeepCopyObject A p m = asObject KubemarkMachineTemplateObject (KubemarkMachineTemplate_DeepCopy A p m)"

definition KubemarkMachineTemplateList_DeepCopyObject ::
  "('q, 'cond, 'meta, 'lmeta, 'f) apimachinery \<Rightarrow> addr option \<Rightarrow>
    ('q, 'cond, 'meta, 'lmeta, 'f) heap \<Rightarrow> runtime_object option \<times> ('q, 'cond, 'meta, 'lmeta, 'f) heap"
where
  "KubemarkMachineTemplateList_DeepCopyObject A p m = asObject KubemarkMachineTemplateListObject (KubemarkMachineTemplateList_DeepCopy A p m)"

end
