(* ===== verification/Deep_Copy_Theorems.thy ===== *)
theory Deep_Copy_Theorems
  imports Deep_Copy Demo_Library
begin

text \<open>
  The theorems about the generated deep copies, and a memory with one machine and one list to
  apply them to.
\<close>

section \<open>What the pointers of the API objects lead to\<close>

abbreviation KubemarkMachine_at where
  "KubemarkMachine_at R \<equiv> nilOr (ptrVal (as is_Machine theMachine) (KubemarkMachine_val R))"

abbreviation KubemarkMachine_cells where
  "KubemarkMachine_cells R \<equiv> nilFoot (ptrFoot (as is_Machine theMachine) (KubemarkMachine_foot R))"

abbreviation KubemarkMachineList_at where
  "KubemarkMachineList_at R \<equiv> nilOr (ptrVal (as is_MachineList theMachineList) (KubemarkMachineList_val R))"

abbreviation KubemarkMachineList_cells where
  "KubemarkMachineList_cells R \<equiv>
    nilFoot (ptrFoot (as is_MachineList theMachineList) (KubemarkMachineList_foot R))"

abbreviation KubemarkMachineTemplate_at where
  "KubemarkMachineTemplate_at R \<equiv> nilOr (ptrVal (as is_Template theTemplate) (KubemarkMachineTemplate_val R))"

abbreviation KubemarkMachineTemplate_cells where
  "KubemarkMachineTemplate_cells R \<equiv>
    nilFoot (ptrFoot (as is_Template theTemplate) (KubemarkMachineTemplate_foot R))"

lemma asObject_copy:
  assumes "deep_copy (ifNotNil c) val foot" and "val m (Some p) = Some v"
    and "asObject mk (ifNotNil c (Some p) m) = (obj, m')"
  shows "\<exists>q. obj = Some (mk (Some q)) \<and> independent_copies val foot v m (Some p) (Some q) m'"
proof -
  obtain q where "ifNotNil c (Some p) m = (Some q, m')" and "obj = Some (mk (Some q))"
    using assms(3) by (auto simp: asObject_def ifNotNil_def split: prod.splits)
  with deep_copy.independent [OF assms(1,2)] show ?thesis by blast
qed

section \<open>The copies are equal and independent\<close>

text \<open>
  C17: Copying a \<open>KubemarkMachine\<close> that is whole in memory gives a runtime object with a machine of
  the same value: type, metadata, spec and status as in \<open>Api_Types\<close>. Nothing in the memory changes,
  original and copy share no cell, and whatever is later written to the cells of the one, the other
  keeps its value, provided the deep copies of the third-party structs do the same for theirs. This
  holds in whichever order the maps are visited.
\<close>

theorem machine_copy_independent:
  assumes "copiers_deep A R" and "KubemarkMachine_at R m (Some p) = Some v"
    and "KubemarkMachine_DeepCopyObject A (Some p) m = (obj, m')"
  shows "\<exists>q. obj = Some (KubemarkMachineObject (Some q)) \<and>
    independent_copies (KubemarkMachine_at R) (KubemarkMachine_cells R) v m (Some p) (Some q) m'"
  by (rule asObject_copy [OF deep_copy_KubemarkMachinePtr [OF assms(1), unfolded KubemarkMachine_DeepCopy_def]])
    (use assms(2,3) in \<open>simp_all add: KubemarkMachine_DeepCopyObject_def KubemarkMachine_DeepCopy_def\<close>)

text \<open>
  C38: The same for a list of machines: its copy is a list of the same machines in the same order, also when
  the items are a part of a longer array; the two share no cell, and whatever is later written
  to the cells of the one, the other keeps its value, under the same proviso.
\<close>

theorem machine_list_copy_independent:
  assumes "copiers_deep A R" and "KubemarkMachineList_at R m (Some p) = Some v"
    and "KubemarkMachineList_DeepCopyObject A (Some p) m = (obj, m')"
  shows "\<exists>q. obj = Some (KubemarkMachineListObject (Some q)) \<and>
    independent_copies (KubemarkMachineList_at R) (KubemarkMachineList_cells R) v m (Some p) (Some q) m'"
  by (rule asObject_copy
      [OF deep_copy_KubemarkMachineListPtr [OF assms(1), unfolded KubemarkMachineList_DeepCopy_def]])
    (use assms(2,3) in \<open>simp_all add: KubemarkMachineList_DeepCopyObject_def KubemarkMachineList_DeepCopy_def\<close>)

text \<open>A mount, which needs nothing of third-party structs.\<close>

lemma mount_copy_independent:
  "Mount_val m x = Some v \<Longrightarrow> Mount_DeepCopyInto x m = (y, m') \<Longrightarrow>
    independent_copies Mount_val Mount_foot v m x y m'"
  by (rule mount.independent)

text \<open>And for templates.\<close>

theorem template_copy_independent:
  assumes "copiers_deep A R" and "KubemarkMachineTemplate_at R m (Some p) = Some v"
    and "KubemarkMachineTemplate_DeepCopyObject A (Some p) m = (obj, m')"
  shows "\<exists>q. obj = Some (KubemarkMachineTemplateObject (Some q)) \<and>
    independent_copies (KubemarkMachineTemplate_at R) (KubemarkMachineTemplate_cells R)
      v m (Some p) (Some q) m'"
  by (rule asObject_copy
      [OF deep_copy_KubemarkMachineTemplatePtr [OF assms(1), unfolded KubemarkMachineTemplate_DeepCopy_def]])
    (use assms(2,3) in
      \<open>simp_all add: KubemarkMachineTemplate_DeepCopyObject_def KubemarkMachineTemplate_DeepCopy_def\<close>)

section \<open>A memory\<close>

text \<open>Third-party structs without pointers of their own.\<close>

definition plainCopiers ::
  "(quantity, opaque, ObjectMeta, opaque, unit) apimachinery" where
  "plainCopiers = \<lparr>Quantity_DeepCopy = assignCopy, Condition_DeepCopyInto = assignCopy,
    ObjectMeta_DeepCopyInto = assignCopy, ListMeta_DeepCopyInto = assignCopy,
    rangeMap = (\<lambda>_. alphabetical)\<rparr>"

definition plainReading ::
  "(quantity, opaque, ObjectMeta, opaque, unit) reading" where
  "plainReading = \<lparr>Quantity_val = (\<lambda>_. Some), Quantity_foot = (\<lambda>_ _. {}),
    Condition_val = (\<lambda>_. Some), Condition_foot = (\<lambda>_ _. {}),
    ObjectMeta_val = (\<lambda>_. Some), ObjectMeta_foot = (\<lambda>_ _. {}),
    ListMeta_val = (\<lambda>_. Some), ListMeta_foot = (\<lambda>_ _. {})\<rparr>"

lemma plain_deep: "copiers_deep plainCopiers plainReading"
  by (simp add: copiers_deep_def plainCopiers_def plainReading_def deep_copy_assign alphabetical_order)

definition memoryOf :: "'c list \<Rightarrow> 'c memory" where
  "memoryOf cs = \<lparr>store = (\<lambda>a. if a < length cs then Some (cs ! a) else None), limit = length cs\<rparr>"

lemma lookup_memoryOf: "lookup (memoryOf cs) a = (if a < length cs then Some (cs ! a) else None)"
  by (simp add: memoryOf_def lookup_def)

definition storedMeta :: ObjectMeta where
  "storedMeta = \<lparr>Name = ''m'', Namespace = ''ns'', Labels = None, OwnerReferences = [],
    DeletionTimestamp = None, Finalizers = [MachineFinalizer]\<rparr>"

definition storedMachine :: "ObjectMeta KubemarkMachine_mem" where
  "storedMachine = \<lparr>mem_TypeMeta = \<lparr>Kind = ''KubemarkMachine'', APIVersion = ''v1alpha4''\<rparr>,
    mem_ObjectMeta = storedMeta,
    mem_Spec = \<lparr>mem_ProviderID = Some 0,
      mem_ExtraMounts = Some \<lparr>array = 2, offset = 1, len = 1\<rparr>,
      mem_KubemarkOptions = \<lparr>mem_ExtendedResources = Some 3\<rparr>, mem_SecretRef = None\<rparr>,
    mem_Status = \<lparr>mem_Ready = True, mem_Conditions = None\<rparr>\<rparr>"

text \<open>Cell 4 is the machine, cell 6 a list with it; the mounts are the second half of an array.\<close>

definition storedCells :: "(quantity, opaque, ObjectMeta, opaque, unit) cell list" where
  "storedCells =
    [StringCell ''kubemark://m'', HostPathTypeCell ''File'',
     MountsCell
      [\<lparr>mem_Name = ''a'', mem_ContainerPath = ''/a'', mem_HostPath = ''/a'', mem_Type = None\<rparr>,
       \<lparr>mem_Name = ''b'', mem_ContainerPath = ''/b'', mem_HostPath = ''/b'', mem_Type = Some 1\<rparr>],
     ResourcesCell (fmap_of_list [(''cpu'', Quantity ''2'')]), MachineCell storedMachine,
     MachinesCell [storedMachine],
     MachineListCell \<lparr>mem_list_TypeMeta = \<lparr>Kind = ''KubemarkMachineList'', APIVersion = ''v1alpha4''\<rparr>,
       mem_ListMeta = ''rv7'', mem_Items = Some \<lparr>array = 5, offset = 0, len = 1\<rparr>\<rparr>]"

definition storedValue :: "TypeMeta \<times> KubemarkMachine" where
  "storedValue = (\<lparr>Kind = ''KubemarkMachine'', APIVersion = ''v1alpha4''\<rparr>,
    \<lparr>km_ObjectMeta = storedMeta,
     km_Spec = \<lparr>ProviderID = Some ''kubemark://m'',
       ExtraMounts = [\<lparr>mount_Name = ''b'', ContainerPath = ''/b'', HostPath = ''/b'', mount_Type = Some ''File''\<rparr>],
       KubemarkOptions = \<lparr>ExtendedResources = Some (fmap_of_list [(''cpu'', Quantity ''2'')])\<rparr>,
       KubemarkHollowPodClusterSecretRef = None\<rparr>,
     km_Status = \<lparr>Ready = True, Conditions = []\<rparr>\<rparr>)"

lemma entriesVal_plain: "entriesVal (\<lambda>_. Some) m src = Some src"
  by (simp add: entriesVal_Some)

lemmas stored_eval =
  lookup_memoryOf storedCells_def storedValue_def KubemarkMachine_val_def KubemarkMachine_of_def
  KubemarkMachineSpec_val_def KubemarkMachineSpec_of_def KubemarkMachineStatus_val_def
  KubemarkMachineStatus_of_def KubemarkProcessOptions_val_def KubemarkProcessOptions_of_def
  KubemarkMachineList_val_def KubemarkMachineList_of_def
  Mount_val_def Mount_of_def Resources_val_def entriesVal_plain nilOr_def ptrVal_def sliceVal_def
  refVal_def deref_def as_def window_def elements_def plainReading_def

lemma stored_machine: "KubemarkMachine_val plainReading (memoryOf storedCells) storedMachine = Some storedValue"
  by (simp add: stored_eval storedMachine_def)

lemma stored_machine_at: "KubemarkMachine_at plainReading (memoryOf storedCells) (Some 4) = Some (Some storedValue)"
  using stored_machine by (simp add: nilOr_def ptrVal_def refVal_def deref_def as_def lookup_memoryOf storedCells_def)

lemma stored_list_at: "KubemarkMachineList_at plainReading (memoryOf storedCells) (Some 6) =
    Some (Some (\<lparr>Kind = ''KubemarkMachineList'', APIVersion = ''v1alpha4''\<rparr>, ''rv7'', Some [storedValue]))"
  using stored_machine
  by (simp add: nilOr_def ptrVal_def refVal_def deref_def as_def lookup_memoryOf storedCells_def
    KubemarkMachineList_val_def KubemarkMachineList_of_def sliceVal_def window_def plainReading_def)

lemma machine_copy_independent_witness:
  "\<exists>q. fst (KubemarkMachine_DeepCopyObject plainCopiers (Some 4) (memoryOf storedCells)) =
      Some (KubemarkMachineObject (Some q)) \<and>
    independent_copies (KubemarkMachine_at plainReading) (KubemarkMachine_cells plainReading)
      (Some storedValue) (memoryOf storedCells) (Some 4) (Some q)
      (snd (KubemarkMachine_DeepCopyObject plainCopiers (Some 4) (memoryOf storedCells)))"
  by (rule machine_copy_independent [OF plain_deep stored_machine_at]) simp

lemma machine_list_copy_independent_witness:
  "\<exists>q. fst (KubemarkMachineList_DeepCopyObject plainCopiers (Some 6) (memoryOf storedCells)) =
      Some (KubemarkMachineListObject (Some q)) \<and>
    independent_copies (KubemarkMachineList_at plainReading) (KubemarkMachineList_cells plainReading)
      (Some (\<lparr>Kind = ''KubemarkMachineList'', APIVersion = ''v1alpha4''\<rparr>, ''rv7'', Some [storedValue]))
      (memoryOf storedCells) (Some 6) (Some q)
      (snd (KubemarkMachineList_DeepCopyObject plainCopiers (Some 6) (memoryOf storedCells)))"
  by (rule machine_list_copy_independent [OF plain_deep stored_list_at]) simp

end
