(* ===== verification/Object_Mutation.thy ===== *)
theory Object_Mutation
  imports Deep_Copy_Theorems Machine_Controller Template_Controller
begin

text \<open>
  The controllers compute with values, the Go code assigns through pointers. This theory models
  the assignments of both \<open>Reconcile\<close> methods on the memory of \<open>Memory\<close> and proves that they
  refine the updates of the controllers: the object the pointer leads to gets the value of the
  update, and the copy a patch helper took before (it keeps a deep copy of the object it is made
  for, and \<open>Patch\<close> sends the difference) keeps the old value. This is why the two arguments of the
  model's patches, the object before and after, are values.
\<close>

section \<open>Assignment\<close>

definition writeCell :: "addr \<Rightarrow> 'c \<Rightarrow> 'c memory \<Rightarrow> 'c memory" where
  "writeCell p c m = m\<lparr>store := (store m)(p := Some c)\<rparr>"

lemma lookup_writeCell: "lookup (writeCell p c m) a = (if a = p \<and> p < limit m then Some c else lookup m a)"
  by (simp add: writeCell_def lookup_def)

text \<open>
  New cells may be taken and the cell of the original written: a copy keeps its value.
\<close>

context deep_copy
begin

lemma copy_kept_by_write:
  assumes "val m x = Some v" and "copy x m = (y, m1)" and "p \<in> foot m x"
    and "extends m1 m2" and "\<And>a. a \<noteq> p \<Longrightarrow> lookup m3 a = lookup m2 a"
  shows "val m3 y = Some v"
proof -
  have y: "val m2 y = Some v" and f: "foot m2 y = foot m1 y"
    using later [OF copy_val [OF assms(1,2)] assms(4)] by blast+
  have "p \<notin> foot m2 y"
    using disjoint [OF assms(1,2)] foot_later [OF assms(1) copy_extends [OF assms(2)]] assms(3) f
    by blast
  then show ?thesis
    using local [OF y, of m3] assms(5) by metis
qed

text \<open>A value that does not reach the written cell is kept.\<close>

lemma kept_by_write:
  assumes "val m x = Some v" and "extends m m2" and "p \<notin> foot m x"
    and "\<And>a. a \<noteq> p \<Longrightarrow> lookup m3 a = lookup m2 a"
  shows "val m3 x = Some v"
proof -
  have x: "val m2 x = Some v" and f: "foot m2 x = foot m x"
    using later [OF assms(1,2)] by blast+
  show ?thesis
    using local [OF x, of m3] assms(3,4) f by metis
qed

end

section \<open>The assignments of the machine controller\<close>

text \<open>
  \<open>providerID := pointer.String(...)\<close> and the assignments to \<open>kubemarkMachine\<close>; \<open>nameOf\<close> reads the
  name in the third-party \<open>ObjectMeta\<close>. The pointer is returned: the owner Machine is given the same
  one. \<open>None\<close> stands for the panic of a nil pointer.
\<close>

definition markReady_mem :: "('meta \<Rightarrow> string) \<Rightarrow> addr \<Rightarrow> ('q, 'cond, 'meta, 'lmeta, 'f) heap \<Rightarrow>
    (addr \<times> ('q, 'cond, 'meta, 'lmeta, 'f) heap) option" where
  "markReady_mem nameOf km m =
     (case Option.bind (lookup m km) (as is_Machine theMachine) of
        None \<Rightarrow> None
      | Some x \<Rightarrow>
        (case alloc (StringCell (providerIDOf (nameOf (mem_ObjectMeta x)))) m of
           (providerID, m1) \<Rightarrow>
             let spec = (mem_Spec x)\<lparr>mem_ProviderID := Some providerID\<rparr>;
                 status = (mem_Status x)\<lparr>mem_Ready := True\<rparr>
             in Some (providerID,
                  writeCell km (MachineCell (x\<lparr>mem_Spec := spec, mem_Status := status\<rparr>)) m1)))"

definition readsName :: "('c, 'q, 'cond, 'meta, 'lmeta) readers \<Rightarrow> ('meta \<Rightarrow> string) \<Rightarrow> bool" where
  "readsName R nameOf \<longleftrightarrow>
     (\<forall>m meta om. ObjectMeta_val R m meta = Some om \<longrightarrow> nameOf meta = Name om)"

text \<open>The struct in the cell \<open>p\<close> does not reach the cell it lies in.\<close>

definition rooted where
  "rooted unwrap foot m p \<longleftrightarrow>
     (\<forall>x. deref (\<lambda>a. a) (\<lambda>_. unwrap) m p = Some x \<longrightarrow> p \<notin> foot m x)"

lemma at_cell:
  "nilOr (ptrVal unwrap v) m (Some p) = Some (Some w) \<longleftrightarrow>
    (\<exists>x. deref (\<lambda>a. a) (\<lambda>_. unwrap) m p = Some x \<and> v m x = Some w)"
  by (auto simp: nilOr_def ptrVal_def refVal_def bind_eq_Some_conv)

lemma cell_later:
  assumes "deref (\<lambda>a. a) (\<lambda>_. unwrap) m p = Some x" and "extends m m'"
  shows "deref (\<lambda>a. a) (\<lambda>_. unwrap) m' p = Some x"
proof -
  have "p < limit m"
    using assms(1) by (intro lookup_old) (auto simp: deref_def bind_eq_Some_conv)
  then show ?thesis
    using assms(1) by (simp add: deref_def extends_lookup [OF assms(2)])
qed

lemma in_cells:
  "p \<in> nilFoot (ptrFoot unwrap f) m (Some p)"
  by (simp add: nilFoot_def ptrFoot_def refFoot_def)

text \<open>
  An assignment to the struct behind a pointer, of which a copy was taken before: a new cell is
  filled and the struct replaced by \<open>x'\<close>. The old struct and the copy still denote what they did,
  as does everything else that the written cell is no part of.
\<close>

lemma assignment:
  assumes content: "deep_copy c v f" and unwrap: "\<And>x. unwrap (wrap x) = Some x"
    and "nilOr (ptrVal unwrap v) m0 (Some p) = Some (Some w)" and "rooted unwrap f m0 p"
    and "ifNotNil (newCopy unwrap wrap c) (Some p) m0 = (before, m)" and "alloc cell m = (a, m1)"
  obtains x where "deref (\<lambda>a. a) (\<lambda>_. unwrap) m p = Some x" and "v m0 x = Some w"
    and "\<And>x'. v (writeCell p (wrap x') m1) x = Some w \<and>
        deref (\<lambda>a. a) (\<lambda>_. unwrap) (writeCell p (wrap x') m1) p = Some x' \<and>
        lookup (writeCell p (wrap x') m1) a = Some cell \<and>
        nilOr (ptrVal unwrap v) (writeCell p (wrap x') m1) before = Some (Some w)"
proof -
  note pointer = deep_copy_nil [OF deep_copy_ptr [OF content unwrap]]
  obtain x where x: "deref (\<lambda>a. a) (\<lambda>_. unwrap) m0 p = Some x" "v m0 x = Some w"
    using assms(3) by (auto simp: at_cell)
  have e: "extends m0 m" by (rule deep_copy.copy_extends [OF pointer assms(5)])
  have e1: "extends m m1" by (rule alloc_extends [OF assms(6)])
  have xm: "deref (\<lambda>a. a) (\<lambda>_. unwrap) m p = Some x"
    by (rule cell_later [OF x(1) e])
  have p: "p < limit m"
    using xm by (intro lookup_old) (auto simp: deref_def bind_eq_Some_conv)
  have other: "lookup (writeCell p (wrap x') m1) b = lookup m1 b" if "b \<noteq> p" for b x'
    using that by (simp add: lookup_writeCell)
  have root: "p \<notin> f m0 x"
    using assms(4) x(1) by (simp add: rooted_def)
  have "v (writeCell p (wrap x') m1) x = Some w" for x'
    by (rule deep_copy.kept_by_write [OF content x(2) extends_trans [OF e e1] root other])
  moreover have "deref (\<lambda>a. a) (\<lambda>_. unwrap) (writeCell p (wrap x') m1) p = Some x'" for x'
    using p alloc_new [OF assms(6)] by (simp add: deref_def lookup_writeCell unwrap)
  moreover have "lookup (writeCell p (wrap x') m1) a = Some cell" for x'
    using p alloc_new [OF assms(6)] by (auto simp: lookup_writeCell)
  moreover have "nilOr (ptrVal unwrap v) (writeCell p (wrap x') m1) before = Some (Some w)" for x'
    by (rule deep_copy.copy_kept_by_write [OF pointer assms(3,5) in_cells e1 other])
  ultimately show thesis
    using that xm x(2) by blast
qed

text \<open>Marking ready, on the struct and on the value.\<close>

lemma markReady_val:
  assumes "KubemarkMachine_val R m x = Some (ty, km)"
    and "lookup m a = Some (StringCell (providerIDOf (Name (km_ObjectMeta km))))"
  shows "KubemarkMachine_val R m (x\<lparr>mem_Spec := (mem_Spec x)\<lparr>mem_ProviderID := Some a\<rparr>,
      mem_Status := (mem_Status x)\<lparr>mem_Ready := True\<rparr>\<rparr>) = Some (ty, markReady km)"
proof -
  have "nilOr (ptrVal (as is_String theString) (\<lambda>_. Some)) m (Some a) =
      Some (Some (providerIDOf (Name (km_ObjectMeta km))))"
    using assms(2) by (simp add: at_cell deref_def)
  then show ?thesis
    using assms(1)
    by (auto simp: KubemarkMachine_val_def KubemarkMachine_of_def KubemarkMachineSpec_val_def
        KubemarkMachineSpec_of_def KubemarkMachineStatus_val_def KubemarkMachineStatus_of_def
        both_Some markReady_def)
qed

text \<open>
  C33: The assignments through the pointer refine \<open>markReady\<close>: after the patch helper has taken its
  deep copy of a machine that is whole in memory, they do not panic, the machine the pointer leads
  to has the value \<open>markReady\<close> gives, the helper's copy still has the old one, and the shared
  pointer leads to the machine's provider ID.
\<close>

theorem ready_refines:
  assumes "copiers_deep A R" and "readsName R nameOf"
    and "KubemarkMachine_at R m0 (Some p) = Some (Some (ty, km))"
    and "rooted (as is_Machine theMachine) (KubemarkMachine_foot R) m0 p"
    and "KubemarkMachine_DeepCopy A (Some p) m0 = (before, m)"
  shows "\<exists>a m'. markReady_mem nameOf p m = Some (a, m') \<and>
    KubemarkMachine_at R m' (Some p) = Some (Some (ty, markReady km)) \<and>
    KubemarkMachine_at R m' before = Some (Some (ty, km)) \<and>
    lookup m' a = Some (StringCell (providerIDOf (Name (km_ObjectMeta km))))"
proof -
  let ?cell = "StringCell (providerIDOf (Name (km_ObjectMeta km)))"
  obtain a m1 where a: "alloc ?cell m = (a, m1)" by fastforce
  obtain x where x: "deref (\<lambda>a. a) (\<lambda>_. as is_Machine theMachine) m p = Some x"
      "KubemarkMachine_val R m0 x = Some (ty, km)"
    and after: "\<And>x'. KubemarkMachine_val R (writeCell p (MachineCell x') m1) x = Some (ty, km) \<and>
      deref (\<lambda>a. a) (\<lambda>_. as is_Machine theMachine) (writeCell p (MachineCell x') m1) p = Some x' \<and>
      lookup (writeCell p (MachineCell x') m1) a = Some ?cell \<and>
      KubemarkMachine_at R (writeCell p (MachineCell x') m1) before = Some (Some (ty, km))"
    by (rule assignment [OF deep_copy_KubemarkMachine [OF assms(1)] _ assms(3,4)
          assms(5) [unfolded KubemarkMachine_DeepCopy_def] a]) simp_all
  have name: "nameOf (mem_ObjectMeta x) = Name (km_ObjectMeta km)"
    using x(2) assms(2)
    by (auto simp: KubemarkMachine_val_def KubemarkMachine_of_def both_Some readsName_def)
  define x' where "x' = x\<lparr>mem_Spec := (mem_Spec x)\<lparr>mem_ProviderID := Some a\<rparr>,
      mem_Status := (mem_Status x)\<lparr>mem_Ready := True\<rparr>\<rparr>"
  have "markReady_mem nameOf p m = Some (a, writeCell p (MachineCell x') m1)"
    using x(1) by (simp add: markReady_mem_def deref_def name a x'_def Let_def)
  moreover have "KubemarkMachine_val R (writeCell p (MachineCell x') m1) x' = Some (ty, markReady km)"
    using after [of x'] markReady_val unfolding x'_def by blast
  ultimately show ?thesis
    using after [of x'] by (auto simp: at_cell)
qed

text \<open>The machine of \<open>Deep_Copy_Theorems\<close>, in cell 4 of its memory.\<close>

lemma stored_rooted:
  "rooted (as is_Machine theMachine) (KubemarkMachine_foot plainReading) (memoryOf storedCells) 4"
  by (simp add: rooted_def deref_def lookup_memoryOf storedCells_def as_def storedMachine_def
      KubemarkMachine_foot_def KubemarkMachineSpec_foot_def KubemarkMachineStatus_foot_def
      KubemarkProcessOptions_foot_def Mount_foot_def Resources_foot_def entriesFoot_def nilFoot_def
      ptrFoot_def sliceFoot_def refFoot_def plainReading_def window_def)

theorem ready_refines_witness:
  "let (before, m) = KubemarkMachine_DeepCopy plainCopiers (Some 4) (memoryOf storedCells)
   in \<exists>a m'. markReady_mem Name 4 m = Some (a, m') \<and>
     KubemarkMachine_at plainReading m' (Some 4) =
       Some (Some (fst storedValue, markReady (snd storedValue))) \<and>
     KubemarkMachine_at plainReading m' before = Some (Some storedValue)"
proof -
  obtain before m where c: "KubemarkMachine_DeepCopy plainCopiers (Some 4) (memoryOf storedCells) = (before, m)"
    by fastforce
  have "readsName plainReading Name"
    by (simp add: readsName_def plainReading_def)
  then show ?thesis
    using ready_refines [OF plain_deep _ _ stored_rooted c, of Name "fst storedValue" "snd storedValue"]
    by (auto simp: c stored_machine_at)
qed

section \<open>The assignment of the template controller\<close>

text \<open>\<open>capacity := corev1.ResourceList{}\<close> with its entries, and \<open>machineTemplate.Status.Capacity = capacity\<close>.\<close>

definition setCapacity_mem :: "(string, 'q) fmap \<Rightarrow> addr \<Rightarrow> ('q, 'cond, 'meta, 'lmeta, 'f) heap \<Rightarrow>
    ('q, 'cond, 'meta, 'lmeta, 'f) heap option" where
  "setCapacity_mem entries t m =
     (case Option.bind (lookup m t) (as is_Template theTemplate) of
        None \<Rightarrow> None
      | Some x \<Rightarrow>
        (case alloc (ResourcesCell entries) m of
           (capacity, m1) \<Rightarrow> Some (writeCell t (TemplateCell
             (x\<lparr>mem_kmt_Status := (mem_kmt_Status x)\<lparr>mem_Capacity := Some capacity\<rparr>\<rparr>)) m1)))"

lemma setCapacity_val:
  assumes "KubemarkMachineTemplate_val R m x = Some (ty, t)"
    and "Resources_val R m a = Some cap"
  shows "KubemarkMachineTemplate_val R m
      (x\<lparr>mem_kmt_Status := (mem_kmt_Status x)\<lparr>mem_Capacity := Some a\<rparr>\<rparr>) =
    Some (ty, setCapacity t (Some cap))"
  using assms
  by (auto simp: KubemarkMachineTemplate_val_def KubemarkMachineTemplate_of_def both_Some
      KubemarkMachineTemplateStatus_val_def KubemarkMachineTemplateStatus_of_def setCapacity_def
      nilOr_def)

text \<open>
  The same for the template: the capacity is a new map, whose quantities may share cells with those
  of the template's spec, where they come from. No written cell is among them.
\<close>

theorem capacity_refines:
  assumes "copiers_deep A R"
    and "KubemarkMachineTemplate_at R m0 (Some p) = Some (Some (ty, t))"
    and "rooted (as is_Template theTemplate) (KubemarkMachineTemplate_foot R) m0 p"
    and "KubemarkMachineTemplate_DeepCopy A (Some p) m0 = (before, m)"
    and "entriesVal (Quantity_val R) m entries = Some cap"
    and "p \<notin> entriesFoot (Quantity_foot R) m entries"
  shows "\<exists>m'. setCapacity_mem entries p m = Some m' \<and>
    KubemarkMachineTemplate_at R m' (Some p) = Some (Some (ty, setCapacity t (Some cap))) \<and>
    KubemarkMachineTemplate_at R m' before = Some (Some (ty, t))"
proof -
  have order: "\<And>m src. range_order src (rangeMap A m src)"
    by (rule copiers_deepD(5) [OF assms(1)])
  obtain a m1 where a: "alloc (ResourcesCell entries) m = (a, m1)" by fastforce
  obtain x where x: "deref (\<lambda>a. a) (\<lambda>_. as is_Template theTemplate) m p = Some x"
      "KubemarkMachineTemplate_val R m0 x = Some (ty, t)"
    and after: "\<And>x'. KubemarkMachineTemplate_val R (writeCell p (TemplateCell x') m1) x = Some (ty, t) \<and>
      deref (\<lambda>a. a) (\<lambda>_. as is_Template theTemplate) (writeCell p (TemplateCell x') m1) p = Some x' \<and>
      lookup (writeCell p (TemplateCell x') m1) a = Some (ResourcesCell entries) \<and>
      KubemarkMachineTemplate_at R (writeCell p (TemplateCell x') m1) before = Some (Some (ty, t))"
    by (rule assignment [OF deep_copy_KubemarkMachineTemplate [OF assms(1)] _ assms(2,3)
          assms(4) [unfolded KubemarkMachineTemplate_DeepCopy_def] a]) simp_all
  define x' where "x' = x\<lparr>mem_kmt_Status := (mem_kmt_Status x)\<lparr>mem_Capacity := Some a\<rparr>\<rparr>"
  define m' where "m' = writeCell p (TemplateCell x') m1"
  have run: "setCapacity_mem entries p m = Some m'"
    using x(1) by (simp add: setCapacity_mem_def deref_def a x'_def m'_def)
  have "entriesVal (Quantity_val R) m' entries = Some cap"
    by (rule deep_copy.kept_by_write [OF deep_copy_entries [OF copiers_deepD(1) [OF assms(1)] order]
          assms(5) alloc_extends [OF a] assms(6)])
      (simp add: m'_def lookup_writeCell)
  then have "Resources_val R m' a = Some cap"
    using after [of x'] by (simp add: Resources_val_def ptrVal_def refVal_def deref_def flip: m'_def)
  then have "KubemarkMachineTemplate_val R m' x' = Some (ty, setCapacity t (Some cap))"
    using after [of x'] setCapacity_val unfolding x'_def m'_def by blast
  then show ?thesis
    using run after [of x'] by (auto simp: at_cell simp flip: m'_def)
qed

end
