(* ===== verification/Go_Path.thy ===== *)
theory Go_Path
  imports Go_Strings
begin

text \<open>
  \<open>path.Join\<close> and \<open>path.Clean\<close> of the Go standard library, as the image tool uses them: purely
  lexical, on paths separated by slashes.
\<close>

section \<open>path.Join\<close>

text \<open>
  \<open>path.Clean\<close>: empty elements and dots vanish, a double dot takes away the element before it, and
  is dropped at the root. The elements so far are kept in reverse.
\<close>

fun cleanElems :: "bool \<Rightarrow> string list \<Rightarrow> string list \<Rightarrow> string list" where
  "cleanElems rooted [] out = rev out"
| "cleanElems rooted (e # es) out =
     (if e = [] \<or> e = ''.'' then cleanElems rooted es out
      else if e = ''..'' then
        (case out of
           [] \<Rightarrow> cleanElems rooted es (if rooted then [] else [''..''])
         | x # xs \<Rightarrow> cleanElems rooted es (if x = ''..'' then e # out else xs))
      else cleanElems rooted es (e # out))"

definition pathClean :: "string \<Rightarrow> string" where
  "pathClean p =
     (let rooted = stringsHasPrefix p ''/'';
          out = cleanElems rooted (stringsSplit p CHR ''/'') []
      in if rooted then ''/'' @ stringsJoin out ''/''
         else if out = [] then ''.'' else stringsJoin out ''/'')"

text \<open>Leading empty arguments are skipped, the others joined with slashes.\<close>

definition pathJoin :: "string list \<Rightarrow> string" where
  "pathJoin elems =
     (case dropWhile (\<lambda>e. e = []) elems of
        [] \<Rightarrow> []
      | es \<Rightarrow> pathClean (stringsJoin es ''/''))"

section \<open>Cleaning\<close>

definition plainElem :: "string \<Rightarrow> bool" where
  "plainElem e \<longleftrightarrow> e \<noteq> [] \<and> e \<noteq> ''.'' \<and> e \<noteq> ''..'' \<and> CHR ''/'' \<notin> set e"

lemma stringsSplit_append_sep: "stringsSplit (s @ c # t) c = stringsSplit s c @ stringsSplit t c"
proof (induction s)
  case Nil
  then show ?case by simp
next
  case (Cons x s)
  obtain q qs where "stringsSplit s c = q # qs"
    by (metis list.exhaust stringsSplit_nonempty)
  then show ?case using Cons by simp
qed

lemma stringsJoin_snoc: "xs \<noteq> [] \<Longrightarrow> stringsJoin (xs @ [e]) sep = stringsJoin xs sep @ sep @ e"
proof (induction xs)
  case (Cons x xs)
  then show ?case by (cases "xs = []") (simp_all add: stringsJoin_Cons)
qed simp

lemma cleanElems_append: "cleanElems r (xs @ ys) out = cleanElems r ys (rev (cleanElems r xs out))"
  by (induction r xs out rule: cleanElems.induct) (auto split: list.split)

lemma cleanElems_snoc: "plainElem e \<Longrightarrow> cleanElems r (xs @ [e]) out = cleanElems r xs out @ [e]"
  by (simp add: cleanElems_append plainElem_def)

lemma cleanElems_set: "set (cleanElems r es out) \<subseteq> set es \<union> set out \<union> {''..''}"
  by (induction r es out rule: cleanElems.induct) (auto split: list.splits if_splits)

text \<open>The elements kept so far are a fixed point: cleaning them again changes nothing.\<close>

definition steady :: "bool \<Rightarrow> string list \<Rightarrow> bool" where
  "steady r out \<longleftrightarrow> cleanElems r (rev out) [] = rev out \<and> list_all (\<lambda>e. e \<noteq> [] \<and> e \<noteq> ''.'') out"

lemma steady_Cons: "e \<noteq> [] \<Longrightarrow> e \<noteq> ''.'' \<Longrightarrow> e \<noteq> ''..'' \<Longrightarrow> steady r (e # out) \<longleftrightarrow> steady r out"
  by (auto simp: steady_def cleanElems_append)

lemma steady_dots: "steady r (''..'' # out) \<Longrightarrow> steady r (''..'' # ''..'' # out)"
proof -
  assume a: "steady r (''..'' # out)"
  then have "cleanElems r (rev (''..'' # out)) [] = rev (''..'' # out)"
    by (simp only: steady_def)
  then have "cleanElems r (rev (''..'' # out) @ [''..'']) [] = rev (''..'' # out) @ [''..'']"
    by (simp only: cleanElems_append) simp
  then show "steady r (''..'' # ''..'' # out)"
    using a by (simp add: steady_def)
qed

lemma cleanElems_steady: "steady r out \<Longrightarrow> steady r (rev (cleanElems r es out))"
proof (induction r es out rule: cleanElems.induct)
  case (1 r out)
  then show ?case by simp
next
  case (2 r e es out)
  have "steady r []" "\<not> r \<Longrightarrow> steady r [''..'']"
    by (simp_all add: steady_def)
  moreover have "out = x # xs \<Longrightarrow> x \<noteq> ''..'' \<Longrightarrow> steady r xs" for x xs
    using 2(5) steady_Cons [of x r xs] by (auto simp: steady_def)
  ultimately show ?case
    using 2 by (auto simp: steady_Cons dest: steady_dots split: list.split)
qed

lemma cleanElems_again: "cleanElems r (cleanElems r es []) [] = cleanElems r es []"
  using cleanElems_steady [of r "[]" es] by (simp add: steady_def)

lemma cleanElems_elems: "p \<in> set (cleanElems r es []) \<Longrightarrow> p \<noteq> []"
  using cleanElems_steady [of r "[]" es] by (auto simp: steady_def list_all_iff)

lemma stringsJoin_nonempty: "xs \<noteq> [] \<Longrightarrow> hd xs \<noteq> [] \<Longrightarrow> stringsJoin xs sep \<noteq> []"
  by (cases xs; cases "tl xs") (auto simp: stringsJoin_Cons)

lemma pathClean_nonempty: "pathClean q \<noteq> []"
  by (auto simp: pathClean_def Let_def dest: stringsJoin_nonempty [rotated])
    (metis cleanElems_elems list.set_sel(1) stringsJoin_nonempty)

text \<open>Joining one plain element to a cleaned path that is not empty appends it.\<close>

lemma pathClean_extend:
  fixes q :: string
  defines "r \<equiv> stringsHasPrefix q ''/''"
  assumes e: "plainElem e" and ne: "cleanElems r (stringsSplit q CHR ''/'') [] \<noteq> []"
  shows "pathClean (pathClean q @ ''/'' @ e) = pathClean q @ ''/'' @ e"
proof -
  define C where "C = cleanElems r (stringsSplit q CHR ''/'') []"
  have C: "C \<noteq> []" "cleanElems r C [] = C" "\<forall>p \<in> set C. CHR ''/'' \<notin> set p" "\<forall>p \<in> set C. p \<noteq> []"
  proof -
    show "C \<noteq> []" "cleanElems r C [] = C"
      using ne by (simp_all add: C_def cleanElems_again)
    show "\<forall>p \<in> set C. CHR ''/'' \<notin> set p"
      using cleanElems_set [of r "stringsSplit q CHR ''/''" "[]"]
      by (auto simp: C_def dest: stringsSplit_parts)
    show "\<forall>p \<in> set C. p \<noteq> []"
      by (auto simp: C_def dest: cleanElems_elems)
  qed
  define D where "D = (if r then ''/'' else []) @ stringsJoin C ''/''"
  have "stringsHasPrefix q ''/'' = r" by (simp add: r_def)
  then have D: "pathClean q = D"
    using C(1) by (cases r) (simp_all add: pathClean_def D_def C_def Let_def)
  have split: "stringsSplit (D @ ''/'' @ e) CHR ''/'' = (if r then [[]] else []) @ C @ [e]"
    using C(1,3) e
    by (auto simp: D_def stringsSplit_append_sep stringsSplit_Join plainElem_def)
  have "stringsJoin C ''/'' \<noteq> []" "\<not> stringsHasPrefix (stringsJoin C ''/'') ''/''"
    using C(1,3,4) by (cases C; cases "tl C"; cases "hd C"; auto simp: stringsHasPrefix_def)+
  then have rooted: "stringsHasPrefix (D @ ''/'' @ e) ''/'' \<longleftrightarrow> r"
    by (cases "stringsJoin C ''/''") (auto simp: D_def stringsHasPrefix_def)
  have "cleanElems r ((if r then [[]] else []) @ C @ [e]) [] = C @ [e]"
    using cleanElems_snoc [OF e, of r C "[]"] C(2) by (cases r) simp_all
  then show ?thesis
    unfolding D unfolding pathClean_def [of "D @ ''/'' @ e"] rooted split Let_def
    using C(1) by (cases r) (simp_all add: stringsJoin_snoc D_def)
qed

end
