(* ===== verification/Publish_Images.thy ===== *)
theory Publish_Images
  imports Go_Path
begin

text \<open>
  \<open>hack/tools/publish-kubemark-images.go\<close>: the tool that builds and pushes one kubemark image per
  Kubernetes version. It drives git, make and docker; a command is its list of arguments, and
  what running it does to the host is a parameter, like the registry, the flag parser and the
  version library. Every command, link and removal is written to a log.
\<close>

section \<open>The host\<close>

text \<open>The error of \<open>cmd.Run\<close>: an \<open>*exec.ExitError\<close> with its code, or another one.\<close>

datatype run_error =
    ExitError int
  | RunError go_error

datatype action =
    Ran "string list" "run_error option"
  | Listed opaque "go_error option"
  | Linked string string "run_error option"
  | Removed string "run_error option"

text \<open>A flag's name, default and usage, as given to \<open>StringVar\<close> and \<open>BoolVar\<close>.\<close>

datatype flag =
    StringVar string string string
  | BoolVar string bool string

record 'w host =
  Run :: "string list \<Rightarrow> 'w \<Rightarrow> run_error option \<times> 'w"
  Link :: "string \<Rightarrow> string \<Rightarrow> 'w \<Rightarrow> run_error option \<times> 'w"
  Remove :: "string \<Rightarrow> 'w \<Rightarrow> run_error option \<times> 'w"
  ParseFlags :: "flag list \<Rightarrow> string list \<Rightarrow> go_error + (string \<Rightarrow> string) \<times> (string \<Rightarrow> bool)"
  NewRepository :: "string \<Rightarrow> go_error + opaque"
  ListTags :: "opaque \<Rightarrow> 'w \<Rightarrow> (go_error + string list) \<times> 'w"
  SemverNewConstraint :: "string \<Rightarrow> go_error + opaque"
  SemverNewVersion :: "string \<Rightarrow> go_error + opaque"
  SemverCheck :: "opaque \<Rightarrow> opaque \<Rightarrow> bool"
  Original :: "opaque \<Rightarrow> string"

record 'w shell =
  host_world :: 'w
  actions :: "action list"

text \<open>A step returns its error or nil.\<close>

type_synonym ('w, 'e) step = "'w shell \<Rightarrow> 'e option \<times> 'w shell"

text \<open>\<open>if err := m(); err != nil { return err }; k\<close>\<close>

definition orReturn :: "('w, 'e) step \<Rightarrow> ('w, 'e) step \<Rightarrow> ('w, 'e) step" where
  "orReturn m k s = (case m s of (Some e, s') \<Rightarrow> (Some e, s') | (None, s') \<Rightarrow> k s')"

text \<open>A step whose error is passed on in another form.\<close>

definition failing :: "('e \<Rightarrow> 'f) \<Rightarrow> ('w, 'e) step \<Rightarrow> ('w, 'f) step" where
  "failing f m s = (case m s of (e, s') \<Rightarrow> (map_option f e, s'))"

definition cmdRun :: "'w host \<Rightarrow> string list \<Rightarrow> ('w, run_error) step" where
  "cmdRun H cmd s =
     (case Run H cmd (host_world s) of
        (e, w) \<Rightarrow> (e, \<lparr>host_world = w, actions = actions s @ [Ran cmd e]\<rparr>))"

definition osLink :: "'w host \<Rightarrow> string \<Rightarrow> string \<Rightarrow> ('w, run_error) step" where
  "osLink H old new s =
     (case Link H old new (host_world s) of
        (e, w) \<Rightarrow> (e, \<lparr>host_world = w, actions = actions s @ [Linked old new e]\<rparr>))"

text \<open>
  \<open>defer func() { os.Remove(file) }()\<close> before the rest of the function: an error of the removal is
  discarded.
\<close>

definition removingAfter :: "'w host \<Rightarrow> string \<Rightarrow> ('w, 'e) step \<Rightarrow> ('w, 'e) step" where
  "removingAfter H file m s =
     (case m s of (e, s') \<Rightarrow>
        (case Remove H file (host_world s') of (failed, w) \<Rightarrow>
          (e, \<lparr>host_world = w, actions = actions s' @ [Removed file failed]\<rparr>)))"

definition remoteList :: "'w host \<Rightarrow> opaque \<Rightarrow> 'w shell \<Rightarrow> (go_error + string list) \<times> 'w shell" where
  "remoteList H repo s =
     (case ListTags H repo (host_world s) of
        (r, w) \<Rightarrow> (r, \<lparr>host_world = w, actions = actions s @ [Listed repo (errOf r)]\<rparr>))"

lemmas step_defs = orReturn_def failing_def cmdRun_def osLink_def removingAfter_def remoteList_def

section \<open>The tool\<close>

record PublishImages =
  ImageName :: string
  KubeDir :: string
  StartingVersion :: string
  Push :: bool

definition publishFlags :: "flag list" where
  "publishFlags =
     [StringVar ''image-name'' ''kubemark'' ''name for the image to be tagged'',
      StringVar ''kube-dir'' [] ''path to your kubernetes checkout'',
      StringVar ''starting-version'' ''1.17.0''
        ''version (inclusive) from which to start building images'',
      BoolVar ''push'' False ''whether the script should push the images after building'']"

definition bindFlags :: "'w host \<Rightarrow> string list \<Rightarrow> go_error + PublishImages" where
  "bindFlags H args =
     (case ParseFlags H publishFlags args of
        Inl e \<Rightarrow> Inl e
      | Inr (strings, bools) \<Rightarrow> Inr
          \<lparr>ImageName = strings ''image-name'', KubeDir = strings ''kube-dir'',
           StartingVersion = strings ''starting-version'', Push = bools ''push''\<rparr>)"

text \<open>\<open>fmt.Sprintf("%s:%s", p.ImageName, v.Original())\<close>\<close>

definition imageRef :: "'w host \<Rightarrow> PublishImages \<Rightarrow> opaque \<Rightarrow> string" where
  "imageRef H p v = ImageName p @ '':'' @ Original H v"

definition dockerBuild :: "'w host \<Rightarrow> PublishImages \<Rightarrow> opaque \<Rightarrow> ('w, run_error) step" where
  "dockerBuild H p v =
     orReturn (cmdRun H [''git'', ''-C'', KubeDir p, ''fetch'', ''--tags'']) (
     orReturn (cmdRun H [''git'', ''-C'', KubeDir p, ''checkout'', Original H v]) (
     orReturn (cmdRun H [''make'', ''-C'', KubeDir p, ''clean'', ''all'', ''WHAT=cmd/kubemark'',
                         ''CGO_ENABLED=0'']) (
     let dockerfilePath = pathJoin [KubeDir p, ''cluster/images/kubemark''];
         symlinkPath = pathJoin [dockerfilePath, ''kubemark'']
     in orReturn (osLink H (pathJoin [KubeDir p, ''_output/bin/kubemark'']) symlinkPath) (
          removingAfter H symlinkPath (
            cmdRun H [''docker'', ''build'', ''--pull'', ''--tag='' @ imageRef H p v,
                      dockerfilePath])))))"

definition dockerPush :: "'w host \<Rightarrow> PublishImages \<Rightarrow> opaque \<Rightarrow> ('w, run_error) step" where
  "dockerPush H p v s =
     (if \<not> Push p then (None, s) else cmdRun H [''docker'', ''push'', imageRef H p v] s)"

text \<open>The exit codes 1 and 125 of \<open>docker image inspect\<close> say that there is no such image.\<close>

definition imageExists :: "'w host \<Rightarrow> PublishImages \<Rightarrow> opaque \<Rightarrow> 'w shell \<Rightarrow>
    (bool \<times> run_error option) \<times> 'w shell" where
  "imageExists H p v s =
     (case cmdRun H [''docker'', ''image'', ''inspect'', imageRef H p v] s of
        (None, s') \<Rightarrow> ((True, None), s')
      | (Some (ExitError code), s') \<Rightarrow>
          if code = 1 \<or> code = 125 then ((False, None), s')
          else ((False, Some (ExitError code)), s')
      | (Some e, s') \<Rightarrow> ((False, Some e), s'))"

text \<open>\<open>log.Fatalf\<close> ends the program: the format string, and the error it shows.\<close>

datatype fatal =
    FatalMessage string
  | FatalError string go_error
  | FatalRun string run_error

definition publishTag :: "'w host \<Rightarrow> PublishImages \<Rightarrow> opaque \<Rightarrow> string \<Rightarrow> ('w, fatal) step" where
  "publishTag H p constraint t s =
     (case SemverNewVersion H t of
        Inl e \<Rightarrow> (None, s)
      | Inr v \<Rightarrow>
        if SemverCheck H constraint v
        then (case imageExists H p v s of
                ((found, Some e), s1) \<Rightarrow>
                  (Some (FatalRun ''err checking if image exists for %v: %v'' e), s1)
              | ((found, None), s1) \<Rightarrow>
                  orReturn
                    (if found then (\<lambda>s. (None, s))
                     else failing (FatalRun ''err building docker image for %v: %v'')
                            (dockerBuild H p v))
                    (failing (FatalRun ''err pushing docker image: %v'') (dockerPush H p v)) s1)
        else (None, s))"

fun publishTags :: "'w host \<Rightarrow> PublishImages \<Rightarrow> opaque \<Rightarrow> string list \<Rightarrow> ('w, fatal) step" where
  "publishTags H p constraint [] = (\<lambda>s. (None, s))"
| "publishTags H p constraint (t # ts) =
     orReturn (publishTag H p constraint t) (publishTags H p constraint ts)"

text \<open>\<open>main\<close>: \<open>None\<close> is the normal end of the program.\<close>

definition publishMain :: "'w host \<Rightarrow> string list \<Rightarrow> ('w, fatal) step" where
  "publishMain H args s =
     (case bindFlags H args of
        Inl e \<Rightarrow> (Some (FatalError ''failed to parse flags: %v'' e), s)
      | Inr p \<Rightarrow>
        if KubeDir p = [] then (Some (FatalMessage ''--kube-dir must be set''), s)
        else
          (case SemverNewConstraint H (''>= '' @ StartingVersion p) of
             Inl e \<Rightarrow> (Some (FatalError ''err parsing %s: %v'' e), s)
           | Inr constraint \<Rightarrow>
               orReturn
                 (failing (FatalRun ''err fetching remote tags: %v'')
                    (cmdRun H [''git'', ''-C'', KubeDir p, ''fetch'', ''--tags'']))
                 (\<lambda>s. case NewRepository H ''k8s.gcr.io/kube-proxy'' of
                        Inl e \<Rightarrow> (Some (FatalError ''err parsing %v'' e), s)
                      | Inr repo \<Rightarrow>
                          (case remoteList H repo s of
                             (Inl e, s') \<Rightarrow> (Some (FatalError ''err fetching tags %v'' e), s')
                           | (Inr tags, s') \<Rightarrow> publishTags H p constraint tags s')) s))"

section \<open>What the log tells\<close>

text \<open>The image a push command pushes; the image a command shows to exist when it succeeds.\<close>

fun pushedRef :: "action \<Rightarrow> string option" where
  "pushedRef (Ran [a, b, r] e) = (if a = ''docker'' \<and> b = ''push'' then Some r else None)"
| "pushedRef _ = None"

fun shownRef :: "action \<Rightarrow> string option" where
  "shownRef (Ran [a, b, c, r] None) =
     (if a = ''docker'' \<and> b = ''image'' \<and> c = ''inspect'' then Some r else None)"
| "shownRef (Ran [a, b, c, d, f] None) =
     (if a = ''docker'' \<and> b = ''build'' \<and> c = ''--pull'' \<and> stringsHasPrefix d ''--tag='' then Some (drop 6 d) else None)"
| "shownRef _ = None"

text \<open>Images are pushed only when asked for, and only after they were found or built.\<close>

fun pushesShown :: "bool \<Rightarrow> string set \<Rightarrow> action list \<Rightarrow> bool" where
  "pushesShown asked known [] = True"
| "pushesShown asked known (a # as) =
     ((case pushedRef a of None \<Rightarrow> True | Some r \<Rightarrow> asked \<and> r \<in> known) \<and>
      pushesShown asked (case shownRef a of None \<Rightarrow> known | Some r \<Rightarrow> insert r known) as)"

text \<open>
  The links that were made and are still there, each with the error of the last attempt to remove it, if
  there was one.
\<close>

fun openLinks :: "(string \<times> run_error option) list \<Rightarrow> action list \<Rightarrow> (string \<times> run_error option) list"
where
  "openLinks fs [] = fs"
| "openLinks fs (Linked old new None # as) = openLinks ((new, None) # fs) as"
| "openLinks fs (Removed file None # as) = openLinks (filter (\<lambda>(f, _). f \<noteq> file) fs) as"
| "openLinks fs (Removed file (Some e) # as) =
     openLinks (map (\<lambda>(f, e'). (f, if f = file then Some e else e')) fs) as"
| "openLinks fs (a # as) = openLinks fs as"

text \<open>Links that nobody has tried to remove.\<close>

definition forgotten :: "(string \<times> run_error option) list \<Rightarrow> bool" where
  "forgotten fs \<longleftrightarrow> (\<exists>f. (f, None) \<in> set fs)"

definition knownRefs :: "action list \<Rightarrow> string set" where
  "knownRefs acts = {r. \<exists>a \<in> set acts. shownRef a = Some r}"

lemma pushesShown_append:
  "pushesShown asked K (xs @ ys) \<longleftrightarrow>
     pushesShown asked K xs \<and> pushesShown asked (K \<union> knownRefs xs) ys"
proof (induction xs arbitrary: K)
  case Nil
  then show ?case by (simp add: knownRefs_def)
next
  case (Cons a xs)
  have "K \<union> knownRefs (a # xs) =
      (case shownRef a of None \<Rightarrow> K | Some r \<Rightarrow> insert r K) \<union> knownRefs xs"
    by (auto simp: knownRefs_def split: option.split)
  then show ?case by (auto simp: Cons.IH split: option.split)
qed

lemma pushesShown_mono: "pushesShown asked K xs \<Longrightarrow> K \<subseteq> K' \<Longrightarrow> pushesShown asked K' xs"
proof (induction xs arbitrary: K K')
  case (Cons a xs)
  let ?more = "\<lambda>K. case shownRef a of None \<Rightarrow> K | Some r \<Rightarrow> insert r K"
  have "pushesShown asked (?more K') xs"
    by (rule Cons.IH [of "?more K"]) (use Cons.prems in \<open>auto split: option.split\<close>)
  then show ?case
    using Cons.prems by (auto split: option.splits)
qed simp

lemma pushesShown_split:
  assumes "pushesShown asked {} (xs @ a # ys)" and "pushedRef a = Some r"
  shows "asked" and "r \<in> knownRefs xs"
  using assms by (simp_all add: pushesShown_append)

lemma openLinks_append: "openLinks fs (xs @ ys) = openLinks (openLinks fs xs) ys"
  by (induction fs xs rule: openLinks.induct) simp_all

lemma forgotten_simps [simp]:
  "\<not> forgotten []" "\<not> forgotten (openLinks [(f, None)] [Removed f r])"
  by (simp add: forgotten_def) (cases r; simp add: forgotten_def)

lemma not_forgotten: "\<not> forgotten fs \<Longrightarrow> (l, e) \<in> set fs \<Longrightarrow> e \<noteq> None"
  by (cases e) (auto simp: forgotten_def)

lemma forgotten_append: "\<not> forgotten gs \<Longrightarrow> \<not> forgotten (openLinks fs as) \<Longrightarrow> \<not> forgotten (openLinks (fs @ gs) as)"
proof (induction fs as arbitrary: gs rule: openLinks.induct)
  case (3 fs l as)
  then show ?case by (auto simp: forgotten_def)
next
  case (4 fs l e as)
  have "\<not> forgotten (map (\<lambda>(f, e'). (f, if f = l then Some e else e')) gs)"
    using 4(2) by (auto simp: forgotten_def split: if_splits)
  with 4 show ?case by simp
qed (auto simp: forgotten_def)

text \<open>A log that pushes only what is shown, and forgets no link; such logs compose.\<close>

definition tidy :: "bool \<Rightarrow> action list \<Rightarrow> bool" where
  "tidy asked acts \<longleftrightarrow> pushesShown asked {} acts \<and> \<not> forgotten (openLinks [] acts)"

lemma tidy_Nil [simp]: "tidy asked []"
  by (simp add: tidy_def)

lemma tidy_append: "tidy asked xs \<Longrightarrow> tidy asked ys \<Longrightarrow> tidy asked (xs @ ys)"
  using pushesShown_mono [of asked "{}" ys "knownRefs xs"] forgotten_append [of "openLinks [] xs" "[]" ys]
  by (simp add: tidy_def pushesShown_append openLinks_append)

text \<open>What a step adds to the log, given how it ended.\<close>

definition adds :: "('e option \<Rightarrow> action list \<Rightarrow> bool) \<Rightarrow> ('w, 'e) step \<Rightarrow> bool" where
  "adds Q m \<longleftrightarrow> (\<forall>s e s'. m s = (e, s') \<longrightarrow> (\<exists>evs. actions s' = actions s @ evs \<and> Q e evs))"

lemma addsD: "adds Q m \<Longrightarrow> m s = (e, s') \<Longrightarrow> \<exists>evs. actions s' = actions s @ evs \<and> Q e evs"
  by (simp add: adds_def)

lemma adds_mono: "adds P m \<Longrightarrow> (\<And>e evs. P e evs \<Longrightarrow> Q e evs) \<Longrightarrow> adds Q m"
  unfolding adds_def by blast

lemma adds_orReturn:
  assumes "adds (\<lambda>e xs. case e of Some e' \<Rightarrow> Q (Some e') xs | None \<Rightarrow> adds (\<lambda>e ys. Q e (xs @ ys)) k) m"
  shows "adds Q (orReturn m k)"
  unfolding adds_def orReturn_def
proof (intro allI impI)
  fix s e s'
  assume run: "(case m s of (Some e, s') \<Rightarrow> (Some e, s') | (None, s') \<Rightarrow> k s') = (e, s')"
  obtain e1 s1 where m: "m s = (e1, s1)" by (cases "m s")
  obtain xs where xs: "actions s1 = actions s @ xs"
    "case e1 of Some e' \<Rightarrow> Q (Some e') xs | None \<Rightarrow> adds (\<lambda>e ys. Q e (xs @ ys)) k"
    using addsD [OF assms(1) m] by blast
  show "\<exists>evs. actions s' = actions s @ evs \<and> Q e evs"
  proof (cases e1)
    case None
    then have "k s1 = (e, s')" and k: "adds (\<lambda>e ys. Q e (xs @ ys)) k"
      using run m xs(2) by simp_all
    from addsD [OF k this(1)] obtain ys where "actions s' = actions s1 @ ys" "Q e (xs @ ys)"
      by blast
    then show ?thesis using xs(1) by (intro exI [of _ "xs @ ys"]) simp
  next
    case (Some e')
    then show ?thesis using run m xs by (intro exI [of _ xs]) auto
  qed
qed

lemma adds_failing: "adds (\<lambda>e evs. Q (map_option f e) evs) m \<Longrightarrow> adds Q (failing f m)"
  by (auto simp: adds_def failing_def split: prod.splits)

lemma adds_cmdRun: "(\<And>e. Q e [Ran cmd e]) \<Longrightarrow> adds Q (cmdRun H cmd)"
  by (auto simp: adds_def cmdRun_def split: prod.splits)

lemma adds_osLink: "(\<And>e. Q e [Linked old new e]) \<Longrightarrow> adds Q (osLink H old new)"
  by (auto simp: adds_def osLink_def split: prod.splits)

lemma adds_removingAfter:
  "adds (\<lambda>e evs. \<forall>failed. Q e (evs @ [Removed file failed])) m \<Longrightarrow> adds Q (removingAfter H file m)"
  by (fastforce simp: adds_def removingAfter_def split: prod.splits)

lemma adds_skip: "Q None [] \<Longrightarrow> adds Q (\<lambda>s. (None, s))"
  by (simp add: adds_def)

section \<open>The tool's log is tidy\<close>

lemmas adds_rules = adds_orReturn adds_failing adds_cmdRun adds_osLink adds_removingAfter

lemma shownRef_tag [simp]: "stringsHasPrefix (CHR ''-'' # CHR ''-'' # ''tag='' @ r) ''--tag=''"
  using stringsHasPrefix_append [of "''--tag=''" r] by simp

lemma adds_dockerBuild:
  "adds (\<lambda>e evs. tidy asked evs \<and> (e = None \<longrightarrow> imageRef H p v \<in> knownRefs evs)) (dockerBuild H p v)"
  unfolding dockerBuild_def Let_def
  by (intro adds_rules; auto split: option.split intro!: adds_rules
      simp: tidy_def knownRefs_def shownRef_tag [simplified])

lemma adds_dockerPush:
  "adds (\<lambda>e evs. evs = [] \<or> Push p \<and> (\<exists>e'. evs = [Ran [''docker'', ''push'', imageRef H p v] e']))
     (dockerPush H p v)"
  by (auto simp: adds_def dockerPush_def cmdRun_def split: prod.splits)

lemma tidy_shown_push:
  assumes "tidy (Push p) xs" and "r \<in> knownRefs xs"
    and "ys = [] \<or> Push p \<and> (\<exists>e'. ys = [Ran [''docker'', ''push'', r] e'])"
  shows "tidy (Push p) (xs @ ys)"
  using assms by (auto simp: tidy_def pushesShown_append openLinks_append)

lemma imageExists_log:
  assumes "imageExists H p v s = ((found, err), s')"
  shows "\<exists>evs. actions s' = actions s @ evs \<and> tidy asked evs \<and>
    (err = None \<longrightarrow> found \<longrightarrow> imageRef H p v \<in> knownRefs evs)"
  using assms
  by (auto simp: imageExists_def cmdRun_def tidy_def knownRefs_def
      split: prod.splits option.splits run_error.splits if_splits)

lemma adds_publishTag: "adds (\<lambda>_ evs. tidy (Push p) evs) (publishTag H p con t)"
  unfolding adds_def
proof (intro allI impI)
  fix s e s' assume run: "publishTag H p con t s = (e, s')"
  show "\<exists>evs. actions s' = actions s @ evs \<and> tidy (Push p) evs"
  proof (cases "\<exists>v. SemverNewVersion H t = Inr v \<and> SemverCheck H con v")
    case False
    then have "s' = s"
      using run by (auto simp: publishTag_def split: sum.splits)
    then show ?thesis by (intro exI [of _ "[]"]) simp
  next
    case True
    then obtain v where v: "SemverNewVersion H t = Inr v" "SemverCheck H con v" by blast
    obtain found err s1 where ex: "imageExists H p v s = ((found, err), s1)"
      by (metis prod.exhaust)
    obtain xs where xs: "actions s1 = actions s @ xs" "tidy (Push p) xs"
      "err = None \<longrightarrow> found \<longrightarrow> imageRef H p v \<in> knownRefs xs"
      using imageExists_log [OF ex] by blast
    let ?build = "if found then (\<lambda>s. (None, s))
      else failing (FatalRun ''err building docker image for %v: %v'') (dockerBuild H p v)"
    have build: "adds (\<lambda>e evs. tidy (Push p) evs \<and>
        (e = None \<longrightarrow> found \<or> imageRef H p v \<in> knownRefs evs)) ?build"
    proof (cases found)
      case True
      then show ?thesis by (simp add: adds_def)
    next
      case False
      have "adds (\<lambda>e evs. tidy (Push p) evs \<and>
          (e = None \<longrightarrow> found \<or> imageRef H p v \<in> knownRefs evs))
        (failing (FatalRun ''err building docker image for %v: %v'') (dockerBuild H p v))"
        by (intro adds_failing adds_mono [OF adds_dockerBuild [of "Push p"]]) auto
      then show ?thesis using False by simp
    qed
    show ?thesis
    proof (cases err)
      case (Some e')
      then show ?thesis using run v ex xs by (auto simp: publishTag_def)
    next
      case None
      have push: "adds (\<lambda>_ ys. tidy (Push p) (zs @ ys))
          (failing (FatalRun ''err pushing docker image: %v'') (dockerPush H p v))"
        if "tidy (Push p) zs" "imageRef H p v \<in> knownRefs zs" for zs
        by (intro adds_failing adds_mono [OF adds_dockerPush] tidy_shown_push [OF that])
      have step: "case e of Some e' \<Rightarrow> tidy (Push p) (xs @ evs) | None \<Rightarrow>
          adds (\<lambda>_ ys. tidy (Push p) (xs @ evs @ ys))
            (failing (FatalRun ''err pushing docker image: %v'') (dockerPush H p v))"
        if "tidy (Push p) evs \<and> (e = None \<longrightarrow> found \<or> imageRef H p v \<in> knownRefs evs)"
        for e :: "fatal option" and evs
        using that xs None push [of "xs @ evs"]
        by (auto simp: tidy_append knownRefs_def split: option.split)
      have "adds (\<lambda>_ evs. tidy (Push p) (xs @ evs)) (orReturn ?build
          (failing (FatalRun ''err pushing docker image: %v'') (dockerPush H p v)))"
        by (rule adds_orReturn, rule adds_mono [OF build], rule step)
      note rest = this
      have "orReturn ?build (failing (FatalRun ''err pushing docker image: %v'') (dockerPush H p v))
          s1 = (e, s')"
        using run v ex None by (simp add: publishTag_def)
      from addsD [OF rest this] xs(1) show ?thesis by auto
    qed
  qed
qed

lemma adds_publishTags: "adds (\<lambda>_ evs. tidy (Push p) evs) (publishTags H p con ts)"
proof (induction ts)
  case Nil
  then show ?case by (simp add: adds_def)
next
  case (Cons t ts)
  show ?case
    by (auto intro!: adds_orReturn adds_mono [OF adds_publishTag] adds_mono [OF Cons.IH] tidy_append
        split: option.split)
qed

lemma tidy_quiet:
  "tidy asked [Ran [''git'', ''-C'', d, ''fetch'', ''--tags''] e]" "tidy asked [Listed repo err]"
  by (cases e; simp add: tidy_def)+

lemma adds_remoteList:
  assumes "\<And>e. Q (Some (f e)) [Listed repo (Some e)]"
    and "\<And>tags. adds (\<lambda>e ys. Q e ([Listed repo None] @ ys)) (k tags)"
  shows "adds Q (\<lambda>s. case remoteList H repo s of
    (Inl e, s') \<Rightarrow> (Some (f e), s') | (Inr tags, s') \<Rightarrow> k tags s')"
  using assms
  by (fastforce simp: adds_def remoteList_def split: prod.splits sum.splits)

lemma adds_publishMain:
  "adds (\<lambda>_ evs. tidy (case bindFlags H args of Inl _ \<Rightarrow> False | Inr p \<Rightarrow> Push p) evs)
     (publishMain H args)"
proof (cases "bindFlags H args")
  case (Inl e)
  then show ?thesis by (simp add: publishMain_def adds_def)
next
  case (Inr p)
  have list: "adds (\<lambda>_ evs. tidy (Push p) evs) (\<lambda>s. case remoteList H repo s of
      (Inl e, s') \<Rightarrow> (Some (FatalError ''err fetching tags %v'' e), s')
    | (Inr tags, s') \<Rightarrow> publishTags H p con tags s')" for repo con
    by (intro adds_remoteList adds_mono [OF adds_publishTags] tidy_append) (simp_all add: tidy_quiet)
  have rest: "adds (\<lambda>_ evs. tidy (Push p) (xs @ evs)) (\<lambda>s. case NewRepository H name of
      Inl e \<Rightarrow> (Some (FatalError ''err parsing %v'' e), s)
    | Inr repo \<Rightarrow> (case remoteList H repo s of
        (Inl e, s') \<Rightarrow> (Some (FatalError ''err fetching tags %v'' e), s')
      | (Inr tags, s') \<Rightarrow> publishTags H p con tags s'))" if "tidy (Push p) xs" for xs name con
  proof (cases "NewRepository H name")
    case Inl
    then show ?thesis using that by (simp add: adds_def)
  next
    case (Inr repo)
    then show ?thesis using that
      by (simp add: adds_mono [OF list] tidy_append)
  qed
  have "adds (\<lambda>_ evs. tidy (Push p) evs) (orReturn
      (failing f (cmdRun H [''git'', ''-C'', KubeDir p, ''fetch'', ''--tags'']))
      (\<lambda>s. case NewRepository H name of
        Inl e \<Rightarrow> (Some (FatalError ''err parsing %v'' e), s)
      | Inr repo \<Rightarrow> (case remoteList H repo s of
          (Inl e, s') \<Rightarrow> (Some (FatalError ''err fetching tags %v'' e), s')
        | (Inr tags, s') \<Rightarrow> publishTags H p con tags s')))" for f name con
    by (intro adds_rules) (auto split: option.split intro!: rest simp del: append.simps
        simp: tidy_quiet)
  then show ?thesis
    using Inr by (auto simp: publishMain_def adds_def split: sum.splits if_splits)
qed

section \<open>When no command fails\<close>

text \<open>
  What was done went well. Docker's answer that there is no such image is no failure, and neither is one of
  \<open>os.Remove\<close>, which the tool discards.
\<close>

fun done_well :: "action \<Rightarrow> bool" where
  "done_well (Ran cmd e) \<longleftrightarrow> e = None \<or>
     take 3 cmd = [''docker'', ''image'', ''inspect''] \<and> (e = Some (ExitError 1) \<or> e = Some (ExitError 125))"
| "done_well (Listed repo e) \<longleftrightarrow> e = None"
| "done_well (Linked old new e) \<longleftrightarrow> e = None"
| "done_well (Removed file e) \<longleftrightarrow> True"

lemma dockerBuild_ok: "adds (\<lambda>e evs. list_all done_well evs \<longrightarrow> e = None) (dockerBuild H p v)"
  unfolding dockerBuild_def Let_def
  by (intro adds_rules; auto split: option.split intro!: adds_rules)

definition pushedIn :: "'w host \<Rightarrow> PublishImages \<Rightarrow> opaque \<Rightarrow> string \<Rightarrow> action list \<Rightarrow> bool" where
  "pushedIn H p con t evs \<longleftrightarrow>
     (\<forall>v. SemverNewVersion H t = Inr v \<longrightarrow> SemverCheck H con v \<longrightarrow> Push p \<longrightarrow>
        Ran [''docker'', ''push'', imageRef H p v] None \<in> set evs)"

lemma pushedIn_more: "pushedIn H p con t evs \<Longrightarrow> pushedIn H p con t (xs @ evs @ ys)"
  by (simp add: pushedIn_def)

lemma dockerPush_ok:
  assumes "SemverNewVersion H t = Inr v"
  shows "adds (\<lambda>e evs. list_all done_well evs \<longrightarrow> e = None \<and> pushedIn H p con t (xs @ evs)) (dockerPush H p v)"
  using assms by (auto simp: adds_def dockerPush_def cmdRun_def pushedIn_def split: prod.splits)

lemma imageExists_ok:
  assumes "imageExists H p v s = ((found, err), s')"
  shows "\<exists>e. actions s' = actions s @ [Ran [''docker'', ''image'', ''inspect'', imageRef H p v] e] \<and>
    (err \<noteq> None \<longrightarrow> \<not> done_well (Ran [''docker'', ''image'', ''inspect'', imageRef H p v] e))"
  using assms
  by (auto simp: imageExists_def cmdRun_def split: prod.splits option.splits run_error.splits if_splits)

lemma publishTag_ok:
  "adds (\<lambda>e evs. list_all done_well evs \<longrightarrow> e = None \<and> pushedIn H p con t evs) (publishTag H p con t)"
proof (cases "\<exists>v. SemverNewVersion H t = Inr v \<and> SemverCheck H con v")
  case False
  then show ?thesis
    by (auto simp: adds_def publishTag_def pushedIn_def split: sum.splits)
next
  case True
  then obtain v where v: "SemverNewVersion H t = Inr v" "SemverCheck H con v" by blast
  have build: "adds (\<lambda>e evs. list_all done_well evs \<longrightarrow> e = None) (if found then (\<lambda>s. (None, s))
      else failing f (dockerBuild H p v))" for found and f :: "run_error \<Rightarrow> fatal"
    by (auto intro: adds_failing adds_mono [OF dockerBuild_ok] simp: adds_skip)
  have rest: "adds (\<lambda>e ys. list_all done_well (xs @ ys) \<longrightarrow> e = None \<and> pushedIn H p con t (xs @ ys))
      (orReturn (if found then (\<lambda>s. (None, s)) else failing f (dockerBuild H p v)) (failing g (dockerPush H p v)))"
    for xs found and f g :: "run_error \<Rightarrow> fatal"
    by (rule adds_orReturn, rule adds_mono [OF build])
      (auto split: option.split intro!: adds_failing adds_mono [OF dockerPush_ok [OF v(1)]] simp flip: append_assoc)
  show ?thesis
    unfolding adds_def
  proof (intro allI impI)
    fix s e s' assume run: "publishTag H p con t s = (e, s')"
    obtain found err s1 where ex: "imageExists H p v s = ((found, err), s1)"
      by (metis prod.exhaust)
    obtain r where r: "actions s1 = actions s @ [Ran [''docker'', ''image'', ''inspect'', imageRef H p v] r]"
      "err \<noteq> None \<longrightarrow> \<not> done_well (Ran [''docker'', ''image'', ''inspect'', imageRef H p v] r)"
      using imageExists_ok [OF ex] by (elim exE conjE)
    show "\<exists>evs. actions s' = actions s @ evs \<and>
        (list_all done_well evs \<longrightarrow> e = None \<and> pushedIn H p con t evs)"
    proof (cases err)
      case (Some e')
      then show ?thesis using run v ex r by (auto simp: publishTag_def)
    next
      case None
      then have "orReturn (if found then (\<lambda>s. (None, s))
          else failing (FatalRun ''err building docker image for %v: %v'') (dockerBuild H p v))
        (failing (FatalRun ''err pushing docker image: %v'') (dockerPush H p v)) s1 = (e, s')"
        using run v ex by (simp add: publishTag_def)
      from addsD [OF rest [of "[Ran [''docker'', ''image'', ''inspect'', imageRef H p v] r]"] this]
      show ?thesis using r(1) by force
    qed
  qed
qed

lemma publishTags_ok:
  "adds (\<lambda>e evs. list_all done_well evs \<longrightarrow> e = None \<and> (\<forall>t \<in> set ts. pushedIn H p con t evs))
     (publishTags H p con ts)"
proof (induction ts)
  case Nil
  then show ?case by (simp add: adds_def)
next
  case (Cons t ts)
  have "case e of Some e' \<Rightarrow> list_all done_well xs \<longrightarrow> Some e' = None \<and> (\<forall>t \<in> set (t # ts). pushedIn H p con t xs)
      | None \<Rightarrow> adds (\<lambda>e ys. list_all done_well (xs @ ys) \<longrightarrow>
          e = None \<and> (\<forall>t \<in> set (t # ts). pushedIn H p con t (xs @ ys))) (publishTags H p con ts)"
    if "list_all done_well xs \<longrightarrow> e = None \<and> pushedIn H p con t xs" for e :: "fatal option" and xs
    using that pushedIn_more [of H p con _ _ "[]"] pushedIn_more [of H p con t xs "[]"]
    by (auto intro!: adds_mono [OF Cons.IH] simp: pushedIn_def split: option.split)
  then show ?case
    unfolding publishTags.simps by (intro adds_orReturn adds_mono [OF publishTag_ok])
qed

lemma publishMain_ok:
  assumes p: "bindFlags H args = Inr p" "KubeDir p \<noteq> []"
    and con: "SemverNewConstraint H (''>= '' @ StartingVersion p) = Inr con"
    and repo: "NewRepository H ''k8s.gcr.io/kube-proxy'' = Inr repo"
    and fetch: "Run H [''git'', ''-C'', KubeDir p, ''fetch'', ''--tags''] (host_world s) = (e, w)"
    and tags: "fst (ListTags H repo w) = Inr tags"
    and run: "publishMain H args s = (out, s')"
  shows "\<exists>evs. actions s' = actions s @ evs \<and>
    (list_all done_well evs \<longrightarrow> out = None \<and> (\<forall>t \<in> set tags. pushedIn H p con t evs))"
proof (cases e)
  case (Some err)
  then show ?thesis
    using run by (auto simp: publishMain_def p con [simplified] fetch step_defs)
next
  case None
  obtain w' where list: "ListTags H repo w = (Inr tags, w')"
    using tags by (metis prod.collapse)
  let ?s = "\<lparr>host_world = w', actions = actions s @
    [Ran [''git'', ''-C'', KubeDir p, ''fetch'', ''--tags''] None, Listed repo None]\<rparr>"
  have "publishTags H p con tags ?s = (out, s')"
    using run None by (simp add: publishMain_def p con [simplified] repo fetch list step_defs)
  from addsD [OF publishTags_ok this] show ?thesis
    by (auto simp: pushedIn_def)
qed

section \<open>The docker context\<close>

lemma context_path:
  assumes "dir \<noteq> []"
  shows "pathJoin [pathJoin [dir, ''cluster/images/kubemark''], ''kubemark''] =
    pathJoin [dir, ''cluster/images/kubemark''] @ ''/kubemark''"
proof -
  define q where "q = dir @ ''/'' @ ''cluster/images/kubemark''"
  have q: "pathJoin [dir, ''cluster/images/kubemark''] = pathClean q"
    using assms by (simp add: pathJoin_def q_def)
  have "stringsSplit q CHR ''/'' = (stringsSplit dir CHR ''/'' @ [''cluster'', ''images'']) @ [''kubemark'']"
    by (simp add: q_def stringsSplit_append_sep)
  moreover have plain: "plainElem ''kubemark''"
    by (simp add: plainElem_def)
  ultimately have ne: "cleanElems r (stringsSplit q CHR ''/'') [] \<noteq> []" for r
    by (simp only: cleanElems_snoc) simp
  have extend: "pathClean (pathClean q @ ''/'' @ ''kubemark'') = pathClean q @ ''/'' @ ''kubemark''"
    by (rule pathClean_extend [OF plain ne])
  have "pathJoin [pathClean q, ''kubemark''] = pathClean (pathClean q @ ''/'' @ ''kubemark'')"
    by (simp add: pathJoin_def pathClean_nonempty)
  then show ?thesis
    using q extend by simp
qed

lemma dockerBuild_context:
  assumes "KubeDir p \<noteq> []" and "dockerBuild H p v s = (e, s')"
    and "actions s' = actions s @ evs" and "Linked old new err \<in> set evs"
  shows "\<exists>d. new = d @ ''/kubemark'' \<and>
    (\<forall>cmd e'. Ran (''docker'' # cmd) e' \<in> set evs \<longrightarrow> last cmd = d) \<and>
    (err = None \<longrightarrow> (\<exists>failed. last evs = Removed new failed))"
  using assms
  by (auto simp: dockerBuild_def step_defs Let_def context_path
      split: prod.splits option.splits intro!: exI [of _ "pathJoin [KubeDir p, ''cluster/images/kubemark'']"])

end
