(* ===== verification/Tool_Theorems.thy ===== *)
theory Tool_Theorems
  imports Publish_Images
begin

text \<open>
  The properties of the image tool, with a concrete host for the witnesses: a registry with two
  tags of which one is a version, and commands that succeed, except that no image exists yet.
\<close>

section \<open>A host\<close>

definition demoHost :: "unit host" where
  "demoHost =
     \<lparr>Run = (\<lambda>cmd w. (if take 3 cmd = [''docker'', ''image'', ''inspect''] then Some (ExitError 1)
                       else None, w)),
      Link = (\<lambda>a b w. (None, w)),
      Remove = (\<lambda>f w. (None, w)),
      ParseFlags = (\<lambda>fs args. Inr ((\<lambda>n. if n = ''kube-dir'' then ''/k8s'' else ''img''), (\<lambda>n. True))),
      NewRepository = Inr,
      ListTags = (\<lambda>repo w. (Inr [''latest'', ''v1.22.0''], w)),
      SemverNewConstraint = Inr,
      SemverNewVersion = (\<lambda>t. if t = ''latest'' then Inl (Foreign ''invalid'') else Inr t),
      SemverCheck = (\<lambda>c v. True),
      Original = (\<lambda>v. v)\<rparr>"

definition demoShell :: "unit shell" where
  "demoShell = \<lparr>host_world = (), actions = []\<rparr>"

lemmas demo_host_defs = demoHost_def demoShell_def bindFlags_def publishMain_def
  publishTag_def imageExists_def dockerBuild_def dockerPush_def imageRef_def step_defs Let_def

lemma demoHost_run:
  "\<exists>s' xs. publishMain demoHost [] demoShell = (None, s') \<and>
     actions s' = actions demoShell @ xs @ [Ran [''docker'', ''push'', ''img:v1.22.0''] None] \<and>
     list_all done_well xs"
  by (simp add: demo_host_defs append_eq_append_conv2)

section \<open>Properties\<close>

lemma knownRefs_cases:
  assumes "r \<in> knownRefs xs"
  shows "Ran [''docker'', ''image'', ''inspect'', r] None \<in> set xs \<or>
    (\<exists>d. Ran [''docker'', ''build'', ''--pull'', ''--tag='' @ r, d] None \<in> set xs)"
proof -
  obtain a where a: "a \<in> set xs" "shownRef a = Some r"
    using assms by (auto simp: knownRefs_def)
  have tag: "stringsHasPrefix d ''--tag='' \<Longrightarrow> ''--tag='' @ drop 6 d = d" for d
    using stringsHasPrefix_drop [of d "''--tag=''"] by (simp add: eval_nat_numeral)
  show ?thesis
    using a tag by (cases a rule: shownRef.cases) (fastforce split: if_splits)+
qed

text \<open>
  C34: The tool pushes an image only when it was started with \<open>--push\<close>, and only after docker showed
  the image to exist or built it, in the same run, under the same name and tag.
\<close>

theorem pushes_only_shown_images:
  assumes "publishMain H args s = (out, s')"
    and "actions s' = actions s @ xs @ Ran [''docker'', ''push'', r] e # ys"
  shows "(\<exists>p. bindFlags H args = Inr p \<and> Push p) \<and>
    (Ran [''docker'', ''image'', ''inspect'', r] None \<in> set xs \<or>
     (\<exists>d. Ran [''docker'', ''build'', ''--pull'', ''--tag='' @ r, d] None \<in> set xs))"
proof -
  define asked where "asked = (case bindFlags H args of Inl _ \<Rightarrow> False | Inr p \<Rightarrow> Push p)"
  have "tidy asked (xs @ Ran [''docker'', ''push'', r] e # ys)"
    using addsD [OF adds_publishMain assms(1)] assms(2) by (simp add: asked_def)
  then have pushes: "pushesShown asked {} (xs @ Ran [''docker'', ''push'', r] e # ys)"
    by (simp add: tidy_def)
  have "asked" and r: "r \<in> knownRefs xs"
    using pushesShown_split [OF pushes, of r] by simp_all
  then show ?thesis
    using knownRefs_cases [OF r] by (auto simp: asked_def split: sum.splits)
qed

theorem pushes_only_shown_images_witness:
  "\<exists>s' xs d. publishMain demoHost [] demoShell = (None, s') \<and>
     actions s' = xs @ [Ran [''docker'', ''push'', ''img:v1.22.0''] None] \<and>
     (Ran [''docker'', ''image'', ''inspect'', ''img:v1.22.0''] None \<in> set xs \<or>
      Ran [''docker'', ''build'', ''--pull'', ''--tag=img:v1.22.0'', d] None \<in> set xs)"
proof -
  obtain s' xs where run: "publishMain demoHost [] demoShell = (None, s')"
    "actions s' = actions demoShell @ xs @ [Ran [''docker'', ''push'', ''img:v1.22.0''] None]"
    using demoHost_run by blast
  show ?thesis
    using pushes_only_shown_images [OF run] run by (auto simp: demoShell_def)
qed

text \<open>
  C35: However the tool ends, every link to a kubemark binary that it made in a docker context is gone
  again, or is one that \<open>os.Remove\<close> was called for and failed to remove, with an error the tool
  discards.
\<close>

theorem links_are_removed:
  "\<exists>evs. actions (snd (publishMain H args s)) = actions s @ evs \<and>
     (\<forall>(l, failed) \<in> set (openLinks [] evs). failed \<noteq> None)"
proof -
  obtain evs where "actions (snd (publishMain H args s)) = actions s @ evs" "\<not> forgotten (openLinks [] evs)"
    using addsD [OF adds_publishMain surjective_pairing, of H args s] by (auto simp: tidy_def)
  then show ?thesis
    by (intro exI [of _ evs]) (auto dest: not_forgotten)
qed

text \<open>A host that never removes a file.\<close>

definition stubbornHost :: "unit host" where
  "stubbornHost = demoHost\<lparr>Remove := \<lambda>f w. (Some (RunError (Foreign ''EBUSY'')), w)\<rparr>"

theorem links_are_removed_witness:
  "\<exists>evs l e. actions (snd (publishMain stubbornHost [] demoShell)) = evs \<and>
     openLinks [] evs = [(l, Some e)]"
proof -
  obtain l failed where links: "openLinks [] (actions (snd (publishMain stubbornHost [] demoShell))) = [(l, failed)]"
    by (simp add: stubbornHost_def demo_host_defs)
  have "failed \<noteq> None"
    using links_are_removed [of stubbornHost "[]" demoShell] links by (auto simp: demoShell_def)
  then show ?thesis using links by auto
qed

text \<open>
  C36: When no command, no link and no listing of the tags fails in a run of the tool, where docker's
  answer that there is no such image is no failure, the tool ends normally, and if it was started with
  \<open>--push\<close> it has pushed the image of every tag the registry listed that is a version in range.
\<close>

theorem every_version_pushed:
  assumes "bindFlags H args = Inr p" and "KubeDir p \<noteq> []"
    and "SemverNewConstraint H (''>= '' @ StartingVersion p) = Inr con"
    and "NewRepository H ''k8s.gcr.io/kube-proxy'' = Inr repo"
    and "Run H [''git'', ''-C'', KubeDir p, ''fetch'', ''--tags''] (host_world s) = (e, w)"
    and "fst (ListTags H repo w) = Inr tags"
    and "publishMain H args s = (out, s')" and "actions s' = actions s @ evs" and "list_all done_well evs"
  shows "out = None \<and>
    (Push p \<longrightarrow> (\<forall>t \<in> set tags. \<forall>v. SemverNewVersion H t = Inr v \<and> SemverCheck H con v \<longrightarrow>
      Ran [''docker'', ''push'', ImageName p @ '':'' @ Original H v] None \<in> set evs))"
  using publishMain_ok [OF assms(1-7)] assms(8,9) by (auto simp: pushedIn_def imageRef_def)

text \<open>No image exists yet, so it is built.\<close>

theorem every_version_pushed_witness:
  "\<exists>s'. publishMain demoHost [] demoShell = (None, s') \<and>
     Ran [''docker'', ''image'', ''inspect'', ''img:v1.22.0''] (Some (ExitError 1)) \<in> set (actions s') \<and>
     Ran [''docker'', ''push'', ''img:v1.22.0''] None \<in> set (actions s')"
proof -
  obtain s' xs where run: "publishMain demoHost [] demoShell = (None, s')"
    and log: "actions s' = actions demoShell @ xs @ [Ran [''docker'', ''push'', ''img:v1.22.0''] None]"
    and well: "list_all done_well xs"
    using demoHost_run by blast
  have inspected: "Ran [''docker'', ''image'', ''inspect'', ''img:v1.22.0''] (Some (ExitError 1)) \<in> set (actions s')"
    using run by (simp add: demo_host_defs) auto
  have "list_all done_well (xs @ [Ran [''docker'', ''push'', ''img:v1.22.0''] None])"
    using well by simp
  from every_version_pushed [OF _ _ _ _ _ _ run log this, of "\<lparr>ImageName = ''img'', KubeDir = ''/k8s'',
      StartingVersion = ''img'', Push = True\<rparr>" "''>= img''" "''k8s.gcr.io/kube-proxy''" None "()"
      "[''latest'', ''v1.22.0'']"]
  have "Ran [''docker'', ''push'', ''img:v1.22.0''] None \<in> set (actions s')"
    by (simp add: demoHost_def demoShell_def bindFlags_def log)
  then show ?thesis using run inspected by blast
qed

text \<open>
  When an image is built, the binary is linked into the very directory that is given to docker
  as its context, whatever the path of the checkout looks like, and the link is the only one.
\<close>

theorem built_in_context:
  assumes "KubeDir p \<noteq> []" and "dockerBuild H p v s = (e, s')"
    and "actions s' = actions s @ evs" and "Linked old new err \<in> set evs"
  shows "\<exists>d. new = d @ ''/kubemark'' \<and>
    (\<forall>cmd e'. Ran (''docker'' # cmd) e' \<in> set evs \<longrightarrow> last cmd = d) \<and>
    (err = None \<longrightarrow> (\<exists>failed. last evs = Removed new failed))"
  by (rule dockerBuild_context [OF assms])

end
