(* ===== verification/Go_Tests.thy ===== *)
theory Go_Tests
  imports Demo_Library
begin

text \<open>
  The unit tests of the repository, \<open>controllers/util_test.go\<close> and
  \<open>controllers/kubemarkmachine_controller_test.go\<close>: their tables as data, their bodies as executable
  checks, and the proof that the model passes them in whichever order maps are visited. They tie
  the model to what the authors of the program say it does.
\<close>

section \<open>Tables\<close>

text \<open>
  A map literal whose values are calls of \<open>resource.MustParse\<close>: \<open>None\<close> when one of them panics.
\<close>

fun mapLiteral :: "'w lib \<Rightarrow> (string \<times> string) list \<Rightarrow> (string, quantity) fmap option" where
  "mapLiteral L [] = Some fmempty"
| "mapLiteral L ((k, text) # entries) =
     (case MustParse L text of
        None \<Rightarrow> None
      | Some q \<Rightarrow> map_option (fmupd k q) (mapLiteral L entries))"

text \<open>A field of map type, which a case may leave nil.\<close>

definition fieldLiteral :: "'w lib \<Rightarrow> (string \<times> string) list option \<Rightarrow> (string, quantity) gomap option"
where
  "fieldLiteral L field =
     (case field of None \<Rightarrow> Some None | Some entries \<Rightarrow> map_option Some (mapLiteral L entries))"

text \<open>Each row: name, resources, expected resources.\<close>

definition resourcesTests ::
  "(string \<times> (string \<times> string) list option \<times> (string \<times> string) list option) list" where
  "resourcesTests =
     [(''default values'', None,
       Some [(KubemarkExtendedResourceCPU, ''1''), (KubemarkExtendedResourceMemory, ''4G'')]),
      (''default values with extra'', Some [(''nvidia.com/gpu'', ''2'')],
       Some [(KubemarkExtendedResourceCPU, ''1''), (KubemarkExtendedResourceMemory, ''4G''),
        (''nvidia.com/gpu'', ''2'')]),
      (''replace mem'', Some [(KubemarkExtendedResourceMemory, ''200G'')],
       Some [(KubemarkExtendedResourceCPU, ''1''), (KubemarkExtendedResourceMemory, ''200G'')]),
      (''replace cpu'', Some [(KubemarkExtendedResourceCPU, ''100'')],
       Some [(KubemarkExtendedResourceCPU, ''100''), (KubemarkExtendedResourceMemory, ''4G'')]),
      (''replace all'',
       Some [(KubemarkExtendedResourceCPU, ''100''), (KubemarkExtendedResourceMemory, ''200G''),
        (''nvidia.com/gpu'', ''2'')],
       Some [(KubemarkExtendedResourceCPU, ''100''), (KubemarkExtendedResourceMemory, ''200G''),
        (''nvidia.com/gpu'', ''2'')])]"

text \<open>Each row: name, resources, expected flags.\<close>

definition flagTests :: "(string \<times> (string \<times> string) list option \<times> string) list" where
  "flagTests =
     [(''empty string'', None, ''''),
      (''cpu'', Some [(KubemarkExtendedResourceCPU, ''2'')], ''--extended-resources=cpu=2''),
      (''memory'', Some [(KubemarkExtendedResourceMemory, ''16G'')],
       ''--extended-resources=memory=16G''),
      (''cpu, memory, gpu'',
       Some [(KubemarkExtendedResourceCPU, ''2''), (KubemarkExtendedResourceMemory, ''16G''),
        (''nvidia.com/gpu'', ''1'')],
       ''--extended-resources=cpu=2,memory=16G,nvidia.com/gpu=1'')]"

section \<open>Test bodies\<close>

text \<open>A test passes if nothing panics and it reports no error.\<close>

definition TestGetKubemarkExtendedResources :: "'w lib \<Rightarrow> bool" where
  "TestGetKubemarkExtendedResources L =
     list_all (\<lambda>(name, resources, expected).
       case (fieldLiteral L resources, fieldLiteral L expected) of
         (Some res, Some ex) \<Rightarrow>
           (case getKubemarkExtendedResources L \<lparr>ExtendedResources = res\<rparr> of
              None \<Rightarrow> False
            | Some observed \<Rightarrow> observed = ex)
       | _ \<Rightarrow> False) resourcesTests"

definition TestGetKubemarkExtendedResourcesFlag :: "'w lib \<Rightarrow> bool" where
  "TestGetKubemarkExtendedResourcesFlag L =
     list_all (\<lambda>(name, resources, expectedFlags).
       case fieldLiteral L resources of
         None \<Rightarrow> False
       | Some res \<Rightarrow>
           (case (mapFromExtendedResourceFlags (getKubemarkExtendedResourcesFlag L res),
                  mapFromExtendedResourceFlags expectedFlags) of
              (Inr observed, Inr expected) \<Rightarrow> observed = expected
            | _ \<Rightarrow> False)) flagTests"

section \<open>The model passes\<close>

text \<open>What the tests rely on: the quantities they use parse, and print as they are written.\<close>

definition quantitiesParse :: "'w lib \<Rightarrow> string set \<Rightarrow> bool" where
  "quantitiesParse L texts \<longleftrightarrow>
     (\<forall>s \<in> texts. \<exists>q. MustParse L s = Some q \<and> QuantityString L q = s)"

lemma resources_lookup_all:
  assumes "range_laws L" and "getKubemarkExtendedResources L options = Some res"
    and "\<And>k. resourcesSpec L options k = fmlookup m k"
  shows "res = Some m"
proof -
  obtain r where r: "res = Some r"
    using resources_lookup(1) [OF assms(1,2)] by blast
  have "r = m"
    by (rule fmap_ext) (use resources_lookup(2) [OF assms(1,2)] assms(3) in \<open>simp add: r\<close>)
  then show ?thesis by (simp add: r)
qed

lemma resources_case:
  assumes "range_laws L" and "defaultsParse L"
    and "\<And>k. resourcesSpec L options k = fmlookup m k"
  shows "case getKubemarkExtendedResources L options of
    None \<Rightarrow> False | Some observed \<Rightarrow> observed = Some m"
proof -
  obtain res where "getKubemarkExtendedResources L options = Some res"
    using assms(2) resources_returns [of L options] by auto
  then show ?thesis
    using resources_lookup_all [OF assms(1) _ assms(3)] by simp
qed

theorem resources_test_passes:
  assumes "range_laws L" and "quantitiesParse L {''1'', ''4G'', ''2'', ''200G'', ''100''}"
  shows "TestGetKubemarkExtendedResources L"
proof -
  have defaults: "defaultsParse L"
    using assms(2) by (auto simp: defaultsParse_def quantitiesParse_def DefaultCPUResource_def
        DefaultMemResource_def)
  show ?thesis
    using assms(2)
    by (auto simp: TestGetKubemarkExtendedResources_def resourcesTests_def fieldLiteral_def
        quantitiesParse_def resourcesSpec_def DefaultCPUResource_def DefaultMemResource_def
        KubemarkExtendedResourceCPU_def KubemarkExtendedResourceMemory_def
        intro!: resources_case [OF assms(1) defaults])
qed

lemma flag_case:
  assumes "range_laws L" and "flagSafe L m" and "m \<noteq> fmempty"
    and "\<And>k. map_option (QuantityString L) (fmlookup m k) = fmlookup parsed k"
  shows "mapFromExtendedResourceFlags (getKubemarkExtendedResourcesFlag L (Some m)) = Inr (Some parsed)"
proof -
  have "fmmap (QuantityString L) m = parsed"
    by (rule fmap_ext) (simp add: assms(4))
  then show ?thesis
    using flag_roundtrip_nonempty [OF assms(1-3)] by simp
qed

lemma fmupd_nonempty [simp]: "fmupd k v m \<noteq> fmempty"
  by (metis fmempty_lookup fmupd_lookup option.distinct(1))

text \<open>What the parser of the tests makes of the expected flags.\<close>

lemma expected_flags:
  "mapFromExtendedResourceFlags [] = Inr None"
  "mapFromExtendedResourceFlags ''--extended-resources=cpu=2'' = Inr (Some (fmupd ''cpu'' ''2'' fmempty))"
  "mapFromExtendedResourceFlags ''--extended-resources=memory=16G'' =
     Inr (Some (fmupd ''memory'' ''16G'' fmempty))"
  "mapFromExtendedResourceFlags ''--extended-resources=cpu=2,memory=16G,nvidia.com/gpu=1'' =
     Inr (Some (fmupd ''nvidia.com/gpu'' ''1'' (fmupd ''memory'' ''16G'' (fmupd ''cpu'' ''2'' fmempty))))"
  by (simp_all add: mapFromExtendedResourceFlags_def flagPrefix_def stringsHasPrefix_def)

theorem flag_test_passes:
  assumes "range_laws L" and "quantitiesParse L {''2'', ''16G'', ''1''}"
  shows "TestGetKubemarkExtendedResourcesFlag L"
proof -
  obtain cpu mem gpu where q: "MustParse L ''2'' = Some cpu" "QuantityString L cpu = ''2''"
      "MustParse L ''16G'' = Some mem" "QuantityString L mem = ''16G''"
      "MustParse L ''1'' = Some gpu" "QuantityString L gpu = ''1''"
    using assms(2) by (auto simp: quantitiesParse_def)
  have none: "getKubemarkExtendedResourcesFlag L None = []"
    by (simp add: getKubemarkExtendedResourcesFlag_def)
  have one: "mapFromExtendedResourceFlags
      (getKubemarkExtendedResourcesFlag L (Some (fmupd ''cpu'' cpu fmempty))) =
      Inr (Some (fmupd ''cpu'' ''2'' fmempty))"
    by (rule flag_case [OF assms(1)]) (auto simp: flagSafe_def flagClean_def fmpred_iff q)
  have two: "mapFromExtendedResourceFlags
      (getKubemarkExtendedResourcesFlag L (Some (fmupd ''memory'' mem fmempty))) =
      Inr (Some (fmupd ''memory'' ''16G'' fmempty))"
    by (rule flag_case [OF assms(1)]) (auto simp: flagSafe_def flagClean_def fmpred_iff q)
  have three: "mapFromExtendedResourceFlags (getKubemarkExtendedResourcesFlag L
        (Some (fmupd ''cpu'' cpu (fmupd ''memory'' mem (fmupd ''nvidia.com/gpu'' gpu fmempty))))) =
      Inr (Some (fmupd ''nvidia.com/gpu'' ''1'' (fmupd ''memory'' ''16G'' (fmupd ''cpu'' ''2'' fmempty))))"
    by (rule flag_case [OF assms(1)]) (auto simp: flagSafe_def flagClean_def fmpred_iff q)
  show ?thesis
    by (simp add: TestGetKubemarkExtendedResourcesFlag_def flagTests_def fieldLiteral_def q none
        one two three expected_flags KubemarkExtendedResourceCPU_def
        KubemarkExtendedResourceMemory_def)
qed

text \<open>
  C37: The model of \<open>getKubemarkExtendedResources\<close>, \<open>getKubemarkExtendedResourcesFlag\<close> and
  \<open>mapFromExtendedResourceFlags\<close> passes the two unit tests of the repository, case by case, in
  whichever order the maps are visited, if the quantities the tests use parse and print as written.
\<close>

theorem go_tests_pass:
  assumes "range_laws L" and "quantitiesParse L {''1'', ''2'', ''4G'', ''16G'', ''100'', ''200G''}"
  shows "TestGetKubemarkExtendedResources L \<and> TestGetKubemarkExtendedResourcesFlag L"
  using resources_test_passes [OF assms(1)] flag_test_passes [OF assms(1)] assms(2)
  by (auto simp: quantitiesParse_def)

theorem go_tests_pass_witness:
  "TestGetKubemarkExtendedResources (demoLib (demoWith (demoMachine None False None) None)) \<and>
   TestGetKubemarkExtendedResourcesFlag (demoLib (demoWith (demoMachine None False None) None))"
  by (rule go_tests_pass [OF demoLib_laws(1)]) (simp add: quantitiesParse_def demoLib_def)

end
