(* ===== verification/Condition_Constants.thy ===== *)
theory Condition_Constants
  imports Main
begin

text \<open>
  \<open>api/v1alpha4/condition_consts.go\<close>: the condition type and the reasons the API package offers. No
  code of the repository uses them; a condition's reason identifies its cause, so what matters of
  them is that they differ.
\<close>

definition InstanceReadyCondition :: string where
  "InstanceReadyCondition = ''InstanceReady''"

definition InstanceNotFoundReason :: string where
  "InstanceNotFoundReason = ''InstanceNotFound''"

definition InstanceTerminatedReason :: string where
  "InstanceTerminatedReason = ''InstanceTerminated''"

definition InstanceStoppedReason :: string where
  "InstanceStoppedReason = ''InstanceStopped''"

definition InstanceNotReadyReason :: string where
  "InstanceNotReadyReason = ''InstanceNotReady''"

definition InstanceProvisionStartedReason :: string where
  "InstanceProvisionStartedReason = ''InstanceProvisionStarted''"

definition InstanceProvisionFailedReason :: string where
  "InstanceProvisionFailedReason = ''InstanceProvisionFailed''"

definition WaitingForClusterInfrastructureReason :: string where
  "WaitingForClusterInfrastructureReason = ''WaitingForClusterInfrastructure''"

definition WaitingForBootstrapDataReason :: string where
  "WaitingForBootstrapDataReason = ''WaitingForBootstrapData''"

lemma reasons_distinct:
  "distinct [InstanceNotFoundReason, InstanceTerminatedReason, InstanceStoppedReason,
     InstanceNotReadyReason, InstanceProvisionStartedReason, InstanceProvisionFailedReason,
     WaitingForClusterInfrastructureReason, WaitingForBootstrapDataReason]"
  by (simp add: InstanceNotFoundReason_def InstanceTerminatedReason_def InstanceStoppedReason_def
      InstanceNotReadyReason_def InstanceProvisionStartedReason_def
      InstanceProvisionFailedReason_def WaitingForClusterInfrastructureReason_def
      WaitingForBootstrapDataReason_def)

end
