(* ===== verification/Spec2Isabelle.thy ===== *)
theory Spec2Isabelle
  imports Machine_Theorems Lifecycle_Theorems Fleet_Theorems Component_Theorems Startup_Theorems
    Store_Frame Deep_Copy_Theorems Object_Mutation Tool_Theorems Go_Tests Condition_Constants
begin

text \<open>
  Verification of cluster-api-provider-kubemark.

  THE PROGRAM. Cluster API describes a Kubernetes node by a Machine; an infrastructure provider
  makes it real. This provider backs every Machine by a \<open>KubemarkMachine\<close> and runs, on a
  management or external cluster, a pod with a hollow kubelet (kubemark) that registers as a node
  of the workload cluster. The controller of \<open>KubemarkMachine\<close>
  (\<open>controllers/kubemarkmachine_controller.go\<close>) fetches the objects, stores a finalizer, asks
  \<open>controllers/kubemarkcluster.go\<close> for a client of the cluster the pods run on, and then either
  deletes the pod and its secret, or issues a certificate and a kubeconfig, stores them in a
  secret, and starts the pod with the arguments that \<open>controllers/util.go\<close> computes. The
  controller of \<open>KubemarkMachineTemplate\<close> (\<open>controllers/kubemarkmachinetemplate_controller.go\<close>)
  publishes the capacity of a template's nodes for scaling from zero.

  THE MODEL. A Go function that talks to API servers is a function on a state. Every call that
  leaves the repository (controller-runtime, Cluster API, client-go, semver, crypto, the clock, the
  order of \<open>range\<close> over a map) is a field of the record \<open>lib\<close> (Kube_Api), a parameter of every
  definition: it may answer anything and change the world, of type \<open>'w\<close>, in any way. Each API call
  is also written to a log, \<open>trace\<close>, with its arguments and its error. Early returns, \<open>if err !=
  nil\<close>, \<open>defer\<close> and panics are the combinators of Prelude; the definitions of the controllers are
  written with them in the order of the source. Properties are about the result of a
  reconciliation (\<open>machineOutcome\<close>) and the calls it makes (\<open>machineCalls\<close>, \<open>callsOf\<close>), for every
  \<open>lib\<close>. Where a theorem relies on documented behaviour of a library, it says so by a hypothesis:
  \<open>finalizer_laws\<close> (AddFinalizer and RemoveFinalizer), \<open>range_laws\<close> (the Go specification of
  \<open>range\<close>), \<open>defaultsParse\<close> and \<open>constantsParse\<close> (the constant quantities of the source parse),
  \<open>serves\<close> (what a call changes of the objects the API servers hold, as the Kubernetes API documents
  it, where any call may fail at any time, halfway too; for the convergence theorems), \<open>confined\<close> (no call changes
  more than it was asked to) and \<open>finalizer_kept\<close> (AddFinalizer does not add a finalizer that is there).
  Theorems about success ask for it in the run they are about only: \<open>provides\<close> says that the calls
  for the credentials, the secret and the pod succeed one after the other, each with the
  arguments made of the answers before it, and \<open>wentWell\<close> that a call of the log was answered without an error
  or with one that is tolerated. \<open>upToDate\<close> says that a run found the objects as they are stored.

  THE THEORIES.
  \<^item> Prelude: Go values (errors, nil maps, durations), the control flow of a function body, its
    weakest preconditions (\<open>wp_simps\<close>), invariants (\<open>keeps_rules\<close>) and outcomes (\<open>exits_rules\<close>).
  \<^item> Go_Strings: \<open>strings.Join\<close>, \<open>Split\<close>, \<open>HasPrefix\<close> and \<open>TrimSpace\<close>; the locale \<open>delimited\<close> of
    printing with a delimiter.
  \<^item> Kube_Types, Api_Types: the objects of the libraries and of \<open>api/v1alpha4\<close> as records, with the
    fields the program uses; the locale \<open>condition_object\<close> of the condition accessors.
  \<^item> Kube_Api: the library record, the log and the calls.
  \<^item> Extended_Resources: \<open>getKubemarkExtendedResources\<close>, \<open>getKubemarkExtendedResourcesFlag\<close> and the
    tests' \<open>mapFromExtendedResourceFlags\<close>.
  \<^item> Kubemark_Cluster: the interface \<open>KubemarkCluster\<close> as the locale \<open>kubemark_cluster\<close>, and its
    implementation.
  \<^item> Hollow_Pod: the pod literal and the loop over the extra mounts.
  \<^item> Kubelet_Credentials: the certificate template, the kubeconfig, \<open>getRemoteCluster\<close>.
  \<^item> Machine_Controller: \<open>KubemarkMachineReconciler.Reconcile\<close>, cut at the boundaries of its phases
    into \<open>Reconcile\<close>, \<open>reconcileOwned\<close>, \<open>reconcileOnCluster\<close>, \<open>reconcileDelete\<close>, \<open>reconcileNormal\<close>,
    \<open>issueCredentials\<close>, \<open>selectArgs\<close> and \<open>launch\<close>. The two objects that the Go code mutates through
    pointers, and that the deferred patches read when the function is left, are the fields of
    \<open>frame\<close>.
  \<^item> Template_Controller: \<open>KubemarkMachineTemplateReconciler.Reconcile\<close>.
  \<^item> Go_Path: \<open>path.Clean\<close> and \<open>path.Join\<close>. Publish_Images: the tool
    \<open>hack/tools/publish-kubemark-images.go\<close>, whose commands, links and removals, with
    their errors, are written to a log of their own; what they do to the host is the record \<open>host\<close>, a parameter.
  \<^item> Memory: a Go heap, the locale \<open>deep_copy\<close> (a copy has the value of the original, only fresh
    cells, and changes nothing), and how copies of structs, pointers, slices and maps are made of
    copies of their parts. Deep_Copy: \<open>zz_generated.deepcopy.go\<close>, each function on the structs as
    they lie in memory (\<open>Mount_mem\<close> and so on), with the value of Api_Types that each denotes. The
    copies of third-party structs are the record \<open>copiers\<close>; \<open>copiers_deep\<close> says they keep the
    contract.
  \<^item> Manager_Startup: \<open>main.go\<close> (flags, scheme, manager options, \<open>main\<close>) and both
    \<open>SetupWithManager\<close>; controller-runtime, pflag and the logging and TLS libraries are the record
    \<open>runtime\<close>, and their calls are logged.
  \<^item> Machine_Protocol: the abstract specification \<open>conforms\<close> of the machine controller, a property
    of logs alone, and the proof that \<open>Reconcile\<close> implements it, inside the locale of the interface.
  \<^item> Machine_Properties: what a conforming log tells, which calls each phase makes, what is created.
  \<^item> Machine_Lifecycle: sessions, any sequence of reconciliations of both controllers with arbitrary
    changes outside between them; which objects may exist, and when finalizers are stored.
  \<^item> Machine_Fleet: the workers of a running manager as a step relation. Each request has at most one
    worker, which is in the middle of a reconciliation; the calls of different workers interleave
    in any way, and a worker may crash between two calls and be started again. What the workers see
    of the world are libraries that agree on the documented behaviour (\<open>views\<close>) only. The invariant
    of the sessions is carried over to it, and so is what each reconciliation creates: pods and
    secrets of one machine fit together also when they come from different attempts.
  \<^item> Api_Store: what the API servers hold (\<open>cluster_state\<close>), what each call that goes well changes of it
    (\<open>effects\<close>: a deleted object goes at once or is marked as being terminated) and may answer about
    it (\<open>honest\<close>), and what a call that fails may leave (\<open>remains\<close>); \<open>serves\<close> says that a library keeps
    to that. Store_Phases: what provisioning leaves at the API servers. Store_Theorems: from whatever
    an earlier attempt has left, one reconciliation whose calls go well brings a machine to its goal,
    provisioned or gone, and once it is provisioned a further one changes nothing. Store_Frame: whatever
    the calls return (\<open>confined\<close>), the objects of others stay as they are. Demo_Store: a store that
    keeps to \<open>serves\<close>, for the witnesses.
  \<^item> Machine_Branches: results and last calls of each branch of \<open>Reconcile\<close>, and how a run ends whose calls
    go well.
  \<^item> Demo_Library: a concrete library and two evaluated reconciliations, for the witnesses.
  \<^item> Machine_Theorems, Lifecycle_Theorems, Component_Theorems, Startup_Theorems, Deep_Copy_Theorems,
    Fleet_Theorems, Tool_Theorems and this theory: the properties.
  \<^item> Object_Mutation: the assignments of both controllers through pointers, on the memory of
    Deep_Copy; they refine the updates of values in Machine_Controller and Template_Controller, and
    leave the deep copy a patch helper has taken as it was.
  \<^item> Go_Tests: the tables and bodies of the repository's unit tests, which the model passes.
  \<^item> Condition_Constants: the constants of \<open>condition_consts.go\<close>.

  BOUNDS. The model has no fuel: the loops of the source are over finite lists and maps and are
  structural recursions, \<open>TrimSpace\<close> terminates by the length of its argument. Durations are 64-bit
  words, as in Go; times are unbounded integers. Bytes and characters are \<open>char\<close>, that is, strings
  are byte strings in UTF-8, as in Go.

  NOT MODELLED. Of the API servers, in the convergence theorems only: what others change during a run,
  the end of a graceful termination included, and what the servers add to an object by defaulting;
  the safety theorems allow every answer and every change. Log messages, except what \<open>main\<close> reports before it exits; contexts and cancellation;
  the JSON form of objects and the fields the program does not name; two reconciliations of one
  object at the same time, which controller-runtime's queue excludes. The reconcilers' model works
  with values. That this is sound where they assign through pointers is shown in Object_Mutation
  for the fields the program sets itself; \<open>AddFinalizer\<close> and \<open>RemoveFinalizer\<close> of controller-runtime are
  functions on plain values. A deep copy into an object that is part of its own source is not
  considered. What is inside a certificate, a key, a parsed version or a quantity is an opaque
  token. In \<open>main.go\<close>: the seed of \<open>math/rand\<close>, the logger, and how a manager runs once started. The
  condition constants are used nowhere in the program. The two files under
  \<open>hack/boilerplate/test\<close> are inputs of a licence checker and hold no behaviour.
\<close>

section \<open>Properties that span components\<close>

lemma machine_pod_args:
  assumes "fetches L c req (world s) = Some (km, m, cl, w)"
    and "CreatedPod kc p err \<in> set (machineCalls L c img wfv req s)"
    and "Version m = Some ver"
  obtains cont where "Containers p = [cont]" and "hollowArgs L km ver = Some (Args cont)"
proof -
  have "list_all (createsFor L img (addMachineFinalizer L km) m) (machineCalls L c img wfv req s)"
    unfolding machineCalls_def by (rule Reconcile_creates [OF assms(1)])
  then have "podFor L img (addMachineFinalizer L km) m p"
    using assms(2) by (fastforce simp: list_all_iff)
  then show ?thesis
    using assms(3) that by (auto simp: podFor_def split: list.splits)
qed

text \<open>
  C11: What the template controller publishes for scaling from zero is what a node of that template
  then has: for a template with extended resources of which no name and no quantity has a comma
  or an equals sign in it (\<open>flagSafe\<close>), the last argument of the pod created for a machine with the
  template's options and a supported version reads back as the published capacity.
\<close>

theorem node_gets_published_capacity:
  assumes "range_laws L"
    and "updateCapacity L t = Some (t', upd)"
    and "ExtendedResources (templateOptions t) \<noteq> None"
    and "Capacity (kmt_Status t') = Some cap" and "flagSafe L cap"
    and "fetches L c req (world s) = Some (km, m, cl, w)"
    and "KubemarkOptions (km_Spec km) = templateOptions t"
    and "Version m = Some ver" and "NewConstraint L ''>= 1.22.0'' = Inr con"
    and "NewVersion L ver = Inr v" and "Check L con v"
    and "CreatedPod kc p err \<in> set (machineCalls L c img wfv req s)"
  shows "\<exists>cont. Containers p = [cont] \<and>
    mapFromExtendedResourceFlags (last (Args cont)) = Inr (Some (fmmap (QuantityString L) cap))"
proof -
  obtain cont where cont: "Containers p = [cont]" "hollowArgs L km ver = Some (Args cont)"
    by (rule machine_pod_args [OF assms(6,12,8)])
  obtain res where res: "getKubemarkExtendedResources L (templateOptions t) = Some res"
    and flag: "last (Args cont) = getKubemarkExtendedResourcesFlag L res"
    using hollowArgs_supported [OF cont(2) assms(9-11)] assms(7) by auto
  have cap: "res = Some cap"
    using updateCapacity_published [OF assms(1-3)] res assms(4) by simp
  have "cap \<noteq> fmempty"
    using resources_nonempty [OF assms(1)] res cap by blast
  then show ?thesis
    using flag_roundtrip_nonempty [OF assms(1,5)] cont(1) flag cap by simp
qed

definition demoSizing :: "unit lib" where
  "demoSizing = demoLib (demoWith (demoMachine None False (ExtendedResources demoOptions))
     (Some (demoOwner (Some ''v1.22.0''))))"

lemma demoSizing_pod:
  "\<exists>p. CreatedPod demoClient p None \<in>
     set (machineCalls demoSizing demoClient ''img'' [] demoRequest demoStart)"
  by (simp add: machineCalls_def demoSizing_def demo_run_defs getRemoteCluster_def
      kubeletCertificate_def generateCertificateKubeconfig_def kubeconfigData_def dataOf_def Let_def
      hollowPod_def basePod_def getKubemarkExtendedResources_def demoOptions_def)

theorem node_gets_published_capacity_witness:
  "\<exists>p cont cap. CreatedPod demoClient p None \<in>
      set (machineCalls demoSizing demoClient ''img'' [] demoRequest demoStart) \<and>
    Containers p = [cont] \<and> fmlookup cap ''memory'' = Some (Quantity ''4G'') \<and>
    mapFromExtendedResourceFlags (last (Args cont)) =
      Inr (Some (fmmap (QuantityString demoSizing) cap))"
proof -
  have laws: "range_laws demoSizing" "defaultsParse demoSizing"
    by (simp_all add: demoSizing_def demoLib_laws)
  have opts: "ExtendedResources (templateOptions demoSized) \<noteq> None"
    "KubemarkOptions (km_Spec (demoMachine None False (ExtendedResources demoOptions))) =
      templateOptions demoSized"
    by (simp_all add: demoSized_def demoTemplate_def demoSpec_def templateOptions_def demoOptions_def
        demoMachine_def)
  obtain t' upd where u: "updateCapacity demoSizing demoSized = Some (t', upd)"
    using updateCapacity_returns [OF laws(2), of demoSized] by auto
  have spec: "Capacity (kmt_Status t') \<noteq> None \<and>
      gomap_get (Capacity (kmt_Status t')) k = resourcesSpec demoSizing (templateOptions demoSized) k"
    for k
    by (rule updateCapacity_result(3) [OF laws(1) u opts(1)])
  obtain cap where cap: "Capacity (kmt_Status t') = Some cap"
    using spec by auto
  have lookup: "fmlookup cap k = resourcesSpec demoSizing (templateOptions demoSized) k" for k
    using spec [of k] cap by simp
  have safe: "flagSafe demoSizing cap"
    by (auto simp: flagSafe_def fmpred_iff lookup resourcesSpec_def demoSized_def demoTemplate_def
        demoSpec_def templateOptions_def demoOptions_def flagClean_def demoSizing_def demoLib_def
        KubemarkExtendedResourceCPU_def KubemarkExtendedResourceMemory_def DefaultCPUResource_def
        DefaultMemResource_def split: if_splits)
  have mem: "fmlookup cap ''memory'' = Some (Quantity ''4G'')"
    by (simp add: lookup resourcesSpec_def demoSized_def demoTemplate_def
        demoSpec_def templateOptions_def demoOptions_def demoSizing_def demoLib_def
        KubemarkExtendedResourceCPU_def KubemarkExtendedResourceMemory_def DefaultMemResource_def)
  obtain p where p: "CreatedPod demoClient p None \<in>
      set (machineCalls demoSizing demoClient ''img'' [] demoRequest demoStart)"
    using demoSizing_pod by blast
  have "\<exists>cont. Containers p = [cont] \<and>
      mapFromExtendedResourceFlags (last (Args cont)) =
        Inr (Some (fmmap (QuantityString demoSizing) cap))"
    by (rule node_gets_published_capacity [OF laws(1) u opts(1) cap safe _ opts(2) _ _ _ _ p,
          where m = "demoOwner (Some ''v1.22.0'')" and w = "()" and cl = "demoCluster True"
            and ver = "''v1.22.0''" and con = "''>= 1.22.0''" and v = "''v1.22.0''"])
      (simp_all add: demoSizing_def demoLib_def demoWith_def fetches_def demoOwner_def)
  with p mem show ?thesis by blast
qed

text \<open>
  The two controllers never write the same object: a machine's reconciliation patches no
  template, and a template's reconciliation patches, creates and deletes nothing of a machine.
\<close>

theorem controllers_disjoint:
  assumes "finalizer_laws L" and "range_laws L"
    and "e \<in> set (machineCalls L c img wfv req s)"
    and "e' \<in> set (callsOf (ReconcileTemplate L r req') s')"
  shows "(\<forall>c b a err. e \<noteq> PatchedKubemarkMachineTemplate c b a err) \<and>
    (isRead e' \<or> (\<exists>b a err. e' = PatchedKubemarkMachineTemplate (kmtr_Client r) b a err))"
proof -
  obtain xs ys where "machineCalls L c img wfv req s = xs @ e # ys"
    using assms(3) by (auto simp: in_set_conv_decomp)
  then have "mayFollow L xs e"
    using machine_log [OF assms(1)] conforms_split [of L "[]"] by fastforce
  then have "e \<noteq> PatchedKubemarkMachineTemplate c b a err" for c b a err
    by auto
  then show ?thesis
    using template_calls [OF assms(2,4)] by blast
qed

theorem controllers_disjoint_witness:
  "CreatedPod demoClient demoPod None \<in>
     set (machineCalls demoProvisioning demoClient ''img'' [] demoRequest demoStart) \<and>
   (\<forall>c b a err. CreatedPod demoClient demoPod None \<noteq> PatchedKubemarkMachineTemplate c b a err) \<and>
   isRead (GotKubemarkMachineTemplate demoClient demoRequest None)"
proof -
  have e: "CreatedPod demoClient demoPod None \<in>
     set (machineCalls demoProvisioning demoClient ''img'' [] demoRequest demoStart)"
    by (simp add: machineCalls_def demoProvisioning_run)
  have e': "GotKubemarkMachineTemplate demoClient demoRequest None \<in>
      set (callsOf (ReconcileTemplate demoProvisioning demoTemplates demoRequest) demoStart)"
    by (simp add: ReconcileTemplate_def callsOf_def body_defs call_defs invoke_def demoProvisioning_def
        demo_defs demoTemplates_def updateCapacity_def templateOptions_def)
  show ?thesis
    using controllers_disjoint [OF demo_laws(2,4) e e'] e by blast
qed

end
